(* ===== verification/Prelude.thy ===== *)
theory Prelude
  imports Main "HOL-Library.Word" "HOL-Library.State_Monad"
begin

text \<open>
  Shared material of the development: the development's theorem collections, Go's machine
  integers and instants, strings as bytes with the parts of package \<open>strings\<close> the
  source uses, JSON values, first-match list operations, and a small program logic (Hoare
  triples over the library's state monad) for the handlers.
\<close>

section \<open>Collections\<close>

named_theorems hoare_intros \<open>structural rules of the program logic\<close>
named_theorems port_rules \<open>what a call of a port does to the invariant of a handler\<close>
named_theorems first_simps \<open>first-match lookup and update on lists\<close>

section \<open>Machine integers and instants\<close>

text \<open>
  Go's \<open>int64\<close> is a 64-bit word read as two's complement by \<^const>\<open>sint\<close>; \<open>+\<close> and
  \<open>-\<close> wrap around. An instant is a number of nanoseconds since the Unix epoch, a
  \<open>time.Duration\<close> a number of nanoseconds that fits an \<open>int64\<close>.
\<close>

type_synonym int64 = "64 word"
type_synonym time = int
type_synonym duration = int

definition i64 :: "int \<Rightarrow> int64" where
  "i64 = word_of_int"

lemma i64_range: "- (2 ^ 63) \<le> sint (x :: int64)" "sint (x :: int64) < 2 ^ 63"
  using sint_ge [of x] sint_lt [of x] by simp_all

lemma sint_i64: "- (2 ^ 63) \<le> n \<Longrightarrow> n < 2 ^ 63 \<Longrightarrow> sint (i64 n) = n"
  by (simp add: i64_def int_word_sint)

lemma sint_add_exact:
  fixes a b :: int64
  assumes "- (2 ^ 63) \<le> sint a + sint b" "sint a + sint b < 2 ^ 63"
  shows "sint (a + b) = sint a + sint b"
  using assms by (simp add: sint_word_add signed_take_bit_int_eq_self)

lemma sint_diff_exact:
  fixes a b :: int64
  assumes "- (2 ^ 63) \<le> sint a - sint b" "sint a - sint b < 2 ^ 63"
  shows "sint (a - b) = sint a - sint b"
  using assms by (simp add: sint_word_diff signed_take_bit_int_eq_self)

lemma sint_eq_iff: "sint (a :: int64) = sint b \<longleftrightarrow> a = b"
  using signed_word_eqI by blast

text \<open>\<open>time.Time.Sub\<close> saturates at the ends of \<open>time.Duration\<close>.\<close>

definition time_Sub :: "time \<Rightarrow> time \<Rightarrow> duration" where
  "time_Sub t u = max (- (2 ^ 63)) (min (2 ^ 63 - 1) (t - u))"

text \<open>A Go \<open>int32\<close> as an integer: the conversion wraps around.\<close>

definition int32 :: "int \<Rightarrow> int" where
  "int32 n = signed_take_bit 31 n"

lemma int32_id: "- (2 ^ 31) \<le> n \<Longrightarrow> n < 2 ^ 31 \<Longrightarrow> int32 n = n"
  by (simp add: int32_def signed_take_bit_int_eq_self)

definition time_Millisecond :: duration where "time_Millisecond = 1000000"
definition time_Second :: duration where "time_Second = 1000 * time_Millisecond"
definition time_Minute :: duration where "time_Minute = 60 * time_Second"
definition time_Hour :: duration where "time_Hour = 60 * time_Minute"

lemmas duration_defs =
  time_Hour_def time_Minute_def time_Second_def time_Millisecond_def

section \<open>Identifiers\<close>

text \<open>
  \<open>uuid.UUID\<close> is 16 bytes; the model identifies it with the number they encode, most
  significant byte first, which is also the order PostgreSQL sorts UUIDs in. The library's
  text form (\<open>String\<close>, \<open>Parse\<close>) is not part of the repository, so it is a parameter.
\<close>

type_synonym uuid = nat

record uuid_lib =
  uuid_String :: "uuid \<Rightarrow> string"
  uuid_Parse :: "string \<Rightarrow> uuid option"

definition uuid_roundtrip :: "uuid_lib \<Rightarrow> bool" where
  "uuid_roundtrip L \<longleftrightarrow> (\<forall>u. uuid_Parse L (uuid_String L u) = Some u)"

section \<open>Strings\<close>

text \<open>
  A Go string is a sequence of bytes, here a list of characters. \<open>%d\<close> prints an integer in
  decimal.
\<close>

definition digit_char :: "nat \<Rightarrow> char" where
  "digit_char n = char_of (48 + n)"

fun nat_str :: "nat \<Rightarrow> string" where
  "nat_str n = (if n < 10 then [digit_char n] else nat_str (n div 10) @ [digit_char (n mod 10)])"

declare nat_str.simps [simp del]

definition int_str :: "int \<Rightarrow> string" where
  "int_str n = (if n < 0 then CHR ''-'' # nat_str (nat (- n)) else nat_str (nat n))"

text \<open>
  \<open>strings.ToUpper\<close> and \<open>strings.ToLower\<close> map runes. Their callers only compare the result
  with ASCII words, so the model maps every rune whose image is ASCII (the ASCII letters, and
  U+017F, U+0131 upwards, U+0130, U+212A downwards) and leaves all other bytes alone.
\<close>

definition upper_char :: "char \<Rightarrow> char" where
  "upper_char c = (let n = of_char c :: nat in if 97 \<le> n \<and> n \<le> 122 then char_of (n - 32) else c)"

definition lower_char :: "char \<Rightarrow> char" where
  "lower_char c = (let n = of_char c :: nat in if 65 \<le> n \<and> n \<le> 90 then char_of (n + 32) else c)"

fun str_ToUpper :: "string \<Rightarrow> string" where
  "str_ToUpper [] = []"
| "str_ToUpper [c] = [upper_char c]"
| "str_ToUpper (c # d # s) =
     (if c = CHR 0xC5 \<and> d = CHR 0xBF then CHR ''S'' # str_ToUpper s
      else if c = CHR 0xC4 \<and> d = CHR 0xB1 then CHR ''I'' # str_ToUpper s
      else upper_char c # str_ToUpper (d # s))"

fun str_ToLower :: "string \<Rightarrow> string" where
  "str_ToLower [] = []"
| "str_ToLower [c] = [lower_char c]"
| "str_ToLower [c, d] =
     (if c = CHR 0xC4 \<and> d = CHR 0xB0 then [CHR ''i''] else [lower_char c, lower_char d])"
| "str_ToLower (c # d # e # s) =
     (if c = CHR 0xC4 \<and> d = CHR 0xB0 then CHR ''i'' # str_ToLower (e # s)
      else if c = CHR 0xE2 \<and> d = CHR 0x84 \<and> e = CHR 0xAA then CHR ''k'' # str_ToLower s
      else lower_char c # str_ToLower (d # e # s))"

text \<open>\<open>strings.TrimSpace\<close> drops the runes of \<open>unicode.IsSpace\<close>, given in UTF-8, at both ends.\<close>

definition space_runes :: "string list" where
  "space_runes =
     map (\<lambda>n. [char_of (n :: nat)]) [9, 10, 11, 12, 13, 32] @
     [[CHR 0xC2, CHR 0x85], [CHR 0xC2, CHR 0xA0], [CHR 0xE1, CHR 0x9A, CHR 0x80]] @
     map (\<lambda>n. [CHR 0xE2, CHR 0x80, char_of (n :: nat)])
       [128, 129, 130, 131, 132, 133, 134, 135, 136, 137, 138, 168, 169, 175] @
     [[CHR 0xE2, CHR 0x81, CHR 0x9F], [CHR 0xE3, CHR 0x80, CHR 0x80]]"

definition str_HasPrefix :: "string \<Rightarrow> string \<Rightarrow> bool" where
  "str_HasPrefix s pre \<longleftrightarrow> take (length pre) s = pre"

function trim_front :: "string list \<Rightarrow> string \<Rightarrow> string" where
  "trim_front rs s =
     (case List.find (\<lambda>r. r \<noteq> [] \<and> str_HasPrefix s r) rs of
        None \<Rightarrow> s
      | Some r \<Rightarrow> trim_front rs (drop (length r) s))"
  by pat_completeness auto
termination
proof (relation "measure (\<lambda>(rs, s). length s)", goal_cases)
  case (2 rs s r)
  then have "r \<noteq> []" and "take (length r) s = r"
    by (auto simp: find_Some_iff str_HasPrefix_def)
  then have "s \<noteq> []" by auto
  with \<open>r \<noteq> []\<close> show ?case by simp
qed simp

declare trim_front.simps [simp del]

definition str_TrimSpace :: "string \<Rightarrow> string" where
  "str_TrimSpace s = rev (trim_front (map rev space_runes) (rev (trim_front space_runes s)))"

text \<open>\<open>strings.Cut\<close>: what stands before and after the first separator, and whether there is one.\<close>

fun str_Cut :: "string \<Rightarrow> char \<Rightarrow> string \<times> string \<times> bool" where
  "str_Cut [] c = ([], [], False)"
| "str_Cut (x # s) c =
     (if x = c then ([], s, True)
      else (case str_Cut s c of (a, b, ok) \<Rightarrow> (x # a, b, ok)))"

lemma str_Cut_before: "str_Cut s c = (a, b, ok) \<Longrightarrow> c \<notin> set a"
  by (induction s arbitrary: a b ok) (auto split: if_splits prod.splits)

lemma str_Cut_append: "c \<notin> set a \<Longrightarrow> str_Cut (a @ c # b) c = (a, b, True)"
  by (induction a) auto

text \<open>
  A separator that one part cannot contain makes a concatenation injective: the cache keys and
  the cursor depend on it.
\<close>

lemma append_sep_inject:
  fixes a a' b b' :: string
  assumes "c \<notin> set a" "c \<notin> set a'" "a @ c # b = a' @ c # b'"
  shows "a = a' \<and> b = b'"
proof -
  have "str_Cut (a @ c # b) c = (a, b, True)" by (rule str_Cut_append [OF assms(1)])
  moreover have "str_Cut (a' @ c # b') c = (a', b', True)" by (rule str_Cut_append [OF assms(2)])
  ultimately show ?thesis using assms(3) by (metis prod.inject)
qed

section \<open>JSON values\<close>

text \<open>
  A decoded JSON value. A number keeps its literal; an object is Go's \<open>map[string]any\<close> or a
  struct, as a list of distinct keys and their values. \<open>JTime\<close> is the RFC 3339 string
  \<open>encoding/json\<close> writes for a \<open>time.Time\<close>, kept as the instant it denotes.
\<close>

datatype json =
    JNull
  | JBool bool
  | JNum string
  | JStr string
  | JTime time
  | JArr "json list"
  | JObj "(string \<times> json) list"

type_synonym jobj = "(string \<times> json) list"

section \<open>First-match list operations\<close>

text \<open>
  The source looks refunds up with a loop that returns the first match and mutates that element
  through its pointer. \<open>List.find\<close> is the lookup, \<open>upd_first\<close> the mutation.
\<close>

fun upd_first :: "('a \<Rightarrow> bool) \<Rightarrow> ('a \<Rightarrow> 'a) \<Rightarrow> 'a list \<Rightarrow> 'a list" where
  "upd_first P f [] = []"
| "upd_first P f (x # xs) = (if P x then f x # xs else x # upd_first P f xs)"

lemma length_upd_first [simp, first_simps]: "length (upd_first P f xs) = length xs"
  by (induction xs) auto

lemma map_upd_first [first_simps]: "(\<And>x. g (f x) = g x) \<Longrightarrow> map g (upd_first P f xs) = map g xs"
  by (induction xs) auto

lemma find_upd_first [first_simps]:
  "(\<And>x. P (f x) = P x) \<Longrightarrow> List.find P (upd_first P f xs) = map_option f (List.find P xs)"
  by (induction xs) auto

lemma set_upd_first:
  "y \<in> set (upd_first P f xs) \<Longrightarrow> y \<in> set xs \<or> (\<exists>x. List.find P xs = Some x \<and> y = f x)"
  by (induction xs) (auto split: if_splits)

lemma find_mem: "List.find P xs = Some x \<Longrightarrow> x \<in> set xs \<and> P x"
  by (auto simp: find_Some_iff in_set_conv_nth)

lemma find_append:
  "List.find P (xs @ ys) = (case List.find P xs of None \<Rightarrow> List.find P ys | Some x \<Rightarrow> Some x)"
  by (induction xs) auto

lemma find_distinct:
  "distinct (map g xs) \<Longrightarrow> x \<in> set xs \<Longrightarrow> List.find (\<lambda>y. g y = g x) xs = Some x"
  by (induction xs) force+

lemma sum_list_upd_first:
  fixes g :: "'a \<Rightarrow> 'b :: ab_group_add"
  shows "List.find P xs = Some x \<Longrightarrow>
    sum_list (map g (upd_first P f xs)) = sum_list (map g xs) - g x + g (f x)"
  by (induction xs) (auto split: if_splits)

lemma upd_first_map:
  "distinct (map g xs) \<Longrightarrow>
   upd_first (\<lambda>x. g x = k) f xs = map (\<lambda>x. if g x = k then f x else x) xs"
proof (induction xs)
  case (Cons x xs)
  moreover have "g x = k \<Longrightarrow> map (\<lambda>x. if g x = k then f x else x) xs = xs"
    using Cons.prems by (intro map_idI) (metis distinct.simps(2) image_eqI list.set_map list.simps(9))
  ultimately show ?case by auto
qed simp

section \<open>Early returns and a program logic for handlers\<close>

text \<open>
  A handler is a state transformer. \<open>bindE m f\<close> is Go's \<open>x, err := m; if err != nil { return err }\<close>
  followed by \<open>f x\<close>.
\<close>

definition bindE ::
  "('s, 'e + 'a) state \<Rightarrow> ('a \<Rightarrow> ('s, 'e + 'b) state) \<Rightarrow> ('s, 'e + 'b) state" where
  "bindE m f = do {
     r \<leftarrow> m;
     (case r of Inl e \<Rightarrow> State_Monad.return (Inl e) | Inr x \<Rightarrow> f x)
   }"

lemma run_state_bindE [simp]:
  "run_state (bindE m f) s =
     (case run_state m s of (r, s') \<Rightarrow>
        (case r of Inl e \<Rightarrow> (Inl e, s') | Inr x \<Rightarrow> run_state (f x) s'))"
  by (auto simp: bindE_def split: prod.splits sum.splits)

text \<open>A loop over a list whose body passes a value on: \<open>for _, x := range xs { a = f(x, a) }\<close>.\<close>

fun foldS :: "('x \<Rightarrow> 'a \<Rightarrow> ('s, 'a) state) \<Rightarrow> 'x list \<Rightarrow> 'a \<Rightarrow> ('s, 'a) state" where
  "foldS f [] a = State_Monad.return a"
| "foldS f (x # xs) a = do { a' \<leftarrow> f x a; foldS f xs a' }"

text \<open>A loop whose body may return early with an error, and an error wrapped on its way out.\<close>

fun forE :: "('x \<Rightarrow> ('s, 'e + unit) state) \<Rightarrow> 'x list \<Rightarrow> ('s, 'e + unit) state" where
  "forE f [] = State_Monad.return (Inr ())"
| "forE f (x # xs) = bindE (f x) (\<lambda>_. forE f xs)"

definition mapE :: "('e \<Rightarrow> 'e) \<Rightarrow> ('s, 'e + 'a) state \<Rightarrow> ('s, 'e + 'a) state" where
  "mapE g m = do { r \<leftarrow> m; State_Monad.return (map_sum g id r) }"

lemma run_state_mapE [simp]:
  "run_state (mapE g m) s = (case run_state m s of (r, s') \<Rightarrow> (map_sum g id r, s'))"
  by (simp add: mapE_def split: prod.splits)

text \<open>\<open>hoare P m Q\<close>: from a state with \<open>P\<close>, \<open>m\<close> ends with a result and a state in \<open>Q\<close>.\<close>

definition hoare :: "('s \<Rightarrow> bool) \<Rightarrow> ('s, 'a) state \<Rightarrow> ('a \<Rightarrow> 's \<Rightarrow> bool) \<Rightarrow> bool" where
  "hoare P m Q \<longleftrightarrow> (\<forall>s. P s \<longrightarrow> (case run_state m s of (r, s') \<Rightarrow> Q r s'))"

lemma hoareI: "(\<And>s r s'. P s \<Longrightarrow> run_state m s = (r, s') \<Longrightarrow> Q r s') \<Longrightarrow> hoare P m Q"
  by (auto simp: hoare_def)

lemma hoareD: "hoare P m Q \<Longrightarrow> P s \<Longrightarrow> run_state m s = (r, s') \<Longrightarrow> Q r s'"
  by (force simp: hoare_def)

lemma hoare_snd: "hoare P m (\<lambda>_. Q) \<Longrightarrow> P s \<Longrightarrow> Q (snd (run_state m s))"
  by (cases "run_state m s") (auto simp: hoare_def)

lemma hoare_return: "(\<And>s. P s \<Longrightarrow> Q x s) \<Longrightarrow> hoare P (State_Monad.return x) Q"
  by (simp add: hoare_def)

lemma hoare_bind [hoare_intros]:
  "hoare P m Q \<Longrightarrow> (\<And>x. hoare (Q x) (f x) R) \<Longrightarrow> hoare P (m \<bind> f) R"
  by (fastforce simp: hoare_def split: prod.splits)

lemma hoare_bindE [hoare_intros]:
  "hoare P m Q \<Longrightarrow> (\<And>e s. Q (Inl e) s \<Longrightarrow> R (Inl e) s) \<Longrightarrow> (\<And>x. hoare (Q (Inr x)) (f x) R)
   \<Longrightarrow> hoare P (bindE m f) R"
  by (fastforce simp: hoare_def split: prod.splits sum.splits)

lemma hoare_conseq:
  "hoare P' m Q' \<Longrightarrow> (\<And>s. P s \<Longrightarrow> P' s) \<Longrightarrow> (\<And>r s. Q' r s \<Longrightarrow> Q r s) \<Longrightarrow> hoare P m Q"
  by (fastforce simp: hoare_def split: prod.splits)

lemma hoare_if [hoare_intros]:
  "(b \<Longrightarrow> hoare P m Q) \<Longrightarrow> (\<not> b \<Longrightarrow> hoare P n Q) \<Longrightarrow> hoare P (if b then m else n) Q"
  by simp

lemma hoare_case_sum [hoare_intros]:
  "(\<And>e. r = Inl e \<Longrightarrow> hoare P (f e) Q) \<Longrightarrow> (\<And>x. r = Inr x \<Longrightarrow> hoare P (g x) Q)
   \<Longrightarrow> hoare P (case r of Inl e \<Rightarrow> f e | Inr x \<Rightarrow> g x) Q"
  by (cases r) auto

lemma hoare_case_option [hoare_intros]:
  "(r = None \<Longrightarrow> hoare P m Q) \<Longrightarrow> (\<And>x. r = Some x \<Longrightarrow> hoare P (f x) Q)
   \<Longrightarrow> hoare P (case r of None \<Rightarrow> m | Some x \<Rightarrow> f x) Q"
  by (cases r) auto

lemma hoare_case_prod [hoare_intros]:
  "(\<And>a b. r = (a, b) \<Longrightarrow> hoare P (f a b) Q) \<Longrightarrow> hoare P (case r of (a, b) \<Rightarrow> f a b) Q"
  by (cases r) auto

lemma hoare_foldS:
  assumes "\<And>x a. x \<in> set xs \<Longrightarrow> hoare (I a) (f x a) I"
  shows "hoare (I a) (foldS f xs a) I"
  using assms
proof (induction xs arbitrary: a)
  case Nil
  then show ?case by (auto intro: hoare_return)
next
  case (Cons x xs)
  have "hoare (I a) (f x a) I" by (rule Cons.prems) simp
  moreover have "hoare (I a') (foldS f xs a') I" for a'
    by (rule Cons.IH) (rule Cons.prems, simp)
  ultimately show ?case by (auto intro: hoare_bind)
qed

end
