(* ===== verification/App_Error.thy ===== *)
theory App_Error
  imports Prelude
begin

text \<open>
  Errors as values: \<open>internal/pkg/apperror\<close> (codes, constructors, \<open>IsCode\<close>), the sentinel
  \<open>ports.ErrUnknownOutcome\<close>, and \<open>WriteError\<close> of the HTTP middleware, which turns an error
  into a status and a body. A Go \<open>error\<close> that is not nil is a value of \<open>goerr\<close>; a function that
  returns \<open>(x, err)\<close> returns a value of \<open>goerr + 'a\<close>.
\<close>

datatype err_code =
    CodeNotFound
  | CodeAlreadyExists
  | CodeInvalidInput
  | CodeInvalidState
  | CodeGatewayError
  | CodeInternalError
  | CodeIdempotencyConflict
  | CodeConflict
  | CodeUnauthorized
  | CodeForbidden

fun code_str :: "err_code \<Rightarrow> string" where
  "code_str CodeNotFound = ''NOT_FOUND''"
| "code_str CodeAlreadyExists = ''ALREADY_EXISTS''"
| "code_str CodeInvalidInput = ''INVALID_INPUT''"
| "code_str CodeInvalidState = ''INVALID_STATE''"
| "code_str CodeGatewayError = ''GATEWAY_ERROR''"
| "code_str CodeInternalError = ''INTERNAL_ERROR''"
| "code_str CodeIdempotencyConflict = ''IDEMPOTENCY_CONFLICT''"
| "code_str CodeConflict = ''CONFLICT''"
| "code_str CodeUnauthorized = ''UNAUTHORIZED''"
| "code_str CodeForbidden = ''FORBIDDEN''"

text \<open>
  The error values the source builds or tests for. \<open>FmtErrorf\<close> is \<open>fmt.Errorf\<close> with a \<open>%w\<close>
  operand (its whole text and the wrapped error), \<open>ErrorsNew\<close> an error with a text and nothing
  to unwrap (\<open>errors.New\<close>, \<open>fmt.Errorf\<close> without \<open>%w\<close>, an error of a library), \<open>PgError\<close>
  an error PostgreSQL reports, with its SQLSTATE code and its text.
\<close>

datatype goerr =
    AppErr err_code string "goerr option"
  | ErrUnknownOutcome
  | ErrCacheNotFound
  | ErrNoRows
  | FmtErrorf string goerr
  | ErrorsNew string
  | PgError string string

definition NotFound :: "string \<Rightarrow> goerr" where
  "NotFound msg = AppErr CodeNotFound msg None"
definition AlreadyExists :: "string \<Rightarrow> goerr" where
  "AlreadyExists msg = AppErr CodeAlreadyExists msg None"
definition InvalidInput :: "string \<Rightarrow> goerr" where
  "InvalidInput msg = AppErr CodeInvalidInput msg None"
definition InvalidState :: "string \<Rightarrow> goerr" where
  "InvalidState msg = AppErr CodeInvalidState msg None"
definition Conflict :: "string \<Rightarrow> goerr" where
  "Conflict msg = AppErr CodeConflict msg None"
definition Unauthorized :: "string \<Rightarrow> goerr" where
  "Unauthorized msg = AppErr CodeUnauthorized msg None"
definition Forbidden :: "string \<Rightarrow> goerr" where
  "Forbidden msg = AppErr CodeForbidden msg None"
definition IdempotencyConflict :: "string \<Rightarrow> goerr" where
  "IdempotencyConflict msg = AppErr CodeIdempotencyConflict msg None"
definition GatewayError :: "string \<Rightarrow> goerr option \<Rightarrow> goerr" where
  "GatewayError msg cause = AppErr CodeGatewayError msg cause"
definition Internal :: "string \<Rightarrow> goerr option \<Rightarrow> goerr" where
  "Internal msg cause = AppErr CodeInternalError msg cause"

lemmas err_defs =
  NotFound_def AlreadyExists_def InvalidInput_def InvalidState_def Conflict_def Unauthorized_def
  Forbidden_def IdempotencyConflict_def GatewayError_def Internal_def

text \<open>\<open>err.Error()\<close>.\<close>

fun error_text :: "goerr \<Rightarrow> string" where
  "error_text (AppErr c msg None) = ''['' @ code_str c @ ''] '' @ msg"
| "error_text (AppErr c msg (Some e)) = ''['' @ code_str c @ ''] '' @ msg @ '': '' @ error_text e"
| "error_text ErrUnknownOutcome = ''gateway outcome unknown''"
| "error_text ErrCacheNotFound = ''cache: key not found''"
| "error_text ErrNoRows = ''no rows in result set''"
| "error_text (FmtErrorf msg _) = msg"
| "error_text (ErrorsNew msg) = msg"
| "error_text (PgError _ msg) = msg"

text \<open>
  \<open>errors.As(err, &ae)\<close> for \<open>*AppError\<close> takes the first application error of the chain;
  \<open>errors.Is(err, target)\<close> looks for the sentinel anywhere in it.
\<close>

fun errors_As :: "goerr \<Rightarrow> (err_code \<times> string) option" where
  "errors_As (AppErr c msg _) = Some (c, msg)"
| "errors_As (FmtErrorf _ e) = errors_As e"
| "errors_As _ = None"

fun is_unknown_outcome :: "goerr \<Rightarrow> bool" where
  "is_unknown_outcome ErrUnknownOutcome = True"
| "is_unknown_outcome (AppErr _ _ (Some e)) = is_unknown_outcome e"
| "is_unknown_outcome (FmtErrorf _ e) = is_unknown_outcome e"
| "is_unknown_outcome _ = False"

fun is_cache_not_found :: "goerr \<Rightarrow> bool" where
  "is_cache_not_found ErrCacheNotFound = True"
| "is_cache_not_found (AppErr _ _ (Some e)) = is_cache_not_found e"
| "is_cache_not_found (FmtErrorf _ e) = is_cache_not_found e"
| "is_cache_not_found _ = False"

fun is_no_rows :: "goerr \<Rightarrow> bool" where
  "is_no_rows ErrNoRows = True"
| "is_no_rows (AppErr _ _ (Some e)) = is_no_rows e"
| "is_no_rows (FmtErrorf _ e) = is_no_rows e"
| "is_no_rows _ = False"

definition IsCode :: "goerr option \<Rightarrow> err_code \<Rightarrow> bool" where
  "IsCode err code =
     (case err of
        None \<Rightarrow> False
      | Some e \<Rightarrow> (case errors_As e of Some (c, _) \<Rightarrow> c = code | None \<Rightarrow> False))"

lemma IsCode_simps [simp]:
  "IsCode None c = False"
  "IsCode (Some (AppErr c' msg cause)) c = (c' = c)"
  by (simp_all add: IsCode_def)

section \<open>Errors over HTTP\<close>

fun codeToHTTP :: "err_code \<Rightarrow> nat" where
  "codeToHTTP CodeNotFound = 404"
| "codeToHTTP CodeAlreadyExists = 409"
| "codeToHTTP CodeInvalidInput = 400"
| "codeToHTTP CodeInvalidState = 422"
| "codeToHTTP CodeGatewayError = 502"
| "codeToHTTP CodeIdempotencyConflict = 409"
| "codeToHTTP CodeConflict = 409"
| "codeToHTTP CodeUnauthorized = 401"
| "codeToHTTP CodeForbidden = 403"
| "codeToHTTP CodeInternalError = 500"

record error_response =
  er_status :: nat
  er_code :: string
  er_message :: string

text \<open>
  \<open>WriteError\<close>. The cause of an application error is not part of the body, and an error that is
  no application error answers 500 with a fixed text.
\<close>

definition WriteError :: "goerr \<Rightarrow> error_response" where
  "WriteError err =
     (case errors_As err of
        Some (c, msg) \<Rightarrow> \<lparr>er_status = codeToHTTP c, er_code = code_str c, er_message = msg\<rparr>
      | None \<Rightarrow> \<lparr>er_status = 500, er_code = code_str CodeInternalError,
                 er_message = ''internal server error''\<rparr>)"

definition ErrInvalidJSON :: goerr where
  "ErrInvalidJSON = InvalidInput ''invalid or malformed JSON body''"

definition ErrInvalidPaymentID :: goerr where
  "ErrInvalidPaymentID = InvalidInput ''payment id must be a UUID''"

lemma code_str_inj: "code_str c = code_str d \<longleftrightarrow> c = d"
  by (cases c; cases d) simp_all

lemma WriteError_status: "er_status (WriteError err) \<in> {400, 401, 403, 404, 409, 422, 500, 502}"
proof (cases "errors_As err")
  case (Some cm)
  then show ?thesis by (cases "fst cm") (auto simp: WriteError_def split: prod.splits)
qed (simp add: WriteError_def)

end
