(* ===== verification/Payment_Domain.thy ===== *)
theory Payment_Domain
  imports App_Error
begin

text \<open>
  The Payment aggregate, \<open>internal/domain/payment\<close>: money, methods, statuses, domain events,
  the payment record with its refunds, and every operation of \<open>aggregate.go\<close> and \<open>refund.go\<close>.
  An operation that mutates \<open>*Payment\<close> takes the payment and returns the mutated one, or the
  error; no operation changes the payment before it returns an error. \<open>time.Now()\<close> and
  \<open>uuid.New()\<close> are read from the environment, so their values are arguments.
\<close>

section \<open>Money and methods\<close>

record money =
  m_Amount :: int64
  m_Currency :: string

definition NewMoney :: "int64 \<Rightarrow> string \<Rightarrow> goerr + money" where
  "NewMoney amount currency =
     (if sint amount \<le> 0 then
        Inl (ErrorsNew (''amount must be positive, got '' @ int_str (sint amount)))
      else if currency = [] then Inl (ErrorsNew ''currency is required'')
      else Inr \<lparr>m_Amount = amount, m_Currency = currency\<rparr>)"

text \<open>\<open>Method\<close> and \<open>GatewayType\<close> are named strings; callers and stored rows may hold any text.\<close>

type_synonym method_name = string

definition MethodVirtualAccount :: method_name where "MethodVirtualAccount = ''VIRTUAL_ACCOUNT''"
definition MethodQRIS :: method_name where "MethodQRIS = ''QRIS''"
definition MethodGoPay :: method_name where "MethodGoPay = ''GOPAY''"
definition MethodShopeePay :: method_name where "MethodShopeePay = ''SHOPEEPAY''"
definition MethodCard :: method_name where "MethodCard = ''CARD''"

lemmas method_defs =
  MethodVirtualAccount_def MethodQRIS_def MethodGoPay_def MethodShopeePay_def MethodCard_def

definition knownMethods :: "method_name list" where
  "knownMethods = [MethodVirtualAccount, MethodQRIS, MethodGoPay, MethodShopeePay, MethodCard]"

definition ParseMethod :: "string \<Rightarrow> goerr + method_name" where
  "ParseMethod s =
     (let m = str_ToUpper (str_TrimSpace s)
      in if m \<notin> set knownMethods then Inl (InvalidInput (''unsupported payment_method_type: '' @ s))
         else Inr m)"

section \<open>Statuses\<close>

datatype status =
    StatusInitiated
  | StatusPending
  | StatusProcessing
  | StatusCompleted
  | StatusFailed
  | StatusCancelled
  | StatusExpired
  | StatusPartiallyRefunded
  | StatusRefunded

fun status_str :: "status \<Rightarrow> string" where
  "status_str StatusInitiated = ''INITIATED''"
| "status_str StatusPending = ''PENDING''"
| "status_str StatusProcessing = ''PROCESSING''"
| "status_str StatusCompleted = ''COMPLETED''"
| "status_str StatusFailed = ''FAILED''"
| "status_str StatusCancelled = ''CANCELLED''"
| "status_str StatusExpired = ''EXPIRED''"
| "status_str StatusPartiallyRefunded = ''PARTIALLY_REFUNDED''"
| "status_str StatusRefunded = ''REFUNDED''"

definition terminalStatuses :: "status list" where
  "terminalStatuses =
     [StatusCompleted, StatusFailed, StatusCancelled, StatusExpired, StatusPartiallyRefunded,
      StatusRefunded]"

definition IsTerminal :: "status \<Rightarrow> bool" where
  "IsTerminal s \<longleftrightarrow> s \<in> set terminalStatuses"

definition WasPaid :: "status \<Rightarrow> bool" where
  "WasPaid s \<longleftrightarrow> s = StatusCompleted \<or> s = StatusPartiallyRefunded \<or> s = StatusRefunded"

lemma IsTerminal_simps [simp]:
  "\<not> IsTerminal StatusInitiated" "\<not> IsTerminal StatusPending" "\<not> IsTerminal StatusProcessing"
  "IsTerminal StatusCompleted" "IsTerminal StatusFailed" "IsTerminal StatusCancelled"
  "IsTerminal StatusExpired" "IsTerminal StatusPartiallyRefunded" "IsTerminal StatusRefunded"
  by (simp_all add: IsTerminal_def terminalStatuses_def)

lemma WasPaid_simps [simp]:
  "\<not> WasPaid StatusInitiated" "\<not> WasPaid StatusPending" "\<not> WasPaid StatusProcessing"
  "WasPaid StatusCompleted" "\<not> WasPaid StatusFailed" "\<not> WasPaid StatusCancelled"
  "\<not> WasPaid StatusExpired" "WasPaid StatusPartiallyRefunded" "WasPaid StatusRefunded"
  by (simp_all add: WasPaid_def)

lemma status_str_inj: "status_str s = status_str t \<longleftrightarrow> s = t"
  by (cases s; cases t) simp_all

datatype refund_status =
    RefundStatusPending
  | RefundStatusSucceeded
  | RefundStatusFailed

fun refund_status_str :: "refund_status \<Rightarrow> string" where
  "refund_status_str RefundStatusPending = ''PENDING''"
| "refund_status_str RefundStatusSucceeded = ''SUCCEEDED''"
| "refund_status_str RefundStatusFailed = ''FAILED''"

section \<open>Domain events\<close>

datatype domain_event =
    PaymentInitiated uuid time
  | PaymentPending uuid string time
  | PaymentCompleted uuid time time
  | PaymentFailed uuid string string time
  | PaymentCancelled uuid time
  | PaymentExpired uuid time
  | RefundRequested uuid uuid int64 time
  | RefundCompleted uuid uuid int64 int64 status time
  | RefundFailed uuid uuid string time

fun EventType :: "domain_event \<Rightarrow> string" where
  "EventType (PaymentInitiated _ _) = ''PaymentInitiated''"
| "EventType (PaymentPending _ _ _) = ''PaymentPending''"
| "EventType (PaymentCompleted _ _ _) = ''PaymentCompleted''"
| "EventType (PaymentFailed _ _ _ _) = ''PaymentFailed''"
| "EventType (PaymentCancelled _ _) = ''PaymentCancelled''"
| "EventType (PaymentExpired _ _) = ''PaymentExpired''"
| "EventType (RefundRequested _ _ _ _) = ''RefundRequested''"
| "EventType (RefundCompleted _ _ _ _ _ _) = ''RefundCompleted''"
| "EventType (RefundFailed _ _ _ _) = ''RefundFailed''"

fun AggregateID :: "domain_event \<Rightarrow> uuid" where
  "AggregateID (PaymentInitiated p _) = p"
| "AggregateID (PaymentPending p _ _) = p"
| "AggregateID (PaymentCompleted p _ _) = p"
| "AggregateID (PaymentFailed p _ _ _) = p"
| "AggregateID (PaymentCancelled p _) = p"
| "AggregateID (PaymentExpired p _) = p"
| "AggregateID (RefundRequested p _ _ _) = p"
| "AggregateID (RefundCompleted p _ _ _ _ _) = p"
| "AggregateID (RefundFailed p _ _ _) = p"

text \<open>The JSON of an event, with the keys of the struct tags: what \<open>json.Marshal(e)\<close> stores.\<close>

definition json_int64 :: "int64 \<Rightarrow> json" where
  "json_int64 n = JNum (int_str (sint n))"

fun event_json :: "uuid_lib \<Rightarrow> domain_event \<Rightarrow> json" where
  "event_json L (PaymentInitiated p t) =
     JObj [(''payment_id'', JStr (uuid_String L p)), (''occurred_at'', JTime t)]"
| "event_json L (PaymentPending p tx t) =
     JObj [(''payment_id'', JStr (uuid_String L p)), (''gateway_transaction_id'', JStr tx),
           (''occurred_at'', JTime t)]"
| "event_json L (PaymentCompleted p paid t) =
     JObj [(''payment_id'', JStr (uuid_String L p)), (''paid_at'', JTime paid),
           (''occurred_at'', JTime t)]"
| "event_json L (PaymentFailed p code msg t) =
     JObj [(''payment_id'', JStr (uuid_String L p)), (''error_code'', JStr code),
           (''error_message'', JStr msg), (''occurred_at'', JTime t)]"
| "event_json L (PaymentCancelled p t) =
     JObj [(''payment_id'', JStr (uuid_String L p)), (''occurred_at'', JTime t)]"
| "event_json L (PaymentExpired p t) =
     JObj [(''payment_id'', JStr (uuid_String L p)), (''occurred_at'', JTime t)]"
| "event_json L (RefundRequested p r amount t) =
     JObj [(''payment_id'', JStr (uuid_String L p)), (''refund_id'', JStr (uuid_String L r)),
           (''amount'', json_int64 amount), (''occurred_at'', JTime t)]"
| "event_json L (RefundCompleted p r amount refunded st t) =
     JObj [(''payment_id'', JStr (uuid_String L p)), (''refund_id'', JStr (uuid_String L r)),
           (''amount'', json_int64 amount), (''refunded_amount'', json_int64 refunded),
           (''payment_status'', JStr (status_str st)), (''occurred_at'', JTime t)]"
| "event_json L (RefundFailed p r reason t) =
     JObj [(''payment_id'', JStr (uuid_String L p)), (''refund_id'', JStr (uuid_String L r)),
           (''reason'', JStr reason), (''occurred_at'', JTime t)]"

section \<open>The aggregate\<close>

definition GatewayMidtrans :: string where "GatewayMidtrans = ''MIDTRANS''"

record customer_info =
  c_ExternalID :: string
  c_Name :: string
  c_Email :: string
  c_Phone :: string

record refund =
  r_ID :: uuid
  r_PaymentID :: uuid
  r_ReferenceID :: string
  r_Amount :: int64
  r_Reason :: string
  r_Status :: refund_status
  r_GatewayRefundID :: string
  r_FailureReason :: string
  r_RequestedBy :: string
  r_CreatedAt :: time
  r_UpdatedAt :: time
  r_CompletedAt :: "time option"

text \<open>A nil map is \<open>None\<close>. \<open>p_events\<close> is the list of uncommitted events, oldest first.\<close>

record payment =
  p_ID :: uuid
  p_ReferenceID :: string
  p_CallerService :: string
  p_GatewayType :: string
  p_GatewayTransactionID :: string
  p_Status :: status
  p_Amount :: money
  p_PaymentMethodType :: method_name
  p_CustomerInfo :: customer_info
  p_Metadata :: "jobj option"
  p_GatewayRequestPayload :: "jobj option"
  p_GatewayResponsePayload :: "jobj option"
  p_Description :: string
  p_ExpiredAt :: "time option"
  p_PaidAt :: "time option"
  p_CreatedAt :: time
  p_UpdatedAt :: time
  p_DeletedAt :: "time option"
  p_Refunds :: "refund list"
  p_Version :: int
  p_events :: "domain_event list"

definition raise :: "domain_event \<Rightarrow> payment \<Rightarrow> payment" where
  "raise e p = p\<lparr>p_events := p_events p @ [e]\<rparr>"

definition New ::
  "time \<Rightarrow> uuid \<Rightarrow> string \<Rightarrow> string \<Rightarrow> money \<Rightarrow> string \<Rightarrow> method_name \<Rightarrow> customer_info \<Rightarrow> string
   \<Rightarrow> time option \<Rightarrow> jobj option \<Rightarrow> goerr + payment" where
  "New now uid referenceID callerService amount gatewayType m customer description expiredAt metadata =
     (if referenceID = [] then Inl (InvalidInput ''reference_id is required'')
      else if callerService = [] then Inl (InvalidInput ''caller_service is required'')
      else if m \<notin> set knownMethods then
        Inl (InvalidInput (''unsupported payment_method_type: '' @ m))
      else Inr (raise (PaymentInitiated uid now)
        \<lparr>p_ID = uid, p_ReferenceID = referenceID, p_CallerService = callerService,
         p_GatewayType = gatewayType, p_GatewayTransactionID = [], p_Status = StatusInitiated,
         p_Amount = amount, p_PaymentMethodType = m, p_CustomerInfo = customer,
         p_Metadata = metadata, p_GatewayRequestPayload = None, p_GatewayResponsePayload = None,
         p_Description = description, p_ExpiredAt = expiredAt, p_PaidAt = None,
         p_CreatedAt = now, p_UpdatedAt = now, p_DeletedAt = None, p_Refunds = [],
         p_Version = 0, p_events = []\<rparr>))"

definition MarkPending :: "time \<Rightarrow> string \<Rightarrow> jobj option \<Rightarrow> payment \<Rightarrow> goerr + payment" where
  "MarkPending now gatewayTxID gatewayResp p =
     (if p_Status p \<noteq> StatusInitiated then
        Inl (InvalidState (''can only mark PENDING from INITIATED, current: '' @ status_str (p_Status p)))
      else Inr (raise (PaymentPending (p_ID p) gatewayTxID now)
        (p\<lparr>p_GatewayTransactionID := gatewayTxID, p_GatewayResponsePayload := gatewayResp,
           p_Status := StatusPending, p_UpdatedAt := now\<rparr>)))"

definition MarkCompleted :: "time \<Rightarrow> time \<Rightarrow> payment \<Rightarrow> goerr + payment" where
  "MarkCompleted now paidAt p =
     (if p_Status p \<noteq> StatusPending \<and> p_Status p \<noteq> StatusProcessing then
        Inl (InvalidState (''cannot complete from: '' @ status_str (p_Status p)))
      else Inr (raise (PaymentCompleted (p_ID p) paidAt now)
        (p\<lparr>p_Status := StatusCompleted, p_PaidAt := Some paidAt, p_UpdatedAt := now\<rparr>)))"

definition MarkFailed :: "time \<Rightarrow> string \<Rightarrow> string \<Rightarrow> payment \<Rightarrow> goerr + payment" where
  "MarkFailed now errorCode errorMessage p =
     (if IsTerminal (p_Status p) then
        Inl (InvalidState (''cannot fail a payment that is already '' @ status_str (p_Status p)))
      else Inr (raise (PaymentFailed (p_ID p) errorCode errorMessage now)
        (p\<lparr>p_Status := StatusFailed, p_UpdatedAt := now\<rparr>)))"

definition MarkExpired :: "time \<Rightarrow> payment \<Rightarrow> goerr + payment" where
  "MarkExpired now p =
     (if p_Status p \<noteq> StatusPending \<and> p_Status p \<noteq> StatusInitiated then
        Inl (InvalidState (''cannot expire from: '' @ status_str (p_Status p)))
      else Inr (raise (PaymentExpired (p_ID p) now)
        (p\<lparr>p_Status := StatusExpired, p_UpdatedAt := now\<rparr>)))"

definition Cancel :: "time \<Rightarrow> payment \<Rightarrow> goerr + payment" where
  "Cancel now p =
     (if p_Status p \<noteq> StatusPending \<and> p_Status p \<noteq> StatusProcessing then
        Inl (InvalidState (''cannot cancel from: '' @ status_str (p_Status p)))
      else Inr (raise (PaymentCancelled (p_ID p) now)
        (p\<lparr>p_Status := StatusCancelled, p_UpdatedAt := now\<rparr>)))"

definition PopEvents :: "payment \<Rightarrow> domain_event list \<times> payment" where
  "PopEvents p = (p_events p, p\<lparr>p_events := []\<rparr>)"

definition PeekEvents :: "payment \<Rightarrow> domain_event list" where
  "PeekEvents p = p_events p"

section \<open>Refunds\<close>

text \<open>The two sums are loops over \<open>int64\<close> accumulators: additions wrap around.\<close>

definition RefundedAmount :: "payment \<Rightarrow> int64" where
  "RefundedAmount p =
     foldl (\<lambda>total r. if r_Status r = RefundStatusSucceeded then total + r_Amount r else total) 0 (p_Refunds p)"

definition RefundableAmount :: "payment \<Rightarrow> int64" where
  "RefundableAmount p =
     (let reserved =
        foldl (\<lambda>total r. if r_Status r \<noteq> RefundStatusFailed then total + r_Amount r else total) 0 (p_Refunds p)
      in m_Amount (p_Amount p) - reserved)"

definition find_Refund :: "uuid \<Rightarrow> payment \<Rightarrow> refund option" where
  "find_Refund uid p = List.find (\<lambda>r. r_ID r = uid) (p_Refunds p)"

definition RefundByReference :: "string \<Rightarrow> payment \<Rightarrow> refund option" where
  "RefundByReference referenceID p = List.find (\<lambda>r. r_ReferenceID r = referenceID) (p_Refunds p)"

definition RequestRefund ::
  "time \<Rightarrow> uuid \<Rightarrow> string \<Rightarrow> int64 \<Rightarrow> string \<Rightarrow> string \<Rightarrow> payment \<Rightarrow> goerr + (payment \<times> refund)" where
  "RequestRefund now uid referenceID amount reason requestedBy p =
     (if p_Status p \<noteq> StatusCompleted \<and> p_Status p \<noteq> StatusPartiallyRefunded then
        Inl (InvalidState (''only completed payments can be refunded, current: '' @ status_str (p_Status p)))
      else if referenceID = [] then Inl (InvalidInput ''refund reference_id is required'')
      else if RefundByReference referenceID p \<noteq> None then
        Inl (AlreadyExists (''refund already exists for reference_id: '' @ referenceID))
      else if sint amount \<le> 0 then Inl (InvalidInput ''refund amount must be positive'')
      else if sint amount > sint (RefundableAmount p) then
        Inl (InvalidInput (''refund amount '' @ int_str (sint amount) @ '' exceeds refundable amount '' @
               int_str (sint (RefundableAmount p))))
      else
        (let r = \<lparr>r_ID = uid, r_PaymentID = p_ID p, r_ReferenceID = referenceID, r_Amount = amount,
                  r_Reason = reason, r_Status = RefundStatusPending, r_GatewayRefundID = [],
                  r_FailureReason = [], r_RequestedBy = requestedBy, r_CreatedAt = now,
                  r_UpdatedAt = now, r_CompletedAt = None\<rparr>
         in Inr (raise (RefundRequested (p_ID p) uid amount now)
              (p\<lparr>p_Refunds := p_Refunds p @ [r], p_UpdatedAt := now\<rparr>), r)))"

definition CompleteRefund ::
  "uuid_lib \<Rightarrow> time \<Rightarrow> uuid \<Rightarrow> string \<Rightarrow> payment \<Rightarrow> goerr + payment" where
  "CompleteRefund L now refundID gatewayRefundID p =
     (case find_Refund refundID p of
        None \<Rightarrow> Inl (NotFound (''refund not found: '' @ uuid_String L refundID))
      | Some r \<Rightarrow>
          (case r_Status r of
             RefundStatusSucceeded \<Rightarrow> Inr p
           | RefundStatusFailed \<Rightarrow>
               Inl (InvalidState (''refund '' @ uuid_String L refundID @ '' already failed''))
           | RefundStatusPending \<Rightarrow>
               (let p1 = p\<lparr>p_Refunds := upd_first (\<lambda>r. r_ID r = refundID)
                            (\<lambda>r. r\<lparr>r_Status := RefundStatusSucceeded, r_GatewayRefundID := gatewayRefundID,
                                  r_CompletedAt := Some now, r_UpdatedAt := now\<rparr>) (p_Refunds p)\<rparr>;
                    p2 = p1\<lparr>p_Status := (if sint (RefundedAmount p1) \<ge> sint (m_Amount (p_Amount p1))
                                        then StatusRefunded else StatusPartiallyRefunded),
                           p_UpdatedAt := now\<rparr>
                in Inr (raise (RefundCompleted (p_ID p2) (r_ID r) (r_Amount r) (RefundedAmount p2)
                                 (p_Status p2) now) p2))))"

definition FailRefund ::
  "uuid_lib \<Rightarrow> time \<Rightarrow> uuid \<Rightarrow> string \<Rightarrow> payment \<Rightarrow> goerr + payment" where
  "FailRefund L now refundID reason p =
     (case find_Refund refundID p of
        None \<Rightarrow> Inl (NotFound (''refund not found: '' @ uuid_String L refundID))
      | Some r \<Rightarrow>
          (if r_Status r \<noteq> RefundStatusPending then
             Inl (InvalidState (''can only fail a PENDING refund, current: '' @ refund_status_str (r_Status r)))
           else Inr (raise (RefundFailed (p_ID p) (r_ID r) reason now)
             (p\<lparr>p_Refunds := upd_first (\<lambda>r. r_ID r = refundID)
                  (\<lambda>r. r\<lparr>r_Status := RefundStatusFailed, r_FailureReason := reason, r_UpdatedAt := now\<rparr>)
                  (p_Refunds p), p_UpdatedAt := now\<rparr>))))"

lemmas op_defs =
  MarkPending_def MarkCompleted_def MarkFailed_def MarkExpired_def Cancel_def RequestRefund_def
  CompleteRefund_def FailRefund_def

end
