(* ===== verification/Payment_Laws.thy ===== *)
theory Payment_Laws
  imports Payment_Domain
begin

text \<open>
  What the aggregate promises. \<open>payment_ok\<close> is its invariant: refunds have positive amounts and
  distinct identifiers and references, what is refunded or reserved never exceeds what was paid,
  and the status says exactly how much was refunded. \<open>ledger\<close> is the abstract account that the
  refund operations implement, \<open>view\<close> what a consumer of the events can reconstruct,
  \<open>status_step\<close> the state machine of the statuses.
\<close>

section \<open>Totals\<close>

definition rtotal :: "(refund \<Rightarrow> bool) \<Rightarrow> refund list \<Rightarrow> int" where
  "rtotal P rs = sum_list (map (\<lambda>r. if P r then sint (r_Amount r) else 0) rs)"

abbreviation is_pending :: "refund \<Rightarrow> bool" where "is_pending r \<equiv> r_Status r = RefundStatusPending"
abbreviation is_succeeded :: "refund \<Rightarrow> bool" where "is_succeeded r \<equiv> r_Status r = RefundStatusSucceeded"
abbreviation is_open_or_done :: "refund \<Rightarrow> bool" where "is_open_or_done r \<equiv> r_Status r \<noteq> RefundStatusFailed"

lemma total_simps [simp]:
  "rtotal P [] = 0"
  "rtotal P (r # rs) = (if P r then sint (r_Amount r) else 0) + rtotal P rs"
  "rtotal P (rs @ rs') = rtotal P rs + rtotal P rs'"
  by (simp_all add: rtotal_def)

lemma total_nonneg: "(\<And>r. r \<in> set rs \<Longrightarrow> 0 < sint (r_Amount r)) \<Longrightarrow> 0 \<le> rtotal P rs"
  by (induction rs) (auto simp: less_imp_le add_nonneg_nonneg)

lemma total_split: "rtotal is_open_or_done rs = rtotal is_pending rs + rtotal is_succeeded rs"
proof (induction rs)
  case (Cons r rs)
  then show ?case by (cases "r_Status r") auto
qed simp

lemma total_member:
  "(\<And>r. r \<in> set rs \<Longrightarrow> 0 < sint (r_Amount r)) \<Longrightarrow> r \<in> set rs \<Longrightarrow> P r \<Longrightarrow> sint (r_Amount r) \<le> rtotal P rs"
proof (induction rs)
  case (Cons a rs)
  have "0 \<le> rtotal P rs" using Cons.prems(1) by (intro total_nonneg) auto
  moreover have "0 < sint (r_Amount a)" using Cons.prems(1) by simp
  moreover have "r \<in> set rs \<Longrightarrow> sint (r_Amount r) \<le> rtotal P rs" using Cons by auto
  ultimately show ?case using Cons.prems(2,3) by auto
qed simp

lemma total_upd_first:
  assumes "List.find P rs = Some r" "r_Amount (f r) = r_Amount r"
  shows "rtotal Q (upd_first P f rs) =
    rtotal Q rs - (if Q r then sint (r_Amount r) else 0) + (if Q (f r) then sint (r_Amount r) else 0)"
  unfolding rtotal_def
  by (subst sum_list_upd_first [OF assms(1)]) (simp add: assms(2))

text \<open>The loop with a wrapping accumulator computes the exact total as long as it fits.\<close>

lemma foldl_total:
  fixes acc :: int64
  assumes "\<And>r. r \<in> set rs \<Longrightarrow> 0 < sint (r_Amount r)"
    and "0 \<le> sint acc" "sint acc + rtotal P rs < 2 ^ 63"
  shows "sint (foldl (\<lambda>t r. if P r then t + r_Amount r else t) acc rs) = sint acc + rtotal P rs"
  using assms
proof (induction rs arbitrary: acc)
  case (Cons r rs)
  have pos: "0 < sint (r_Amount r)" and nn: "0 \<le> rtotal P rs"
    using Cons.prems(1) by (auto intro: total_nonneg)
  show ?case
  proof (cases "P r")
    case True
    with Cons.prems(2,3) pos nn have sum: "sint (acc + r_Amount r) = sint acc + sint (r_Amount r)"
      by (intro sint_add_exact) auto
    have "sint (foldl (\<lambda>t r. if P r then t + r_Amount r else t) (acc + r_Amount r) rs) =
        sint (acc + r_Amount r) + rtotal P rs"
    proof (rule Cons.IH)
      show "0 \<le> sint (acc + r_Amount r)" using sum pos Cons.prems(2) by linarith
      show "sint (acc + r_Amount r) + rtotal P rs < 2 ^ 63" using Cons.prems(3) sum True by simp
    qed (use Cons.prems(1) in auto)
    with sum True show ?thesis by simp
  next
    case False
    with Cons.prems Cons.IH [of acc] show ?thesis by simp
  qed
qed simp

section \<open>The invariant\<close>

text \<open>The status a paid payment has, from what was paid and what was refunded.\<close>

definition paid_status :: "int \<Rightarrow> int \<Rightarrow> status" where
  "paid_status paid refunded =
     (if refunded = 0 then StatusCompleted
      else if refunded < paid then StatusPartiallyRefunded else StatusRefunded)"

lemma WasPaid_paid_status [simp]: "WasPaid (paid_status a b)"
  by (simp add: paid_status_def)

lemma paid_status_neq [simp]:
  "paid_status a b \<noteq> StatusInitiated" "paid_status a b \<noteq> StatusPending"
  "paid_status a b \<noteq> StatusProcessing" "paid_status a b \<noteq> StatusFailed"
  "paid_status a b \<noteq> StatusCancelled" "paid_status a b \<noteq> StatusExpired"
  by (simp_all add: paid_status_def)

definition refund_ok :: "uuid \<Rightarrow> refund \<Rightarrow> bool" where
  "refund_ok pid r \<longleftrightarrow> 0 < sint (r_Amount r) \<and> r_PaymentID r = pid \<and> r_ReferenceID r \<noteq> []"

definition payment_ok :: "payment \<Rightarrow> bool" where
  "payment_ok p \<longleftrightarrow>
     0 < sint (m_Amount (p_Amount p)) \<and>
     (\<forall>r \<in> set (p_Refunds p). refund_ok (p_ID p) r) \<and>
     distinct (map r_ID (p_Refunds p)) \<and> distinct (map r_ReferenceID (p_Refunds p)) \<and>
     rtotal is_open_or_done (p_Refunds p) \<le> sint (m_Amount (p_Amount p)) \<and>
     (if WasPaid (p_Status p)
      then p_PaidAt p \<noteq> None \<and>
           p_Status p = paid_status (sint (m_Amount (p_Amount p))) (rtotal is_succeeded (p_Refunds p))
      else p_Refunds p = [])"

lemma payment_okD:
  assumes "payment_ok p"
  shows "0 < sint (m_Amount (p_Amount p))"
    and "\<And>r. r \<in> set (p_Refunds p) \<Longrightarrow> 0 < sint (r_Amount r)"
    and "\<And>r. r \<in> set (p_Refunds p) \<Longrightarrow> r_PaymentID r = p_ID p"
    and "distinct (map r_ID (p_Refunds p))" "distinct (map r_ReferenceID (p_Refunds p))"
    and "rtotal is_open_or_done (p_Refunds p) \<le> sint (m_Amount (p_Amount p))"
    and "0 \<le> rtotal is_pending (p_Refunds p)" "0 \<le> rtotal is_succeeded (p_Refunds p)"
    and "\<not> WasPaid (p_Status p) \<Longrightarrow> p_Refunds p = []"
    and "WasPaid (p_Status p) \<Longrightarrow>
      p_Status p = paid_status (sint (m_Amount (p_Amount p))) (rtotal is_succeeded (p_Refunds p))"
  using assms by (auto simp: payment_ok_def refund_ok_def intro!: total_nonneg)

lemma RefundedAmount_exact:
  assumes "payment_ok p"
  shows "sint (RefundedAmount p) = rtotal is_succeeded (p_Refunds p)"
proof -
  note ok = payment_okD [OF assms]
  have "rtotal is_succeeded (p_Refunds p) < 2 ^ 63"
    using ok(6,7) total_split [of "p_Refunds p"] i64_range(2) [of "m_Amount (p_Amount p)"] by linarith
  then have "sint (foldl (\<lambda>t r. if is_succeeded r then t + r_Amount r else t) 0 (p_Refunds p)) =
      sint (0 :: int64) + rtotal is_succeeded (p_Refunds p)"
    by (intro foldl_total) (auto intro: ok(2))
  then show ?thesis by (simp add: RefundedAmount_def)
qed

lemma RefundableAmount_exact:
  assumes "payment_ok p"
  shows "sint (RefundableAmount p) =
    sint (m_Amount (p_Amount p)) - rtotal is_open_or_done (p_Refunds p)"
proof -
  note ok = payment_okD [OF assms]
  let ?reserved = "foldl (\<lambda>t r. if is_open_or_done r then t + r_Amount r else t) 0 (p_Refunds p)"
  have nn: "0 \<le> rtotal is_open_or_done (p_Refunds p)" using ok(2) by (rule total_nonneg)
  have "sint ?reserved = sint (0 :: int64) + rtotal is_open_or_done (p_Refunds p)"
    using ok(6) i64_range(2) [of "m_Amount (p_Amount p)"]
    by (intro foldl_total) (auto intro: ok(2))
  then have res: "sint ?reserved = rtotal is_open_or_done (p_Refunds p)" by simp
  have "sint (m_Amount (p_Amount p) - ?reserved) = sint (m_Amount (p_Amount p)) - sint ?reserved"
    using res nn ok(1,6) i64_range(2) [of "m_Amount (p_Amount p)"] by (intro sint_diff_exact) linarith+
  then show ?thesis by (simp add: RefundableAmount_def res)
qed

section \<open>Every operation keeps the invariant\<close>

lemma New_ok:
  assumes "New now uid ref caller m gt meth cust desc ex meta = Inr p" "0 < sint (m_Amount m)"
  shows "payment_ok p"
  using assms by (auto simp: New_def payment_ok_def raise_def split: if_splits)

lemma MarkPending_ok: "MarkPending now tx resp p = Inr p' \<Longrightarrow> payment_ok p \<Longrightarrow> payment_ok p'"
  by (auto simp: MarkPending_def payment_ok_def raise_def split: if_splits)

lemma MarkCompleted_ok: "MarkCompleted now t p = Inr p' \<Longrightarrow> payment_ok p \<Longrightarrow> payment_ok p'"
  by (auto simp: MarkCompleted_def payment_ok_def raise_def paid_status_def split: if_splits)

lemma MarkFailed_ok: "MarkFailed now c m p = Inr p' \<Longrightarrow> payment_ok p \<Longrightarrow> payment_ok p'"
  by (cases "p_Status p") (auto simp: MarkFailed_def payment_ok_def raise_def split: if_splits)

lemma MarkExpired_ok: "MarkExpired now p = Inr p' \<Longrightarrow> payment_ok p \<Longrightarrow> payment_ok p'"
  by (auto simp: MarkExpired_def payment_ok_def raise_def split: if_splits)

lemma Cancel_ok: "Cancel now p = Inr p' \<Longrightarrow> payment_ok p \<Longrightarrow> payment_ok p'"
  by (auto simp: Cancel_def payment_ok_def raise_def split: if_splits)

lemma find_Refund_ok:
  assumes "find_Refund uid p = Some r"
  shows "r \<in> set (p_Refunds p)" "r_ID r = uid"
  using assms by (auto simp: find_Refund_def dest: find_mem)

text \<open>What a successful \<open>RequestRefund\<close> has checked, in exact arithmetic.\<close>

lemma RequestRefund_guards:
  assumes "RequestRefund now uid ref amount reason rb p = Inr (p', r)" "payment_ok p"
  shows "WasPaid (p_Status p)" "p_Status p \<noteq> StatusRefunded" "ref \<noteq> []"
    and "ref \<notin> r_ReferenceID ` set (p_Refunds p)" "0 < sint amount"
    and "sint amount + rtotal is_open_or_done (p_Refunds p) \<le> sint (m_Amount (p_Amount p))"
    and "r_ID r = uid" "r_Amount r = amount" "is_pending r" "r_ReferenceID r = ref"
    and "p_Refunds p' = p_Refunds p @ [r]" "p_Status p' = p_Status p"
    and "p_Amount p' = p_Amount p" "p_ID p' = p_ID p" "p_PaidAt p' = p_PaidAt p"
    and "r_PaymentID r = p_ID p"
    and "p_events p' = p_events p @ [RefundRequested (p_ID p) uid amount now]"
  using assms RefundableAmount_exact [OF assms(2)]
  by (auto simp: RequestRefund_def raise_def Let_def RefundByReference_def find_None_iff
      split: if_splits)

lemma RequestRefund_ok:
  assumes "RequestRefund now uid ref amount reason rb p = Inr (p', r)" "payment_ok p"
    and "uid \<notin> r_ID ` set (p_Refunds p)"
  shows "payment_ok p'"
proof -
  note g = RequestRefund_guards [OF assms(1,2)]
  have refunds: "\<forall>q \<in> set (p_Refunds p'). refund_ok (p_ID p') q"
    using assms(2) g by (auto simp: payment_ok_def refund_ok_def)
  have ids: "distinct (map r_ID (p_Refunds p'))" "distinct (map r_ReferenceID (p_Refunds p'))"
    using assms(2,3) g by (auto simp: payment_ok_def)
  have tot: "rtotal is_open_or_done (p_Refunds p') \<le> sint (m_Amount (p_Amount p'))"
    using g by simp
  have "rtotal is_succeeded (p_Refunds p') = rtotal is_succeeded (p_Refunds p)"
    using g by simp
  with assms(2) g refunds ids tot show ?thesis by (auto simp: payment_ok_def)
qed

text \<open>The shape of a completed refund: its record, the new totals and the new status.\<close>

lemma CompleteRefund_pending:
  assumes "CompleteRefund L now uid gid p = Inr p'" "find_Refund uid p = Some r" "is_pending r"
  defines "f \<equiv> \<lambda>r. r\<lparr>r_Status := RefundStatusSucceeded, r_GatewayRefundID := gid,
                        r_CompletedAt := Some now, r_UpdatedAt := now\<rparr>"
  shows "p_Refunds p' = upd_first (\<lambda>r. r_ID r = uid) f (p_Refunds p)"
    and "p_Amount p' = p_Amount p" "p_ID p' = p_ID p" "p_PaidAt p' = p_PaidAt p"
    and "p_Status p' = (if sint (RefundedAmount p') \<ge> sint (m_Amount (p_Amount p'))
                        then StatusRefunded else StatusPartiallyRefunded)"
    and "p_events p' = p_events p @
           [RefundCompleted (p_ID p) (r_ID r) (r_Amount r) (RefundedAmount p') (p_Status p') now]"
  using assms by (auto simp: CompleteRefund_def raise_def Let_def RefundedAmount_def)

lemma CompleteRefund_cases:
  assumes "CompleteRefund L now uid gid p = Inr p'"
  obtains r where "find_Refund uid p = Some r" "is_pending r"
  | "p' = p"
  using assms by (auto simp: CompleteRefund_def split: option.splits refund_status.splits)

lemma CompleteRefund_totals:
  assumes "CompleteRefund L now uid gid p = Inr p'" "find_Refund uid p = Some r" "is_pending r"
  shows "rtotal is_pending (p_Refunds p') = rtotal is_pending (p_Refunds p) - sint (r_Amount r)"
    and "rtotal is_succeeded (p_Refunds p') = rtotal is_succeeded (p_Refunds p) + sint (r_Amount r)"
    and "rtotal is_open_or_done (p_Refunds p') = rtotal is_open_or_done (p_Refunds p)"
  using assms(3)
  by (simp_all add: CompleteRefund_pending(1) [OF assms] total_upd_first [OF assms(2) [unfolded find_Refund_def]])

lemma CompleteRefund_ok:
  assumes "CompleteRefund L now uid gid p = Inr p'" "payment_ok p"
  shows "payment_ok p'"
  using assms(1)
proof (cases rule: CompleteRefund_cases)
  case (1 r)
  note c = CompleteRefund_pending [OF assms(1) 1] and t = CompleteRefund_totals [OF assms(1) 1]
  note ok = payment_okD [OF assms(2)] and r = find_Refund_ok [OF 1(1)]
  have paid: "WasPaid (p_Status p)" and "p_PaidAt p \<noteq> None"
    using assms(2) r(1) by (auto simp: payment_ok_def split: if_splits)
  have refunds: "\<forall>q \<in> set (p_Refunds p'). refund_ok (p_ID p') q"
    using assms(2) r by (auto simp: c payment_ok_def refund_ok_def dest!: set_upd_first find_mem)
  have ids: "distinct (map r_ID (p_Refunds p'))" "distinct (map r_ReferenceID (p_Refunds p'))"
    using ok(4,5) by (simp_all add: c(1) map_upd_first)
  have bound: "rtotal is_open_or_done (p_Refunds p') \<le> sint (m_Amount (p_Amount p'))"
    using ok(6) t(3) c(2) by simp
  have pos: "0 < sint (r_Amount r)" using ok(2) r(1) by blast
  have "rtotal is_succeeded (p_Refunds p') < 2 ^ 63"
    using t ok(6,7) total_split [of "p_Refunds p'"] bound i64_range(2) [of "m_Amount (p_Amount p')"]
      total_member [of "p_Refunds p" r is_pending] ok(2) r(1) 1(2) by fastforce
  then have "sint (foldl (\<lambda>t r. if is_succeeded r then t + r_Amount r else t) 0 (p_Refunds p')) =
      sint (0 :: int64) + rtotal is_succeeded (p_Refunds p')"
    using refunds by (intro foldl_total) (auto simp: refund_ok_def)
  then have "sint (RefundedAmount p') = rtotal is_succeeded (p_Refunds p')"
    by (simp add: RefundedAmount_def)
  moreover have "0 < rtotal is_succeeded (p_Refunds p')" using t ok(8) pos by simp
  ultimately have "p_Status p' =
      paid_status (sint (m_Amount (p_Amount p'))) (rtotal is_succeeded (p_Refunds p'))"
    by (simp add: c(5) paid_status_def not_le)
  moreover have "WasPaid (p_Status p')" by (simp add: c(5))
  ultimately show ?thesis
    using refunds ids bound ok(1) \<open>p_PaidAt p \<noteq> None\<close> by (simp add: payment_ok_def c)
next
  case 2
  with assms(2) show ?thesis by simp
qed


lemma FailRefund_shape:
  assumes "FailRefund L now uid reason p = Inr p'"
  obtains r where "find_Refund uid p = Some r" "is_pending r"
    and "p_Refunds p' = upd_first (\<lambda>r. r_ID r = uid)
           (\<lambda>r. r\<lparr>r_Status := RefundStatusFailed, r_FailureReason := reason, r_UpdatedAt := now\<rparr>)
           (p_Refunds p)"
    and "p_Amount p' = p_Amount p" "p_ID p' = p_ID p" "p_PaidAt p' = p_PaidAt p"
    and "p_Status p' = p_Status p"
    and "p_events p' = p_events p @ [RefundFailed (p_ID p) (r_ID r) reason now]"
  using assms by (auto simp: FailRefund_def raise_def split: option.splits if_splits)

lemma FailRefund_totals:
  assumes "FailRefund L now uid reason p = Inr p'" "find_Refund uid p = Some r"
  shows "rtotal is_pending (p_Refunds p') = rtotal is_pending (p_Refunds p) - sint (r_Amount r)"
    and "rtotal is_succeeded (p_Refunds p') = rtotal is_succeeded (p_Refunds p)"
    and "rtotal is_open_or_done (p_Refunds p') =
         rtotal is_open_or_done (p_Refunds p) - sint (r_Amount r)"
proof -
  from assms(1) obtain s where s: "find_Refund uid p = Some s" "is_pending s"
    and rs: "p_Refunds p' = upd_first (\<lambda>r. r_ID r = uid)
           (\<lambda>r. r\<lparr>r_Status := RefundStatusFailed, r_FailureReason := reason, r_UpdatedAt := now\<rparr>)
           (p_Refunds p)"
    by (rule FailRefund_shape)
  have "is_pending r" using s assms(2) by simp
  then show "rtotal is_pending (p_Refunds p') = rtotal is_pending (p_Refunds p) - sint (r_Amount r)"
    and "rtotal is_succeeded (p_Refunds p') = rtotal is_succeeded (p_Refunds p)"
    and "rtotal is_open_or_done (p_Refunds p') =
         rtotal is_open_or_done (p_Refunds p) - sint (r_Amount r)"
    by (simp_all add: rs total_upd_first [OF assms(2) [unfolded find_Refund_def]])
qed

lemma FailRefund_ok:
  assumes "FailRefund L now uid reason p = Inr p'" "payment_ok p"
  shows "payment_ok p'"
proof -
  from assms(1) obtain r where r: "find_Refund uid p = Some r" "is_pending r"
    and rs: "p_Refunds p' = upd_first (\<lambda>r. r_ID r = uid)
           (\<lambda>r. r\<lparr>r_Status := RefundStatusFailed, r_FailureReason := reason, r_UpdatedAt := now\<rparr>)
           (p_Refunds p)"
    and f: "p_Amount p' = p_Amount p" "p_ID p' = p_ID p" "p_PaidAt p' = p_PaidAt p"
      "p_Status p' = p_Status p"
    by (rule FailRefund_shape)
  note ok = payment_okD [OF assms(2)] and t = FailRefund_totals [OF assms(1) r(1)]
  note m = find_Refund_ok [OF r(1)]
  have refunds: "\<forall>q \<in> set (p_Refunds p'). refund_ok (p_ID p') q"
    using assms(2) m by (auto simp: rs f payment_ok_def refund_ok_def dest!: set_upd_first find_mem)
  have ids: "distinct (map r_ID (p_Refunds p'))" "distinct (map r_ReferenceID (p_Refunds p'))"
    using ok(4,5) by (simp_all add: rs map_upd_first)
  have bound: "rtotal is_open_or_done (p_Refunds p') \<le> sint (m_Amount (p_Amount p'))"
    using ok(2) [OF m(1)] ok(6) t(3) f(1) by simp
  have paid: "WasPaid (p_Status p)" using ok(9) m(1) by (cases "WasPaid (p_Status p)") auto
  with assms(2) refunds ids bound show ?thesis by (simp add: payment_ok_def f t)
qed

end
