(* ===== verification/Payment_Spec.thy ===== *)
theory Payment_Spec
  imports Payment_Laws
begin

text \<open>
  Abstract specifications of the aggregate and the proofs that \<open>Payment_Domain\<close> implements them:
  the account behind the refunds (\<open>ledger\<close>), the state machine of the statuses
  (\<open>status_step\<close>), the projection a consumer of the events can rebuild (\<open>view\<close>), and what no
  operation changes (\<open>frame\<close>). \<open>domain_op\<close> names every operation of the aggregate, so that a
  history of a payment is a list of operations.
\<close>

section \<open>All operations as data\<close>

datatype domain_op =
    OpPending time string "jobj option"
  | OpCompleted time time
  | OpFailed time string string
  | OpExpired time
  | OpCancel time
  | OpRequestRefund time uuid string int64 string string
  | OpCompleteRefund time uuid string
  | OpFailRefund time uuid string

fun apply_op :: "uuid_lib \<Rightarrow> domain_op \<Rightarrow> payment \<Rightarrow> goerr + payment" where
  "apply_op L (OpPending now tx resp) p = MarkPending now tx resp p"
| "apply_op L (OpCompleted now t) p = MarkCompleted now t p"
| "apply_op L (OpFailed now c m) p = MarkFailed now c m p"
| "apply_op L (OpExpired now) p = MarkExpired now p"
| "apply_op L (OpCancel now) p = Cancel now p"
| "apply_op L (OpRequestRefund now uid ref a reason rb) p =
     map_sum id fst (RequestRefund now uid ref a reason rb p)"
| "apply_op L (OpCompleteRefund now uid gid) p = CompleteRefund L now uid gid p"
| "apply_op L (OpFailRefund now uid reason) p = FailRefund L now uid reason p"

fun op_fresh :: "domain_op \<Rightarrow> payment \<Rightarrow> bool" where
  "op_fresh (OpRequestRefund now uid ref a reason rb) p \<longleftrightarrow> uid \<notin> r_ID ` set (p_Refunds p)"
| "op_fresh _ p \<longleftrightarrow> True"

lemma apply_RequestRefund:
  "apply_op L (OpRequestRefund now uid ref a reason rb) p = Inr p' \<longleftrightarrow>
     (\<exists>r. RequestRefund now uid ref a reason rb p = Inr (p', r))"
  by (cases "RequestRefund now uid ref a reason rb p") auto

lemma apply_op_ok:
  assumes "apply_op L op p = Inr p'" "op_fresh op p" "payment_ok p"
  shows "payment_ok p'"
  using assms
proof (cases op)
  case (OpRequestRefund now uid ref a reason rb)
  with assms(1) obtain r where "RequestRefund now uid ref a reason rb p = Inr (p', r)"
    using apply_RequestRefund by blast
  with assms OpRequestRefund show ?thesis by (auto intro: RequestRefund_ok)
qed (auto intro: MarkPending_ok MarkCompleted_ok MarkFailed_ok MarkExpired_ok Cancel_ok
    CompleteRefund_ok FailRefund_ok)

text \<open>The operation as a relation, and a history of a payment held in memory.\<close>

inductive op_step :: "uuid_lib \<Rightarrow> payment \<Rightarrow> payment \<Rightarrow> bool" for L where
  op_stepI: "apply_op L op p = Inr p' \<Longrightarrow> op_fresh op p \<Longrightarrow> op_step L p p'"

inductive_cases op_stepE: "op_step L p p'"

abbreviation evolves :: "uuid_lib \<Rightarrow> payment \<Rightarrow> payment \<Rightarrow> bool" where
  "evolves L \<equiv> (op_step L)\<^sup>*\<^sup>*"

lemma evolves_ok: "evolves L p p' \<Longrightarrow> payment_ok p \<Longrightarrow> payment_ok p'"
  by (induction rule: rtranclp_induct) (auto elim!: op_stepE intro: apply_op_ok)

section \<open>What no operation changes\<close>

text \<open>
  Who the payment belongs to, what it is for and what it costs are fixed at creation; so is
  its version, which only the repository moves.
\<close>

definition frame ::
  "payment \<Rightarrow> uuid \<times> string \<times> string \<times> string \<times> money \<times> method_name \<times> customer_info \<times>
              jobj option \<times> jobj option \<times> string \<times> time option \<times> time \<times> time option \<times> int" where
  "frame p = (p_ID p, p_ReferenceID p, p_CallerService p, p_GatewayType p, p_Amount p,
     p_PaymentMethodType p, p_CustomerInfo p, p_Metadata p, p_GatewayRequestPayload p,
     p_Description p, p_ExpiredAt p, p_CreatedAt p, p_DeletedAt p, p_Version p)"

lemma frameD:
  assumes "frame p' = frame p"
  shows "p_ID p' = p_ID p" "p_ReferenceID p' = p_ReferenceID p"
    "p_CallerService p' = p_CallerService p" "p_GatewayType p' = p_GatewayType p"
    "p_Amount p' = p_Amount p" "p_PaymentMethodType p' = p_PaymentMethodType p"
    "p_CustomerInfo p' = p_CustomerInfo p" "p_Metadata p' = p_Metadata p"
    "p_GatewayRequestPayload p' = p_GatewayRequestPayload p" "p_Description p' = p_Description p"
    "p_ExpiredAt p' = p_ExpiredAt p" "p_CreatedAt p' = p_CreatedAt p"
    "p_DeletedAt p' = p_DeletedAt p" "p_Version p' = p_Version p"
  using assms by (simp_all add: frame_def)

lemma apply_op_frame: "apply_op L op p = Inr p' \<Longrightarrow> frame p' = frame p"
  by (cases op)
     (auto simp: frame_def op_defs raise_def Let_def map_sum_def
       split: if_splits option.splits refund_status.splits sum.splits)

lemma evolves_frame: "evolves L p p' \<Longrightarrow> frame p' = frame p"
  by (induction rule: rtranclp_induct) (auto elim!: op_stepE dest: apply_op_frame)

section \<open>The state machine\<close>

inductive status_step :: "status \<Rightarrow> status \<Rightarrow> bool" where
  to_pending: "status_step StatusInitiated StatusPending"
| to_completed: "s \<in> {StatusPending, StatusProcessing} \<Longrightarrow> status_step s StatusCompleted"
| to_failed: "\<not> IsTerminal s \<Longrightarrow> status_step s StatusFailed"
| to_expired: "s \<in> {StatusInitiated, StatusPending} \<Longrightarrow> status_step s StatusExpired"
| to_cancelled: "s \<in> {StatusPending, StatusProcessing} \<Longrightarrow> status_step s StatusCancelled"
| to_partial: "s \<in> {StatusCompleted, StatusPartiallyRefunded} \<Longrightarrow>
    status_step s StatusPartiallyRefunded"
| to_refunded: "s \<in> {StatusCompleted, StatusPartiallyRefunded} \<Longrightarrow> status_step s StatusRefunded"

code_pred status_step .

inductive_simps status_step_from:
  "status_step StatusInitiated t" "status_step StatusPending t" "status_step StatusProcessing t"
  "status_step StatusCompleted t" "status_step StatusFailed t" "status_step StatusCancelled t"
  "status_step StatusExpired t" "status_step StatusPartiallyRefunded t"
  "status_step StatusRefunded t"

inductive_cases status_step_toE:
  "status_step s StatusInitiated" "status_step s StatusProcessing"

text \<open>\<open>CompleteRefund\<close> on a pending refund only happens while something is left to refund.\<close>

lemma pending_not_refunded:
  assumes "payment_ok p" "r \<in> set (p_Refunds p)" "is_pending r"
  shows "p_Status p \<in> {StatusCompleted, StatusPartiallyRefunded}"
proof -
  note ok = payment_okD [OF assms(1)]
  have paid: "WasPaid (p_Status p)" using ok(9) assms(2) by (cases "WasPaid (p_Status p)") auto
  have "0 < sint (r_Amount r)" using ok(2) assms(2) by blast
  moreover have "sint (r_Amount r) \<le> rtotal is_pending (p_Refunds p)"
    by (rule total_member) (auto intro: ok(2) assms)
  ultimately have "rtotal is_succeeded (p_Refunds p) < sint (m_Amount (p_Amount p))"
    using ok(6) total_split [of "p_Refunds p"] by linarith
  then show ?thesis using ok(10) [OF paid] by (auto simp: paid_status_def)
qed

lemma CompleteRefund_status:
  assumes "CompleteRefund L now uid gid p = Inr p'" "payment_ok p"
  shows "p_Status p' = p_Status p \<or> status_step (p_Status p) (p_Status p')"
  using assms(1)
proof (cases rule: CompleteRefund_cases)
  case (1 r)
  have "p_Status p \<in> {StatusCompleted, StatusPartiallyRefunded}"
    using pending_not_refunded [OF assms(2)] find_Refund_ok [OF 1(1)] 1(2) by blast
  then show ?thesis
    by (auto simp: CompleteRefund_pending(5) [OF assms(1) 1] intro: to_partial to_refunded)
qed simp

lemma apply_op_status:
  assumes "apply_op L op p = Inr p'" "payment_ok p"
  shows "p_Status p' = p_Status p \<or> status_step (p_Status p) (p_Status p')"
proof (cases op)
  case (OpCompleteRefund now uid gid)
  with assms show ?thesis using CompleteRefund_status by simp
next
  case (OpRequestRefund now uid ref a reason rb)
  with assms(1) obtain r where "RequestRefund now uid ref a reason rb p = Inr (p', r)"
    using apply_RequestRefund by blast
  with RequestRefund_guards(12) [OF _ assms(2)] show ?thesis by blast
next
  case (OpFailRefund now uid reason)
  with assms(1) show ?thesis by (auto elim: FailRefund_shape)
next
  case (OpPending now tx resp)
  with assms(1) show ?thesis by (auto simp: MarkPending_def raise_def status_step.simps split: if_splits)
next
  case (OpCompleted now t)
  with assms(1) show ?thesis by (auto simp: MarkCompleted_def raise_def status_step.simps split: if_splits)
next
  case (OpFailed now code msg)
  with assms(1) show ?thesis by (auto simp: MarkFailed_def raise_def status_step.simps split: if_splits)
next
  case (OpExpired now)
  with assms(1) show ?thesis by (auto simp: MarkExpired_def raise_def status_step.simps split: if_splits)
next
  case (OpCancel now)
  with assms(1) show ?thesis by (auto simp: Cancel_def raise_def status_step.simps split: if_splits)
qed

lemma evolves_status:
  assumes "evolves L p p'" "payment_ok p"
  shows "status_step\<^sup>*\<^sup>* (p_Status p) (p_Status p')"
  using assms
proof (induction rule: rtranclp_induct)
  case (step q q')
  have "payment_ok q" using evolves_ok step.hyps(1) step.prems by blast
  then have "p_Status q' = p_Status q \<or> status_step (p_Status q) (p_Status q')"
    using step.hyps(2) by (auto elim!: op_stepE dest: apply_op_status)
  with step.IH [OF step.prems] show ?case by (auto intro: rtranclp.rtrancl_into_rtrancl)
qed simp

lemma paid_terminal: "WasPaid s \<Longrightarrow> IsTerminal s"
  by (cases s) auto

lemma steps_keep_paid: "status_step\<^sup>*\<^sup>* s t \<Longrightarrow> WasPaid s \<Longrightarrow> WasPaid t"
  by (induction rule: rtranclp_induct) (auto elim!: status_step.cases dest: paid_terminal)

lemma steps_keep_terminal: "status_step\<^sup>*\<^sup>* s t \<Longrightarrow> IsTerminal s \<Longrightarrow> IsTerminal t"
  by (induction rule: rtranclp_induct) (auto elim!: status_step.cases)

lemma steps_closed_unpaid:
  "status_step\<^sup>*\<^sup>* s t \<Longrightarrow> s \<in> {StatusFailed, StatusCancelled, StatusExpired} \<Longrightarrow> t = s"
  by (induction rule: rtranclp_induct) (auto elim!: status_step.cases)

lemma steps_no_processing:
  "status_step\<^sup>*\<^sup>* s t \<Longrightarrow> s \<noteq> StatusProcessing \<Longrightarrow> t \<noteq> StatusProcessing"
  by (induction rule: rtranclp_induct) (auto elim: status_step_toE)

section \<open>The account behind the refunds\<close>

text \<open>
  What a payment promises about money, in unbounded integers: an amount paid, what is reserved
  for refunds in flight and what has been given back. \<open>reserve\<close> refuses to promise more than is
  left; \<open>settle\<close> turns a reservation into money given back; \<open>release\<close> returns it.
\<close>

record ledger =
  lg_paid :: int
  lg_reserved :: int
  lg_refunded :: int

definition ledger_of :: "payment \<Rightarrow> ledger" where
  "ledger_of p = \<lparr>lg_paid = sint (m_Amount (p_Amount p)),
     lg_reserved = rtotal is_pending (p_Refunds p),
     lg_refunded = rtotal is_succeeded (p_Refunds p)\<rparr>"

definition available :: "ledger \<Rightarrow> int" where
  "available l = lg_paid l - lg_reserved l - lg_refunded l"

definition reserve :: "int \<Rightarrow> ledger \<Rightarrow> ledger option" where
  "reserve a l =
     (if 0 < a \<and> a \<le> available l then Some (l\<lparr>lg_reserved := lg_reserved l + a\<rparr>) else None)"

definition settle :: "int \<Rightarrow> ledger \<Rightarrow> ledger" where
  "settle a l = l\<lparr>lg_reserved := lg_reserved l - a, lg_refunded := lg_refunded l + a\<rparr>"

definition release :: "int \<Rightarrow> ledger \<Rightarrow> ledger" where
  "release a l = l\<lparr>lg_reserved := lg_reserved l - a\<rparr>"

definition ledger_ok :: "ledger \<Rightarrow> bool" where
  "ledger_ok l \<longleftrightarrow> 0 < lg_paid l \<and> 0 \<le> lg_reserved l \<and> 0 \<le> lg_refunded l \<and> 0 \<le> available l"

lemma payment_ok_ledger: "payment_ok p \<Longrightarrow> ledger_ok (ledger_of p)"
  using total_split [of "p_Refunds p"]
  by (auto simp: ledger_ok_def ledger_of_def available_def dest: payment_okD(1,6,7,8))

lemma RefundableAmount_available: "payment_ok p \<Longrightarrow> sint (RefundableAmount p) = available (ledger_of p)"
  using total_split [of "p_Refunds p"]
  by (simp add: RefundableAmount_exact available_def ledger_of_def)

lemma RequestRefund_reserve:
  assumes "RequestRefund now uid ref a reason rb p = Inr (p', r)" "payment_ok p"
  shows "reserve (sint a) (ledger_of p) = Some (ledger_of p')"
  using RequestRefund_guards [OF assms] total_split [of "p_Refunds p"]
  by (simp add: reserve_def available_def ledger_of_def)

lemma RequestRefund_succeeds:
  assumes "payment_ok p" "WasPaid (p_Status p)" "ref \<noteq> []" "RefundByReference ref p = None"
    and "reserve (sint a) (ledger_of p) = Some l"
  shows "\<exists>p' r. RequestRefund now uid ref a reason rb p = Inr (p', r)"
proof -
  from assms(5) have a: "0 < sint a" "sint a \<le> available (ledger_of p)"
    by (auto simp: reserve_def split: if_splits)
  have "p_Status p \<noteq> StatusRefunded"
  proof
    assume "p_Status p = StatusRefunded"
    then have "sint (m_Amount (p_Amount p)) \<le> rtotal is_succeeded (p_Refunds p)"
      using payment_okD(10) [OF assms(1)] by (auto simp: paid_status_def split: if_splits)
    then show False
      using a payment_okD(7) [OF assms(1)] by (simp add: available_def ledger_of_def)
  qed
  then have "p_Status p \<in> {StatusCompleted, StatusPartiallyRefunded}"
    using assms(2) by (auto simp: WasPaid_def)
  with a assms(3,4) show ?thesis
    by (auto simp: RequestRefund_def Let_def RefundableAmount_available [OF assms(1)])
qed

lemma CompleteRefund_settle:
  assumes "CompleteRefund L now uid gid p = Inr p'" "find_Refund uid p = Some r" "is_pending r"
  shows "ledger_of p' = settle (sint (r_Amount r)) (ledger_of p)"
  using CompleteRefund_totals [OF assms] CompleteRefund_pending(2) [OF assms]
  by (simp add: ledger_of_def settle_def)

lemma FailRefund_release:
  assumes "FailRefund L now uid reason p = Inr p'" "find_Refund uid p = Some r"
  shows "ledger_of p' = release (sint (r_Amount r)) (ledger_of p)"
proof -
  have "p_Amount p' = p_Amount p" using assms(1) by (rule FailRefund_shape)
  with FailRefund_totals [OF assms] show ?thesis by (simp add: ledger_of_def release_def)
qed

section \<open>What a consumer of the events can rebuild\<close>

text \<open>
  The projection of a payment that its events determine: its status, the refunds in flight and
  the total given back. \<open>apply_event\<close> only uses the fields of the published payload.
\<close>

record view =
  v_status :: status
  v_open :: "uuid \<rightharpoonup> int64"
  v_refunded :: int64

definition view_of :: "payment \<Rightarrow> view" where
  "view_of p = \<lparr>v_status = p_Status p,
     v_open = (\<lambda>uid. case find_Refund uid p of
                      Some r \<Rightarrow> if is_pending r then Some (r_Amount r) else None
                    | None \<Rightarrow> None),
     v_refunded = RefundedAmount p\<rparr>"

fun apply_event :: "view option \<Rightarrow> domain_event \<Rightarrow> view option" where
  "apply_event None (PaymentInitiated _ _) =
     Some \<lparr>v_status = StatusInitiated, v_open = Map.empty, v_refunded = 0\<rparr>"
| "apply_event (Some v) (PaymentPending _ _ _) = Some (v\<lparr>v_status := StatusPending\<rparr>)"
| "apply_event (Some v) (PaymentCompleted _ _ _) = Some (v\<lparr>v_status := StatusCompleted\<rparr>)"
| "apply_event (Some v) (PaymentFailed _ _ _ _) = Some (v\<lparr>v_status := StatusFailed\<rparr>)"
| "apply_event (Some v) (PaymentCancelled _ _) = Some (v\<lparr>v_status := StatusCancelled\<rparr>)"
| "apply_event (Some v) (PaymentExpired _ _) = Some (v\<lparr>v_status := StatusExpired\<rparr>)"
| "apply_event (Some v) (RefundRequested _ r a _) = Some (v\<lparr>v_open := (v_open v)(r \<mapsto> a)\<rparr>)"
| "apply_event (Some v) (RefundCompleted _ r _ tot st _) =
     Some (v\<lparr>v_status := st, v_open := (v_open v)(r := None), v_refunded := tot\<rparr>)"
| "apply_event (Some v) (RefundFailed _ r _ _) = Some (v\<lparr>v_open := (v_open v)(r := None)\<rparr>)"
| "apply_event _ _ = None"

definition replay :: "domain_event list \<Rightarrow> view option" where
  "replay es = foldl apply_event None es"

lemma replay_snoc: "replay (es @ [e]) = apply_event (replay es) e"
  by (simp add: replay_def)

lemma replay_append: "replay (es @ es') = foldl apply_event (replay es) es'"
  by (simp add: replay_def)

text \<open>The events an operation raised between two states of a payment, and what they say.\<close>

definition tells :: "payment \<Rightarrow> payment \<Rightarrow> domain_event list \<Rightarrow> bool" where
  "tells p p' es \<longleftrightarrow>
     p_events p' = p_events p @ es \<and>
     foldl apply_event (Some (view_of p)) es = Some (view_of p') \<and>
     (\<forall>e \<in> set es. AggregateID e = p_ID p)"

lemma tells_refl: "tells p p []"
  by (simp add: tells_def)

lemma tells_trans: "tells p q es \<Longrightarrow> tells q r es' \<Longrightarrow> p_ID q = p_ID p \<Longrightarrow> tells p r (es @ es')"
  by (auto simp: tells_def)

lemma tells_simple:
  assumes "p_events p' = p_events p @ [e]" "AggregateID e = p_ID p" "p_Refunds p' = p_Refunds p"
    and "\<And>v. apply_event (Some v) e = Some (v\<lparr>v_status := p_Status p'\<rparr>)"
  shows "tells p p' [e]"
  using assms by (simp add: tells_def view_of_def find_Refund_def RefundedAmount_def)

lemma find_upd_first_other:
  "(\<And>x. P x \<Longrightarrow> \<not> Q x \<and> \<not> Q (f x)) \<Longrightarrow> List.find Q (upd_first P f xs) = List.find Q xs"
  by (induction xs) auto

text \<open>Changing one refund closes it in the view when it was the one in flight.\<close>

lemma view_open_upd:
  assumes "p_Refunds p' = upd_first (\<lambda>r. r_ID r = uid) f (p_Refunds p)"
    and "\<And>r. r_ID (f r) = r_ID r" "\<And>r. \<not> is_pending (f r)"
  shows "v_open (view_of p') = (v_open (view_of p))(uid := None)"
proof
  fix k
  show "v_open (view_of p') k = ((v_open (view_of p))(uid := None)) k"
  proof (cases "k = uid")
    case True
    have "List.find (\<lambda>r. r_ID r = uid) (p_Refunds p') =
        map_option f (List.find (\<lambda>r. r_ID r = uid) (p_Refunds p))"
      unfolding assms(1) by (rule find_upd_first) (simp add: assms(2))
    with True assms(3) show ?thesis
      by (simp add: view_of_def find_Refund_def split: option.splits)
  next
    case False
    have "List.find (\<lambda>r. r_ID r = k) (p_Refunds p') = List.find (\<lambda>r. r_ID r = k) (p_Refunds p)"
      unfolding assms(1) by (rule find_upd_first_other) (use False assms(2) in auto)
    with False show ?thesis by (simp add: view_of_def find_Refund_def)
  qed
qed

lemma view_ext: "v_status v = v_status w \<Longrightarrow> v_open v = v_open w \<Longrightarrow> v_refunded v = v_refunded w \<Longrightarrow> v = (w :: view)"
  by simp

lemma RequestRefund_tells:
  assumes "RequestRefund now uid ref a reason rb p = Inr (p', r)" "payment_ok p"
    and "uid \<notin> r_ID ` set (p_Refunds p)"
  shows "tells p p' [RefundRequested (p_ID p) uid a now]"
proof -
  note g = RequestRefund_guards [OF assms(1,2)]
  have "v_open (view_of p') = (v_open (view_of p))(uid \<mapsto> a)"
  proof
    fix k
    have "List.find (\<lambda>r. r_ID r = uid) (p_Refunds p) = None"
      using assms(3) by (auto simp: find_None_iff)
    then show "v_open (view_of p') k = ((v_open (view_of p))(uid \<mapsto> a)) k"
      using g by (auto simp: view_of_def find_Refund_def find_append split: option.splits)
  qed
  moreover have "RefundedAmount p' = RefundedAmount p" using g by (simp add: RefundedAmount_def)
  ultimately show ?thesis
    using g by (auto simp: tells_def intro!: view_ext) (simp_all add: view_of_def)
qed

lemma CompleteRefund_tells:
  assumes "CompleteRefund L now uid gid p = Inr p'" "find_Refund uid p = Some r" "is_pending r"
  shows "tells p p' [RefundCompleted (p_ID p) uid (r_Amount r) (RefundedAmount p') (p_Status p') now]"
proof -
  note c = CompleteRefund_pending [OF assms]
  have uid: "r_ID r = uid" by (rule find_Refund_ok(2) [OF assms(2)])
  have "v_open (view_of p') = (v_open (view_of p))(uid := None)"
    by (rule view_open_upd [OF c(1)]) simp_all
  then show ?thesis
    unfolding tells_def uid [symmetric]
    by (simp add: c(6)) (simp add: view_of_def)
qed

lemma FailRefund_tells:
  assumes "FailRefund L now uid reason p = Inr p'"
  shows "tells p p' [RefundFailed (p_ID p) uid reason now]"
proof -
  from assms obtain r where r: "find_Refund uid p = Some r" "is_pending r"
    and rs: "p_Refunds p' = upd_first (\<lambda>r. r_ID r = uid)
           (\<lambda>r. r\<lparr>r_Status := RefundStatusFailed, r_FailureReason := reason, r_UpdatedAt := now\<rparr>)
           (p_Refunds p)"
    and f: "p_Status p' = p_Status p" "p_events p' = p_events p @ [RefundFailed (p_ID p) (r_ID r) reason now]"
    by (rule FailRefund_shape)
  have uid: "r_ID r = uid" by (rule find_Refund_ok(2) [OF r(1)])
  have o: "v_open (view_of p') = (v_open (view_of p))(uid := None)"
    by (rule view_open_upd [OF rs]) simp_all
  have keep: "foldl (\<lambda>t r. if is_succeeded r then t + r_Amount r else t) a (upd_first P h rs) =
      foldl (\<lambda>t r. if is_succeeded r then t + r_Amount r else t) a rs"
    if "List.find P rs = Some r'" "is_pending r'" "\<And>r. \<not> is_succeeded (h r)" for a P h rs r'
    using that by (induction rs arbitrary: a) (auto split: if_splits)
  have "RefundedAmount p' = RefundedAmount p"
    unfolding RefundedAmount_def rs
    by (rule keep [OF r(1) [unfolded find_Refund_def] r(2)]) simp
  with o f uid show ?thesis
    by (simp add: tells_def) (simp add: view_of_def)
qed

lemma apply_op_tells:
  assumes "apply_op L op p = Inr p'" "payment_ok p" "op_fresh op p"
  shows "\<exists>es. tells p p' es"
proof (cases op)
  case (OpRequestRefund now uid ref a reason rb)
  with assms obtain r where "RequestRefund now uid ref a reason rb p = Inr (p', r)"
    using apply_RequestRefund by blast
  moreover have "uid \<notin> r_ID ` set (p_Refunds p)" using assms(3) OpRequestRefund by simp
  ultimately show ?thesis using RequestRefund_tells assms(2) by blast
next
  case (OpCompleteRefund now uid gid)
  with assms(1) have c: "CompleteRefund L now uid gid p = Inr p'" by simp
  then show ?thesis
    by (cases rule: CompleteRefund_cases) (use CompleteRefund_tells [OF c] tells_refl in blast)+
next
  case (OpFailRefund now uid reason)
  with assms(1) have "FailRefund L now uid reason p = Inr p'" by simp
  from FailRefund_tells [OF this] show ?thesis by (rule exI)
qed (use assms(1) in \<open>auto simp: op_defs raise_def intro!: exI tells_simple split: if_splits\<close>)

lemma evolves_tells: "evolves L p p' \<Longrightarrow> payment_ok p \<Longrightarrow> \<exists>es. tells p p' es"
proof (induction rule: rtranclp_induct)
  case (step q q')
  then obtain es where "tells p q es" by blast
  moreover obtain es' where "tells q q' es'"
    using step.hyps(2) evolves_ok [OF step.hyps(1) step.prems]
    by (auto elim!: op_stepE dest: apply_op_tells)
  moreover have "p_ID q = p_ID p" using evolves_frame [OF step.hyps(1)] by (rule frameD)
  ultimately show ?case using tells_trans by blast
qed (use tells_refl in blast)

section \<open>Histories\<close>

text \<open>
  A history applies operations one after the other; a refused one leaves the payment as it was.
  \<open>uuid.New\<close> never returns the same value twice, so the refund identifiers of a history differ.
\<close>

definition hist :: "uuid_lib \<Rightarrow> domain_op list \<Rightarrow> payment \<Rightarrow> payment" where
  "hist L ops p = foldl (\<lambda>p op. case apply_op L op p of Inl _ \<Rightarrow> p | Inr p' \<Rightarrow> p') p ops"

fun op_refund_id :: "domain_op \<Rightarrow> uuid list" where
  "op_refund_id (OpRequestRefund now uid ref a reason rb) = [uid]"
| "op_refund_id _ = []"

definition fresh_ids :: "domain_op list \<Rightarrow> payment \<Rightarrow> bool" where
  "fresh_ids ops p \<longleftrightarrow> distinct (map r_ID (p_Refunds p) @ concat (map op_refund_id ops))"

lemma apply_op_refund_ids:
  assumes "apply_op L op p = Inr p'" "payment_ok p"
  shows "map r_ID (p_Refunds p') = map r_ID (p_Refunds p) @ op_refund_id op \<or>
         map r_ID (p_Refunds p') = map r_ID (p_Refunds p)"
proof (cases op)
  case (OpRequestRefund now uid ref a reason rb)
  with assms(1) obtain r where "RequestRefund now uid ref a reason rb p = Inr (p', r)"
    using apply_RequestRefund by blast
  from RequestRefund_guards [OF this assms(2)] show ?thesis by (simp add: OpRequestRefund)
next
  case (OpCompleteRefund now uid gid)
  with assms(1) have c: "CompleteRefund L now uid gid p = Inr p'" by simp
  then show ?thesis
    by (cases rule: CompleteRefund_cases)
       (simp_all add: CompleteRefund_pending(1) [OF c] map_upd_first OpCompleteRefund)
next
  case (OpFailRefund now uid reason)
  with assms(1) show ?thesis by (auto elim!: FailRefund_shape simp: map_upd_first)
qed (use assms(1) in \<open>auto simp: op_defs raise_def split: if_splits\<close>)

lemma hist_evolves: "payment_ok p \<Longrightarrow> fresh_ids ops p \<Longrightarrow> evolves L p (hist L ops p)"
proof (induction ops arbitrary: p)
  case Nil
  then show ?case by (simp add: hist_def)
next
  case (Cons op ops)
  show ?case
  proof (cases "apply_op L op p")
    case (Inl e)
    moreover have "fresh_ids ops p" using Cons.prems(2) by (auto simp: fresh_ids_def)
    ultimately show ?thesis using Cons by (simp add: hist_def)
  next
    case (Inr q)
    have fresh: "op_fresh op p" using Cons.prems(2) by (cases op) (auto simp: fresh_ids_def)
    have "op_step L p q" using Inr fresh by (rule op_stepI)
    moreover have "payment_ok q" using apply_op_ok [OF Inr fresh Cons.prems(1)] .
    moreover have d: "distinct (map r_ID (p_Refunds p) @ op_refund_id op @ concat (map op_refund_id ops))"
      using Cons.prems(2) by (simp add: fresh_ids_def)
    from apply_op_refund_ids [OF Inr Cons.prems(1)] have "fresh_ids ops q"
    proof
      assume "map r_ID (p_Refunds q) = map r_ID (p_Refunds p) @ op_refund_id op"
      then show ?thesis unfolding fresh_ids_def using d by (simp only: append_assoc)
    next
      assume "map r_ID (p_Refunds q) = map r_ID (p_Refunds p)"
      then show ?thesis unfolding fresh_ids_def using d by (simp only:) auto
    qed
    ultimately have "op_step L p q" "evolves L q (hist L ops q)" using Cons.IH by blast+
    with Inr show ?thesis by (simp add: hist_def converse_rtranclp_into_rtranclp)
  qed
qed

lemma New_shape:
  assumes "New now uid ref caller m gt meth cust desc ex meta = Inr p"
  shows "p_events p = [PaymentInitiated uid now]" "p_ID p = uid" "p_Refunds p = []"
    "p_Status p = StatusInitiated" "p_Amount p = m" "p_Version p = 0"
    "p_ReferenceID p = ref" "p_CallerService p = caller" "ref \<noteq> []" "caller \<noteq> []"
  using assms by (auto simp: New_def raise_def split: if_splits)

lemma New_replays:
  assumes "New now uid ref caller m gt meth cust desc ex meta = Inr p"
  shows "replay (p_events p) = Some (view_of p)"
  using New_shape [OF assms]
  by (simp add: replay_def view_of_def find_Refund_def RefundedAmount_def)

lemma NewMoney_positive: "NewMoney a c = Inr m \<Longrightarrow> 0 < sint (m_Amount m) \<and> m_Amount m = a \<and> m_Currency m = c"
  by (auto simp: NewMoney_def split: if_splits)

text \<open>A concrete history, for the witnesses: 100000 IDR paid, two refunds asked, one done, one declined.\<close>

definition ex_lib :: uuid_lib where
  "ex_lib = \<lparr>uuid_String = nat_str,
     uuid_Parse = (\<lambda>s. Some (foldl (\<lambda>n c. 10 * n + (of_char c - 48)) 0 s))\<rparr>"

lemma ex_lib_roundtrip: "uuid_roundtrip ex_lib"
proof -
  have digit: "of_char (digit_char n) - 48 = n" if "n < 10" for n
    using that by (simp add: digit_char_def)
  have "foldl (\<lambda>n c. 10 * n + (of_char c - 48)) 0 (nat_str u) = u" for u
  proof (induction u rule: nat_str.induct)
    case (1 u)
    then show ?case
      using digit [of u] digit [of "u mod 10"] by (subst nat_str.simps) auto
  qed
  then show ?thesis by (simp add: uuid_roundtrip_def ex_lib_def)
qed

definition ex_new :: "goerr + payment" where
  "ex_new = New 5 7 ''ORDER-1'' ''order-service'' \<lparr>m_Amount = 100000, m_Currency = ''IDR''\<rparr>
     GatewayMidtrans ''QRIS'' \<lparr>c_ExternalID = [], c_Name = ''Alice'', c_Email = [], c_Phone = []\<rparr> [] None None"

definition ex_ops :: "domain_op list" where
  "ex_ops = [OpPending 6 ''gw-1'' None, OpCompleted 8 9,
     OpRequestRefund 10 21 ''rf-1'' 60000 [] ''order-service'',
     OpRequestRefund 11 22 ''rf-2'' 40000 [] ''order-service'',
     OpRequestRefund 12 23 ''rf-3'' 1 [] ''order-service'',
     OpCompleteRefund 13 21 ''gr-1'', OpFailRefund 14 22 ''declined'', OpExpired 15]"

definition ex_paid :: payment where
  "ex_paid = hist ex_lib (take 2 ex_ops) (projr ex_new)"

lemma ex_new_ok: "ex_new = Inr (projr ex_new)"
  by code_simp

lemma ex_new_eq:
  "New 5 7 ''ORDER-1'' ''order-service'' \<lparr>m_Amount = 100000, m_Currency = ''IDR''\<rparr>
     GatewayMidtrans ''QRIS'' \<lparr>c_ExternalID = [], c_Name = ''Alice'', c_Email = [], c_Phone = []\<rparr>
     [] None None = Inr (projr ex_new)"
  using ex_new_ok by (simp add: ex_new_def)

lemma ex_paid_ok: "payment_ok ex_paid"
  by code_simp

end
