(* ===== verification/Domain_Properties.thy ===== *)
theory Domain_Properties
  imports Payment_Spec
begin

text \<open>
  The properties of the Payment aggregate, over every history of operations, each with a witness
  on a concrete history.
\<close>

text \<open>
  C1: whatever sequence of operations is applied to a newly created payment, accepted or refused,
  with whatever amounts: the payment keeps its invariant, the 64-bit sums the code computes are
  the exact sums, what was refunded together with what is reserved never exceeds what was paid,
  what the code calls refundable is exactly what is left, and no refund exists unless the payment
  was paid.
\<close>

theorem refunds_never_exceed_payment:
  assumes "New now uid ref caller m gt meth cust desc ex meta = Inr p0"
    and "NewMoney amount currency = Inr m"
    and "fresh_ids ops p0"
    and "p = hist L ops p0"
  shows "payment_ok p \<and>
         sint (RefundedAmount p) = rtotal is_succeeded (p_Refunds p) \<and>
         sint (RefundableAmount p) =
           sint amount - rtotal is_pending (p_Refunds p) - rtotal is_succeeded (p_Refunds p) \<and>
         0 \<le> sint (RefundableAmount p) \<and> 0 \<le> sint (RefundedAmount p) \<and>
         (WasPaid (p_Status p) \<or> p_Refunds p = [])"
proof (intro conjI)
  have m: "0 < sint (m_Amount m)" "m_Amount m = amount" using NewMoney_positive [OF assms(2)] by auto
  have ok0: "payment_ok p0" using assms(1) m(1) by (rule New_ok)
  have ev: "evolves L p0 p" unfolding assms(4) by (rule hist_evolves [OF ok0 assms(3)])
  show ok: "payment_ok p" using ev ok0 by (rule evolves_ok)
  show R: "sint (RefundedAmount p) = rtotal is_succeeded (p_Refunds p)"
    using ok by (rule RefundedAmount_exact)
  have "p_Amount p = m" using frameD(5) [OF evolves_frame [OF ev]] New_shape(5) [OF assms(1)] by simp
  then show A: "sint (RefundableAmount p) =
      sint amount - rtotal is_pending (p_Refunds p) - rtotal is_succeeded (p_Refunds p)"
    using RefundableAmount_available [OF ok] m(2) by (simp add: available_def ledger_of_def)
  show "0 \<le> sint (RefundableAmount p)" "0 \<le> sint (RefundedAmount p)"
    using payment_ok_ledger [OF ok] RefundableAmount_available [OF ok] R
    by (simp_all add: ledger_ok_def ledger_of_def)
  show "WasPaid (p_Status p) \<or> p_Refunds p = []" using payment_okD(9) [OF ok] by blast
qed

lemma refunds_never_exceed_payment_witness:
  "sint (RefundableAmount (hist ex_lib ex_ops (projr ex_new))) = 40000 \<and>
   payment_ok (hist ex_lib ex_ops (projr ex_new))"
proof -
  have f: "fresh_ids ex_ops (projr ex_new)" by code_simp
  have m: "NewMoney 100000 ''IDR'' = Inr \<lparr>m_Amount = 100000, m_Currency = ''IDR''\<rparr>" by code_simp
  note t = refunds_never_exceed_payment [OF ex_new_eq m f refl, of ex_lib]
  have "sint (100000 :: int64) = 100000"
    "rtotal is_pending (p_Refunds (hist ex_lib ex_ops (projr ex_new))) = 0"
    "rtotal is_succeeded (p_Refunds (hist ex_lib ex_ops (projr ex_new))) = 60000"
    by code_simp+
  with t show ?thesis by simp
qed

text \<open>
  C2: the refund operations implement the account. A refund is accepted exactly when the payment
  was paid, the reference is present and new, and the account can reserve the amount, and then it
  is reserved; completing a pending refund settles its amount, failing it releases it; a refund
  that is not pending is never moved again.
\<close>

theorem refunds_implement_ledger:
  assumes "payment_ok p"
  shows "((\<exists>p' r. RequestRefund now uid ref a reason rb p = Inr (p', r) \<and>
            reserve (sint a) (ledger_of p) = Some (ledger_of p')) \<longleftrightarrow>
         WasPaid (p_Status p) \<and> ref \<noteq> [] \<and> RefundByReference ref p = None \<and>
         reserve (sint a) (ledger_of p) \<noteq> None) \<and>
    (find_Refund uid p = Some r \<and> is_pending r \<longrightarrow>
         (\<exists>p'. CompleteRefund L now uid gid p = Inr p' \<and>
              ledger_of p' = settle (sint (r_Amount r)) (ledger_of p)) \<and>
         (\<exists>p'. FailRefund L now uid reason p = Inr p' \<and>
              ledger_of p' = release (sint (r_Amount r)) (ledger_of p))) \<and>
    (find_Refund uid p = Some r \<and> \<not> is_pending r \<longrightarrow>
         CompleteRefund L now uid gid p \<in> {Inr p} \<union> range Inl \<and>
         FailRefund L now uid reason p \<in> range Inl)"
proof (intro conjI impI)
  show "(\<exists>p' r. RequestRefund now uid ref a reason rb p = Inr (p', r) \<and>
            reserve (sint a) (ledger_of p) = Some (ledger_of p')) \<longleftrightarrow>
         WasPaid (p_Status p) \<and> ref \<noteq> [] \<and> RefundByReference ref p = None \<and>
         reserve (sint a) (ledger_of p) \<noteq> None" (is "?lhs \<longleftrightarrow> ?rhs")
  proof
    assume ?lhs
    then obtain p' r where r: "RequestRefund now uid ref a reason rb p = Inr (p', r)" by blast
    have "RefundByReference ref p = None"
      using r by (auto simp: RequestRefund_def split: if_splits)
    with RequestRefund_guards(1,3) [OF r assms] RequestRefund_reserve [OF r assms] show ?rhs by simp
  next
    assume rhs: ?rhs
    then obtain l where "reserve (sint a) (ledger_of p) = Some l" by blast
    then obtain p' r where r: "RequestRefund now uid ref a reason rb p = Inr (p', r)"
      using RequestRefund_succeeds [OF assms] rhs by blast
    with RequestRefund_reserve [OF r assms] show ?lhs by blast
  qed
next
  assume "find_Refund uid p = Some r \<and> is_pending r"
  then have r: "find_Refund uid p = Some r" "is_pending r" by auto
  then obtain p' where p': "CompleteRefund L now uid gid p = Inr p'"
    by (auto simp: CompleteRefund_def Let_def)
  with CompleteRefund_settle [OF p' r]
  show "\<exists>p'. CompleteRefund L now uid gid p = Inr p' \<and>
              ledger_of p' = settle (sint (r_Amount r)) (ledger_of p)" by blast
  from r obtain p'' where p'': "FailRefund L now uid reason p = Inr p''"
    by (auto simp: FailRefund_def)
  with FailRefund_release [OF p'' r(1)]
  show "\<exists>p'. FailRefund L now uid reason p = Inr p' \<and>
              ledger_of p' = release (sint (r_Amount r)) (ledger_of p)" by blast
next
  assume "find_Refund uid p = Some r \<and> \<not> is_pending r"
  then have r: "find_Refund uid p = Some r" "\<not> is_pending r" by auto
  then show "CompleteRefund L now uid gid p \<in> {Inr p} \<union> range Inl"
    and "FailRefund L now uid reason p \<in> range Inl"
    by (cases "r_Status r"; simp add: CompleteRefund_def FailRefund_def)+
qed

lemma refunds_implement_ledger_witness:
  "\<exists>p' r. RequestRefund 20 31 ''rf-9'' 100000 [] [] ex_paid = Inr (p', r) \<and>
            reserve 100000 (ledger_of ex_paid) = Some (ledger_of p')"
proof -
  have "WasPaid (p_Status ex_paid) \<and> ''rf-9'' \<noteq> [] \<and> RefundByReference ''rf-9'' ex_paid = None \<and>
         reserve (sint (100000 :: int64)) (ledger_of ex_paid) \<noteq> None" by code_simp
  then have "\<exists>p' r. RequestRefund 20 31 ''rf-9'' 100000 [] [] ex_paid = Inr (p', r) \<and>
            reserve (sint (100000 :: int64)) (ledger_of ex_paid) = Some (ledger_of p')"
    using refunds_implement_ledger [OF ex_paid_ok] by blast
  moreover have "sint (100000 :: int64) = 100000" by code_simp
  ultimately show ?thesis by simp
qed

text \<open>
  C3: the events tell the whole story. Replaying the events a payment raised, using only what
  their payloads carry, gives its status, its refunds in flight with their amounts, and the total
  refunded; every event names the payment as its aggregate.
\<close>

theorem events_rebuild_payment:
  assumes "New now uid ref caller m gt meth cust desc ex meta = Inr p0"
    and "NewMoney amount currency = Inr m"
    and "fresh_ids ops p0"
  shows "replay (p_events (hist L ops p0)) = Some (view_of (hist L ops p0)) \<and>
         list_all (\<lambda>e. AggregateID e = uid) (p_events (hist L ops p0))"
proof -
  have ok0: "payment_ok p0" using New_ok [OF assms(1)] NewMoney_positive [OF assms(2)] by blast
  obtain es where "tells p0 (hist L ops p0) es"
    using evolves_tells [OF hist_evolves [OF ok0 assms(3)] ok0] by blast
  then have e: "p_events (hist L ops p0) = p_events p0 @ es"
    and v: "foldl apply_event (Some (view_of p0)) es = Some (view_of (hist L ops p0))"
    and a: "\<forall>e \<in> set es. AggregateID e = p_ID p0" by (auto simp: tells_def)
  have "replay (p_events (hist L ops p0)) = Some (view_of (hist L ops p0))"
    by (simp only: e replay_append New_replays [OF assms(1)] v)
  moreover have "list_all (\<lambda>e. AggregateID e = uid) (p_events (hist L ops p0))"
    using a New_shape(1,2) [OF assms(1)] by (simp add: e list_all_iff)
  ultimately show ?thesis by blast
qed

lemma events_rebuild_payment_witness:
  "replay (p_events (hist ex_lib ex_ops (projr ex_new))) =
     Some (view_of (hist ex_lib ex_ops (projr ex_new))) \<and>
   length (p_events (hist ex_lib ex_ops (projr ex_new))) = 7"
proof -
  have f: "fresh_ids ex_ops (projr ex_new)" by code_simp
  have m: "NewMoney 100000 ''IDR'' = Inr \<lparr>m_Amount = 100000, m_Currency = ''IDR''\<rparr>" by code_simp
  have "length (p_events (hist ex_lib ex_ops (projr ex_new))) = 7" by code_simp
  with events_rebuild_payment [OF ex_new_eq m f, of ex_lib] show ?thesis by simp
qed

text \<open>
  C4: every operation moves the status along the state machine or leaves it. Hence a payment
  that was paid stays paid, a payment closed without being paid stays in exactly that status, and
  no payment that starts as the code creates it ever becomes PROCESSING. What identifies the
  payment, its owner and its price never change.
\<close>

theorem status_machine:
  assumes "payment_ok p" "fresh_ids ops p"
    and "q = hist L ops p"
  shows "status_step\<^sup>*\<^sup>* (p_Status p) (p_Status q) \<and>
    (WasPaid (p_Status p) \<longrightarrow> WasPaid (p_Status q)) \<and>
    (p_Status p \<in> {StatusFailed, StatusCancelled, StatusExpired} \<longrightarrow> p_Status q = p_Status p) \<and>
    (p_Status p \<noteq> StatusProcessing \<longrightarrow> p_Status q \<noteq> StatusProcessing) \<and>
    frame q = frame p"
proof (intro conjI impI)
  have ev: "evolves L p q" unfolding assms(3) by (rule hist_evolves [OF assms(1,2)])
  show st: "status_step\<^sup>*\<^sup>* (p_Status p) (p_Status q)" using ev assms(1) by (rule evolves_status)
  show "WasPaid (p_Status p) \<Longrightarrow> WasPaid (p_Status q)" using st by (rule steps_keep_paid)
  show "p_Status p \<in> {StatusFailed, StatusCancelled, StatusExpired} \<Longrightarrow> p_Status q = p_Status p"
    using st by (rule steps_closed_unpaid)
  show "p_Status p \<noteq> StatusProcessing \<Longrightarrow> p_Status q \<noteq> StatusProcessing"
    using st by (rule steps_no_processing)
  show "frame q = frame p" using ev by (rule evolves_frame)
qed

lemma status_machine_witness:
  "WasPaid (p_Status (hist ex_lib (drop 2 ex_ops) ex_paid)) \<and>
   p_Status (hist ex_lib (drop 2 ex_ops) ex_paid) = StatusPartiallyRefunded"
proof -
  have f: "fresh_ids (drop 2 ex_ops) ex_paid" by code_simp
  have w: "WasPaid (p_Status ex_paid)" by code_simp
  have "p_Status (hist ex_lib (drop 2 ex_ops) ex_paid) = StatusPartiallyRefunded" by code_simp
  with status_machine [OF ex_paid_ok f refl, of ex_lib] w show ?thesis by simp
qed

end
