(* ===== verification/Settling.thy ===== *)
theory Settling
  imports Payment_Spec
begin

text \<open>
  Notifications arrive late, twice and in any order, and the reconciler tries again and again: why
  every history of a payment comes to rest all the same. Each operation that changes a payment uses up some of
  what is left to do with it.
\<close>

section \<open>What is left to do\<close>

text \<open>The steps an unpaid payment can still take, and the refunds whose outcome is open.\<close>

fun steps_left :: "status \<Rightarrow> nat" where
  "steps_left StatusInitiated = 2"
| "steps_left StatusPending = 1"
| "steps_left StatusProcessing = 1"
| "steps_left _ = 0"

definition open_refunds :: "payment \<Rightarrow> nat" where
  "open_refunds p = length (filter is_pending (p_Refunds p))"

definition work_left :: "payment \<Rightarrow> nat" where
  "work_left p = steps_left (p_Status p) + open_refunds p"

lemma filter_upd_first:
  assumes "List.find P xs = Some x" "Q x" "\<And>x. \<not> Q (f x)"
  shows "Suc (length (filter Q (upd_first P f xs))) = length (filter Q xs)"
  using assms(1,2) by (induction xs) (auto simp: assms(3) split: if_splits)

text \<open>
  The effect of an operation that is accepted: either the payment is as it was, or there is one event
  more and less is left to do; a new refund adds two steps, its request and its outcome.
\<close>

definition spends :: "payment \<Rightarrow> payment \<Rightarrow> bool" where
  "spends p q \<longleftrightarrow> (\<exists>e. p_events q = p_events p @ [e]) \<and>
     work_left q + 2 * length (p_Refunds p) < work_left p + 2 * length (p_Refunds q)"

lemma open_refunds_close:
  assumes "find_Refund uid p = Some r" "is_pending r" "\<And>r. \<not> is_pending (f r)"
  shows "length (filter is_pending (upd_first (\<lambda>r. r_ID r = uid) f (p_Refunds p))) < length (filter is_pending (p_Refunds p))"
  using filter_upd_first [where f = f, OF assms(1) [unfolded find_Refund_def] assms(2,3)] by simp

lemma CompleteRefund_spends:
  assumes "CompleteRefund L now uid gid p = Inr q"
  shows "q = p \<or> spends p q"
  using assms
proof (cases rule: CompleteRefund_cases)
  case (1 r)
  with assms have "p_Refunds q = upd_first (\<lambda>r. r_ID r = uid)
      (\<lambda>r. r\<lparr>r_Status := RefundStatusSucceeded, r_GatewayRefundID := gid, r_CompletedAt := Some now, r_UpdatedAt := now\<rparr>)
      (p_Refunds p)" "\<exists>e. p_events q = p_events p @ [e]" "steps_left (p_Status q) = 0"
    by (auto simp: CompleteRefund_def Let_def raise_def split: if_splits)
  with open_refunds_close [OF 1, where f = "\<lambda>r. r\<lparr>r_Status := RefundStatusSucceeded, r_GatewayRefundID := gid,
      r_CompletedAt := Some now, r_UpdatedAt := now\<rparr>"] show ?thesis by (simp add: spends_def work_left_def open_refunds_def)
qed simp

lemma FailRefund_spends:
  assumes "FailRefund L now uid reason p = Inr q"
  shows "spends p q"
proof -
  obtain r where r: "find_Refund uid p = Some r" "is_pending r"
    using assms by (auto simp: FailRefund_def split: option.splits if_splits)
  with assms have "p_Refunds q = upd_first (\<lambda>r. r_ID r = uid)
      (\<lambda>r. r\<lparr>r_Status := RefundStatusFailed, r_FailureReason := reason, r_UpdatedAt := now\<rparr>) (p_Refunds p)"
    "\<exists>e. p_events q = p_events p @ [e]" "p_Status q = p_Status p"
    by (auto simp: FailRefund_def raise_def split: if_splits)
  with open_refunds_close [OF r, where f = "\<lambda>r. r\<lparr>r_Status := RefundStatusFailed, r_FailureReason := reason,
      r_UpdatedAt := now\<rparr>"] show ?thesis by (simp add: spends_def work_left_def open_refunds_def)
qed

lemma apply_op_spends:
  assumes "apply_op L op p = Inr q"
  shows "q = p \<or> spends p q"
proof (cases op)
  case (OpCompleteRefund now uid gid)
  with assms CompleteRefund_spends show ?thesis by simp
next
  case (OpFailRefund now uid reason)
  with assms FailRefund_spends show ?thesis by simp
next
  case (OpFailed now c m)
  with assms show ?thesis
    by (cases "p_Status p") (auto simp: MarkFailed_def raise_def spends_def work_left_def open_refunds_def)
next
  case (OpExpired now)
  with assms show ?thesis
    by (cases "p_Status p") (auto simp: MarkExpired_def raise_def spends_def work_left_def open_refunds_def)
qed (use assms in \<open>auto simp: op_defs raise_def spends_def work_left_def open_refunds_def Let_def map_sum_def
    split: if_splits sum.splits\<close>)

section \<open>Histories come to rest\<close>

lemma hist_Cons: "hist L (op # ops) p = hist L ops (case apply_op L op p of Inl _ \<Rightarrow> p | Inr q \<Rightarrow> q)"
  by (simp add: hist_def)

lemma hist_Nil: "hist L [] p = p"
  by (simp add: hist_def)

text \<open>How many operations of a history change the payment.\<close>

fun changes :: "uuid_lib \<Rightarrow> domain_op list \<Rightarrow> payment \<Rightarrow> nat" where
  "changes L [] p = 0"
| "changes L (op # ops) p =
     (case apply_op L op p of
        Inl _ \<Rightarrow> changes L ops p
      | Inr q \<Rightarrow> (if q = p then 0 else 1) + changes L ops q)"

text \<open>
  C36: every history comes to rest. Whatever operations are applied to a payment, how often and in which order:
  each one that changes it raises exactly one event, and there are at most as many of them as steps were left
  at the start, plus two for each refund accepted since. An operation that is refused or repeated changes
  nothing and raises nothing. So the relation of the effective operations that accept no refund is well-founded:
  redelivered notifications and repeated turns of the reconciler cannot keep a payment changing.
\<close>

theorem histories_settle:
  "changes L ops p + work_left (hist L ops p) + 2 * length (p_Refunds p) \<le> work_left p + 2 * length (p_Refunds (hist L ops p)) \<and>
   length (p_events (hist L ops p)) = length (p_events p) + changes L ops p \<and>
   wfp (\<lambda>q p. op_step L p q \<and> q \<noteq> p \<and> length (p_Refunds q) = length (p_Refunds p))"
proof (intro conjI)
  show "changes L ops p + work_left (hist L ops p) + 2 * length (p_Refunds p) \<le>
      work_left p + 2 * length (p_Refunds (hist L ops p))"
  proof (induction ops arbitrary: p)
    case (Cons op ops)
    show ?case
    proof (cases "apply_op L op p")
      case (Inr q)
      with Cons.IH [of q] apply_op_spends [OF Inr] show ?thesis by (auto simp: spends_def hist_Cons)
    qed (use Cons.IH in \<open>simp add: hist_Cons\<close>)
  qed (simp add: hist_Nil)
  show "length (p_events (hist L ops p)) = length (p_events p) + changes L ops p"
  proof (induction ops arbitrary: p)
    case (Cons op ops)
    show ?case
    proof (cases "apply_op L op p")
      case (Inr q)
      with Cons.IH [of q] apply_op_spends [OF Inr] show ?thesis by (auto simp: spends_def hist_Cons)
    qed (use Cons.IH in \<open>simp add: hist_Cons\<close>)
  qed (simp add: hist_Nil)
  show "wfp (\<lambda>q p. op_step L p q \<and> q \<noteq> p \<and> length (p_Refunds q) = length (p_Refunds p))"
    by (rule wfp_if_convertible_to_nat [where f = work_left])
      (auto elim!: op_stepE dest!: apply_op_spends simp: spends_def)
qed

end
