(* ===== verification/Ports.thy ===== *)
theory Ports
  imports Payment_Spec
begin

text \<open>
  The ports of \<open>internal/application/ports\<close> and the repository of \<open>domain/payment/repository.go\<close>,
  as records of operations over a world \<open>'w\<close>: what the database, the cache, the gateways, the
  clock and the UUID generator are to a handler. A handler is a function of a \<open>service\<close>, the
  ports its constructor was given. The helpers of \<open>cache.go\<close> and of \<open>command/attempt.go\<close> stand
  here too, because every command uses them.

  \<open>Save\<close> mutates the payment it is given (it takes the events out and moves the version), so it
  returns the payment as it leaves it together with the error.
\<close>

section \<open>Gateways\<close>

text \<open>A Go string type with constants: \<open>TransactionNone\<close> is the empty string of an unset field.\<close>

datatype transaction_status =
    TransactionNone
  | TransactionPending
  | TransactionSettled
  | TransactionFailed
  | TransactionUnknown

datatype next_action_type =
    NextActionUnset
  | NextActionDisplayVA
  | NextActionDisplayQR
  | NextActionRedirect
  | NextActionNone

fun next_action_str :: "next_action_type \<Rightarrow> string" where
  "next_action_str NextActionUnset = []"
| "next_action_str NextActionDisplayVA = ''DISPLAY_VA''"
| "next_action_str NextActionDisplayQR = ''DISPLAY_QR''"
| "next_action_str NextActionRedirect = ''REDIRECT''"
| "next_action_str NextActionNone = ''NONE''"

record next_action =
  na_Type :: next_action_type
  na_VANumber :: string
  na_Bank :: string
  na_QRString :: string
  na_QRImageURL :: string
  na_RedirectURL :: string
  na_ExpiresAt :: "time option"

record create_transaction_request =
  tq_PaymentID :: string
  tq_ReferenceID :: string
  tq_Amount :: int64
  tq_Currency :: string
  tq_PaymentMethod :: method_name
  tq_BankCode :: string
  tq_CardToken :: string
  tq_ReturnURL :: string
  tq_CustomerName :: string
  tq_CustomerEmail :: string
  tq_CustomerPhone :: string
  tq_Description :: string
  tq_ExpiredAt :: "time option"
  tq_Metadata :: "jobj option"

record gateway_response =
  gr_GatewayTransactionID :: string
  gr_Status :: transaction_status
  gr_NextAction :: next_action
  gr_RawResponse :: "jobj option"

record method_capability =
  mc_Charge :: bool
  mc_Refund :: bool
  mc_PartialRefund :: bool

record refund_request =
  rq_GatewayTransactionID :: string
  rq_RefundKey :: string
  rq_Amount :: int64
  rq_Reason :: string

record refund_result =
  rr_Accepted :: bool
  rr_GatewayRefundID :: string
  rr_DeclineReason :: string
  rr_RawResponse :: "jobj option"

record transaction_ref =
  tr_PaymentID :: string
  tr_GatewayTransactionID :: string

record refund_notification =
  rn_RefundKey :: string
  rn_GatewayRefundID :: string
  rn_Amount :: int64

record transaction_state =
  ts_Found :: bool
  ts_GatewayTransactionID :: string
  ts_Status :: transaction_status
  ts_GatewayStatus :: string
  ts_Refunds :: "refund_notification list"
  ts_RawResponse :: "jobj option"

record webhook_notification =
  wn_PaymentID :: string
  wn_GatewayTransactionID :: string
  wn_Status :: transaction_status
  wn_GatewayStatus :: string
  wn_Refunds :: "refund_notification list"

type_synonym headers = "(string \<times> string list) list"

record 'w gateway_port =
  gw_Capability :: "method_name \<Rightarrow> method_capability"
  gw_CreateTransaction :: "create_transaction_request \<Rightarrow> ('w, goerr + gateway_response) state"
  gw_GetTransaction :: "transaction_ref \<Rightarrow> ('w, goerr + transaction_state) state"
  gw_CancelTransaction :: "string \<Rightarrow> ('w, goerr option) state"
  gw_CreateRefund :: "refund_request \<Rightarrow> ('w, goerr + refund_result) state"
  gw_ParseWebhook :: "string \<Rightarrow> headers \<Rightarrow> goerr + webhook_notification"

section \<open>The repository\<close>

record page_key =
  pk_CreatedAt :: time
  pk_ID :: uuid

record list_filter =
  lf_Status :: string
  lf_CallerService :: string
  lf_GatewayType :: string
  lf_ReferenceID :: string
  lf_From :: "time option"
  lf_To :: "time option"
  lf_After :: "page_key option"
  lf_Limit :: int

record 'w repository =
  rp_Save :: "payment \<Rightarrow> ('w, goerr option \<times> payment) state"
  rp_FindByID :: "uuid \<Rightarrow> ('w, goerr + payment) state"
  rp_FindByReference :: "string \<Rightarrow> string \<Rightarrow> ('w, goerr + payment) state"
  rp_FindByGatewayTransactionID :: "string \<Rightarrow> ('w, goerr + payment) state"
  rp_FindExpired :: "int \<Rightarrow> ('w, goerr + payment list) state"
  rp_ListPaginated :: "list_filter \<Rightarrow> ('w, goerr + payment list) state"
  rp_FindAwaitingChargeOutcome :: "time \<Rightarrow> int \<Rightarrow> ('w, goerr + payment list) state"
  rp_FindWithPendingRefunds :: "time \<Rightarrow> int \<Rightarrow> ('w, goerr + payment list) state"

section \<open>Cache, attempts, clock\<close>

text \<open>
  A cached text is kept as what \<open>json.Unmarshal\<close> reads it as: the JSON value it encodes, or a text
  that is not JSON.
\<close>

datatype cache_text = JsonText json | OtherText string

record 'w cache_port =
  cp_Get :: "string \<Rightarrow> ('w, goerr + cache_text) state"
  cp_Set :: "string \<Rightarrow> cache_text \<Rightarrow> duration \<Rightarrow> ('w, goerr option) state"
  cp_SetNX :: "string \<Rightarrow> cache_text \<Rightarrow> duration \<Rightarrow> ('w, goerr + bool) state"
  cp_Delete :: "string \<Rightarrow> ('w, goerr option) state"

datatype gateway_operation = OperationCharge | OperationCancel | OperationRefund | OperationStatus

fun operation_str :: "gateway_operation \<Rightarrow> string" where
  "operation_str OperationCharge = ''CHARGE''"
| "operation_str OperationCancel = ''CANCEL''"
| "operation_str OperationRefund = ''REFUND''"
| "operation_str OperationStatus = ''STATUS''"

datatype attempt_outcome = AttemptUnset | AttemptSucceeded | AttemptFailed | AttemptUnknown

fun outcome_str :: "attempt_outcome \<Rightarrow> string" where
  "outcome_str AttemptUnset = []"
| "outcome_str AttemptSucceeded = ''SUCCEEDED''"
| "outcome_str AttemptFailed = ''FAILED''"
| "outcome_str AttemptUnknown = ''UNKNOWN''"

record attempt =
  at_PaymentID :: uuid
  at_RefundID :: "uuid option"
  at_Operation :: gateway_operation
  at_Outcome :: attempt_outcome
  at_GatewayTransactionID :: string
  at_ErrorCode :: string
  at_ErrorMessage :: string
  at_Duration :: duration
  at_GatewayResponse :: "jobj option"

text \<open>An attempt with the fields every literal of the source sets; the others are zero values.\<close>

definition new_attempt :: "uuid \<Rightarrow> gateway_operation \<Rightarrow> string \<Rightarrow> duration \<Rightarrow> attempt_outcome \<Rightarrow> attempt" where
  "new_attempt pid op tx d out =
     \<lparr>at_PaymentID = pid, at_RefundID = None, at_Operation = op, at_Outcome = out,
      at_GatewayTransactionID = tx, at_ErrorCode = [], at_ErrorMessage = [], at_Duration = d,
      at_GatewayResponse = None\<rparr>"

text \<open>\<open>ports/admin.go\<close>: what the administrator reads, past the repository.\<close>

record admin_attempt =
  aa_ID :: uuid
  aa_Operation :: string
  aa_RefundID :: "uuid option"
  aa_AttemptNumber :: int
  aa_Status :: string
  aa_ErrorCode :: string
  aa_ErrorMessage :: string
  aa_GatewayTransactionID :: string
  aa_DurationMs :: int
  aa_CreatedAt :: time

record admin_event =
  ae_ID :: uuid
  ae_EventType :: string
  ae_SequenceNumber :: int
  ae_Payload :: string
  ae_CreatedAt :: time

record admin_refund =
  af_ID :: uuid
  af_ReferenceID :: string
  af_GatewayRefundID :: string
  af_Status :: string
  af_Amount :: int64
  af_Reason :: string
  af_CreatedAt :: time

record outbox_stats =
  os_Pending :: int
  os_Published :: int
  os_Failed :: int
  os_OldestPendingAgeSecs :: int

record 'w admin_reader =
  ad_GetPaymentAttempts :: "uuid \<Rightarrow> ('w, goerr + admin_attempt list) state"
  ad_GetPaymentEvents :: "uuid \<Rightarrow> ('w, goerr + admin_event list) state"
  ad_GetRefunds :: "uuid \<Rightarrow> ('w, goerr + admin_refund list) state"
  ad_GetOutboxStats :: "('w, goerr + outbox_stats) state"

text \<open>
  \<open>rt_float\<close> is what \<open>strconv\<close> makes of a number literal that is decoded as a \<open>float64\<close> and printed
  again; none when it does not fit.
\<close>

record 'w runtime =
  rt_Now :: "('w, time) state"
  rt_NewUUID :: "('w, uuid) state"
  rt_lib :: uuid_lib
  rt_float :: "string \<Rightarrow> string option"

record 'w service =
  sv_repo :: "'w repository"
  sv_factory :: "string \<Rightarrow> goerr + 'w gateway_port"
  sv_cache :: "'w cache_port"
  sv_attempts :: "(attempt \<Rightarrow> ('w, goerr option) state) option"
  sv_admin :: "'w admin_reader"
  sv_rt :: "'w runtime"

abbreviation Now :: "'w service \<Rightarrow> ('w, time) state" where
  "Now S \<equiv> rt_Now (sv_rt S)"

abbreviation lib :: "'w service \<Rightarrow> uuid_lib" where
  "lib S \<equiv> rt_lib (sv_rt S)"

text \<open>\<open>time.Since(started)\<close>.\<close>

definition Since :: "'w service \<Rightarrow> time \<Rightarrow> ('w, duration) state" where
  "Since S started = do { now \<leftarrow> Now S; State_Monad.return (time_Sub now started) }"

text \<open>
  \<open>err = h.repo.Save(ctx, p)\<close> followed by \<open>if err != nil { return err }\<close>; an operation of the
  aggregate at the current time followed by the same check.
\<close>

definition SaveE :: "'w service \<Rightarrow> payment \<Rightarrow> ('w, goerr + payment) state" where
  "SaveE S p = do {
     (err, p') \<leftarrow> rp_Save (sv_repo S) p;
     State_Monad.return (case err of None \<Rightarrow> Inr p' | Some e \<Rightarrow> Inl e)
   }"

definition at_now :: "'w service \<Rightarrow> (time \<Rightarrow> goerr + 'a) \<Rightarrow> ('w, goerr + 'a) state" where
  "at_now S f = do { now \<leftarrow> Now S; State_Monad.return (f now) }"

section \<open>Cached views\<close>

definition PaymentCacheKey :: "string \<Rightarrow> string" where
  "PaymentCacheKey paymentID = ''payment:'' @ paymentID"

definition ReferenceCacheKey :: "string \<Rightarrow> string \<Rightarrow> string" where
  "ReferenceCacheKey callerService referenceID =
     ''reference:'' @ callerService @ '':'' @ referenceID"

definition DropCachedPayment :: "'w service \<Rightarrow> payment \<Rightarrow> ('w, unit) state" where
  "DropCachedPayment S p = do {
     _ \<leftarrow> cp_Delete (sv_cache S) (PaymentCacheKey (uuid_String (lib S) (p_ID p)));
     _ \<leftarrow> cp_Delete (sv_cache S) (ReferenceCacheKey (p_CallerService p) (p_ReferenceID p));
     State_Monad.return ()
   }"

text \<open>The keys of \<open>middleware/idempotency.go\<close> share one prefix, and no view has such a key.\<close>

definition idem_prefix :: string where "idem_prefix = ''idempotency:''"

definition idem_key :: "string \<Rightarrow> bool" where
  "idem_key k \<longleftrightarrow> str_HasPrefix k idem_prefix"

lemma view_key_not_idem [simp]: "\<not> idem_key (PaymentCacheKey s)" "\<not> idem_key (ReferenceCacheKey c r)"
  by (simp_all add: idem_key_def idem_prefix_def str_HasPrefix_def PaymentCacheKey_def ReferenceCacheKey_def)

section \<open>Attempts\<close>

definition recordAttempt :: "'w service \<Rightarrow> attempt \<Rightarrow> ('w, unit) state" where
  "recordAttempt S a =
     (case sv_attempts S of
        None \<Rightarrow> State_Monad.return ()
      | Some Record \<Rightarrow> do { _ \<leftarrow> Record a; State_Monad.return () })"

definition failedAttempt :: "attempt \<Rightarrow> goerr \<Rightarrow> attempt" where
  "failedAttempt a err =
     a\<lparr>at_Outcome := (if is_unknown_outcome err then AttemptUnknown else AttemptFailed),
       at_ErrorCode := (case errors_As err of Some (c, _) \<Rightarrow> code_str c | None \<Rightarrow> ''ERROR''),
       at_ErrorMessage := error_text err\<rparr>"

end
