(* ===== verification/Commands.thy ===== *)
theory Commands
  imports Ports
begin

text \<open>
  The write side, \<open>internal/application/command\<close> and the expiry job of
  \<open>adapter/outbound/postgres/expiry_job.go\<close>: one definition per function, in code order, every
  call of a port included. \<open>SaveE\<close>, \<open>at_now\<close> and \<open>bindE\<close> are the source's \<open>if err != nil { return }\<close>.
  Log lines are left out; they have no effect on the state.
\<close>

section \<open>Create\<close>

record create_payment_command =
  cc_ReferenceID :: string
  cc_CallerService :: string
  cc_Amount :: int64
  cc_Currency :: string
  cc_GatewayType :: string
  cc_PaymentMethodType :: string
  cc_BankCode :: string
  cc_CardToken :: string
  cc_ReturnURL :: string
  cc_CustomerName :: string
  cc_CustomerEmail :: string
  cc_CustomerPhone :: string
  cc_CustomerExternalID :: string
  cc_Description :: string
  cc_ExpiredAt :: "time option"
  cc_Metadata :: "jobj option"

definition charge_request :: "uuid_lib \<Rightarrow> create_payment_command \<Rightarrow> method_name \<Rightarrow> payment \<Rightarrow> create_transaction_request" where
  "charge_request L cmd m p =
     \<lparr>tq_PaymentID = uuid_String L (p_ID p), tq_ReferenceID = cc_ReferenceID cmd,
      tq_Amount = cc_Amount cmd, tq_Currency = cc_Currency cmd, tq_PaymentMethod = m,
      tq_BankCode = cc_BankCode cmd, tq_CardToken = cc_CardToken cmd,
      tq_ReturnURL = cc_ReturnURL cmd, tq_CustomerName = cc_CustomerName cmd,
      tq_CustomerEmail = cc_CustomerEmail cmd, tq_CustomerPhone = cc_CustomerPhone cmd,
      tq_Description = cc_Description cmd, tq_ExpiredAt = cc_ExpiredAt cmd,
      tq_Metadata = cc_Metadata cmd\<rparr>"

definition chargeFailed :: "'w service \<Rightarrow> payment \<Rightarrow> goerr \<Rightarrow> ('w, goerr) state" where
  "chargeFailed S p err =
     (if is_unknown_outcome err then do {
        saved \<leftarrow> SaveE S p;
        State_Monad.return (case saved of
            Inl _ \<Rightarrow> err
          | Inr _ \<Rightarrow> GatewayError (''the gateway did not confirm the charge; payment '' @
              uuid_String (lib S) (p_ID p) @ '' will be reconciled shortly, check GET /payments/'' @
              uuid_String (lib S) (p_ID p)) (Some err))
      } else do {
        failed \<leftarrow> at_now S (\<lambda>now. MarkFailed now ''GATEWAY_ERROR'' (error_text err) p);
        _ \<leftarrow> SaveE S (case failed of Inl _ \<Rightarrow> p | Inr p' \<Rightarrow> p');
        State_Monad.return err
      })"

text \<open>What happens to the new payment after the gateway has answered the charge.\<close>

definition charge_answered ::
  "'w service \<Rightarrow> payment \<Rightarrow> gateway_response \<Rightarrow> ('w, goerr + payment \<times> next_action) state" where
  "charge_answered S p resp =
     bindE (at_now S (\<lambda>now. MarkPending now (gr_GatewayTransactionID resp) (gr_RawResponse resp) p)) (\<lambda>p.
     bindE (case gr_Status resp of
              TransactionSettled \<Rightarrow> do { paid \<leftarrow> Now S; at_now S (\<lambda>now. MarkCompleted now paid p) }
            | TransactionFailed \<Rightarrow>
                at_now S (\<lambda>now. MarkFailed now ''DECLINED'' ''declined by gateway at charge time'' p)
            | _ \<Rightarrow> State_Monad.return (Inr p)) (\<lambda>p.
     bindE (SaveE S p) (\<lambda>p.
     State_Monad.return (Inr (p, gr_NextAction resp)))))"

definition charge_attempt :: "payment \<Rightarrow> duration \<Rightarrow> gateway_response \<Rightarrow> attempt" where
  "charge_attempt p d resp =
     (let a = (new_attempt (p_ID p) OperationCharge [] d AttemptSucceeded)
                \<lparr>at_GatewayTransactionID := gr_GatewayTransactionID resp,
                 at_GatewayResponse := gr_RawResponse resp\<rparr>
      in if gr_Status resp = TransactionFailed
         then a\<lparr>at_Outcome := AttemptFailed, at_ErrorCode := ''DECLINED''\<rparr> else a)"

definition charge ::
  "'w service \<Rightarrow> 'w gateway_port \<Rightarrow> create_payment_command \<Rightarrow> method_name \<Rightarrow> payment
   \<Rightarrow> ('w, goerr + payment \<times> next_action) state" where
  "charge S gw cmd m p = do {
     started \<leftarrow> Now S;
     resp \<leftarrow> gw_CreateTransaction gw (charge_request (lib S) cmd m p);
     (case resp of
        Inl err \<Rightarrow>
          if IsCode (Some err) CodeInvalidInput then State_Monad.return (Inl err)
          else do {
            d \<leftarrow> Since S started;
            recordAttempt S (failedAttempt (new_attempt (p_ID p) OperationCharge [] d AttemptUnset) err);
            e \<leftarrow> chargeFailed S p err;
            State_Monad.return (Inl e)
          }
      | Inr resp \<Rightarrow> do {
          d \<leftarrow> Since S started;
          recordAttempt S (charge_attempt p d resp);
          charge_answered S p resp
        })
   }"

definition new_payment :: "create_payment_command \<Rightarrow> money \<Rightarrow> method_name \<Rightarrow> time \<Rightarrow> uuid \<Rightarrow> goerr + payment" where
  "new_payment cmd money m now uid =
     New now uid (cc_ReferenceID cmd) (cc_CallerService cmd) money (cc_GatewayType cmd) m
       \<lparr>c_ExternalID = cc_CustomerExternalID cmd, c_Name = cc_CustomerName cmd,
        c_Email = cc_CustomerEmail cmd, c_Phone = cc_CustomerPhone cmd\<rparr>
       (cc_Description cmd) (cc_ExpiredAt cmd) (cc_Metadata cmd)"

definition CreatePayment_Handle ::
  "'w service \<Rightarrow> create_payment_command \<Rightarrow> ('w, goerr + payment \<times> next_action) state" where
  "CreatePayment_Handle S cmd =
     (case NewMoney (cc_Amount cmd) (cc_Currency cmd) of
        Inl err \<Rightarrow> State_Monad.return (Inl (InvalidInput (error_text err)))
      | Inr money \<Rightarrow>
     (case ParseMethod (cc_PaymentMethodType cmd) of
        Inl err \<Rightarrow> State_Monad.return (Inl err)
      | Inr m \<Rightarrow> do {
          now \<leftarrow> Now S;
          uid \<leftarrow> rt_NewUUID (sv_rt S);
          (case new_payment cmd money m now uid of
             Inl err \<Rightarrow> State_Monad.return (Inl err)
           | Inr p \<Rightarrow> do {
               existing \<leftarrow> rp_FindByReference (sv_repo S) (cc_ReferenceID cmd) (cc_CallerService cmd);
               (case existing of
                  Inr ex \<Rightarrow> State_Monad.return (Inl (AlreadyExists
                    (''payment '' @ uuid_String (lib S) (p_ID ex) @ '' already exists for reference_id '' @
                     cc_ReferenceID cmd @ '' (status '' @ status_str (p_Status ex) @ '')'')))
                | Inl err \<Rightarrow>
                    if \<not> IsCode (Some err) CodeNotFound then State_Monad.return (Inl err)
                    else (case sv_factory S (cc_GatewayType cmd) of
                        Inl _ \<Rightarrow> State_Monad.return (Inl (InvalidInput
                          (''unsupported gateway: '' @ cc_GatewayType cmd)))
                      | Inr gw \<Rightarrow>
                          if \<not> mc_Charge (gw_Capability gw m) then
                            State_Monad.return (Inl (InvalidInput (cc_GatewayType cmd @
                              '' does not support payment_method_type '' @ m)))
                          else charge S gw cmd m p))
             })
        }))"

section \<open>Cancel and force-expire\<close>

definition cancel_at_gateway :: "'w service \<Rightarrow> payment \<Rightarrow> ('w, unit) state" where
  "cancel_at_gateway S p =
     (case sv_factory S (p_GatewayType p) of
        Inr gw \<Rightarrow>
          if p_GatewayTransactionID p \<noteq> [] then do {
            started \<leftarrow> Now S;
            cancelErr \<leftarrow> gw_CancelTransaction gw (p_GatewayTransactionID p);
            d \<leftarrow> Since S started;
            let a = new_attempt (p_ID p) OperationCancel (p_GatewayTransactionID p) d AttemptSucceeded
            in recordAttempt S (case cancelErr of None \<Rightarrow> a | Some e \<Rightarrow> failedAttempt a e)
          } else State_Monad.return ()
      | Inl _ \<Rightarrow> State_Monad.return ())"

definition CancelPayment_Handle :: "'w service \<Rightarrow> uuid \<Rightarrow> string \<Rightarrow> ('w, goerr + unit) state" where
  "CancelPayment_Handle S paymentID callerService =
     bindE (rp_FindByID (sv_repo S) paymentID) (\<lambda>p.
     if p_CallerService p \<noteq> callerService then
       State_Monad.return (Inl (NotFound (''payment not found: '' @ uuid_String (lib S) paymentID)))
     else
     bindE (at_now S (\<lambda>now. Cancel now p)) (\<lambda>p. do {
       cancel_at_gateway S p;
       bindE (SaveE S p) (\<lambda>p. do {
         DropCachedPayment S p;
         State_Monad.return (Inr ())
       })
     }))"

definition ForceExpire_Handle :: "'w service \<Rightarrow> uuid \<Rightarrow> ('w, goerr + unit) state" where
  "ForceExpire_Handle S paymentID =
     bindE (rp_FindByID (sv_repo S) paymentID) (\<lambda>p.
     bindE (at_now S (\<lambda>now. MarkExpired now p)) (\<lambda>p.
     bindE (SaveE S p) (\<lambda>p. do {
       DropCachedPayment S p;
       State_Monad.return (Inr ())
     })))"

section \<open>The expiry job\<close>

definition expiryLockKey :: string where "expiryLockKey = ''lock:expiry-job''"
definition expiryLockTTL :: duration where "expiryLockTTL = 90 * time_Second"
definition expiryBatch :: int where "expiryBatch = 100"

definition expireOne :: "'w service \<Rightarrow> payment \<Rightarrow> ('w, goerr + unit) state" where
  "expireOne S p = do {
     now \<leftarrow> Now S;
     if (case p_ExpiredAt p of Some t \<Rightarrow> t > now | None \<Rightarrow> False) then State_Monad.return (Inr ())
     else
       bindE (at_now S (\<lambda>now. MarkExpired now p)) (\<lambda>p.
       bindE (SaveE S p) (\<lambda>p. do {
         DropCachedPayment S p;
         State_Monad.return (Inr ())
       }))
   }"

definition ExpiryJob_RunOnce :: "'w service \<Rightarrow> ('w, unit) state" where
  "ExpiryJob_RunOnce S = do {
     acquired \<leftarrow> cp_SetNX (sv_cache S) expiryLockKey (JsonText (JNum ''1'')) expiryLockTTL;
     (case acquired of
        Inr True \<Rightarrow> do {
          expired \<leftarrow> rp_FindExpired (sv_repo S) expiryBatch;
          (case expired of
             Inl _ \<Rightarrow> State_Monad.return ()
           | Inr ps \<Rightarrow> foldS (\<lambda>p u. do { _ \<leftarrow> expireOne S p; State_Monad.return () }) ps ());
          _ \<leftarrow> cp_Delete (sv_cache S) expiryLockKey;
          State_Monad.return ()
        }
      | _ \<Rightarrow> State_Monad.return ())
   }"

section \<open>Gateway notifications\<close>

text \<open>
  \<open>findPayment\<close>: the payment the notification names, or, when there is none, the one with its
  transaction.
\<close>

definition findPayment :: "'w service \<Rightarrow> webhook_notification \<Rightarrow> ('w, goerr + payment) state" where
  "findPayment S n =
     (case uuid_Parse (lib S) (wn_PaymentID n) of
        None \<Rightarrow> rp_FindByGatewayTransactionID (sv_repo S) (wn_GatewayTransactionID n)
      | Some uid \<Rightarrow> do {
          r \<leftarrow> rp_FindByID (sv_repo S) uid;
          (case r of
             Inr p \<Rightarrow> State_Monad.return (Inr p)
           | Inl err \<Rightarrow>
               if \<not> IsCode (Some err) CodeNotFound then State_Monad.return (Inl err)
               else rp_FindByGatewayTransactionID (sv_repo S) (wn_GatewayTransactionID n))
        })"

text \<open>One turn of the loop of \<open>applyRefundNotifications\<close>: which refund it completes, if any.\<close>

definition notified_refund :: "uuid_lib \<Rightarrow> payment \<Rightarrow> refund_notification \<Rightarrow> refund option" where
  "notified_refund L p rn =
     (case (case uuid_Parse L (rn_RefundKey rn) of Some uid \<Rightarrow> find_Refund uid p | None \<Rightarrow> None) of
        None \<Rightarrow> None
      | Some r \<Rightarrow>
          if r_Status r \<noteq> RefundStatusPending then None
          else if rn_Amount rn \<noteq> 0 \<and> rn_Amount rn \<noteq> r_Amount r then None
          else Some r)"

fun applyRefundNotifications ::
  "'w service \<Rightarrow> payment \<Rightarrow> bool \<Rightarrow> refund_notification list \<Rightarrow> ('w, goerr + payment \<times> bool) state" where
  "applyRefundNotifications S p changed [] = State_Monad.return (Inr (p, changed))"
| "applyRefundNotifications S p changed (rn # rns) =
     (case notified_refund (lib S) p rn of
        None \<Rightarrow> applyRefundNotifications S p changed rns
      | Some r \<Rightarrow>
          bindE (at_now S (\<lambda>now. CompleteRefund (lib S) now (r_ID r) (rn_GatewayRefundID rn) p)) (\<lambda>p.
          applyRefundNotifications S p True rns))"

text \<open>
  The two steps that follow: a final status settles an INITIATED payment after recording its
  transaction, and moves a payment that is not terminal.
\<close>

definition callback_initiated ::
  "'w service \<Rightarrow> webhook_notification \<Rightarrow> payment \<Rightarrow> bool \<Rightarrow> ('w, goerr + payment \<times> bool) state" where
  "callback_initiated S n p changed =
     (if p_Status p = StatusInitiated \<and> wn_GatewayTransactionID n \<noteq> [] \<and>
         (wn_Status n = TransactionSettled \<or> wn_Status n = TransactionFailed) then
        bindE (at_now S (\<lambda>now. MarkPending now (wn_GatewayTransactionID n) None p)) (\<lambda>p.
        State_Monad.return (Inr (p, True)))
      else State_Monad.return (Inr (p, changed)))"

definition callback_status ::
  "'w service \<Rightarrow> webhook_notification \<Rightarrow> payment \<Rightarrow> bool \<Rightarrow> ('w, goerr + payment \<times> bool) state" where
  "callback_status S n p changed =
     (if \<not> IsTerminal (p_Status p) then
        (case wn_Status n of
           TransactionSettled \<Rightarrow>
             bindE (do { paid \<leftarrow> Now S; at_now S (\<lambda>now. MarkCompleted now paid p) }) (\<lambda>p.
             State_Monad.return (Inr (p, True)))
         | TransactionFailed \<Rightarrow>
             bindE (at_now S (\<lambda>now. MarkFailed now (wn_GatewayStatus n)
                      (''gateway status: '' @ wn_GatewayStatus n) p)) (\<lambda>p.
             State_Monad.return (Inr (p, True)))
         | _ \<Rightarrow> State_Monad.return (Inr (p, changed)))
      else State_Monad.return (Inr (p, changed)))"

definition ProcessCallback_Handle ::
  "'w service \<Rightarrow> string \<Rightarrow> string \<Rightarrow> headers \<Rightarrow> ('w, goerr + unit) state" where
  "ProcessCallback_Handle S gatewayType rawPayload hdrs =
     (case sv_factory S gatewayType of
        Inl _ \<Rightarrow> State_Monad.return (Inl (InvalidInput (''unknown gateway: '' @ gatewayType)))
      | Inr gw \<Rightarrow>
     (case gw_ParseWebhook gw rawPayload hdrs of
        Inl err \<Rightarrow> State_Monad.return (Inl err)
      | Inr n \<Rightarrow>
          bindE (findPayment S n) (\<lambda>p.
          bindE (applyRefundNotifications S p False (wn_Refunds n)) (\<lambda>(p, changed).
          bindE (callback_initiated S n p changed) (\<lambda>(p, changed).
          bindE (callback_status S n p changed) (\<lambda>(p, changed).
          if \<not> changed then State_Monad.return (Inr ())
          else
            bindE (SaveE S p) (\<lambda>p. do {
              DropCachedPayment S p;
              State_Monad.return (Inr ())
            })))))))"

section \<open>Refunds\<close>

record refund_payment_command =
  rc_PaymentID :: uuid
  rc_ReferenceID :: string
  rc_Amount :: int64
  rc_Reason :: string
  rc_CallerService :: string
  rc_Admin :: bool

record refund_payment_result =
  rpr_Payment :: payment
  rpr_Refund :: "refund option"
  rpr_Replayed :: bool

definition refund_attempt :: "payment \<Rightarrow> uuid \<Rightarrow> duration \<Rightarrow> goerr + refund_result \<Rightarrow> attempt" where
  "refund_attempt p rid d res =
     (let a = (new_attempt (p_ID p) OperationRefund (p_GatewayTransactionID p) d AttemptUnset)
                \<lparr>at_RefundID := Some rid\<rparr>
      in (case res of
            Inl err \<Rightarrow> (failedAttempt a err)\<lparr>at_Outcome := AttemptUnknown\<rparr>
          | Inr r \<Rightarrow>
              if rr_Accepted r then
                a\<lparr>at_Outcome := AttemptSucceeded, at_GatewayResponse := rr_RawResponse r\<rparr>
              else
                a\<lparr>at_Outcome := AttemptFailed, at_GatewayResponse := rr_RawResponse r,
                  at_ErrorCode := ''DECLINED'', at_ErrorMessage := rr_DeclineReason r\<rparr>))"

definition callRefund ::
  "'w service \<Rightarrow> 'w gateway_port \<Rightarrow> payment \<Rightarrow> refund \<Rightarrow> ('w, goerr + refund_result) state" where
  "callRefund S gw p r = do {
     started \<leftarrow> Now S;
     res \<leftarrow> gw_CreateRefund gw
       \<lparr>rq_GatewayTransactionID = p_GatewayTransactionID p, rq_RefundKey = uuid_String (lib S) (r_ID r),
        rq_Amount = r_Amount r, rq_Reason = r_Reason r\<rparr>;
     d \<leftarrow> Since S started;
     recordAttempt S (refund_attempt p (r_ID r) d res);
     State_Monad.return res
   }"

text \<open>The closure \<open>apply\<close> of the handler: the gateway's decision on the refund.\<close>

definition settleRefund :: "uuid_lib \<Rightarrow> uuid \<Rightarrow> refund_result \<Rightarrow> time \<Rightarrow> payment \<Rightarrow> goerr + payment" where
  "settleRefund L rid res now p =
     (if rr_Accepted res then CompleteRefund L now rid (rr_GatewayRefundID res) p
      else FailRefund L now rid (rr_DeclineReason res) p)"

definition saveOutcome ::
  "'w service \<Rightarrow> payment \<Rightarrow> (time \<Rightarrow> payment \<Rightarrow> goerr + payment) \<Rightarrow> ('w, goerr + payment) state" where
  "saveOutcome S p fn =
     bindE (at_now S (\<lambda>now. fn now p)) (\<lambda>p. do {
       saved \<leftarrow> SaveE S p;
       (case saved of
          Inr p' \<Rightarrow> State_Monad.return (Inr p')
        | Inl err \<Rightarrow>
            if \<not> IsCode (Some err) CodeConflict then State_Monad.return (Inl err)
            else
              bindE (rp_FindByID (sv_repo S) (p_ID p)) (\<lambda>fresh.
              bindE (at_now S (\<lambda>now. fn now fresh)) (\<lambda>fresh.
              SaveE S fresh)))
     })"

text \<open>What the handler checks before it reserves anything: the amount, or why not.\<close>

definition refund_amount :: "refund_payment_command \<Rightarrow> 'w gateway_port \<Rightarrow> payment \<Rightarrow> goerr + int64" where
  "refund_amount cmd gw p =
     (let cap = gw_Capability gw (p_PaymentMethodType p);
          amount = (if rc_Amount cmd = 0 then RefundableAmount p else rc_Amount cmd)
      in if \<not> mc_Refund cap then
           Inl (InvalidState (p_PaymentMethodType p @ '' payments can't be refunded through '' @
             p_GatewayType p @ ''; refund the customer outside PayGate''))
         else if \<not> mc_PartialRefund cap \<and>
                 (amount \<noteq> m_Amount (p_Amount p) \<or> RefundableAmount p \<noteq> m_Amount (p_Amount p)) then
           Inl (InvalidInput (p_PaymentMethodType p @ '' payments can only be refunded in full''))
         else Inr amount)"

text \<open>The second half of the handler: the refund is on the payment; reserve it, call, record.\<close>

definition refund_reserved ::
  "'w service \<Rightarrow> 'w gateway_port \<Rightarrow> payment \<Rightarrow> refund \<Rightarrow> ('w, goerr + refund_payment_result) state" where
  "refund_reserved S gw p r =
     bindE (SaveE S p) (\<lambda>p. do {
       DropCachedPayment S p;
       called \<leftarrow> callRefund S gw p r;
       (case called of
          Inl _ \<Rightarrow> State_Monad.return (Inr \<lparr>rpr_Payment = p, rpr_Refund = Some r, rpr_Replayed = False\<rparr>)
        | Inr res \<Rightarrow>
            bindE (saveOutcome S p (settleRefund (lib S) (r_ID r) res)) (\<lambda>p. do {
              DropCachedPayment S p;
              State_Monad.return (Inr \<lparr>rpr_Payment = p, rpr_Refund = find_Refund (r_ID r) p,
                                       rpr_Replayed = False\<rparr>)
            }))
     })"

definition RefundPayment_Handle ::
  "'w service \<Rightarrow> refund_payment_command \<Rightarrow> ('w, goerr + refund_payment_result) state" where
  "RefundPayment_Handle S cmd =
     bindE (rp_FindByID (sv_repo S) (rc_PaymentID cmd)) (\<lambda>p.
     if \<not> rc_Admin cmd \<and> p_CallerService p \<noteq> rc_CallerService cmd then
       State_Monad.return (Inl (NotFound (''payment not found: '' @
         uuid_String (lib S) (rc_PaymentID cmd))))
     else if rc_ReferenceID cmd = [] then
       State_Monad.return (Inl (InvalidInput ''reference_id is required''))
     else (case RefundByReference (rc_ReferenceID cmd) p of
       Some ex \<Rightarrow>
         State_Monad.return
           (if rc_Amount cmd \<noteq> 0 \<and> rc_Amount cmd \<noteq> r_Amount ex then
              Inl (IdempotencyConflict ''refund reference_id was already used with a different amount'')
            else Inr \<lparr>rpr_Payment = p, rpr_Refund = Some ex, rpr_Replayed = True\<rparr>)
     | None \<Rightarrow>
       (case sv_factory S (p_GatewayType p) of
          Inl err \<Rightarrow> State_Monad.return (Inl (Internal (''no gateway configured for '' @ p_GatewayType p) (Some err)))
        | Inr gw \<Rightarrow>
       (case refund_amount cmd gw p of
          Inl err \<Rightarrow> State_Monad.return (Inl err)
        | Inr amount \<Rightarrow> do {
            now \<leftarrow> Now S;
            uid \<leftarrow> rt_NewUUID (sv_rt S);
            (case RequestRefund now uid (rc_ReferenceID cmd) amount (rc_Reason cmd)
                    (if rc_Admin cmd then ''admin'' else rc_CallerService cmd) p of
               Inl err \<Rightarrow> State_Monad.return (Inl err)
             | Inr (p', r) \<Rightarrow> refund_reserved S gw p' r)
          }))))"

end
