(* ===== verification/Reconcile.thy ===== *)
theory Reconcile
  imports Commands
begin

text \<open>
  The reconciler, \<open>internal/application/command/reconcile.go\<close>: it settles charges whose reply was
  lost and refunds that are still pending. \<open>Run\<close> is its ticker loop: one turn is
  \<open>tick_reconciler\<close>. \<open>NewReconciler\<close> replaces the configuration by \<open>withDefaults\<close> of it.
\<close>

record reconcile_config =
  rcf_ChargeGrace :: duration
  rcf_RefundGrace :: duration
  rcf_RefundRetryAfter :: duration
  rcf_RefundGiveUpAfter :: duration
  rcf_BatchSize :: int

definition withDefaults :: "reconcile_config \<Rightarrow> reconcile_config" where
  "withDefaults c =
     \<lparr>rcf_ChargeGrace = (if rcf_ChargeGrace c = 0 then 2 * time_Minute else rcf_ChargeGrace c),
      rcf_RefundGrace = (if rcf_RefundGrace c = 0 then 5 * time_Minute else rcf_RefundGrace c),
      rcf_RefundRetryAfter =
        (if rcf_RefundRetryAfter c = 0 then 30 * time_Minute else rcf_RefundRetryAfter c),
      rcf_RefundGiveUpAfter =
        (if rcf_RefundGiveUpAfter c = 0 then 6 * 24 * time_Hour else rcf_RefundGiveUpAfter c),
      rcf_BatchSize = (if rcf_BatchSize c = 0 then 50 else rcf_BatchSize c)\<rparr>"

definition oldestPendingRefund :: "payment \<Rightarrow> refund option" where
  "oldestPendingRefund p = List.find (\<lambda>r. r_Status r = RefundStatusPending) (p_Refunds p)"

definition lookup_attempt ::
  "payment \<Rightarrow> refund option \<Rightarrow> duration \<Rightarrow> goerr + transaction_state \<Rightarrow> attempt" where
  "lookup_attempt p forRefund d res =
     (let a = (new_attempt (p_ID p) OperationStatus (p_GatewayTransactionID p) d AttemptUnset)
                \<lparr>at_RefundID := map_option r_ID forRefund\<rparr>
      in (case res of
            Inl err \<Rightarrow> failedAttempt a err
          | Inr st \<Rightarrow>
              a\<lparr>at_Outcome := AttemptSucceeded, at_GatewayResponse := ts_RawResponse st,
                at_GatewayTransactionID :=
                  (if ts_GatewayTransactionID st \<noteq> [] then ts_GatewayTransactionID st
                   else p_GatewayTransactionID p)\<rparr>))"

definition gw_lookup ::
  "'w service \<Rightarrow> 'w gateway_port \<Rightarrow> payment \<Rightarrow> refund option \<Rightarrow> ('w, goerr + transaction_state) state" where
  "gw_lookup S gw p forRefund = do {
     started \<leftarrow> Now S;
     res \<leftarrow> gw_GetTransaction gw \<lparr>tr_PaymentID = uuid_String (lib S) (p_ID p),
                                   tr_GatewayTransactionID = p_GatewayTransactionID p\<rparr>;
     d \<leftarrow> Since S started;
     recordAttempt S (lookup_attempt p forRefund d res);
     State_Monad.return res
   }"

definition gw_cancel :: "'w service \<Rightarrow> 'w gateway_port \<Rightarrow> payment \<Rightarrow> string \<Rightarrow> ('w, bool) state" where
  "gw_cancel S gw p gatewayTxID = do {
     started \<leftarrow> Now S;
     err \<leftarrow> gw_CancelTransaction gw gatewayTxID;
     d \<leftarrow> Since S started;
     (let a = new_attempt (p_ID p) OperationCancel gatewayTxID d AttemptSucceeded
      in recordAttempt S (case err of None \<Rightarrow> a | Some e \<Rightarrow> failedAttempt a e));
     State_Monad.return (err = None)
   }"

definition reconcile_save :: "'w service \<Rightarrow> payment \<Rightarrow> ('w, unit) state" where
  "reconcile_save S p = do {
     saved \<leftarrow> SaveE S p;
     (case saved of Inl _ \<Rightarrow> State_Monad.return () | Inr p \<Rightarrow> DropCachedPayment S p)
   }"

text \<open>
  The transaction the gateway knows is recorded first, then the payment moves on to the outcome.
  A \<open>None\<close> of \<open>charge_outcome\<close> means that the payment is left as it is.
\<close>

definition record_then ::
  "'w service \<Rightarrow> transaction_state \<Rightarrow> payment \<Rightarrow> (payment \<Rightarrow> ('w, goerr + payment) state)
   \<Rightarrow> ('w, goerr + payment) state" where
  "record_then S st p next_step =
     bindE (at_now S (\<lambda>now. MarkPending now (ts_GatewayTransactionID st) (ts_RawResponse st) p)) next_step"

definition charge_outcome ::
  "'w service \<Rightarrow> 'w gateway_port \<Rightarrow> transaction_state \<Rightarrow> payment \<Rightarrow> ('w, (goerr + payment) option) state" where
  "charge_outcome S gw st p =
     (if \<not> ts_Found st then do {
        r \<leftarrow> at_now S (\<lambda>now. MarkFailed now ''CHARGE_NOT_CREATED''
               ''the gateway has no record of the charge'' p);
        State_Monad.return (Some r)
      } else (case ts_Status st of
          TransactionSettled \<Rightarrow> do {
            r \<leftarrow> record_then S st p (\<lambda>p. do { paid \<leftarrow> Now S; at_now S (\<lambda>now. MarkCompleted now paid p) });
            State_Monad.return (Some r)
          }
        | TransactionFailed \<Rightarrow> do {
            r \<leftarrow> record_then S st p (\<lambda>p. at_now S (\<lambda>now. MarkFailed now (ts_GatewayStatus st)
                   (''gateway status: '' @ ts_GatewayStatus st) p));
            State_Monad.return (Some r)
          }
        | TransactionPending \<Rightarrow> do {
            cancelled \<leftarrow> gw_cancel S gw p (ts_GatewayTransactionID st);
            if \<not> cancelled then State_Monad.return None
            else do {
              r \<leftarrow> record_then S st p (\<lambda>p. at_now S (\<lambda>now. MarkFailed now ''CHARGE_REPLY_LOST''
                     ''the charge reply was lost before the caller got payment instructions; cancelled at the gateway'' p));
              State_Monad.return (Some r)
            }
          }
        | _ \<Rightarrow> State_Monad.return None))"

definition reconcileCharge :: "'w service \<Rightarrow> payment \<Rightarrow> ('w, unit) state" where
  "reconcileCharge S p =
     (case sv_factory S (p_GatewayType p) of
        Inl _ \<Rightarrow> State_Monad.return ()
      | Inr gw \<Rightarrow> do {
          res \<leftarrow> gw_lookup S gw p None;
          (case res of
             Inl _ \<Rightarrow> State_Monad.return ()
           | Inr st \<Rightarrow> do {
               out \<leftarrow> charge_outcome S gw st p;
               (case out of Some (Inr p) \<Rightarrow> reconcile_save S p | _ \<Rightarrow> State_Monad.return ())
             })
        })"

text \<open>
  One turn of the loop over \<open>p.Refunds\<close>. The slice holds pointers, so the turn for position \<open>i\<close>
  reads the refund as earlier turns left it; no turn changes the length of the slice.
\<close>

definition retryRefund ::
  "'w service \<Rightarrow> reconcile_config \<Rightarrow> 'w gateway_port \<Rightarrow> time \<Rightarrow> nat \<Rightarrow> payment \<times> bool \<Rightarrow> ('w, payment \<times> bool) state" where
  "retryRefund S cfg gw now i pc =
     (let (p, changed) = pc; rf = p_Refunds p ! i; age = time_Sub now (r_CreatedAt rf)
      in if r_Status rf \<noteq> RefundStatusPending then State_Monad.return (p, changed)
         else if age \<ge> rcf_RefundGiveUpAfter cfg then State_Monad.return (p, changed)
         else if age \<ge> rcf_RefundRetryAfter cfg then do {
           res \<leftarrow> callRefund S gw p rf;
           (case res of
              Inl _ \<Rightarrow> State_Monad.return (p, changed)
            | Inr r \<Rightarrow> do {
                applied \<leftarrow> at_now S (\<lambda>t. settleRefund (lib S) (r_ID rf) r t p);
                State_Monad.return (case applied of Inl _ \<Rightarrow> (p, changed) | Inr p' \<Rightarrow> (p', True))
              })
         }
         else State_Monad.return (p, changed))"

definition reconcileRefunds :: "'w service \<Rightarrow> reconcile_config \<Rightarrow> payment \<Rightarrow> ('w, unit) state" where
  "reconcileRefunds S cfg p =
     (case sv_factory S (p_GatewayType p) of
        Inl _ \<Rightarrow> State_Monad.return ()
      | Inr gw \<Rightarrow> do {
          res \<leftarrow> gw_lookup S gw p (oldestPendingRefund p);
          (case res of
             Inl _ \<Rightarrow> State_Monad.return ()
           | Inr st \<Rightarrow> do {
               applied \<leftarrow> applyRefundNotifications S p False (ts_Refunds st);
               (case applied of
                  Inl _ \<Rightarrow> State_Monad.return ()
                | Inr (p, changed) \<Rightarrow> do {
                    now \<leftarrow> Now S;
                    (p, changed) \<leftarrow> foldS (retryRefund S cfg gw now) [0..<length (p_Refunds p)] (p, changed);
                    if changed then reconcile_save S p else State_Monad.return ()
                  })
             })
        })"

definition Reconciler_RunOnce :: "'w service \<Rightarrow> reconcile_config \<Rightarrow> ('w, unit) state" where
  "Reconciler_RunOnce S cfg = do {
     now \<leftarrow> Now S;
     charges \<leftarrow> rp_FindAwaitingChargeOutcome (sv_repo S) (now - rcf_ChargeGrace cfg) (rcf_BatchSize cfg);
     foldS (\<lambda>p u. reconcileCharge S p) (case charges of Inl _ \<Rightarrow> [] | Inr ps \<Rightarrow> ps) ();
     refunds \<leftarrow> rp_FindWithPendingRefunds (sv_repo S) (now - rcf_RefundGrace cfg) (rcf_BatchSize cfg);
     foldS (\<lambda>p u. reconcileRefunds S cfg p) (case refunds of Inl _ \<Rightarrow> [] | Inr ps \<Rightarrow> ps) ()
   }"

definition reconcileLockKey :: string where "reconcileLockKey = ''lock:reconciler''"

definition tick_reconciler :: "'w service \<Rightarrow> reconcile_config \<Rightarrow> duration \<Rightarrow> ('w, unit) state" where
  "tick_reconciler S cfg interval = do {
     acquired \<leftarrow> cp_SetNX (sv_cache S) reconcileLockKey (JsonText (JNum ''1'')) interval;
     (case acquired of
        Inr True \<Rightarrow> do {
          Reconciler_RunOnce S (withDefaults cfg);
          _ \<leftarrow> cp_Delete (sv_cache S) reconcileLockKey;
          State_Monad.return ()
        }
      | _ \<Rightarrow> State_Monad.return ())
   }"

end
