(* ===== verification/Handler_Contract.thy ===== *)
theory Handler_Contract
  imports Reconcile
begin

text \<open>
  What the command handlers rely on, as an interface, and what they guarantee in return. The
  interface speaks of a world with an invariant \<open>I\<close> that other sessions may change too: \<open>ext\<close>
  relates a world to every later one, \<open>quiet\<close> to a later one in which this process has stored
  nothing new. A payment is \<open>held\<close> when it was loaded (and perhaps changed) by this process,
  \<open>ready\<close> when it may be saved, an identifier is \<open>fresh\<close> when nothing stored uses it.

  An operation is \<open>backed\<close> when a gateway's word calls for it: only such operations make a payment paid,
  or a refund succeeded or failed, and every answer of a gateway backs what it reports, as does every
  notification that was \<open>heard\<close>.

  The client lemmas say that every handler keeps \<open>I\<close>, in any such world: in particular it saves
  only payments that are ready, and asks a gateway for a refund only when the refund is stored.
\<close>

fun op_requests :: "domain_op \<Rightarrow> bool" where
  "op_requests (OpRequestRefund now uid ref a reason rb) \<longleftrightarrow> True"
| "op_requests _ \<longleftrightarrow> False"

text \<open>The operations that record what a gateway reported, and the payments a notification names.\<close>

fun op_reports :: "domain_op \<Rightarrow> bool" where
  "op_reports (OpCompleted now t) \<longleftrightarrow> True"
| "op_reports (OpCompleteRefund now uid gid) \<longleftrightarrow> True"
| "op_reports (OpFailRefund now uid reason) \<longleftrightarrow> True"
| "op_reports _ \<longleftrightarrow> False"

definition names_payment :: "uuid_lib \<Rightarrow> webhook_notification \<Rightarrow> payment \<Rightarrow> bool" where
  "names_payment L n p \<longleftrightarrow> uuid_Parse L (wn_PaymentID n) = Some (p_ID p) \<or> p_GatewayTransactionID p = wn_GatewayTransactionID n"

locale handler_contract =
  fixes S :: "'w service"
    and I :: "'w \<Rightarrow> bool"
    and quiet :: "'w \<Rightarrow> 'w \<Rightarrow> bool"
    and ext :: "'w \<Rightarrow> 'w \<Rightarrow> bool"
    and held :: "'w \<Rightarrow> payment \<Rightarrow> bool"
    and ready :: "'w \<Rightarrow> payment \<Rightarrow> bool"
    and fresh :: "'w \<Rightarrow> uuid \<Rightarrow> bool"
    and backed :: "'w \<Rightarrow> domain_op \<Rightarrow> payment \<Rightarrow> bool"
    and heard :: "string \<Rightarrow> headers \<Rightarrow> bool"
  assumes quiet_ext: "quiet w w' \<Longrightarrow> ext w w'"
    and quiet_refl: "quiet w w"
    and quiet_trans: "quiet w w' \<Longrightarrow> quiet w' w'' \<Longrightarrow> quiet w w''"
    and ext_refl: "ext w w"
    and ext_trans: "ext w w' \<Longrightarrow> ext w' w'' \<Longrightarrow> ext w w''"
    and held_ext: "held w p \<Longrightarrow> ext w w' \<Longrightarrow> held w' p"
    and ready_quiet: "ready w p \<Longrightarrow> quiet w w' \<Longrightarrow> ready w' p"
    and fresh_quiet: "fresh w uid \<Longrightarrow> quiet w w' \<Longrightarrow> fresh w' uid"
    and held_ready: "held w p \<Longrightarrow> ready w p"
    and held_op: "held w p \<Longrightarrow> apply_op (lib S) op p = Inr p' \<Longrightarrow> \<not> op_requests op \<Longrightarrow> backed w op p \<Longrightarrow> held w p'"
    and ready_op: "ready w p \<Longrightarrow> apply_op (lib S) op p = Inr p' \<Longrightarrow> \<not> op_requests op \<Longrightarrow> backed w op p \<Longrightarrow> ready w p'"
    and held_request: "held w p \<Longrightarrow> fresh w uid \<Longrightarrow>
      RequestRefund now uid ref a reason rb p = Inr (p', r) \<Longrightarrow> ready w p'"
    and new_ready: "fresh w uid \<Longrightarrow> 0 < sint (m_Amount m) \<Longrightarrow>
      New now uid ref caller m gt meth cust desc ex meta = Inr p \<Longrightarrow> ready w p"
    and Now_law: "I w \<Longrightarrow> run_state (Now S) w = (t, w') \<Longrightarrow> I w' \<and> quiet w w'"
    and NewUUID_law: "I w \<Longrightarrow> run_state (rt_NewUUID (sv_rt S)) w = (uid, w') \<Longrightarrow>
      I w' \<and> quiet w w' \<and> fresh w' uid"
    and Delete_law: "I w \<Longrightarrow> run_state (cp_Delete (sv_cache S) k) w = (e, w') \<Longrightarrow> I w' \<and> quiet w w'"
    and SetNX_law: "I w \<Longrightarrow> run_state (cp_SetNX (sv_cache S) k (JsonText (JNum ''1'')) ttl) w = (b, w') \<Longrightarrow> I w' \<and> quiet w w'"
    and Record_law: "I w \<Longrightarrow> sv_attempts S = Some rec \<Longrightarrow> run_state (rec att) w = (e, w') \<Longrightarrow>
      I w' \<and> quiet w w'"
    and Charge_law: "I w \<Longrightarrow> sv_factory S ty = Inr gw \<Longrightarrow>
      run_state (gw_CreateTransaction gw q) w = (c, w') \<Longrightarrow> I w' \<and> quiet w w' \<and>
      (\<forall>resp p now t. c = Inr resp \<longrightarrow> gr_Status resp = TransactionSettled \<longrightarrow>
         tq_PaymentID q = uuid_String (lib S) (p_ID p) \<longrightarrow> backed w' (OpCompleted now t) p)"
    and Status_law: "I w \<Longrightarrow> sv_factory S ty = Inr gw \<Longrightarrow>
      run_state (gw_GetTransaction gw tr) w = (st, w') \<Longrightarrow> I w' \<and> quiet w w' \<and>
      (\<forall>ts p now t. st = Inr ts \<longrightarrow> ts_Status ts = TransactionSettled \<longrightarrow>
         tr_PaymentID tr = uuid_String (lib S) (p_ID p) \<longrightarrow> backed w' (OpCompleted now t) p) \<and>
      (\<forall>ts rn uid p now gid. st = Inr ts \<longrightarrow> rn \<in> set (ts_Refunds ts) \<longrightarrow> uuid_Parse (lib S) (rn_RefundKey rn) = Some uid \<longrightarrow>
         backed w' (OpCompleteRefund now uid gid) p)"
    and Cancel_law: "I w \<Longrightarrow> sv_factory S ty = Inr gw \<Longrightarrow>
      run_state (gw_CancelTransaction gw tx) w = (e, w') \<Longrightarrow> I w' \<and> quiet w w'"
    and Refund_law: "I w \<Longrightarrow> sv_factory S ty = Inr gw \<Longrightarrow> held w p \<Longrightarrow> r \<in> set (p_Refunds p) \<Longrightarrow>
      rq_RefundKey rq = uuid_String (lib S) (r_ID r) \<Longrightarrow> rq_Amount rq = r_Amount r \<Longrightarrow>
      run_state (gw_CreateRefund gw rq) w = (res, w') \<Longrightarrow> I w' \<and> quiet w w' \<and>
      (\<forall>rr q now x. res = Inr rr \<longrightarrow>
         backed w' (if rr_Accepted rr then OpCompleteRefund now (r_ID r) x else OpFailRefund now (r_ID r) x) q)"
    and FindByID_law: "I w \<Longrightarrow> run_state (rp_FindByID (sv_repo S) uid) w = (f, w') \<Longrightarrow>
      I w' \<and> quiet w w' \<and> (\<forall>p. f = Inr p \<longrightarrow> held w' p \<and> p_ID p = uid)"
    and FindByReference_law: "I w \<Longrightarrow> run_state (rp_FindByReference (sv_repo S) ref caller) w = (f, w') \<Longrightarrow>
      I w' \<and> quiet w w'"
    and FindByTx_law: "I w \<Longrightarrow> run_state (rp_FindByGatewayTransactionID (sv_repo S) tx) w = (f, w') \<Longrightarrow>
      I w' \<and> quiet w w' \<and> (\<forall>p. f = Inr p \<longrightarrow> held w' p \<and> p_GatewayTransactionID p = tx)"
    and FindExpired_law: "I w \<Longrightarrow> run_state (rp_FindExpired (sv_repo S) n) w = (fs, w') \<Longrightarrow>
      I w' \<and> quiet w w' \<and> (\<forall>ps. fs = Inr ps \<longrightarrow> (\<forall>p \<in> set ps. held w' p))"
    and FindAwaiting_law: "I w \<Longrightarrow>
      run_state (rp_FindAwaitingChargeOutcome (sv_repo S) cutoff n) w = (fs, w') \<Longrightarrow>
      I w' \<and> quiet w w' \<and> (\<forall>ps. fs = Inr ps \<longrightarrow> (\<forall>p \<in> set ps. held w' p))"
    and FindPendingRefunds_law: "I w \<Longrightarrow>
      run_state (rp_FindWithPendingRefunds (sv_repo S) cutoff n) w = (fs, w') \<Longrightarrow>
      I w' \<and> quiet w w' \<and> (\<forall>ps. fs = Inr ps \<longrightarrow> (\<forall>p \<in> set ps. held w' p))"
    and Save_law: "I w \<Longrightarrow> ready w p \<Longrightarrow> run_state (rp_Save (sv_repo S) p) w = ((err, p'), w') \<Longrightarrow>
      I w' \<and> ext w w' \<and> (err = None \<longrightarrow> held w' p' \<and> p_Refunds p' = p_Refunds p)"
    and backed_ext: "backed w op p \<Longrightarrow> ext w w' \<Longrightarrow> backed w' op p"
    and backed_plain: "\<not> op_reports op \<Longrightarrow> backed w op p"
    and Webhook_law: "I w \<Longrightarrow> sv_factory S ty = Inr gw \<Longrightarrow> gw_ParseWebhook gw raw hdrs = Inr nt \<Longrightarrow> heard raw hdrs \<Longrightarrow>
      (\<forall>p now t. wn_Status nt = TransactionSettled \<longrightarrow> names_payment (lib S) nt p \<longrightarrow> backed w (OpCompleted now t) p) \<and>
      (\<forall>rn uid p now gid. rn \<in> set (wn_Refunds nt) \<longrightarrow> uuid_Parse (lib S) (rn_RefundKey rn) = Some uid \<longrightarrow>
         backed w (OpCompleteRefund now uid gid) p)"
begin

text \<open>Triples: from a world with the invariant and \<open>P\<close>, the call ends in a later one with \<open>Q\<close>.\<close>

definition call :: "('w \<Rightarrow> bool) \<Rightarrow> ('w, 'a) state \<Rightarrow> ('a \<Rightarrow> 'w \<Rightarrow> bool) \<Rightarrow> bool" where
  "call P m Q \<longleftrightarrow>
     (\<forall>w. I w \<and> P w \<longrightarrow> (case run_state m w of (r, w') \<Rightarrow> I w' \<and> ext w w' \<and> Q r w'))"

definition calm :: "('w, 'a) state \<Rightarrow> bool" where
  "calm m \<longleftrightarrow> (\<forall>w. I w \<longrightarrow> (case run_state m w of (r, w') \<Rightarrow> I w' \<and> quiet w w'))"

definition stable :: "('w \<Rightarrow> bool) \<Rightarrow> bool" where
  "stable P \<longleftrightarrow> (\<forall>w w'. P w \<longrightarrow> quiet w w' \<longrightarrow> P w')"

definition lasting :: "('w \<Rightarrow> bool) \<Rightarrow> bool" where
  "lasting P \<longleftrightarrow> (\<forall>w w'. P w \<longrightarrow> ext w w' \<longrightarrow> P w')"

abbreviation safe :: "('w, 'a) state \<Rightarrow> bool" where
  "safe m \<equiv> call (\<lambda>_. True) m (\<lambda>_ _. True)"

lemma callI:
  "(\<And>w r w'. I w \<Longrightarrow> P w \<Longrightarrow> run_state m w = (r, w') \<Longrightarrow> I w' \<and> ext w w' \<and> Q r w') \<Longrightarrow> call P m Q"
  by (auto simp: call_def)

lemma calmI: "(\<And>w r w'. I w \<Longrightarrow> run_state m w = (r, w') \<Longrightarrow> I w' \<and> quiet w w') \<Longrightarrow> calm m"
  by (auto simp: calm_def)

lemma calmD: "calm m \<Longrightarrow> I w \<Longrightarrow> run_state m w = (r, w') \<Longrightarrow> I w' \<and> quiet w w'"
  by (auto simp: calm_def)

lemma callD: "call P m Q \<Longrightarrow> I w \<Longrightarrow> P w \<Longrightarrow> run_state m w = (r, w') \<Longrightarrow> I w' \<and> ext w w' \<and> Q r w'"
  by (auto simp: call_def)

lemma call_return: "(\<And>w. P w \<Longrightarrow> Q x w) \<Longrightarrow> call P (State_Monad.return x) Q"
  by (simp add: call_def ext_refl)

lemma call_bind:
  assumes "call P m Q" "\<And>x. call (Q x) (f x) R"
  shows "call P (m \<bind> f) R"
  unfolding call_def
proof (intro allI impI)
  fix w
  assume w: "I w \<and> P w"
  obtain x v where m: "run_state m w = (x, v)" by fastforce
  obtain y u where f: "run_state (f x) v = (y, u)" by fastforce
  have v: "I v" "ext w v" "Q x v" using assms(1) w m by (auto simp: call_def)
  then have "I u" "ext v u" "R y u" using assms(2) [of x] f by (auto simp: call_def)
  with v m f show "case run_state (m \<bind> f) w of (r, w') \<Rightarrow> I w' \<and> ext w w' \<and> R r w'"
    using ext_trans by auto
qed

lemma call_bindE:
  assumes "call P m Q" "\<And>e w. Q (Inl e) w \<Longrightarrow> R (Inl e) w" "\<And>x. call (Q (Inr x)) (f x) R"
  shows "call P (bindE m f) R"
  unfolding bindE_def
proof (rule call_bind [OF assms(1)])
  fix r
  show "call (Q r) (case r of Inl e \<Rightarrow> State_Monad.return (Inl e) | Inr x \<Rightarrow> f x) R"
    using assms(2,3) by (cases r) (auto intro: call_return)
qed

lemma call_conseq:
  "call P' m Q' \<Longrightarrow> (\<And>w. P w \<Longrightarrow> P' w) \<Longrightarrow> (\<And>r w. Q' r w \<Longrightarrow> Q r w) \<Longrightarrow> call P m Q"
  by (fastforce simp: call_def split: prod.splits)

lemma call_pre: "call P' m Q \<Longrightarrow> (\<And>w. P w \<Longrightarrow> P' w) \<Longrightarrow> call P m Q"
  by (rule call_conseq)

lemma call_preI: "call P' m Q \<Longrightarrow> (\<And>w. I w \<Longrightarrow> P w \<Longrightarrow> P' w) \<Longrightarrow> call P m Q"
  by (auto simp: call_def)

lemma call_post: "call P m Q' \<Longrightarrow> (\<And>r w. Q' r w \<Longrightarrow> Q r w) \<Longrightarrow> call P m Q"
  by (rule call_conseq)

lemma call_if: "(b \<Longrightarrow> call P m Q) \<Longrightarrow> (\<not> b \<Longrightarrow> call P n Q) \<Longrightarrow> call P (if b then m else n) Q"
  by simp

lemma call_option:
  "(r = None \<Longrightarrow> call P m Q) \<Longrightarrow> (\<And>x. r = Some x \<Longrightarrow> call P (f x) Q) \<Longrightarrow>
   call P (case r of None \<Rightarrow> m | Some x \<Rightarrow> f x) Q"
  by (cases r) simp_all

lemma call_sum:
  "(\<And>e. r = Inl e \<Longrightarrow> call P (f e) Q) \<Longrightarrow> (\<And>x. r = Inr x \<Longrightarrow> call P (g x) Q) \<Longrightarrow>
   call P (case r of Inl e \<Rightarrow> f e | Inr x \<Rightarrow> g x) Q"
  by (cases r) simp_all

lemma call_foldS:
  assumes "\<And>x a. x \<in> set xs \<Longrightarrow> call (J a) (f x a) J"
  shows "call (J a) (foldS f xs a) J"
  using assms
proof (induction xs arbitrary: a)
  case Nil
  show ?case by (simp add: call_return)
next
  case (Cons x xs)
  show ?case by (auto intro!: call_bind Cons)
qed

text \<open>What survives a call that stores nothing, and what survives a save.\<close>

lemma stable_simps [intro, simp]:
  "stable (\<lambda>_. b)" "stable (\<lambda>w. held w p)" "stable (\<lambda>w. ready w p)" "stable (\<lambda>w. fresh w uid)"
  by (auto simp: stable_def intro: held_ext quiet_ext ready_quiet fresh_quiet)

text \<open>What the gateways have reported: that a payment is paid, and what came of a refund.\<close>

definition told_paid :: "'w \<Rightarrow> uuid \<Rightarrow> bool" where
  "told_paid w uid \<longleftrightarrow> (\<forall>p now t. p_ID p = uid \<longrightarrow> backed w (OpCompleted now t) p)"

definition told_notified :: "'w \<Rightarrow> webhook_notification \<Rightarrow> bool" where
  "told_notified w n \<longleftrightarrow> (\<forall>p now t. wn_Status n = TransactionSettled \<longrightarrow> names_payment (lib S) n p \<longrightarrow> backed w (OpCompleted now t) p)"

definition told_refunds :: "'w \<Rightarrow> refund_notification list \<Rightarrow> bool" where
  "told_refunds w rns \<longleftrightarrow> (\<forall>rn uid p now gid. rn \<in> set rns \<longrightarrow> uuid_Parse (lib S) (rn_RefundKey rn) = Some uid \<longrightarrow>
     backed w (OpCompleteRefund now uid gid) p)"

definition told_outcome :: "'w \<Rightarrow> uuid \<Rightarrow> refund_result \<Rightarrow> bool" where
  "told_outcome w uid rr \<longleftrightarrow>
     (\<forall>p now x. backed w (if rr_Accepted rr then OpCompleteRefund now uid x else OpFailRefund now uid x) p)"

lemmas report_defs = told_paid_def told_notified_def told_refunds_def told_outcome_def

lemma stable_reports [intro, simp]:
  "stable (\<lambda>w. told_paid w uid)" "stable (\<lambda>w. told_notified w n)" "stable (\<lambda>w. told_refunds w rns)" "stable (\<lambda>w. told_outcome w uid rr)"
  unfolding stable_def report_defs by (blast intro: backed_ext quiet_ext)+

lemma stable_imp [intro, simp]: "stable P \<Longrightarrow> stable (\<lambda>w. b \<longrightarrow> P w)"
  by (auto simp: stable_def)

lemma stable_conj [intro, simp]: "stable P \<Longrightarrow> stable Q \<Longrightarrow> stable (\<lambda>w. P w \<and> Q w)"
  by (auto simp: stable_def)

lemma stable_told:
  "stable P \<Longrightarrow> stable (\<lambda>w. P w \<and> (\<forall>rr. res = Inr rr \<longrightarrow> told_outcome w uid rr))"
  "stable P \<Longrightarrow> stable (\<lambda>w. P w \<and> (\<forall>ts. st = Inr ts \<longrightarrow>
     (ts_Status ts = TransactionSettled \<longrightarrow> told_paid w uid) \<and> told_refunds w (ts_Refunds ts)))"
  using stable_reports unfolding stable_def by blast+

lemma stable_ball [intro]: "(\<And>x. x \<in> X \<Longrightarrow> stable (P x)) \<Longrightarrow> stable (\<lambda>w. \<forall>x \<in> X. P x w)"
  by (fastforce simp: stable_def)

lemma lasting_simps [intro, simp]: "lasting (\<lambda>_. b)" "lasting (\<lambda>w. held w p)"
  by (auto simp: lasting_def intro: held_ext)

lemma lasting_reports [intro, simp]:
  "lasting (\<lambda>w. told_paid w uid)" "lasting (\<lambda>w. told_notified w n)" "lasting (\<lambda>w. told_refunds w rns)" "lasting (\<lambda>w. told_outcome w uid rr)"
  unfolding lasting_def report_defs by (blast intro: backed_ext)+

lemma lasting_conj [intro]: "lasting P \<Longrightarrow> lasting Q \<Longrightarrow> lasting (\<lambda>w. P w \<and> Q w)"
  by (auto simp: lasting_def)

lemma lasting_ball [intro]: "(\<And>x. x \<in> X \<Longrightarrow> lasting (P x)) \<Longrightarrow> lasting (\<lambda>w. \<forall>x \<in> X. P x w)"
  by (fastforce simp: lasting_def)

lemma call_lasting:
  assumes "call P m Q" "lasting K"
  shows "call (\<lambda>w. K w \<and> P w) m (\<lambda>r w. K w \<and> Q r w)"
proof (rule callI)
  fix w r w'
  assume w: "I w" "K w \<and> P w" and run: "run_state m w = (r, w')"
  then have "I w' \<and> ext w w' \<and> Q r w'" using callD [OF assms(1) w(1) _ run] by blast
  with w assms(2) show "I w' \<and> ext w w' \<and> K w' \<and> Q r w'" by (auto simp: lasting_def)
qed

lemma calm_call:
  assumes "calm m" "stable P"
  shows "call P m (\<lambda>_. P)"
proof (rule callI)
  fix w r w'
  assume "I w" "P w" "run_state m w = (r, w')"
  with calmD [OF assms(1)] have "I w'" "quiet w w'" by blast+
  with assms(2) \<open>P w\<close> show "I w' \<and> ext w w' \<and> P w'" by (auto simp: stable_def intro: quiet_ext)
qed

text \<open>Calls that store nothing.\<close>

lemma calm_return [intro, simp]: "calm (State_Monad.return x)"
  by (simp add: calm_def quiet_refl)

lemma calm_bind [intro]:
  assumes "calm m" "\<And>x. calm (f x)"
  shows "calm (m \<bind> f)"
proof (rule calmI)
  fix w r w'
  assume w: "I w" and run: "run_state (m \<bind> f) w = (r, w')"
  obtain x v where m: "run_state m w = (x, v)" by fastforce
  from run m have f: "run_state (f x) v = (r, w')" by simp
  show "I w' \<and> quiet w w'"
    using calmD [OF assms(1) w m] calmD [OF assms(2) _ f] quiet_trans by blast
qed

lemma calm_Now [intro, simp]: "calm (Now S)"
  by (rule calmI) (rule Now_law)

lemma calm_Delete [intro, simp]: "calm (cp_Delete (sv_cache S) k)"
  by (rule calmI) (rule Delete_law)

lemma calm_SetNX [intro, simp]: "calm (cp_SetNX (sv_cache S) k (JsonText (JNum ''1'')) ttl)"
  by (rule calmI) (rule SetNX_law)

lemma calm_recordAttempt [intro, simp]: "calm (recordAttempt S att)"
proof (cases "sv_attempts S")
  case (Some rec)
  have "calm (rec att)" by (rule calmI) (rule Record_law [OF _ Some])
  then show ?thesis by (auto simp: recordAttempt_def Some)
qed (simp add: recordAttempt_def)

lemma calm_Since [intro, simp]: "calm (Since S t)"
  by (auto simp: Since_def)

lemma calm_at_now [intro, simp]: "calm (at_now S f)"
  by (auto simp: at_now_def)

lemma calm_Drop [intro, simp]: "calm (DropCachedPayment S p)"
  by (auto simp: DropCachedPayment_def)

lemma calm_gateway [intro]:
  assumes "sv_factory S ty = Inr gw"
  shows "calm (gw_CreateTransaction gw q)" "calm (gw_GetTransaction gw tr)"
    "calm (gw_CancelTransaction gw tx)"
  using Charge_law [OF _ assms] Status_law [OF _ assms] Cancel_law [OF _ assms] by (blast intro: calmI)+

lemma call_Charge:
  assumes "sv_factory S ty = Inr gw" "stable P" "tq_PaymentID q = uuid_String (lib S) uid"
  shows "call P (gw_CreateTransaction gw q)
    (\<lambda>c w. P w \<and> (\<forall>resp. c = Inr resp \<longrightarrow> gr_Status resp = TransactionSettled \<longrightarrow> told_paid w uid))"
proof (rule callI)
  fix w c w'
  assume w: "I w" "P w" and run: "run_state (gw_CreateTransaction gw q) w = (c, w')"
  note l = Charge_law [OF w(1) assms(1) run]
  with assms(2) w(2) have "P w'" unfolding stable_def by blast
  with l assms(3) show "I w' \<and> ext w w' \<and> P w' \<and> (\<forall>resp. c = Inr resp \<longrightarrow> gr_Status resp = TransactionSettled \<longrightarrow> told_paid w' uid)"
    unfolding told_paid_def by (auto intro: quiet_ext)
qed

lemma call_Status:
  assumes "sv_factory S ty = Inr gw" "stable P" "tr_PaymentID tr = uuid_String (lib S) uid"
  shows "call P (gw_GetTransaction gw tr)
    (\<lambda>st w. P w \<and> (\<forall>ts. st = Inr ts \<longrightarrow> (ts_Status ts = TransactionSettled \<longrightarrow> told_paid w uid) \<and> told_refunds w (ts_Refunds ts)))"
proof (rule callI)
  fix w st w'
  assume w: "I w" "P w" and run: "run_state (gw_GetTransaction gw tr) w = (st, w')"
  note l = Status_law [OF w(1) assms(1) run]
  with assms(2) w(2) have "P w'" unfolding stable_def by blast
  with l assms(3) show "I w' \<and> ext w w' \<and> P w' \<and>
      (\<forall>ts. st = Inr ts \<longrightarrow> (ts_Status ts = TransactionSettled \<longrightarrow> told_paid w' uid) \<and> told_refunds w' (ts_Refunds ts))"
    unfolding told_paid_def told_refunds_def by (auto intro: quiet_ext)
qed

lemma calm_FindByReference [intro, simp]: "calm (rp_FindByReference (sv_repo S) ref caller)"
  by (rule calmI) (rule FindByReference_law)

text \<open>Results that are errors claim nothing.\<close>

definition okr :: "('b \<Rightarrow> 'w \<Rightarrow> bool) \<Rightarrow> goerr + 'b \<Rightarrow> 'w \<Rightarrow> bool" where
  "okr Q r w \<longleftrightarrow> (\<forall>x. r = Inr x \<longrightarrow> Q x w)"

lemma okr_simps [simp]: "okr Q (Inl e) w" "okr Q (Inr x) w \<longleftrightarrow> Q x w" "okr (\<lambda>_ _. True) r w"
  by (simp_all add: okr_def)

lemma okr_Inr: "okr Q (Inr x) = Q x"
  by (simp add: fun_eq_iff)

lemma call_okE:
  assumes "call P m (okr Q)" "\<And>x. call (Q x) (f x) (okr R)"
  shows "call P (bindE m f) (okr R)"
  by (rule call_bindE [OF assms(1)]) (use assms(2) in \<open>simp_all add: okr_Inr\<close>)

lemma call_ok_return: "(\<And>w. P w \<Longrightarrow> okr Q x w) \<Longrightarrow> call P (State_Monad.return x) (okr Q)"
  by (rule call_return)

lemma call_calm_bind: "calm m \<Longrightarrow> stable P \<Longrightarrow> (\<And>x. call P (f x) R) \<Longrightarrow> call P (m \<bind> f) R"
  by (rule call_bind [OF calm_call])

lemma call_at_now:
  assumes "stable P" "\<And>now p w. f now = Inr p \<Longrightarrow> P w \<Longrightarrow> Q p w"
  shows "call P (at_now S f) (okr Q)"
  unfolding at_now_def
  by (rule call_calm_bind [OF calm_Now assms(1)], rule call_return) (use assms(2) in \<open>auto simp: okr_def\<close>)

lemma call_SaveE:
  "call (\<lambda>w. ready w p) (SaveE S p) (okr (\<lambda>p' w. held w p' \<and> p_Refunds p' = p_Refunds p))"
proof (rule callI)
  fix w r w'
  assume w: "I w" "ready w p" and run: "run_state (SaveE S p) w = (r, w')"
  obtain err p' v where save: "run_state (rp_Save (sv_repo S) p) w = ((err, p'), v)"
    by (metis surj_pair)
  from run save have r: "r = (case err of None \<Rightarrow> Inr p' | Some e \<Rightarrow> Inl e)" "v = w'"
    by (simp_all add: SaveE_def)
  show "I w' \<and> ext w w' \<and> okr (\<lambda>p' w. held w p' \<and> p_Refunds p' = p_Refunds p) r w'"
    using Save_law [OF w save] r by (cases err) simp_all
qed

lemma call_FindByID_named:
  assumes "stable P"
  shows "call P (rp_FindByID (sv_repo S) uid) (\<lambda>r w. P w \<and> okr (\<lambda>p w. held w p \<and> p_ID p = uid) r w)"
  by (rule callI) (use assms FindByID_law quiet_ext in \<open>unfold okr_def stable_def, blast\<close>)

lemma call_FindByID: "call (\<lambda>_. True) (rp_FindByID (sv_repo S) uid) (okr (\<lambda>p w. held w p))"
  by (rule call_post [OF call_FindByID_named]) (auto simp: okr_def)

lemma call_FindByTx:
  assumes "stable P"
  shows "call P (rp_FindByGatewayTransactionID (sv_repo S) tx) (okr (\<lambda>p w. P w \<and> held w p \<and> p_GatewayTransactionID p = tx))"
  by (rule callI) (use assms FindByTx_law quiet_ext in \<open>unfold okr_def stable_def, blast\<close>)

lemma call_FindExpired:
  "call (\<lambda>_. True) (rp_FindExpired (sv_repo S) n) (okr (\<lambda>ps w. \<forall>p \<in> set ps. held w p))"
  by (rule callI) (use FindExpired_law quiet_ext in \<open>unfold okr_def, blast\<close>)

lemma call_FindAwaiting:
  "call (\<lambda>_. True) (rp_FindAwaitingChargeOutcome (sv_repo S) cutoff n)
     (okr (\<lambda>ps w. \<forall>p \<in> set ps. held w p))"
  by (rule callI) (use FindAwaiting_law quiet_ext in \<open>unfold okr_def, blast\<close>)

lemma call_FindPendingRefunds:
  "call (\<lambda>_. True) (rp_FindWithPendingRefunds (sv_repo S) cutoff n)
     (okr (\<lambda>ps w. \<forall>p \<in> set ps. held w p))"
  by (rule callI) (use FindPendingRefunds_law quiet_ext in \<open>unfold okr_def, blast\<close>)

lemma call_NewUUID:
  assumes "stable P"
  shows "call P (rt_NewUUID (sv_rt S)) (\<lambda>uid w. fresh w uid \<and> P w)"
  by (rule callI) (use assms NewUUID_law quiet_ext in \<open>unfold stable_def, blast\<close>)

lemma call_CreateRefund:
  assumes "sv_factory S ty = Inr gw" "r \<in> set (p_Refunds p)"
    "rq_RefundKey rq = uuid_String (lib S) (r_ID r)" "rq_Amount rq = r_Amount r"
  shows "call (\<lambda>w. held w p) (gw_CreateRefund gw rq) (\<lambda>res w. held w p \<and> (\<forall>rr. res = Inr rr \<longrightarrow> told_outcome w (r_ID r) rr))"
  by (rule callI) (use Refund_law [OF _ assms(1) _ assms(2-4)] quiet_ext held_ext in \<open>unfold told_outcome_def, blast\<close>)

text \<open>The operations of the aggregate on payments that are held or ready.\<close>

lemma held_ops:
  assumes "held w p"
  shows "MarkPending now tx resp p = Inr p' \<Longrightarrow> held w p'"
    "MarkCompleted now t p = Inr p' \<Longrightarrow> backed w (OpCompleted now t) p \<Longrightarrow> held w p'"
    "MarkFailed now c msg p = Inr p' \<Longrightarrow> held w p'"
    "MarkExpired now p = Inr p' \<Longrightarrow> held w p'"
    "Cancel now p = Inr p' \<Longrightarrow> held w p'"
    "CompleteRefund (lib S) now uid gid p = Inr p' \<Longrightarrow> backed w (OpCompleteRefund now uid gid) p \<Longrightarrow> held w p'"
    "FailRefund (lib S) now uid reason p = Inr p' \<Longrightarrow> backed w (OpFailRefund now uid reason) p \<Longrightarrow> held w p'"
  using backed_plain held_op [OF assms, of "OpPending now tx resp" p'] held_op [OF assms, of "OpCompleted now t" p']
    held_op [OF assms, of "OpFailed now c msg" p'] held_op [OF assms, of "OpExpired now" p']
    held_op [OF assms, of "OpCancel now" p'] held_op [OF assms, of "OpCompleteRefund now uid gid" p']
    held_op [OF assms, of "OpFailRefund now uid reason" p']
  by simp_all

lemma ready_ops:
  assumes "ready w p"
  shows "MarkPending now tx resp p = Inr p' \<Longrightarrow> ready w p'"
    "MarkCompleted now t p = Inr p' \<Longrightarrow> backed w (OpCompleted now t) p \<Longrightarrow> ready w p'"
    "MarkFailed now c msg p = Inr p' \<Longrightarrow> ready w p'"
  using backed_plain ready_op [OF assms, of "OpPending now tx resp" p'] ready_op [OF assms, of "OpCompleted now t" p']
    ready_op [OF assms, of "OpFailed now c msg" p']
  by simp_all

lemma held_settle: "held w p \<Longrightarrow> told_outcome w rid res \<Longrightarrow> settleRefund (lib S) rid res now p = Inr p' \<Longrightarrow> held w p'"
  by (auto simp: settleRefund_def told_outcome_def intro: held_ops(6,7) split: if_splits)

lemma told_paid_backed: "told_paid w (p_ID p) \<Longrightarrow> backed w (OpCompleted now t) p"
  by (simp add: told_paid_def)

lemma told_notified_backed:
  "told_notified w n \<Longrightarrow> wn_Status n = TransactionSettled \<Longrightarrow> names_payment (lib S) n p \<Longrightarrow> backed w (OpCompleted now t) p"
  by (simp add: told_notified_def)

lemma call_save_held: "call (\<lambda>w. held w p) (SaveE S p) (okr (\<lambda>p' w. held w p'))"
  by (rule call_conseq [OF call_SaveE]) (auto intro: held_ready simp: okr_def)

text \<open>Load, change, save, drop the cached views: the tail of most handlers.\<close>

lemma call_drop_return: "call (\<lambda>w. held w p) (do { DropCachedPayment S p; State_Monad.return (Inr ()) }) (okr (\<lambda>_ _. True))"
  by (rule call_calm_bind) (auto intro: call_return)

lemma call_save_drop:
  "call (\<lambda>w. held w p)
     (bindE (SaveE S p) (\<lambda>p. do { DropCachedPayment S p; State_Monad.return (Inr ()) })) (okr (\<lambda>_ _. True))"
  by (rule call_okE [OF call_save_held call_drop_return])

lemma safeI: "call (\<lambda>_. True) m (okr (\<lambda>_ _. True)) \<Longrightarrow> safe m"
  by (erule call_post) simp

theorem ForceExpire_safe: "safe (ForceExpire_Handle S uid)"
  unfolding ForceExpire_Handle_def
  by (rule safeI, rule call_okE [OF call_FindByID], rule call_okE [OF call_at_now call_save_drop])
     (auto intro: held_ops)

lemma calm_cancel_at_gateway [intro, simp]: "calm (cancel_at_gateway S p)"
  by (auto simp: cancel_at_gateway_def Let_def split: sum.splits intro: calm_gateway)

theorem CancelPayment_safe: "safe (CancelPayment_Handle S uid caller)"
  unfolding CancelPayment_Handle_def
proof (rule safeI, rule call_okE [OF call_FindByID], rule call_if)
  fix p
  show "call (\<lambda>w. held w p) (bindE (at_now S (\<lambda>now. Cancel now p)) (\<lambda>p. do {
       cancel_at_gateway S p;
       bindE (SaveE S p) (\<lambda>p. do { DropCachedPayment S p; State_Monad.return (Inr ()) })
     })) (okr (\<lambda>_ _. True))"
    by (rule call_okE [OF call_at_now [where Q = "\<lambda>p w. held w p"]])
       (auto intro: held_ops call_calm_bind [OF calm_cancel_at_gateway _ call_save_drop])
qed (simp add: call_return)

end

end
