(* ===== verification/Handler_Safety.thy ===== *)
theory Handler_Safety
  imports Handler_Contract
begin

text \<open>
  The client lemmas of \<open>handler_contract\<close> for the remaining handlers: create, the expiry job,
  gateway notifications, refunds and the reconciler.
\<close>

context handler_contract begin

section \<open>Create\<close>

lemma call_chargeFailed: "call (\<lambda>w. ready w p) (chargeFailed S p err) (\<lambda>_ _. True)"
proof -
  have save: "call (\<lambda>w. ready w q) (SaveE S q) (\<lambda>_ _. True)" for q
    by (rule call_post [OF call_SaveE]) simp
  have fail: "call (\<lambda>w. ready w p) (at_now S (\<lambda>now. MarkFailed now c m p))
      (\<lambda>r w. ready w (case r of Inl _ \<Rightarrow> p | Inr p' \<Rightarrow> p'))" for c m
    unfolding at_now_def
    by (rule call_calm_bind [OF calm_Now], simp, rule call_return)
       (auto split: sum.splits intro: ready_ops)
  show ?thesis unfolding chargeFailed_def
    by (intro call_if call_bind [OF save] call_bind [OF fail]) (simp_all add: call_return)
qed

lemma MarkPending_ID: "MarkPending now tx resp p = Inr p' \<Longrightarrow> p_ID p' = p_ID p \<and> p_GatewayTransactionID p' = tx"
  by (auto simp: MarkPending_def raise_def split: if_splits)

lemma call_charge_answered:
  "call (\<lambda>w. ready w p \<and> (gr_Status resp = TransactionSettled \<longrightarrow> told_paid w (p_ID p))) (charge_answered S p resp) (okr (\<lambda>_ _. True))"
proof -
  have settled: "call (\<lambda>w. ready w q \<and> told_paid w (p_ID q))
      (do { paid \<leftarrow> Now S; at_now S (\<lambda>now. MarkCompleted now paid q) }) (okr (\<lambda>q w. ready w q))" for q
    by (rule call_calm_bind [OF calm_Now]) (auto intro!: call_at_now intro: ready_ops told_paid_backed)
  have failed: "call (\<lambda>w. ready w q) (at_now S (\<lambda>now. MarkFailed now c m q)) (okr (\<lambda>q w. ready w q))" for q c m
    by (rule call_at_now) (auto intro: ready_ops)
  have outcome: "call (\<lambda>w. ready w q \<and> (gr_Status resp = TransactionSettled \<longrightarrow> told_paid w (p_ID q)))
      (case gr_Status resp of
              TransactionSettled \<Rightarrow> do { paid \<leftarrow> Now S; at_now S (\<lambda>now. MarkCompleted now paid q) }
            | TransactionFailed \<Rightarrow>
                at_now S (\<lambda>now. MarkFailed now ''DECLINED'' ''declined by gateway at charge time'' q)
            | _ \<Rightarrow> State_Monad.return (Inr q)) (okr (\<lambda>q w. ready w q))" for q
    using settled failed by (cases "gr_Status resp") (simp_all add: call_return)
  have tail: "call (\<lambda>w. ready w q) (bindE (SaveE S q) (\<lambda>q. State_Monad.return (Inr (q, na))))
      (okr (\<lambda>_ _. True))" for q na
    by (rule call_okE [OF call_SaveE]) (simp add: call_return)
  show ?thesis unfolding charge_answered_def
    by (rule call_okE [OF call_at_now call_okE [OF outcome tail]]) (auto intro: ready_ops dest: MarkPending_ID)
qed

lemma call_charge:
  assumes "sv_factory S ty = Inr gw"
  shows "call (\<lambda>w. ready w p) (charge S gw cmd m p) (\<lambda>_ _. True)"
  unfolding charge_def
proof (rule call_calm_bind [OF calm_Now], simp, rule call_bind [OF call_Charge [OF assms, where uid = "p_ID p"]])
  fix started resp
  show "call (\<lambda>w. ready w p \<and> (\<forall>r. resp = Inr r \<longrightarrow> gr_Status r = TransactionSettled \<longrightarrow> told_paid w (p_ID p)))
     (case resp of
        Inl err \<Rightarrow>
          if IsCode (Some err) CodeInvalidInput then State_Monad.return (Inl err)
          else do {
            d \<leftarrow> Since S started;
            recordAttempt S (failedAttempt (new_attempt (p_ID p) OperationCharge [] d AttemptUnset) err);
            e \<leftarrow> chargeFailed S p err;
            State_Monad.return (Inl e)
          }
      | Inr resp \<Rightarrow> do {
          d \<leftarrow> Since S started;
          recordAttempt S (charge_attempt p d resp);
          charge_answered S p resp
        }) (\<lambda>_ _. True)"
  proof (cases resp)
    case (Inl err)
    show ?thesis unfolding Inl sum.case
      by (rule call_pre [where P' = "\<lambda>w. ready w p"], intro call_if call_calm_bind [OF calm_Since]
            call_calm_bind [OF calm_recordAttempt] call_bind [OF call_chargeFailed] call_return) simp_all
  next
    case (Inr r)
    show ?thesis unfolding Inr sum.case
      by (rule call_pre [where P' = "\<lambda>w. ready w p \<and> (gr_Status r = TransactionSettled \<longrightarrow> told_paid w (p_ID p))"],
          intro call_calm_bind [OF calm_Since] call_calm_bind [OF calm_recordAttempt]
            call_post [OF call_charge_answered]) auto
  qed
qed (simp_all add: charge_request_def)

theorem CreatePayment_safe: "safe (CreatePayment_Handle S cmd)"
proof (cases "NewMoney (cc_Amount cmd) (cc_Currency cmd)")
  case (Inl e)
  then show ?thesis by (simp add: CreatePayment_Handle_def call_return)
next
  case money: (Inr money)
  show ?thesis
  proof (cases "ParseMethod (cc_PaymentMethodType cmd)")
    case (Inl e)
    with money show ?thesis by (simp add: CreatePayment_Handle_def call_return)
  next
    case m: (Inr m)
    have rest: "call (\<lambda>w. ready w p)
       (do {
          existing \<leftarrow> rp_FindByReference (sv_repo S) (cc_ReferenceID cmd) (cc_CallerService cmd);
          (case existing of
             Inr ex \<Rightarrow> State_Monad.return (Inl (f ex))
           | Inl err \<Rightarrow>
               if \<not> IsCode (Some err) CodeNotFound then State_Monad.return (Inl err)
               else (case sv_factory S (cc_GatewayType cmd) of
                   Inl _ \<Rightarrow> State_Monad.return (Inl e1)
                 | Inr gw \<Rightarrow>
                     if \<not> mc_Charge (gw_Capability gw m) then State_Monad.return (Inl e2)
                     else charge S gw cmd m p))
        }) (\<lambda>_ _. True)" for p f e1 e2
      by (rule call_calm_bind [OF calm_FindByReference], simp)
         (auto split: sum.splits intro!: call_charge call_return)
    have new: "stable (\<lambda>w. ready w p)" for p by simp
    show ?thesis
      unfolding CreatePayment_Handle_def money m sum.case
    proof (rule call_calm_bind [OF calm_Now], simp, rule call_bind [OF call_NewUUID], simp)
      fix now uid
      show "call (\<lambda>w. fresh w uid \<and> True)
        (case new_payment cmd money m now uid of
             Inl err \<Rightarrow> State_Monad.return (Inl err)
           | Inr p \<Rightarrow> do {
               existing \<leftarrow> rp_FindByReference (sv_repo S) (cc_ReferenceID cmd) (cc_CallerService cmd);
               (case existing of
                  Inr ex \<Rightarrow> State_Monad.return (Inl (AlreadyExists
                    (''payment '' @ uuid_String (lib S) (p_ID ex) @ '' already exists for reference_id '' @
                     cc_ReferenceID cmd @ '' (status '' @ status_str (p_Status ex) @ '')'')))
                | Inl err \<Rightarrow>
                    if \<not> IsCode (Some err) CodeNotFound then State_Monad.return (Inl err)
                    else (case sv_factory S (cc_GatewayType cmd) of
                        Inl _ \<Rightarrow> State_Monad.return (Inl (InvalidInput
                          (''unsupported gateway: '' @ cc_GatewayType cmd)))
                      | Inr gw \<Rightarrow>
                          if \<not> mc_Charge (gw_Capability gw m) then
                            State_Monad.return (Inl (InvalidInput (cc_GatewayType cmd @
                              '' does not support payment_method_type '' @ m)))
                          else charge S gw cmd m p))
             }) (\<lambda>_ _. True)"
      proof (cases "new_payment cmd money m now uid")
        case (Inl e)
        then show ?thesis by (simp add: call_return)
      next
        case (Inr p)
        have "0 < sint (m_Amount money)" using NewMoney_positive [OF money] by blast
        then have "fresh w uid \<Longrightarrow> ready w p" for w
          using new_ready Inr unfolding new_payment_def by blast
        then show ?thesis unfolding Inr sum.case by (intro call_pre [OF rest]) simp
      qed
    qed
  qed
qed

section \<open>The expiry job\<close>

lemma call_expireOne: "call (\<lambda>w. held w p) (expireOne S p) (\<lambda>_ _. True)"
  unfolding expireOne_def
proof (rule call_calm_bind [OF calm_Now], simp, rule call_if)
  fix now
  show "call (\<lambda>w. held w p)
     (bindE (at_now S (\<lambda>now. MarkExpired now p)) (\<lambda>p.
       bindE (SaveE S p) (\<lambda>p. do { DropCachedPayment S p; State_Monad.return (Inr ()) }))) (\<lambda>_ _. True)"
    by (rule call_post [where Q' = "okr (\<lambda>_ _. True)"], rule call_okE [OF call_at_now call_save_drop])
       (auto intro: held_ops)
qed (simp add: call_return)

text \<open>A loop over payments that are held: each turn may save its own payment.\<close>

lemma call_each_held:
  assumes "\<And>p. call (\<lambda>w. held w p) (f p) (\<lambda>_ _. True)"
  shows "call (\<lambda>w. \<forall>p \<in> set ps. held w p) (foldS (\<lambda>p u. f p) ps ()) (\<lambda>_ _. True)"
proof (rule call_post [OF call_foldS [where J = "\<lambda>_ w. \<forall>p \<in> set ps. held w p"]])
  fix p and u :: unit
  assume p: "p \<in> set ps"
  show "call (\<lambda>w. \<forall>p \<in> set ps. held w p) (f p) (\<lambda>_ w. \<forall>p \<in> set ps. held w p)"
  proof (rule callI)
    fix w r w'
    assume w: "I w" "\<forall>p \<in> set ps. held w p" and run: "run_state (f p) w = (r, w')"
    have "I w' \<and> ext w w'" using callD [OF assms w(1) _ run] w(2) p by blast
    then show "I w' \<and> ext w w' \<and> (\<forall>p \<in> set ps. held w' p)" using held_ext w(2) by blast
  qed
qed simp

theorem ExpiryJob_safe: "safe (ExpiryJob_RunOnce S)"
  unfolding ExpiryJob_RunOnce_def
proof (rule call_calm_bind [OF calm_SetNX], simp)
  fix acquired :: "goerr + bool"
  have one: "call (\<lambda>w. held w p) (do { _ \<leftarrow> expireOne S p; State_Monad.return () }) (\<lambda>_ _. True)" for p
    by (rule call_bind [OF call_expireOne]) (simp add: call_return)
  have work: "call (\<lambda>_. True) (do {
          expired \<leftarrow> rp_FindExpired (sv_repo S) expiryBatch;
          (case expired of
             Inl _ \<Rightarrow> State_Monad.return ()
           | Inr ps \<Rightarrow> foldS (\<lambda>p u. do { _ \<leftarrow> expireOne S p; State_Monad.return () }) ps ());
          _ \<leftarrow> cp_Delete (sv_cache S) expiryLockKey;
          State_Monad.return ()
        }) (\<lambda>_ _. True)"
  proof (rule call_bind [OF call_FindExpired], rule call_bind [where Q = "\<lambda>_ _. True"])
    fix expired :: "goerr + payment list"
    show "call (okr (\<lambda>ps w. \<forall>p \<in> set ps. held w p) expired)
        (case expired of
             Inl _ \<Rightarrow> State_Monad.return ()
           | Inr ps \<Rightarrow> foldS (\<lambda>p u. do { _ \<leftarrow> expireOne S p; State_Monad.return () }) ps ()) (\<lambda>_ _. True)"
      by (cases expired) (simp_all add: call_return call_each_held [OF one] okr_Inr)
  qed (rule call_calm_bind [OF calm_Delete], simp, simp add: call_return)
  show "call (\<lambda>_. True) (case acquired of
        Inr True \<Rightarrow> do {
          expired \<leftarrow> rp_FindExpired (sv_repo S) expiryBatch;
          (case expired of
             Inl _ \<Rightarrow> State_Monad.return ()
           | Inr ps \<Rightarrow> foldS (\<lambda>p u. do { _ \<leftarrow> expireOne S p; State_Monad.return () }) ps ());
          _ \<leftarrow> cp_Delete (sv_cache S) expiryLockKey;
          State_Monad.return ()
        }
      | _ \<Rightarrow> State_Monad.return ()) (\<lambda>_ _. True)"
    using work by (auto split: sum.splits bool.splits intro: call_return)
qed

section \<open>Gateway notifications\<close>

lemma call_findPayment:
  assumes "stable P"
  shows "call P (findPayment S n) (okr (\<lambda>p w. P w \<and> held w p \<and> names_payment (lib S) n p))"
proof -
  have by_tx: "call P (rp_FindByGatewayTransactionID (sv_repo S) (wn_GatewayTransactionID n))
      (okr (\<lambda>p w. P w \<and> held w p \<and> names_payment (lib S) n p))"
    by (rule call_post [OF call_FindByTx [OF assms]]) (auto simp: okr_def names_payment_def)
  have "call P (do {
          r \<leftarrow> rp_FindByID (sv_repo S) uid;
          (case r of
             Inr p \<Rightarrow> State_Monad.return (Inr p)
           | Inl err \<Rightarrow>
               if \<not> IsCode (Some err) CodeNotFound then State_Monad.return (Inl err)
               else rp_FindByGatewayTransactionID (sv_repo S) (wn_GatewayTransactionID n))
        }) (okr (\<lambda>p w. P w \<and> held w p \<and> names_payment (lib S) n p))" if "uuid_Parse (lib S) (wn_PaymentID n) = Some uid" for uid
  proof -
    have "call P (rp_FindByID (sv_repo S) uid) (\<lambda>r w. P w \<and> okr (\<lambda>p w. held w p \<and> names_payment (lib S) n p) r w)"
      by (rule call_post [OF call_FindByID_named [OF assms]]) (auto simp: okr_def names_payment_def that)
    then show ?thesis
      by (rule call_bind) (auto split: sum.splits simp: okr_Inr intro!: call_return call_pre [OF by_tx])
  qed
  with by_tx show ?thesis
    by (auto simp: findPayment_def split: option.splits)
qed

lemma notified_refund_key: "notified_refund L p rn = Some r \<Longrightarrow> uuid_Parse L (rn_RefundKey rn) = Some (r_ID r)"
  by (auto simp: notified_refund_def find_Refund_def dest!: find_mem split: option.splits if_splits)

lemma CompleteRefund_ID:
  "CompleteRefund L now uid gid p = Inr p' \<Longrightarrow> p_ID p' = p_ID p \<and> p_GatewayTransactionID p' = p_GatewayTransactionID p"
  by (auto simp: CompleteRefund_def raise_def Let_def split: option.splits refund_status.splits)

lemma names_payment_cong:
  "p_ID p' = p_ID p \<Longrightarrow> p_GatewayTransactionID p' = p_GatewayTransactionID p \<Longrightarrow> names_payment L n p' = names_payment L n p"
  by (simp add: names_payment_def)

lemma call_applyRefundNotifications:
  assumes "stable P"
  shows "call (\<lambda>w. P w \<and> held w p \<and> told_refunds w rns) (applyRefundNotifications S p changed rns)
    (okr (\<lambda>(p', _) w. P w \<and> held w p' \<and> (\<forall>n. names_payment (lib S) n p' = names_payment (lib S) n p)))"
proof (induction rns arbitrary: p changed)
  case (Cons rn rns)
  have skip: "call (\<lambda>w. P w \<and> held w p \<and> told_refunds w (rn # rns)) (applyRefundNotifications S p changed rns)
    (okr (\<lambda>(p', _) w. P w \<and> held w p' \<and> (\<forall>n. names_payment (lib S) n p' = names_payment (lib S) n p)))"
    by (rule call_pre [OF Cons.IH]) (auto simp: told_refunds_def)
  have "call (\<lambda>w. P w \<and> held w p \<and> told_refunds w (rn # rns))
      (bindE (at_now S (\<lambda>now. CompleteRefund (lib S) now (r_ID r) gid p)) (\<lambda>p.
        applyRefundNotifications S p True rns))
    (okr (\<lambda>(p', _) w. P w \<and> held w p' \<and> (\<forall>n. names_payment (lib S) n p' = names_payment (lib S) n p)))"
    if r: "notified_refund (lib S) p rn = Some r" for r gid
  proof (rule call_okE [OF call_at_now [where Q = "\<lambda>q w. (P w \<and> held w q \<and> told_refunds w rns) \<and>
        (\<forall>n. names_payment (lib S) n q = names_payment (lib S) n p)"]])
    show "stable (\<lambda>w. P w \<and> held w p \<and> told_refunds w (rn # rns))"
      using assms by (intro stable_conj) simp_all
  next
    fix now q w
    assume c: "CompleteRefund (lib S) now (r_ID r) gid p = Inr q" and w: "P w \<and> held w p \<and> told_refunds w (rn # rns)"
    have "backed w (OpCompleteRefund now (r_ID r) gid) p"
      using w notified_refund_key [OF r] by (auto simp: told_refunds_def)
    with c w have "held w q" by (blast intro: held_ops)
    moreover have "told_refunds w rns" using w by (auto simp: told_refunds_def)
    ultimately show "(P w \<and> held w q \<and> told_refunds w rns) \<and> (\<forall>n. names_payment (lib S) n q = names_payment (lib S) n p)"
      using w CompleteRefund_ID [OF c] by (simp add: names_payment_def)
  next
    fix q
    show "call (\<lambda>w. (P w \<and> held w q \<and> told_refunds w rns) \<and> (\<forall>n. names_payment (lib S) n q = names_payment (lib S) n p))
        (applyRefundNotifications S q True rns)
        (okr (\<lambda>(p', _) w. P w \<and> held w p' \<and> (\<forall>n. names_payment (lib S) n p' = names_payment (lib S) n p)))"
    proof (cases "\<forall>n. names_payment (lib S) n q = names_payment (lib S) n p")
      case True
      then show ?thesis using Cons.IH [of q True] by simp
    qed (unfold call_def, blast)
  qed
  with skip show ?case by (simp split: option.splits)
qed (auto intro!: call_return)

lemma call_callback_initiated:
  assumes "stable P"
  shows "call (\<lambda>w. P w \<and> held w p \<and> names_payment (lib S) n p) (callback_initiated S n p changed)
    (okr (\<lambda>(p, _) w. P w \<and> held w p \<and> names_payment (lib S) n p))"
proof -
  have "call (\<lambda>w. P w \<and> held w p \<and> names_payment (lib S) n p)
      (bindE (at_now S (\<lambda>now. MarkPending now (wn_GatewayTransactionID n) None p)) (\<lambda>p.
        State_Monad.return (Inr (p, True)))) (okr (\<lambda>(p, _) w. P w \<and> held w p \<and> names_payment (lib S) n p))"
    by (rule call_okE [OF call_at_now [where Q = "\<lambda>p w. P w \<and> held w p \<and> names_payment (lib S) n p"]])
       (use assms in \<open>auto intro: held_ops call_return dest: MarkPending_ID simp: names_payment_def\<close>)
  then show ?thesis by (simp add: callback_initiated_def call_return)
qed

lemma call_callback_status:
  "call (\<lambda>w. told_notified w n \<and> held w p \<and> names_payment (lib S) n p) (callback_status S n p changed) (okr (\<lambda>(p, _) w. held w p))"
proof -
  have "call (\<lambda>w. told_notified w n \<and> held w p \<and> names_payment (lib S) n p)
      (bindE (do { paid \<leftarrow> Now S; at_now S (\<lambda>now. MarkCompleted now paid p) }) (\<lambda>p.
        State_Monad.return (Inr (p, True)))) (okr (\<lambda>(p, _) w. held w p))" if "wn_Status n = TransactionSettled"
    by (rule call_okE [OF call_calm_bind [OF calm_Now _ call_at_now [where Q = "\<lambda>p w. held w p"]]])
       (use that in \<open>auto intro: held_ops call_return told_notified_backed\<close>)
  moreover have "call (\<lambda>w. told_notified w n \<and> held w p \<and> names_payment (lib S) n p)
      (bindE (at_now S (\<lambda>now. MarkFailed now c m p)) (\<lambda>p.
        State_Monad.return (Inr (p, True)))) (okr (\<lambda>(p, _) w. held w p))" for c m
    by (rule call_okE [OF call_at_now [where Q = "\<lambda>p w. held w p"]]) (auto intro: held_ops call_return)
  moreover have "call (\<lambda>w. told_notified w n \<and> held w p \<and> names_payment (lib S) n p)
      (State_Monad.return (Inr (p, changed))) (okr (\<lambda>(p, _) w. held w p))"
    by (auto intro!: call_return)
  ultimately show ?thesis
    by (cases "wn_Status n") (simp_all add: callback_status_def)
qed

theorem ProcessCallback_safe:
  assumes "heard payload hdrs"
  shows "safe (ProcessCallback_Handle S ty payload hdrs)"
proof -
  have body: "call (\<lambda>w. told_notified w n \<and> told_refunds w (wn_Refunds n))
         (bindE (findPayment S n) (\<lambda>p.
          bindE (applyRefundNotifications S p False (wn_Refunds n)) (\<lambda>(p, changed).
          bindE (callback_initiated S n p changed) (\<lambda>(p, changed).
          bindE (callback_status S n p changed) (\<lambda>(p, changed).
          if \<not> changed then State_Monad.return (Inr ())
          else
            bindE (SaveE S p) (\<lambda>p. do {
              DropCachedPayment S p;
              State_Monad.return (Inr ())
            })))))) (okr (\<lambda>_ _. True))" for n
    apply (rule call_okE [OF call_findPayment], simp add: stable_conj)
    subgoal for p
      apply (rule call_okE [OF call_pre [OF call_applyRefundNotifications [where
              P = "\<lambda>w. told_notified w n \<and> names_payment (lib S) n p"]]], simp add: stable_conj, simp)
      apply clarsimp
      apply (rule call_okE [OF call_pre [OF call_callback_initiated [OF stable_reports(2)]]], blast)
      apply clarsimp
      apply (rule call_okE [OF call_callback_status])
      apply (clarsimp simp: call_return call_save_drop)
      done
    done
  have told: "safe (bindE (findPayment S n) (\<lambda>p.
          bindE (applyRefundNotifications S p False (wn_Refunds n)) (\<lambda>(p, changed).
          bindE (callback_initiated S n p changed) (\<lambda>(p, changed).
          bindE (callback_status S n p changed) (\<lambda>(p, changed).
          if \<not> changed then State_Monad.return (Inr ())
          else
            bindE (SaveE S p) (\<lambda>p. do {
              DropCachedPayment S p;
              State_Monad.return (Inr ())
            }))))))" if "sv_factory S ty = Inr gw" "gw_ParseWebhook gw payload hdrs = Inr n" for gw n
    by (rule safeI, rule call_preI [OF body]) (use Webhook_law [OF _ that assms] in \<open>auto simp: told_notified_def told_refunds_def\<close>)
  show ?thesis
    unfolding ProcessCallback_Handle_def
    by (auto split: sum.splits intro: told call_return)
qed

section \<open>Refunds\<close>

text \<open>The gateway is asked for a refund only when the refund is stored.\<close>

lemma call_callRefund:
  assumes "sv_factory S ty = Inr gw" "r \<in> set (p_Refunds p)"
  shows "call (\<lambda>w. held w p) (callRefund S gw p r) (\<lambda>res w. held w p \<and> (\<forall>rr. res = Inr rr \<longrightarrow> told_outcome w (r_ID r) rr))"
  unfolding callRefund_def
  by (rule call_calm_bind [OF calm_Now], simp, rule call_bind [OF call_CreateRefund [OF assms]], simp, simp,
      rule call_calm_bind [OF calm_Since], simp add: stable_told, rule call_calm_bind [OF calm_recordAttempt], simp add: stable_told,
      rule call_return, simp)

lemma call_save_keep:
  assumes "lasting K"
  shows "call (\<lambda>w. K w \<and> held w p \<and> R (p_Refunds p)) (SaveE S p) (\<lambda>r w. K w \<and> okr (\<lambda>p' w. held w p' \<and> R (p_Refunds p')) r w)"
proof (rule call_lasting [OF _ assms], cases "R (p_Refunds p)")
  case True
  then show "call (\<lambda>w. held w p \<and> R (p_Refunds p)) (SaveE S p) (okr (\<lambda>p' w. held w p' \<and> R (p_Refunds p')))"
    by (intro call_conseq [OF call_SaveE]) (auto intro: held_ready simp: okr_def)
qed (simp add: call_def)

lemma call_saveOutcome_keep:
  assumes "\<And>w p p' now. K w \<Longrightarrow> held w p \<Longrightarrow> fn now p = Inr p' \<Longrightarrow> held w p'"
    and "\<And>p p' now. fn now p = Inr p' \<Longrightarrow> R (p_Refunds p')"
    and "stable K" "lasting K"
  shows "call (\<lambda>w. K w \<and> held w p) (saveOutcome S p fn) (okr (\<lambda>p w. held w p \<and> R (p_Refunds p)))"
  unfolding saveOutcome_def
proof (rule call_okE [OF call_at_now [where Q = "\<lambda>p w. K w \<and> held w p \<and> R (p_Refunds p)"]])
  fix p
  have save: "call (\<lambda>w. K w \<and> held w q \<and> R (p_Refunds q)) (SaveE S q) (okr (\<lambda>p w. held w p \<and> R (p_Refunds p)))" for q
    by (rule call_post [OF call_save_keep [OF assms(4)]]) simp
  have "call K (rp_FindByID (sv_repo S) uid) (okr (\<lambda>p w. K w \<and> held w p))" for uid
    by (rule call_post [OF call_FindByID_named [OF assms(3)]]) (auto simp: okr_def)
  then have again: "call K (bindE (rp_FindByID (sv_repo S) uid) (\<lambda>fresh.
              bindE (at_now S (\<lambda>now. fn now fresh)) (\<lambda>fresh. SaveE S fresh)))
      (okr (\<lambda>p w. held w p \<and> R (p_Refunds p)))" for uid
    by (rule call_okE [OF _ call_okE [OF call_at_now save]]) (use assms in auto)
  show "call (\<lambda>w. K w \<and> held w p \<and> R (p_Refunds p)) (do {
       saved \<leftarrow> SaveE S p;
       (case saved of
          Inr p' \<Rightarrow> State_Monad.return (Inr p')
        | Inl err \<Rightarrow>
            if \<not> IsCode (Some err) CodeConflict then State_Monad.return (Inl err)
            else
              bindE (rp_FindByID (sv_repo S) (p_ID p)) (\<lambda>fresh.
              bindE (at_now S (\<lambda>now. fn now fresh)) (\<lambda>fresh.
              SaveE S fresh)))
     }) (okr (\<lambda>p w. held w p \<and> R (p_Refunds p)))"
    by (rule call_bind [OF call_save_keep [OF assms(4)]])
       (auto split: sum.splits simp: okr_Inr intro!: call_return call_pre [OF again])
qed (use assms in auto)

lemma settle_finds: "settleRefund L rid res now p = Inr p' \<Longrightarrow> rid \<in> r_ID ` set (p_Refunds p')"
proof -
  assume settle: "settleRefund L rid res now p = Inr p'"
  then obtain r where r: "find_Refund rid p = Some r" 
    by (auto simp: settleRefund_def CompleteRefund_def FailRefund_def split: if_splits option.splits)
  then have "rid \<in> set (map r_ID (p_Refunds p))" by (auto simp: find_Refund_def dest!: find_mem)
  moreover have "map r_ID (p_Refunds p') = map r_ID (p_Refunds p)"
    using settle r by (auto simp: settleRefund_def CompleteRefund_def FailRefund_def raise_def Let_def map_upd_first
        split: if_splits refund_status.splits)
  ultimately show ?thesis by (metis list.set_map)
qed

lemma find_Refund_mem: "rid \<in> r_ID ` set (p_Refunds p) \<Longrightarrow> find_Refund rid p \<noteq> None"
  by (auto simp: find_Refund_def find_None_iff)

lemma call_refund_reserved:
  assumes "sv_factory S ty = Inr gw" "r \<in> set (p_Refunds p)"
  shows "call (\<lambda>w. ready w p) (refund_reserved S gw p r) (okr (\<lambda>res _. rpr_Refund res \<noteq> None))"
proof -
  have outcome: "call (\<lambda>w. told_outcome w rid res \<and> held w q) (bindE (saveOutcome S q (settleRefund (lib S) rid res)) (\<lambda>p. do {
              DropCachedPayment S p;
              State_Monad.return (Inr \<lparr>rpr_Payment = p, rpr_Refund = find_Refund rid p,
                                       rpr_Replayed = False\<rparr>)
            })) (okr (\<lambda>res _. rpr_Refund res \<noteq> None))" for q rid res
  proof (rule call_okE [OF call_saveOutcome_keep [where R = "\<lambda>rs. rid \<in> r_ID ` set rs" and
        K = "\<lambda>w. told_outcome w rid res"]])
    show "call (\<lambda>w. held w p \<and> rid \<in> r_ID ` set (p_Refunds p)) (do {
              DropCachedPayment S p;
              State_Monad.return (Inr \<lparr>rpr_Payment = p, rpr_Refund = find_Refund rid p,
                                       rpr_Replayed = False\<rparr>)
            }) (okr (\<lambda>res _. rpr_Refund res \<noteq> None))" for p
      by (rule call_calm_bind [OF calm_Drop]) (use find_Refund_mem in \<open>auto intro!: call_return\<close>)
  qed (auto intro: held_settle settle_finds)
  have called: "call (\<lambda>w. held w q \<and> p_Refunds q = p_Refunds p) (do {
       DropCachedPayment S q;
       called \<leftarrow> callRefund S gw q r;
       (case called of
          Inl _ \<Rightarrow> State_Monad.return (Inr \<lparr>rpr_Payment = q, rpr_Refund = Some r, rpr_Replayed = False\<rparr>)
        | Inr res \<Rightarrow>
            bindE (saveOutcome S q (settleRefund (lib S) (r_ID r) res)) (\<lambda>p. do {
              DropCachedPayment S p;
              State_Monad.return (Inr \<lparr>rpr_Payment = p, rpr_Refund = find_Refund (r_ID r) p,
                                       rpr_Replayed = False\<rparr>)
            }))
     }) (okr (\<lambda>res _. rpr_Refund res \<noteq> None))" for q
  proof (cases "p_Refunds q = p_Refunds p")
    case True
    then have r: "r \<in> set (p_Refunds q)" using assms(2) by simp
    show ?thesis
      by (rule call_pre [where P' = "\<lambda>w. held w q"], rule call_calm_bind [OF calm_Drop], simp,
          rule call_bind [OF call_callRefund [OF assms(1) r]])
         (auto split: sum.splits simp del: not_None_eq intro!: call_return call_pre [OF outcome])
  qed (simp add: call_def)
  show ?thesis unfolding refund_reserved_def
    by (rule call_okE [OF call_SaveE called])
qed

lemma RequestRefund_last:
  "RequestRefund now uid ref a reason rb p = Inr (p', r) \<Longrightarrow> r \<in> set (p_Refunds p')"
  by (auto simp: RequestRefund_def raise_def Let_def split: if_splits)

text \<open>A refund that is answered without an error names a refund.\<close>

theorem RefundPayment_result: "call (\<lambda>_. True) (RefundPayment_Handle S cmd) (okr (\<lambda>res _. rpr_Refund res \<noteq> None))"
  unfolding RefundPayment_Handle_def
proof (rule call_okE [OF call_FindByID])
  fix p
  have reserve: "call (\<lambda>w. held w p) (do {
            now \<leftarrow> Now S;
            uid \<leftarrow> rt_NewUUID (sv_rt S);
            (case RequestRefund now uid (rc_ReferenceID cmd) amount (rc_Reason cmd)
                    (if rc_Admin cmd then ''admin'' else rc_CallerService cmd) p of
               Inl err \<Rightarrow> State_Monad.return (Inl err)
             | Inr (p', r) \<Rightarrow> refund_reserved S gw p' r)
          }) (okr (\<lambda>res _. rpr_Refund res \<noteq> None))" if gw: "sv_factory S ty = Inr gw" for ty gw amount
  proof (rule call_calm_bind [OF calm_Now], simp, rule call_bind [OF call_NewUUID], simp)
    fix now uid
    show "call (\<lambda>w. fresh w uid \<and> held w p)
       (case RequestRefund now uid (rc_ReferenceID cmd) amount (rc_Reason cmd)
                    (if rc_Admin cmd then ''admin'' else rc_CallerService cmd) p of
               Inl err \<Rightarrow> State_Monad.return (Inl err)
             | Inr (p', r) \<Rightarrow> refund_reserved S gw p' r) (okr (\<lambda>res _. rpr_Refund res \<noteq> None))"
    proof (cases "RequestRefund now uid (rc_ReferenceID cmd) amount (rc_Reason cmd)
                    (if rc_Admin cmd then ''admin'' else rc_CallerService cmd) p")
      case (Inr pr)
      obtain p' r where pr: "pr = (p', r)" by fastforce
      show ?thesis unfolding Inr pr sum.case prod.case
        by (rule call_pre [OF call_refund_reserved [OF gw RequestRefund_last [OF Inr [unfolded pr]]]])
           (use held_request Inr pr in blast)
    qed (simp add: call_return)
  qed
  show "call (\<lambda>w. held w p) (if \<not> rc_Admin cmd \<and> p_CallerService p \<noteq> rc_CallerService cmd then
       State_Monad.return (Inl (NotFound (''payment not found: '' @
         uuid_String (lib S) (rc_PaymentID cmd))))
     else if rc_ReferenceID cmd = [] then
       State_Monad.return (Inl (InvalidInput ''reference_id is required''))
     else (case RefundByReference (rc_ReferenceID cmd) p of
       Some ex \<Rightarrow>
         State_Monad.return
           (if rc_Amount cmd \<noteq> 0 \<and> rc_Amount cmd \<noteq> r_Amount ex then
              Inl (IdempotencyConflict ''refund reference_id was already used with a different amount'')
            else Inr \<lparr>rpr_Payment = p, rpr_Refund = Some ex, rpr_Replayed = True\<rparr>)
     | None \<Rightarrow>
       (case sv_factory S (p_GatewayType p) of
          Inl err \<Rightarrow> State_Monad.return (Inl (Internal (''no gateway configured for '' @ p_GatewayType p) (Some err)))
        | Inr gw \<Rightarrow>
       (case refund_amount cmd gw p of
          Inl err \<Rightarrow> State_Monad.return (Inl err)
        | Inr amount \<Rightarrow> do {
            now \<leftarrow> Now S;
            uid \<leftarrow> rt_NewUUID (sv_rt S);
            (case RequestRefund now uid (rc_ReferenceID cmd) amount (rc_Reason cmd)
                    (if rc_Admin cmd then ''admin'' else rc_CallerService cmd) p of
               Inl err \<Rightarrow> State_Monad.return (Inl err)
             | Inr (p', r) \<Rightarrow> refund_reserved S gw p' r)
          })))) (okr (\<lambda>res _. rpr_Refund res \<noteq> None))"
    by (intro call_if call_option call_sum) (erule reserve | simp add: call_return)+
qed

theorem RefundPayment_safe: "safe (RefundPayment_Handle S cmd)"
  by (rule call_post [OF RefundPayment_result]) simp

section \<open>The reconciler\<close>

lemma call_gw_lookup:
  assumes "sv_factory S ty = Inr gw"
  shows "calm (gw_lookup S gw p rf)"
  unfolding gw_lookup_def
  by (intro calm_bind calm_gateway [OF assms] calm_Now calm_Since calm_recordAttempt calm_return)

lemma call_gw_lookup_told:
  assumes "sv_factory S ty = Inr gw"
  shows "call (\<lambda>w. held w p) (gw_lookup S gw p rf)
    (\<lambda>st w. held w p \<and> (\<forall>ts. st = Inr ts \<longrightarrow> (ts_Status ts = TransactionSettled \<longrightarrow> told_paid w (p_ID p)) \<and> told_refunds w (ts_Refunds ts)))"
  unfolding gw_lookup_def
  by (rule call_calm_bind [OF calm_Now], simp, rule call_bind [OF call_Status [OF assms, where uid = "p_ID p"]], simp, simp,
      rule call_calm_bind [OF calm_Since], simp add: stable_told, rule call_calm_bind [OF calm_recordAttempt], simp add: stable_told,
      rule call_return, simp)

lemma calm_gw_cancel:
  assumes "sv_factory S ty = Inr gw"
  shows "calm (gw_cancel S gw p tx)"
  unfolding gw_cancel_def Let_def
  by (intro calm_bind calm_gateway [OF assms] calm_Now calm_Since calm_recordAttempt calm_return)

lemma call_reconcile_save: "call (\<lambda>w. held w p) (reconcile_save S p) (\<lambda>_ _. True)"
  unfolding reconcile_save_def
proof (rule call_bind [OF call_save_held])
  fix saved
  show "call (okr (\<lambda>p' w. held w p') saved)
     (case saved of Inl _ \<Rightarrow> State_Monad.return () | Inr p \<Rightarrow> DropCachedPayment S p) (\<lambda>_ _. True)"
    by (cases saved) (auto simp: call_return okr_Inr intro: call_post [OF calm_call [OF calm_Drop]])
qed

lemma call_record_then:
  assumes "\<And>p. call (\<lambda>w. held w p \<and> K w (p_ID p)) (f p) (okr (\<lambda>p w. held w p))" "\<And>uid. stable (\<lambda>w. K w uid)"
  shows "call (\<lambda>w. held w p \<and> K w (p_ID p)) (record_then S st p f) (okr (\<lambda>p w. held w p))"
  unfolding record_then_def
  by (rule call_okE [OF call_at_now assms(1)]) (use assms(2) in \<open>auto intro: held_ops dest: MarkPending_ID\<close>)

definition outr :: "(goerr + payment) option \<Rightarrow> 'w \<Rightarrow> bool" where
  "outr out w \<longleftrightarrow> (\<forall>r. out = Some r \<longrightarrow> okr (\<lambda>p w. held w p) r w)"

lemma call_some:
  "call P m (okr (\<lambda>p w. held w p)) \<Longrightarrow> call P (do { r \<leftarrow> m; State_Monad.return (Some r) }) outr"
  by (erule call_bind) (simp add: call_return outr_def)

lemma call_charge_outcome:
  assumes "sv_factory S ty = Inr gw"
  shows "call (\<lambda>w. held w p \<and> (ts_Status st = TransactionSettled \<longrightarrow> told_paid w (p_ID p))) (charge_outcome S gw st p) outr"
proof -
  have none: "call P (State_Monad.return None) outr" for P
    by (simp add: call_return outr_def)
  have failed: "call (\<lambda>w. held w q \<and> True) (at_now S (\<lambda>now. MarkFailed now c m q)) (okr (\<lambda>p w. held w p))" for q c m
    by (rule call_at_now) (auto intro: held_ops)
  have settled: "call (\<lambda>w. held w q \<and> told_paid w (p_ID q)) (do { paid \<leftarrow> Now S; at_now S (\<lambda>now. MarkCompleted now paid q) })
      (okr (\<lambda>p w. held w p))" for q
    by (rule call_calm_bind [OF calm_Now _ call_at_now]) (auto intro: held_ops told_paid_backed)
  note record_failed = call_some [OF call_pre [OF call_record_then [where K = "\<lambda>_ _. True", OF failed]]]
  have pending: "call (\<lambda>w. held w p) (do {
            cancelled \<leftarrow> gw_cancel S gw p tx;
            if \<not> cancelled then State_Monad.return None
            else do {
              r \<leftarrow> record_then S st p (\<lambda>p. at_now S (\<lambda>now. MarkFailed now c m p));
              State_Monad.return (Some r)
            }
          }) outr" for tx c m
    by (rule call_calm_bind [OF calm_gw_cancel [OF assms]]) (auto intro: none record_failed)
  have lost: "call (\<lambda>w. held w p) (do { r \<leftarrow> at_now S (\<lambda>now. MarkFailed now c m p); State_Monad.return (Some r) }) outr" for c m
    using call_some [OF failed] by simp
  have paid: "call (\<lambda>w. held w p \<and> told_paid w (p_ID p)) (do {
            r \<leftarrow> record_then S st p (\<lambda>p. do { paid \<leftarrow> Now S; at_now S (\<lambda>now. MarkCompleted now paid p) });
            State_Monad.return (Some r)
          }) outr"
    by (rule call_some [OF call_record_then [where K = told_paid, OF settled]]) simp
  show ?thesis
    unfolding charge_outcome_def
    by (auto split: transaction_status.splits intro: none record_failed pending lost paid call_pre [OF lost])
qed

lemma call_reconcileCharge: "call (\<lambda>w. held w p) (reconcileCharge S p) (\<lambda>_ _. True)"
proof (cases "sv_factory S (p_GatewayType p)")
  case (Inr gw)
  have act: "call (\<lambda>w. held w p \<and> (ts_Status st = TransactionSettled \<longrightarrow> told_paid w (p_ID p))) (do {
       out \<leftarrow> charge_outcome S gw st p;
       (case out of Some (Inr p) \<Rightarrow> reconcile_save S p | _ \<Rightarrow> State_Monad.return ())
     }) (\<lambda>_ _. True)" for st
    by (rule call_bind [OF call_charge_outcome [OF Inr]])
       (auto split: option.splits sum.splits simp: outr_def okr_Inr intro: call_return
         intro!: call_pre [OF call_reconcile_save])
  show ?thesis
    unfolding reconcileCharge_def Inr sum.case
    by (rule call_bind [OF call_gw_lookup_told [OF Inr]])
       (auto split: sum.splits intro!: call_pre [OF act] call_return)
qed (simp add: reconcileCharge_def call_return)

text \<open>The retry loop keeps the number of refunds, so every position it visits exists.\<close>

lemma settle_length: "settleRefund L rid res now p = Inr p' \<Longrightarrow> length (p_Refunds p') = length (p_Refunds p)"
  by (auto simp: settleRefund_def CompleteRefund_def FailRefund_def raise_def Let_def
      split: if_splits option.splits refund_status.splits)

lemma call_retryRefund:
  assumes gw: "sv_factory S ty = Inr gw" and i: "i < n"
  shows "call (\<lambda>w. held w (fst pc) \<and> length (p_Refunds (fst pc)) = n) (retryRefund S cfg gw now i pc)
    (\<lambda>pc w. held w (fst pc) \<and> length (p_Refunds (fst pc)) = n)"
proof (cases pc)
  case (Pair p changed)
  show ?thesis
  proof (cases "length (p_Refunds p) = n")
    case True
    then have r: "p_Refunds p ! i \<in> set (p_Refunds p)" using i by simp
    have retry: "call (\<lambda>w. held w p) (do {
           res \<leftarrow> callRefund S gw p (p_Refunds p ! i);
           (case res of
              Inl _ \<Rightarrow> State_Monad.return (p, changed)
            | Inr rr \<Rightarrow> do {
                applied \<leftarrow> at_now S (\<lambda>t. settleRefund (lib S) (r_ID (p_Refunds p ! i)) rr t p);
                State_Monad.return (case applied of Inl _ \<Rightarrow> (p, changed) | Inr p' \<Rightarrow> (p', True))
              })
         }) (\<lambda>pc w. held w (fst pc) \<and> length (p_Refunds (fst pc)) = n)"
    proof (rule call_bind [OF call_callRefund [OF gw r]])
      fix res
      have settle: "call (\<lambda>w. held w p \<and> told_outcome w rid rr) (do {
                applied \<leftarrow> at_now S (\<lambda>t. settleRefund (lib S) rid rr t p);
                State_Monad.return (case applied of Inl _ \<Rightarrow> (p, changed) | Inr p' \<Rightarrow> (p', True))
              }) (\<lambda>pc w. held w (fst pc) \<and> length (p_Refunds (fst pc)) = n)" for rid rr
        unfolding at_now_def
        by (simp add: True, rule call_calm_bind [OF calm_Now], simp add: stable_conj, rule call_return)
           (auto split: sum.splits intro: held_settle simp: settle_length True)
      show "call (\<lambda>w. held w p \<and> (\<forall>rr. res = Inr rr \<longrightarrow> told_outcome w (r_ID (p_Refunds p ! i)) rr)) (case res of
              Inl _ \<Rightarrow> State_Monad.return (p, changed)
            | Inr rr \<Rightarrow> do {
                applied \<leftarrow> at_now S (\<lambda>t. settleRefund (lib S) (r_ID (p_Refunds p ! i)) rr t p);
                State_Monad.return (case applied of Inl _ \<Rightarrow> (p, changed) | Inr p' \<Rightarrow> (p', True))
              }) (\<lambda>pc w. held w (fst pc) \<and> length (p_Refunds (fst pc)) = n)"
        by (auto split: sum.splits intro: call_return call_pre [OF settle] simp: True)
    qed
    then show ?thesis
      by (auto simp: Pair retryRefund_def Let_def True intro: call_return)
  qed (simp add: Pair call_def)
qed

lemma call_reconcileRefunds: "call (\<lambda>w. held w p) (reconcileRefunds S cfg p) (\<lambda>_ _. True)"
proof (cases "sv_factory S (p_GatewayType p)")
  case (Inr gw)
  have loop: "call (\<lambda>w. held w p) (do {
       (p, changed) \<leftarrow> foldS (retryRefund S cfg gw now) [0..<length (p_Refunds p)] (p, changed);
       if changed then reconcile_save S p else State_Monad.return ()
     }) (\<lambda>_ _. True)" for p changed now
  proof (rule call_bind)
    show "call (\<lambda>w. held w p) (foldS (retryRefund S cfg gw now) [0..<length (p_Refunds p)] (p, changed))
        (\<lambda>pc w. held w (fst pc))"
      by (rule call_conseq [OF call_foldS [where J =
            "\<lambda>pc w. held w (fst pc) \<and> length (p_Refunds (fst pc)) = length (p_Refunds p)"]])
         (auto intro: call_retryRefund [OF Inr])
    show "call (\<lambda>w. held w (fst pc)) (case pc of (p, changed) \<Rightarrow>
        if changed then reconcile_save S p else State_Monad.return ()) (\<lambda>_ _. True)" for pc
      by (cases pc) (auto intro: call_reconcile_save call_return)
  qed
  have notified: "call (\<lambda>w. True \<and> held w p \<and> told_refunds w rns) (do {
               applied \<leftarrow> applyRefundNotifications S p False rns;
               (case applied of
                  Inl _ \<Rightarrow> State_Monad.return ()
                | Inr (p, changed) \<Rightarrow> do {
                    now \<leftarrow> Now S;
                    (p, changed) \<leftarrow> foldS (retryRefund S cfg gw now) [0..<length (p_Refunds p)] (p, changed);
                    if changed then reconcile_save S p else State_Monad.return ()
                  })
             }) (\<lambda>_ _. True)" for rns
  proof (rule call_bind [OF call_applyRefundNotifications], simp)
    fix applied
    show "call (okr (\<lambda>(p', _) w. True \<and> held w p' \<and> (\<forall>n. names_payment (lib S) n p' = names_payment (lib S) n p)) applied) (case applied of
                  Inl _ \<Rightarrow> State_Monad.return ()
                | Inr (p, changed) \<Rightarrow> do {
                    now \<leftarrow> Now S;
                    (p, changed) \<leftarrow> foldS (retryRefund S cfg gw now) [0..<length (p_Refunds p)] (p, changed);
                    if changed then reconcile_save S p else State_Monad.return ()
                  }) (\<lambda>_ _. True)"
      by (cases applied)
         (auto simp: okr_Inr call_return intro!: call_pre [OF call_calm_bind [OF calm_Now _ loop]])
  qed
  show ?thesis
    unfolding reconcileRefunds_def Inr sum.case
    by (rule call_bind [OF call_gw_lookup_told [OF Inr]])
       (auto split: sum.splits intro!: call_pre [OF notified] call_return)
qed (simp add: reconcileRefunds_def call_return)

theorem Reconciler_safe: "safe (Reconciler_RunOnce S cfg)"
proof -
  have each: "call (okr (\<lambda>ps w. \<forall>p \<in> set ps. held w p) r)
      (foldS (\<lambda>p u. f p) (case r of Inl _ \<Rightarrow> [] | Inr ps \<Rightarrow> ps) ()) (\<lambda>_ _. True)"
    if "\<And>p. call (\<lambda>w. held w p) (f p) (\<lambda>_ _. True)" for r f
    using call_each_held [OF that] by (cases r) (simp_all add: okr_Inr call_return)
  show ?thesis
    unfolding Reconciler_RunOnce_def
    by (rule call_calm_bind [OF calm_Now], simp, rule call_bind [OF call_FindAwaiting],
        rule call_bind [OF each [OF call_reconcileCharge]], rule call_bind [OF call_FindPendingRefunds],
        rule each [OF call_reconcileRefunds])
qed

theorem tick_reconciler_safe: "safe (tick_reconciler S cfg interval)"
proof -
  have "safe (do { Reconciler_RunOnce S (withDefaults cfg);
          _ \<leftarrow> cp_Delete (sv_cache S) reconcileLockKey; State_Monad.return () })"
    by (rule call_bind [OF Reconciler_safe], rule call_calm_bind [OF calm_Delete]) (simp_all add: call_return)
  then show ?thesis
    unfolding tick_reconciler_def
    by (intro call_calm_bind [OF calm_SetNX])
       (auto split: sum.splits bool.splits intro: call_return)
qed

end

end
