(* ===== verification/Store.thy ===== *)
theory Store
  imports Ports
begin

text \<open>
  The tables of \<open>migrations/*.up.sql\<close> and the statements of \<open>postgres/db/*.sql.go\<close> that commands
  use, one definition per query. A table is a list of rows in insertion order; a statement is a
  function of the database that may refuse with an error of PostgreSQL. The columns that hold
  enumerations keep the model's values, since only the repository writes them; JSONB columns hold
  JSON values; \<open>TIMESTAMPTZ\<close> columns keep microseconds, which is what the driver sends.
\<close>

section \<open>Tables\<close>

record payment_row =
  pr_ID :: uuid
  pr_ReferenceID :: string
  pr_CallerService :: string
  pr_GatewayType :: string
  pr_GatewayTransactionID :: "string option"
  pr_Status :: status
  pr_Amount :: int64
  pr_Currency :: string
  pr_PaymentMethodType :: "string option"
  pr_CustomerInfo :: json
  pr_Metadata :: "json option"
  pr_GatewayRequestPayload :: "json option"
  pr_GatewayResponsePayload :: "json option"
  pr_Description :: "string option"
  pr_ExpiredAt :: "time option"
  pr_PaidAt :: "time option"
  pr_CreatedAt :: time
  pr_UpdatedAt :: time
  pr_DeletedAt :: "time option"
  pr_Version :: int

record refund_row =
  rw_ID :: uuid
  rw_PaymentID :: uuid
  rw_ReferenceID :: string
  rw_GatewayRefundID :: "string option"
  rw_Status :: refund_status
  rw_Amount :: int64
  rw_Reason :: "string option"
  rw_FailureReason :: "string option"
  rw_RequestedBy :: string
  rw_CreatedAt :: time
  rw_UpdatedAt :: time
  rw_CompletedAt :: "time option"
  rw_DeletedAt :: "time option"

record event_row =
  ev_ID :: uuid
  ev_AggregateID :: uuid
  ev_EventType :: string
  ev_SequenceNumber :: int
  ev_Payload :: json
  ev_CreatedAt :: time

datatype outbox_status = OutboxPending | OutboxPublished | OutboxFailed

record outbox_row =
  ob_ID :: uuid
  ob_AggregateID :: uuid
  ob_EventType :: string
  ob_Payload :: json
  ob_Status :: outbox_status
  ob_RetryCount :: int
  ob_LastError :: "string option"
  ob_ScheduledAt :: time
  ob_PublishedAt :: "time option"
  ob_CreatedAt :: time

record attempt_row =
  ar_ID :: uuid
  ar_PaymentID :: uuid
  ar_RefundID :: "uuid option"
  ar_Operation :: string
  ar_AttemptNumber :: int
  ar_Status :: string
  ar_GatewayTransactionID :: "string option"
  ar_ErrorCode :: "string option"
  ar_ErrorMessage :: "string option"
  ar_GatewayResponse :: "json option"
  ar_DurationMs :: "int option"
  ar_CreatedAt :: time

record db =
  db_payments :: "payment_row list"
  db_refunds :: "refund_row list"
  db_events :: "event_row list"
  db_outbox :: "outbox_row list"
  db_attempts :: "attempt_row list"

definition empty_db :: db where
  "empty_db = \<lparr>db_payments = [], db_refunds = [], db_events = [], db_outbox = [], db_attempts = []\<rparr>"

section \<open>Column values\<close>

definition pg_time :: "time \<Rightarrow> time" where
  "pg_time t = t - t mod 1000"

definition toNullableString :: "string \<Rightarrow> string option" where
  "toNullableString s = (if s = [] then None else Some s)"

definition derefString :: "string option \<Rightarrow> string" where
  "derefString s = (case s of None \<Rightarrow> [] | Some x \<Rightarrow> x)"

lemma deref_nullable [simp]: "derefString (toNullableString s) = s"
  by (simp add: derefString_def toNullableString_def)

text \<open>\<open>VARCHAR(n)\<close> counts characters, here the bytes that start a UTF-8 sequence.\<close>

definition utf8_length :: "string \<Rightarrow> nat" where
  "utf8_length s = length (filter (\<lambda>c. \<not> (128 \<le> (of_char c :: nat) \<and> (of_char c :: nat) < 192)) s)"

definition varchar :: "nat \<Rightarrow> string \<Rightarrow> bool" where
  "varchar n s \<longleftrightarrow> utf8_length s \<le> n"

definition varchar_null :: "nat \<Rightarrow> string option \<Rightarrow> bool" where
  "varchar_null n s \<longleftrightarrow> (case s of None \<Rightarrow> True | Some x \<Rightarrow> varchar n x)"

definition too_long :: goerr where
  "too_long = PgError ''22001'' ''value too long for type character varying''"
definition check_violation :: goerr where
  "check_violation = PgError ''23514'' ''new row violates check constraint''"
definition unique_violation :: goerr where
  "unique_violation = PgError ''23505'' ''duplicate key value violates unique constraint''"
definition out_of_range :: goerr where
  "out_of_range = PgError ''22003'' ''integer out of range''"

text \<open>\<open>json.Marshal\<close> and \<open>json.Unmarshal\<close> of \<open>CustomerInfo\<close> and of a \<open>map[string]any\<close>.\<close>

definition customer_json :: "customer_info \<Rightarrow> json" where
  "customer_json c = JObj [(''external_id'', JStr (c_ExternalID c)), (''name'', JStr (c_Name c)),
     (''email'', JStr (c_Email c)), (''phone'', JStr (c_Phone c))]"

definition json_str_field :: "jobj \<Rightarrow> string \<Rightarrow> string option" where
  "json_str_field obj k =
     (case map_of obj k of None \<Rightarrow> Some [] | Some JNull \<Rightarrow> Some [] | Some (JStr s) \<Rightarrow> Some s | _ \<Rightarrow> None)"

definition customer_of_json :: "json \<Rightarrow> customer_info option" where
  "customer_of_json j =
     (case j of
        JNull \<Rightarrow> Some \<lparr>c_ExternalID = [], c_Name = [], c_Email = [], c_Phone = []\<rparr>
      | JObj obj \<Rightarrow>
          (case (json_str_field obj ''external_id'', json_str_field obj ''name'',
                 json_str_field obj ''email'', json_str_field obj ''phone'') of
             (Some e, Some n, Some m, Some t) \<Rightarrow>
               Some \<lparr>c_ExternalID = e, c_Name = n, c_Email = m, c_Phone = t\<rparr>
           | _ \<Rightarrow> None)
      | _ \<Rightarrow> None)"

lemma customer_roundtrip [simp]: "customer_of_json (customer_json c) = Some c"
  by (cases c) (simp add: customer_json_def customer_of_json_def json_str_field_def)

definition marshalJSONOrNil :: "jobj option \<Rightarrow> json option" where
  "marshalJSONOrNil v = map_option JObj v"

definition unmarshal_map :: "json option \<Rightarrow> (jobj option) option" where
  "unmarshal_map j =
     (case j of None \<Rightarrow> Some None | Some JNull \<Rightarrow> Some None | Some (JObj m) \<Rightarrow> Some (Some m) | _ \<Rightarrow> None)"

lemma map_roundtrip [simp]: "unmarshal_map (marshalJSONOrNil v) = Some v"
  by (cases v) (simp_all add: unmarshal_map_def marshalJSONOrNil_def)

section \<open>Payments\<close>

text \<open>
  \<open>InsertPayment\<close>: the number of rows inserted. Values are checked against their columns first,
  then the conflict target decides, then the primary key.
\<close>

definition InsertPayment :: "payment_row \<Rightarrow> db \<Rightarrow> goerr + (int \<times> db)" where
  "InsertPayment row d =
     (if \<not> (varchar 255 (pr_ReferenceID row) \<and> varchar 100 (pr_CallerService row) \<and>
            varchar 50 (pr_GatewayType row) \<and> varchar_null 255 (pr_GatewayTransactionID row) \<and>
            varchar 10 (pr_Currency row) \<and> varchar_null 50 (pr_PaymentMethodType row)) then Inl too_long
      else if \<not> 0 < sint (pr_Amount row) then Inl check_violation
      else if (pr_ReferenceID row, pr_CallerService row) \<in>
              (\<lambda>r. (pr_ReferenceID r, pr_CallerService r)) ` set (db_payments d) then Inr (0, d)
      else if pr_ID row \<in> pr_ID ` set (db_payments d) then Inl unique_violation
      else Inr (1, d\<lparr>db_payments := db_payments d @ [row]\<rparr>))"

text \<open>\<open>UpdatePaymentFull\<close>: the row with this id and this version, if it is still there.\<close>

definition UpdatePaymentFull ::
  "uuid \<Rightarrow> string option \<Rightarrow> status \<Rightarrow> json option \<Rightarrow> time option \<Rightarrow> time \<Rightarrow> int \<Rightarrow> db \<Rightarrow> goerr + (int \<times> db)" where
  "UpdatePaymentFull uid tx st resp paid upd ver d =
     (let hit = (\<lambda>r. pr_ID r = uid \<and> pr_Version r = ver)
      in if \<not> (\<exists>r \<in> set (db_payments d). hit r) then Inr (0, d)
         else if \<not> varchar_null 255 tx then Inl too_long
         else if ver + 1 \<ge> 2 ^ 31 then Inl out_of_range
         else Inr (1, d\<lparr>db_payments := upd_first hit
                (\<lambda>r. r\<lparr>pr_GatewayTransactionID := tx, pr_Status := st, pr_GatewayResponsePayload := resp,
                      pr_PaidAt := paid, pr_UpdatedAt := upd, pr_Version := pr_Version r + 1\<rparr>)
                (db_payments d)\<rparr>))"

definition UpdatePaymentStatus :: "time \<Rightarrow> uuid \<Rightarrow> status \<Rightarrow> db \<Rightarrow> db" where
  "UpdatePaymentStatus now uid st d =
     d\<lparr>db_payments := map (\<lambda>r. if pr_ID r = uid then r\<lparr>pr_Status := st, pr_UpdatedAt := pg_time now\<rparr> else r)
        (db_payments d)\<rparr>"

definition live :: "payment_row \<Rightarrow> bool" where
  "live r \<longleftrightarrow> pr_DeletedAt r = None"

definition GetPaymentByID :: "uuid \<Rightarrow> db \<Rightarrow> payment_row option" where
  "GetPaymentByID uid d = List.find (\<lambda>r. pr_ID r = uid \<and> live r) (db_payments d)"

definition GetPaymentByReference :: "string \<Rightarrow> string \<Rightarrow> db \<Rightarrow> payment_row option" where
  "GetPaymentByReference ref caller d =
     List.find (\<lambda>r. pr_ReferenceID r = ref \<and> pr_CallerService r = caller \<and> live r) (db_payments d)"

definition GetPaymentByGatewayTransactionID :: "string \<Rightarrow> db \<Rightarrow> payment_row option" where
  "GetPaymentByGatewayTransactionID tx d =
     List.find (\<lambda>r. pr_GatewayTransactionID r = Some tx \<and> live r) (db_payments d)"

text \<open>A limit that is negative is an error of PostgreSQL; the callers pass positive ones.\<close>

definition limited :: "int \<Rightarrow> 'a list \<Rightarrow> 'a list" where
  "limited n xs = take (nat (int32 n)) xs"

definition GetExpiredPayments :: "time \<Rightarrow> int \<Rightarrow> db \<Rightarrow> payment_row list" where
  "GetExpiredPayments now n d =
     limited n (filter (\<lambda>r. pr_Status r = StatusPending \<and>
       (case pr_ExpiredAt r of Some t \<Rightarrow> t < now | None \<Rightarrow> False) \<and> live r) (db_payments d))"

definition GetPaymentsAwaitingChargeOutcome :: "time \<Rightarrow> int \<Rightarrow> db \<Rightarrow> payment_row list" where
  "GetPaymentsAwaitingChargeOutcome cutoff n d =
     limited n (sort_key pr_CreatedAt
       (filter (\<lambda>r. pr_Status r = StatusInitiated \<and> pr_CreatedAt r < pg_time cutoff \<and> live r)
         (db_payments d)))"

section \<open>Refunds\<close>

definition GetPaymentIDsWithPendingRefunds :: "time \<Rightarrow> int \<Rightarrow> db \<Rightarrow> uuid list" where
  "GetPaymentIDsWithPendingRefunds cutoff n d =
     limited n (remdups (map rw_PaymentID
       (filter (\<lambda>r. rw_Status r = RefundStatusPending \<and> rw_CreatedAt r < pg_time cutoff \<and>
                    rw_DeletedAt r = None) (db_refunds d))))"

text \<open>\<open>ORDER BY created_at, id\<close>: sorting by the second key first, the sort being stable.\<close>

definition ListRefundsByPayment :: "uuid \<Rightarrow> db \<Rightarrow> refund_row list" where
  "ListRefundsByPayment pid d =
     sort_key rw_CreatedAt (sort_key rw_ID
       (filter (\<lambda>r. rw_PaymentID r = pid \<and> rw_DeletedAt r = None) (db_refunds d)))"

definition merge_refund :: "refund_row \<Rightarrow> refund_row \<Rightarrow> refund_row" where
  "merge_refund new r =
     r\<lparr>rw_GatewayRefundID := rw_GatewayRefundID new, rw_Status := rw_Status new,
       rw_FailureReason := rw_FailureReason new, rw_UpdatedAt := rw_UpdatedAt new,
       rw_CompletedAt := rw_CompletedAt new\<rparr>"

definition UpsertRefund :: "refund_row \<Rightarrow> db \<Rightarrow> goerr + db" where
  "UpsertRefund row d =
     (if \<not> (varchar 255 (rw_ReferenceID row) \<and> varchar_null 255 (rw_GatewayRefundID row) \<and>
            varchar 100 (rw_RequestedBy row)) then Inl too_long
      else if \<not> 0 < sint (rw_Amount row) then Inl check_violation
      else if rw_ID row \<in> rw_ID ` set (db_refunds d) then
        Inr (d\<lparr>db_refunds := upd_first (\<lambda>r. rw_ID r = rw_ID row) (merge_refund row) (db_refunds d)\<rparr>)
      else if (rw_ReferenceID row, rw_PaymentID row) \<in>
              (\<lambda>r. (rw_ReferenceID r, rw_PaymentID r)) ` set (db_refunds d) then Inl unique_violation
      else Inr (d\<lparr>db_refunds := db_refunds d @ [row]\<rparr>))"

section \<open>Events, outbox, attempts\<close>

definition GetLastEventSequence :: "uuid \<Rightarrow> db \<Rightarrow> int" where
  "GetLastEventSequence pid d =
     (let seqs = map ev_SequenceNumber (filter (\<lambda>e. ev_AggregateID e = pid) (db_events d))
      in if seqs = [] then 0 else Max (set seqs))"

definition InsertPaymentEvent ::
  "uuid \<Rightarrow> time \<Rightarrow> uuid \<Rightarrow> string \<Rightarrow> int \<Rightarrow> json \<Rightarrow> db \<Rightarrow> goerr + db" where
  "InsertPaymentEvent rid now pid ty n payload d =
     (if (pid, n) \<in> (\<lambda>e. (ev_AggregateID e, ev_SequenceNumber e)) ` set (db_events d) then Inl unique_violation
      else Inr (d\<lparr>db_events := db_events d @ [\<lparr>ev_ID = rid, ev_AggregateID = pid, ev_EventType = ty,
              ev_SequenceNumber = n, ev_Payload = payload, ev_CreatedAt = pg_time now\<rparr>]\<rparr>))"

definition InsertOutboxEvent :: "uuid \<Rightarrow> time \<Rightarrow> uuid \<Rightarrow> string \<Rightarrow> json \<Rightarrow> db \<Rightarrow> db" where
  "InsertOutboxEvent rid now pid ty payload d =
     d\<lparr>db_outbox := db_outbox d @ [\<lparr>ob_ID = rid, ob_AggregateID = pid, ob_EventType = ty,
        ob_Payload = payload, ob_Status = OutboxPending, ob_RetryCount = 0, ob_LastError = None,
        ob_ScheduledAt = pg_time now, ob_PublishedAt = None, ob_CreatedAt = pg_time now\<rparr>]\<rparr>"

text \<open>\<open>attempt_number\<close> is one more than the payment's largest, computed by the statement itself.\<close>

definition last_attempt :: "uuid \<Rightarrow> db \<Rightarrow> int" where
  "last_attempt pid d =
     (let ns = map ar_AttemptNumber (filter (\<lambda>a. ar_PaymentID a = pid) (db_attempts d))
      in if ns = [] then 0 else Max (set ns))"

definition InsertPaymentAttempt :: "attempt_row \<Rightarrow> db \<Rightarrow> goerr + db" where
  "InsertPaymentAttempt row d =
     (let n = last_attempt (ar_PaymentID row) d + 1
      in if n \<ge> 2 ^ 31 then Inl out_of_range
         else if \<not> (varchar_null 255 (ar_GatewayTransactionID row) \<and> varchar_null 100 (ar_ErrorCode row))
         then Inl too_long
         else Inr (d\<lparr>db_attempts := db_attempts d @ [row\<lparr>ar_AttemptNumber := n\<rparr>]\<rparr>))"

end
