(* ===== verification/World.thy ===== *)
theory World
  imports Store
begin

text \<open>
  The world of one process: the database, the Redis keys and the calls the gateways have received with
  the answers they gave, shared with every other session, and a counter of the calls this process has made. What the
  program does not decide is the environment \<open>env\<close>, indexed by that counter: the clock, fresh
  UUIDs, statements that fail, a commit whose reply is lost, the replies of the gateways, and
  \<open>en_others\<close>, whatever other sessions do to the shared state before each call. \<open>en_jsonb\<close> is the text
  PostgreSQL prints for a JSONB value, \<open>en_float\<close> the library's float64 text of a number literal.
\<close>

datatype gateway_call =
    CallCharge create_transaction_request "goerr + gateway_response"
  | CallStatus transaction_ref "goerr + transaction_state"
  | CallCancel string "goerr option"
  | CallRefund refund_request "goerr + refund_result"

record shared =
  sh_db :: db
  sh_cache :: "string \<rightharpoonup> cache_text \<times> time option"
  sh_calls :: "gateway_call list"

record world =
  w_shared :: shared
  w_tick :: nat

record env =
  en_lib :: uuid_lib
  en_time :: "nat \<Rightarrow> time"
  en_uuid :: "nat \<Rightarrow> uuid"
  en_rowid :: "nat \<Rightarrow> nat \<Rightarrow> uuid"
  en_fault :: "nat \<Rightarrow> nat \<Rightarrow> goerr option"
  en_lost :: "nat \<Rightarrow> bool"
  en_others :: "nat \<Rightarrow> shared \<Rightarrow> shared"
  en_redis :: "nat \<Rightarrow> goerr option"
  en_gateways :: "string list"
  en_capability :: "method_name \<Rightarrow> method_capability"
  en_charge :: "nat \<Rightarrow> create_transaction_request \<Rightarrow> goerr + gateway_response"
  en_status :: "nat \<Rightarrow> transaction_ref \<Rightarrow> goerr + transaction_state"
  en_cancel :: "nat \<Rightarrow> string \<Rightarrow> goerr option"
  en_refund :: "nat \<Rightarrow> refund_request \<Rightarrow> goerr + refund_result"
  en_webhook :: "string \<Rightarrow> headers \<Rightarrow> goerr + webhook_notification"
  en_jsonb :: "json \<Rightarrow> string"
  en_float :: "string \<Rightarrow> string option"

text \<open>Every call first lets the others run, then acts on what it finds.\<close>

definition enter :: "env \<Rightarrow> (world, nat) state" where
  "enter E = State (\<lambda>w. (w_tick w,
     \<lparr>w_shared = en_others E (w_tick w) (w_shared w), w_tick = w_tick w + 1\<rparr>))"

definition act :: "env \<Rightarrow> (nat \<Rightarrow> shared \<Rightarrow> 'a \<times> shared) \<Rightarrow> (world, 'a) state" where
  "act E f = do {
     n \<leftarrow> enter E;
     State (\<lambda>w. case f n (w_shared w) of (x, s) \<Rightarrow> (x, w\<lparr>w_shared := s\<rparr>))
   }"

lemma run_act:
  "run_state (act E f) w =
     (case f (w_tick w) (en_others E (w_tick w) (w_shared w)) of
        (x, s) \<Rightarrow> (x, \<lparr>w_shared = s, w_tick = w_tick w + 1\<rparr>))"
  by (simp add: act_def enter_def split: prod.splits)

section \<open>Clock, identifiers, gateways\<close>

definition sys_Now :: "env \<Rightarrow> (world, time) state" where
  "sys_Now E = act E (\<lambda>n s. (en_time E n, s))"

definition sys_NewUUID :: "env \<Rightarrow> (world, uuid) state" where
  "sys_NewUUID E = act E (\<lambda>n s. (en_uuid E n, s))"

definition sys_runtime :: "env \<Rightarrow> world runtime" where
  "sys_runtime E = \<lparr>rt_Now = sys_Now E, rt_NewUUID = sys_NewUUID E, rt_lib = en_lib E,
     rt_float = en_float E\<rparr>"

definition log_call :: "gateway_call \<Rightarrow> shared \<Rightarrow> shared" where
  "log_call c s = s\<lparr>sh_calls := sh_calls s @ [c]\<rparr>"

definition remote_gateway :: "env \<Rightarrow> world gateway_port" where
  "remote_gateway E =
     \<lparr>gw_Capability = en_capability E,
      gw_CreateTransaction = (\<lambda>q. act E (\<lambda>n s. (en_charge E n q, log_call (CallCharge q (en_charge E n q)) s))),
      gw_GetTransaction = (\<lambda>q. act E (\<lambda>n s. (en_status E n q, log_call (CallStatus q (en_status E n q)) s))),
      gw_CancelTransaction = (\<lambda>q. act E (\<lambda>n s. (en_cancel E n q, log_call (CallCancel q (en_cancel E n q)) s))),
      gw_CreateRefund = (\<lambda>q. act E (\<lambda>n s. (en_refund E n q, log_call (CallRefund q (en_refund E n q)) s))),
      gw_ParseWebhook = en_webhook E\<rparr>"

definition remote_factory :: "env \<Rightarrow> string \<Rightarrow> goerr + world gateway_port" where
  "remote_factory E ty =
     (if ty \<in> set (en_gateways E) then Inr (remote_gateway E)
      else Inl (ErrorsNew (''unsupported gateway: '' @ ty)))"

section \<open>Redis\<close>

text \<open>
  \<open>adapter/outbound/redis/cache_adapter.go\<close>. A key with a positive time to live is gone once it has
  passed; zero or less means that the key stays. \<open>en_redis\<close> is a call the server does not answer.
\<close>

definition redis_live :: "time \<Rightarrow> shared \<Rightarrow> string \<Rightarrow> cache_text option" where
  "redis_live now s k =
     (case sh_cache s k of
        None \<Rightarrow> None
      | Some (v, None) \<Rightarrow> Some v
      | Some (v, Some t) \<Rightarrow> if now < t then Some v else None)"

definition redis_put :: "time \<Rightarrow> string \<Rightarrow> cache_text \<Rightarrow> duration \<Rightarrow> shared \<Rightarrow> shared" where
  "redis_put now k v ttl s =
     s\<lparr>sh_cache := (sh_cache s)(k \<mapsto> (v, if ttl > 0 then Some (now + ttl) else None))\<rparr>"

definition redis_Get :: "env \<Rightarrow> string \<Rightarrow> (world, goerr + cache_text) state" where
  "redis_Get E k = act E (\<lambda>n s.
     (case en_redis E n of
        Some e \<Rightarrow> Inl (Internal ''redis get'' (Some e))
      | None \<Rightarrow> (case redis_live (en_time E n) s k of
                  Some v \<Rightarrow> Inr v
                | None \<Rightarrow> Inl (NotFound (''cache miss: '' @ k))), s))"

definition redis_Set :: "env \<Rightarrow> string \<Rightarrow> cache_text \<Rightarrow> duration \<Rightarrow> (world, goerr option) state" where
  "redis_Set E k v ttl = act E (\<lambda>n s.
     (case en_redis E n of
        Some e \<Rightarrow> (Some (Internal ''redis set'' (Some e)), s)
      | None \<Rightarrow> (None, redis_put (en_time E n) k v ttl s)))"

definition redis_SetNX :: "env \<Rightarrow> string \<Rightarrow> cache_text \<Rightarrow> duration \<Rightarrow> (world, goerr + bool) state" where
  "redis_SetNX E k v ttl = act E (\<lambda>n s.
     (case en_redis E n of
        Some e \<Rightarrow> (Inl (Internal ''redis setnx'' (Some e)), s)
      | None \<Rightarrow> if redis_live (en_time E n) s k \<noteq> None then (Inr False, s)
                else (Inr True, redis_put (en_time E n) k v ttl s)))"

definition redis_Delete :: "env \<Rightarrow> string \<Rightarrow> (world, goerr option) state" where
  "redis_Delete E k = act E (\<lambda>n s.
     (case en_redis E n of
        Some e \<Rightarrow> (Some (Internal ''redis del'' (Some e)), s)
      | None \<Rightarrow> (None, s\<lparr>sh_cache := (sh_cache s)(k := None)\<rparr>)))"

definition redis_adapter :: "env \<Rightarrow> world cache_port" where
  "redis_adapter E = \<lparr>cp_Get = redis_Get E, cp_Set = redis_Set E, cp_SetNX = redis_SetNX E,
                      cp_Delete = redis_Delete E\<rparr>"

end
