(* ===== verification/Payment_Repo.thy ===== *)
theory Payment_Repo
  imports World
begin

text \<open>
  \<open>adapter/outbound/postgres\<close>: the repository (\<open>payment_repo.go\<close>, \<open>helpers.go\<close>), the outbox writer and
  the attempt recorder. A transaction works on a copy of the database that its commit makes
  visible; statement \<open>k\<close> of the call fails when \<open>en_fault\<close> says so. A transaction is one atomic
  step of the shared state: its first statement locks the payment's row (or inserts it under the
  unique constraints), so transactions on one payment are serialised by PostgreSQL.
  A read that needs two queries is two steps, and other sessions may commit between them.
\<close>

section \<open>Rows and aggregates\<close>

definition payment_row_of :: "payment \<Rightarrow> payment_row" where
  "payment_row_of p =
     \<lparr>pr_ID = p_ID p, pr_ReferenceID = p_ReferenceID p, pr_CallerService = p_CallerService p,
      pr_GatewayType = p_GatewayType p,
      pr_GatewayTransactionID = toNullableString (p_GatewayTransactionID p),
      pr_Status = p_Status p, pr_Amount = m_Amount (p_Amount p),
      pr_Currency = m_Currency (p_Amount p),
      pr_PaymentMethodType = toNullableString (p_PaymentMethodType p),
      pr_CustomerInfo = customer_json (p_CustomerInfo p),
      pr_Metadata = marshalJSONOrNil (p_Metadata p), pr_GatewayRequestPayload = None,
      pr_GatewayResponsePayload = marshalJSONOrNil (p_GatewayResponsePayload p),
      pr_Description = toNullableString (p_Description p),
      pr_ExpiredAt = map_option pg_time (p_ExpiredAt p), pr_PaidAt = map_option pg_time (p_PaidAt p),
      pr_CreatedAt = pg_time (p_CreatedAt p), pr_UpdatedAt = pg_time (p_UpdatedAt p),
      pr_DeletedAt = None, pr_Version = 1\<rparr>"

definition toRefundParams :: "refund \<Rightarrow> refund_row" where
  "toRefundParams r =
     \<lparr>rw_ID = r_ID r, rw_PaymentID = r_PaymentID r, rw_ReferenceID = r_ReferenceID r,
      rw_GatewayRefundID = toNullableString (r_GatewayRefundID r), rw_Status = r_Status r,
      rw_Amount = r_Amount r, rw_Reason = toNullableString (r_Reason r),
      rw_FailureReason = toNullableString (r_FailureReason r), rw_RequestedBy = r_RequestedBy r,
      rw_CreatedAt = pg_time (r_CreatedAt r), rw_UpdatedAt = pg_time (r_UpdatedAt r),
      rw_CompletedAt = map_option pg_time (r_CompletedAt r), rw_DeletedAt = None\<rparr>"

definition refund_of_row :: "refund_row \<Rightarrow> refund" where
  "refund_of_row r =
     \<lparr>r_ID = rw_ID r, r_PaymentID = rw_PaymentID r, r_ReferenceID = rw_ReferenceID r,
      r_Amount = rw_Amount r, r_Reason = derefString (rw_Reason r), r_Status = rw_Status r,
      r_GatewayRefundID = derefString (rw_GatewayRefundID r),
      r_FailureReason = derefString (rw_FailureReason r), r_RequestedBy = rw_RequestedBy r,
      r_CreatedAt = rw_CreatedAt r, r_UpdatedAt = rw_UpdatedAt r, r_CompletedAt = rw_CompletedAt r\<rparr>"

definition toDomain :: "payment_row \<Rightarrow> goerr + payment" where
  "toDomain row =
     (case customer_of_json (pr_CustomerInfo row) of
        None \<Rightarrow> Inl (Internal ''unmarshal customer_info'' (Some (ErrorsNew ''json'')))
      | Some cust \<Rightarrow>
     (case unmarshal_map (pr_Metadata row) of
        None \<Rightarrow> Inl (Internal ''unmarshal metadata'' (Some (ErrorsNew ''json'')))
      | Some meta \<Rightarrow>
     (case unmarshal_map (pr_GatewayRequestPayload row) of
        None \<Rightarrow> Inl (Internal ''unmarshal gateway_request_payload'' (Some (ErrorsNew ''json'')))
      | Some req \<Rightarrow>
     (case unmarshal_map (pr_GatewayResponsePayload row) of
        None \<Rightarrow> Inl (Internal ''unmarshal gateway_response_payload'' (Some (ErrorsNew ''json'')))
      | Some resp \<Rightarrow> Inr
         \<lparr>p_ID = pr_ID row, p_ReferenceID = pr_ReferenceID row,
          p_CallerService = pr_CallerService row, p_GatewayType = pr_GatewayType row,
          p_GatewayTransactionID = derefString (pr_GatewayTransactionID row),
          p_Status = pr_Status row,
          p_Amount = \<lparr>m_Amount = pr_Amount row, m_Currency = pr_Currency row\<rparr>,
          p_PaymentMethodType = derefString (pr_PaymentMethodType row),
          p_CustomerInfo = cust, p_Metadata = meta, p_GatewayRequestPayload = req,
          p_GatewayResponsePayload = resp, p_Description = derefString (pr_Description row),
          p_ExpiredAt = pr_ExpiredAt row, p_PaidAt = pr_PaidAt row,
          p_CreatedAt = pr_CreatedAt row, p_UpdatedAt = pr_UpdatedAt row,
          p_DeletedAt = pr_DeletedAt row, p_Refunds = [], p_Version = pr_Version row,
          p_events = []\<rparr>))))"

section \<open>Queries\<close>

definition query :: "env \<Rightarrow> (nat \<Rightarrow> db \<Rightarrow> 'a) \<Rightarrow> (world, goerr + 'a) state" where
  "query E f = act E (\<lambda>n s. (case en_fault E n 0 of Some e \<Rightarrow> Inl e | None \<Rightarrow> Inr (f n (sh_db s)), s))"

definition query_row :: "env \<Rightarrow> (db \<Rightarrow> 'a option) \<Rightarrow> (world, goerr + 'a) state" where
  "query_row E f = act E (\<lambda>n s.
     (case en_fault E n 0 of
        Some e \<Rightarrow> Inl e
      | None \<Rightarrow> (case f (sh_db s) of None \<Rightarrow> Inl ErrNoRows | Some x \<Rightarrow> Inr x), s))"

definition withRefunds :: "env \<Rightarrow> payment_row \<Rightarrow> (world, goerr + payment) state" where
  "withRefunds E row =
     (case toDomain row of
        Inl e \<Rightarrow> State_Monad.return (Inl e)
      | Inr p \<Rightarrow>
          bindE (mapE (\<lambda>e. Internal ''list refunds'' (Some e))
                  (query E (\<lambda>n. ListRefundsByPayment (p_ID p)))) (\<lambda>rows.
          State_Monad.return (Inr (p\<lparr>p_Refunds := map refund_of_row rows\<rparr>))))"

definition row_error :: "string \<Rightarrow> string \<Rightarrow> goerr \<Rightarrow> goerr" where
  "row_error missing failed e = (if is_no_rows e then NotFound missing else Internal failed (Some e))"

definition repo_FindByID :: "env \<Rightarrow> uuid \<Rightarrow> (world, goerr + payment) state" where
  "repo_FindByID E uid =
     bindE (mapE (row_error (''payment not found: '' @ uuid_String (en_lib E) uid) ''get payment'')
              (query_row E (GetPaymentByID uid))) (withRefunds E)"

definition repo_FindByReference :: "env \<Rightarrow> string \<Rightarrow> string \<Rightarrow> (world, goerr + payment) state" where
  "repo_FindByReference E ref caller =
     bindE (mapE (row_error (''payment not found for reference: '' @ ref) ''get payment by reference'')
              (query_row E (GetPaymentByReference ref caller))) (withRefunds E)"

definition repo_FindByGatewayTransactionID :: "env \<Rightarrow> string \<Rightarrow> (world, goerr + payment) state" where
  "repo_FindByGatewayTransactionID E tx =
     bindE (mapE (row_error (''payment not found for gateway tx: '' @ tx) ''get payment by gateway tx'')
              (query_row E (GetPaymentByGatewayTransactionID tx))) (withRefunds E)"

fun toDomains :: "payment_row list \<Rightarrow> goerr + payment list" where
  "toDomains [] = Inr []"
| "toDomains (row # rows) =
     (case toDomain row of
        Inl e \<Rightarrow> Inl e
      | Inr p \<Rightarrow> (case toDomains rows of Inl e \<Rightarrow> Inl e | Inr ps \<Rightarrow> Inr (p # ps)))"

definition repo_FindExpired :: "env \<Rightarrow> int \<Rightarrow> (world, goerr + payment list) state" where
  "repo_FindExpired E limit =
     bindE (mapE (\<lambda>e. Internal ''query expired payments'' (Some e))
              (query E (\<lambda>n. GetExpiredPayments (en_time E n) limit))) (\<lambda>rows.
     State_Monad.return (toDomains rows))"

definition repo_FindAwaitingChargeOutcome :: "env \<Rightarrow> time \<Rightarrow> int \<Rightarrow> (world, goerr + payment list) state" where
  "repo_FindAwaitingChargeOutcome E cutoff limit =
     bindE (mapE (\<lambda>e. Internal ''query payments awaiting charge outcome'' (Some e))
              (query E (\<lambda>n. GetPaymentsAwaitingChargeOutcome cutoff limit))) (\<lambda>rows.
     State_Monad.return (toDomains rows))"

fun find_all :: "env \<Rightarrow> uuid list \<Rightarrow> (world, goerr + payment list) state" where
  "find_all E [] = State_Monad.return (Inr [])"
| "find_all E (uid # uids) =
     bindE (repo_FindByID E uid) (\<lambda>p.
     bindE (find_all E uids) (\<lambda>ps. State_Monad.return (Inr (p # ps))))"

definition repo_FindWithPendingRefunds :: "env \<Rightarrow> time \<Rightarrow> int \<Rightarrow> (world, goerr + payment list) state" where
  "repo_FindWithPendingRefunds E cutoff limit =
     bindE (mapE (\<lambda>e. Internal ''query payments with pending refunds'' (Some e))
              (query E (\<lambda>n. GetPaymentIDsWithPendingRefunds cutoff limit))) (find_all E)"

definition repo_UpdateStatus :: "env \<Rightarrow> uuid \<Rightarrow> status \<Rightarrow> (world, goerr option) state" where
  "repo_UpdateStatus E uid st = act E (\<lambda>n s.
     (case en_fault E n 0 of
        Some e \<Rightarrow> (Some (Internal ''update payment status'' (Some e)), s)
      | None \<Rightarrow> (None, s\<lparr>sh_db := UpdatePaymentStatus (en_time E n) uid st (sh_db s)\<rparr>)))"

section \<open>Save\<close>

text \<open>A transaction's state: its copy of the database and the number of the next statement.\<close>

type_synonym 'a tx = "(db \<times> nat, goerr + 'a) state"

definition stmt :: "env \<Rightarrow> nat \<Rightarrow> (nat \<Rightarrow> db \<Rightarrow> goerr + ('a \<times> db)) \<Rightarrow> 'a tx" where
  "stmt E n f = State (\<lambda>(d, k).
     (case en_fault E n k of
        Some e \<Rightarrow> (Inl e, (d, k + 1))
      | None \<Rightarrow> (case f k d of Inl e \<Rightarrow> (Inl e, (d, k + 1)) | Inr (x, d') \<Rightarrow> (Inr x, (d', k + 1)))))"

definition exec :: "(db \<Rightarrow> goerr + db) \<Rightarrow> nat \<Rightarrow> db \<Rightarrow> goerr + (unit \<times> db)" where
  "exec f k d = map_sum id (\<lambda>d'. ((), d')) (f d)"

fun is_initiated :: "domain_event \<Rightarrow> bool" where
  "is_initiated (PaymentInitiated _ _) = True"
| "is_initiated _ = False"

definition isNewPayment :: "payment \<Rightarrow> bool" where
  "isNewPayment p = list_ex is_initiated (PeekEvents p)"

definition persist_payment :: "env \<Rightarrow> nat \<Rightarrow> payment \<Rightarrow> unit tx" where
  "persist_payment E n p =
     (if isNewPayment p then
        bindE (mapE (\<lambda>e. Internal ''persist payment'' (Some e))
                 (stmt E n (\<lambda>k. InsertPayment (payment_row_of p)))) (\<lambda>inserted.
        State_Monad.return (if inserted = 0
          then Inl (AlreadyExists (''payment already exists for reference_id: '' @ p_ReferenceID p))
          else Inr ()))
      else
        bindE (mapE (\<lambda>e. Internal ''persist payment'' (Some e))
                 (stmt E n (\<lambda>k. UpdatePaymentFull (p_ID p) (toNullableString (p_GatewayTransactionID p))
                    (p_Status p) (marshalJSONOrNil (p_GatewayResponsePayload p))
                    (map_option pg_time (p_PaidAt p)) (pg_time (p_UpdatedAt p))
                    (int32 (p_Version p))))) (\<lambda>updated.
        State_Monad.return (if updated = 0
          then Inl (Conflict (''payment '' @ uuid_String (en_lib E) (p_ID p) @
                 '' was changed by another request; reload and retry''))
          else Inr ())))"

definition persist_refund :: "env \<Rightarrow> nat \<Rightarrow> refund \<Rightarrow> unit tx" where
  "persist_refund E n rf =
     mapE (\<lambda>e. Internal ''persist refund'' (Some e)) (stmt E n (exec (UpsertRefund (toRefundParams rf))))"

definition persist_rows :: "env \<Rightarrow> nat \<Rightarrow> payment \<Rightarrow> int tx" where
  "persist_rows E n p =
     bindE (persist_payment E n p) (\<lambda>_.
     bindE (forE (persist_refund E n) (p_Refunds p)) (\<lambda>_.
     mapE (\<lambda>e. Internal ''read last event sequence'' (Some e))
       (stmt E n (\<lambda>k d. Inr (GetLastEventSequence (p_ID p) d, d)))))"

definition persist_event :: "env \<Rightarrow> nat \<Rightarrow> uuid \<Rightarrow> int \<Rightarrow> nat \<times> domain_event \<Rightarrow> unit tx" where
  "persist_event E n pid lastSeq ie =
     mapE (\<lambda>e. Internal ''insert payment_event'' (Some e))
       (stmt E n (\<lambda>k. exec (InsertPaymentEvent (en_rowid E n k) (en_time E n) pid (EventType (snd ie))
          (int32 (lastSeq + int32 (int (fst ie) + 1))) (event_json (en_lib E) (snd ie))) k))"

definition write_outbox :: "env \<Rightarrow> nat \<Rightarrow> domain_event \<Rightarrow> unit tx" where
  "write_outbox E n e =
     mapE (\<lambda>e. Internal ''insert outbox event'' (Some e))
       (stmt E n (\<lambda>k d. Inr ((), InsertOutboxEvent (en_rowid E n k) (en_time E n) (AggregateID e)
          (EventType e) (event_json (en_lib E) e) d)))"

definition persist_events :: "env \<Rightarrow> nat \<Rightarrow> uuid \<Rightarrow> int \<Rightarrow> domain_event list \<Rightarrow> unit tx" where
  "persist_events E n pid lastSeq events =
     bindE (forE (persist_event E n pid lastSeq) (enumerate 0 events)) (\<lambda>_.
     forE (write_outbox E n) events)"

text \<open>
  \<open>Save\<close>: begin, rows, take the events out of the payment, event rows and outbox rows, commit. An
  error before the commit rolls back. When the commit's reply is lost the caller gets an error
  although the transaction may have been applied. The events stay out of the payment in memory
  once they were taken.
\<close>

definition repo_Save :: "env \<Rightarrow> payment \<Rightarrow> (world, goerr option \<times> payment) state" where
  "repo_Save E p = act E (\<lambda>n s.
     (case en_fault E n 0 of
        Some e \<Rightarrow> ((Some (Internal ''begin transaction'' (Some e)), p), s)
      | None \<Rightarrow>
     (case run_state (persist_rows E n p) (sh_db s, 1) of
        (Inl e, _) \<Rightarrow> ((Some e, p), s)
      | (Inr lastSeq, dk) \<Rightarrow>
     (let (events, p1) = PopEvents p
      in (case run_state (persist_events E n (p_ID p) lastSeq events) dk of
        (Inl e, _) \<Rightarrow> ((Some e, p1), s)
      | (Inr _, (d, k)) \<Rightarrow>
          (case en_fault E n k of
             Some e \<Rightarrow> ((Some (Internal ''commit transaction'' (Some e)), p1),
                       if en_lost E n then s\<lparr>sh_db := d\<rparr> else s)
           | None \<Rightarrow> ((None, p1\<lparr>p_Version := (if isNewPayment p then 1 else p_Version p + 1)\<rparr>),
                      s\<lparr>sh_db := d\<rparr>)))))))"

section \<open>Attempts\<close>

fun pg_code :: "goerr \<Rightarrow> string option" where
  "pg_code (PgError c _) = Some c"
| "pg_code (AppErr _ _ (Some e)) = pg_code e"
| "pg_code (FmtErrorf _ e) = pg_code e"
| "pg_code _ = None"

definition isUniqueViolation :: "goerr option \<Rightarrow> bool" where
  "isUniqueViolation err =
     (case err of None \<Rightarrow> False | Some e \<Rightarrow> pg_code e = Some ''23505'')"

definition maxNumberRetries :: nat where "maxNumberRetries = 3"

text \<open>\<open>Duration.Milliseconds\<close> truncates towards zero.\<close>

definition milliseconds :: "duration \<Rightarrow> int" where
  "milliseconds d = (if d < 0 then - ((- d) div 1000000) else d div 1000000)"

definition attempt_params :: "attempt \<Rightarrow> attempt_row" where
  "attempt_params a =
     \<lparr>ar_ID = 0, ar_PaymentID = at_PaymentID a, ar_RefundID = at_RefundID a,
      ar_Operation = operation_str (at_Operation a), ar_AttemptNumber = 0,
      ar_Status = outcome_str (at_Outcome a),
      ar_GatewayTransactionID = toNullableString (at_GatewayTransactionID a),
      ar_ErrorCode = toNullableString (at_ErrorCode a),
      ar_ErrorMessage = toNullableString (at_ErrorMessage a),
      ar_GatewayResponse = marshalJSONOrNil (at_GatewayResponse a),
      ar_DurationMs = Some (milliseconds (at_Duration a)), ar_CreatedAt = 0\<rparr>"

definition insert_attempt :: "env \<Rightarrow> attempt_row \<Rightarrow> (world, goerr option) state" where
  "insert_attempt E row = act E (\<lambda>n s.
     (case en_fault E n 0 of
        Some e \<Rightarrow> (Some e, s)
      | None \<Rightarrow>
          (case InsertPaymentAttempt
                  (row\<lparr>ar_ID := en_rowid E n 0, ar_CreatedAt := pg_time (en_time E n)\<rparr>) (sh_db s) of
             Inl e \<Rightarrow> (Some e, s)
           | Inr d \<Rightarrow> (None, s\<lparr>sh_db := d\<rparr>))))"

fun insert_retrying :: "env \<Rightarrow> nat \<Rightarrow> goerr option \<Rightarrow> attempt_row \<Rightarrow> (world, goerr option) state" where
  "insert_retrying E 0 err row = State_Monad.return err"
| "insert_retrying E (Suc k) err row = do {
     err \<leftarrow> insert_attempt E row;
     if \<not> isUniqueViolation err then State_Monad.return err else insert_retrying E k err row
   }"

definition recorder_Record :: "env \<Rightarrow> attempt \<Rightarrow> (world, goerr option) state" where
  "recorder_Record E a = do {
     err \<leftarrow> insert_retrying E maxNumberRetries None (attempt_params a);
     State_Monad.return (case err of
         None \<Rightarrow> None
       | Some e \<Rightarrow> Some (Internal ''insert payment attempt'' (Some e)))
   }"

end
