(* ===== verification/Payment_Core.thy ===== *)
theory Payment_Core
  imports Payment_Spec "HOL-Library.Multiset"
begin

text \<open>
  What of a payment the database keeps exactly. Storing a payment cuts its times to microseconds
  and loading it may reorder its refunds; \<open>core\<close> is what survives both, and the invariant and the
  view of a payment depend on nothing else.
\<close>

definition rstatic :: "refund \<Rightarrow> uuid \<times> uuid \<times> string \<times> int64" where
  "rstatic r = (r_ID r, r_PaymentID r, r_ReferenceID r, r_Amount r)"

definition rcore :: "refund \<Rightarrow> (uuid \<times> uuid \<times> string \<times> int64) \<times> refund_status" where
  "rcore r = (rstatic r, r_Status r)"

definition core ::
  "payment \<Rightarrow> uuid \<times> string \<times> string \<times> int64 \<times> status \<times> bool \<times>
     ((uuid \<times> uuid \<times> string \<times> int64) \<times> refund_status) multiset" where
  "core p = (p_ID p, p_ReferenceID p, p_CallerService p, m_Amount (p_Amount p), p_Status p,
     p_PaidAt p \<noteq> None, image_mset rcore (mset (p_Refunds p)))"

lemma coreD:
  assumes "core p = core q"
  shows "p_ID p = p_ID q" "p_ReferenceID p = p_ReferenceID q" "p_CallerService p = p_CallerService q"
    "m_Amount (p_Amount p) = m_Amount (p_Amount q)" "p_Status p = p_Status q"
    "p_PaidAt p = None \<longleftrightarrow> p_PaidAt q = None"
    "mset (map rcore (p_Refunds p)) = mset (map rcore (p_Refunds q))"
  using assms by (auto simp: core_def)

lemma mset_map_via:
  assumes "mset (map f xs) = mset (map f ys)" "\<And>x. g x = h (f x)"
  shows "mset (map g xs) = mset (map g ys)"
proof -
  have "g = h \<circ> f" using assms(2) by auto
  then show ?thesis using arg_cong [OF assms(1), of "image_mset h"]
    by (simp add: image_mset.compositionality)
qed

lemma core_set:
  assumes "core p = core q"
  shows "rcore ` set (p_Refunds p) = rcore ` set (p_Refunds q)"
  using coreD(7) [OF assms] by (metis list.set_map mset_eq_setD)

lemma core_rtotal:
  assumes "core p = core q" "\<And>r. P r \<longleftrightarrow> R (r_Status r)"
  shows "rtotal P (p_Refunds p) = rtotal P (p_Refunds q)"
proof -
  let ?f = "\<lambda>r. if P r then sint (r_Amount r) else 0"
  have "mset (map ?f (p_Refunds p)) = mset (map ?f (p_Refunds q))"
    by (rule mset_map_via [OF coreD(7) [OF assms(1)], of _
          "\<lambda>c. if R (snd c) then sint (snd (snd (snd (fst c)))) else 0"])
       (simp add: rcore_def rstatic_def assms(2))
  then have "sum_mset (mset (map ?f (p_Refunds p))) = sum_mset (mset (map ?f (p_Refunds q)))"
    by (rule arg_cong)
  then show ?thesis unfolding rtotal_def sum_mset_sum_list .
qed

lemma core_distinct:
  assumes "core p = core q" "\<And>r. g r = h (rcore r)"
  shows "distinct (map g (p_Refunds p)) = distinct (map g (p_Refunds q))"
  using mset_map_via [OF coreD(7) [OF assms(1)], of g h, OF assms(2)] by (rule mset_eq_imp_distinct_iff)

lemma core_payment_ok:
  assumes "core p = core q"
  shows "payment_ok p = payment_ok q"
proof -
  have refunds: "(\<forall>r \<in> set (p_Refunds p). refund_ok (p_ID p) r) =
      (\<forall>r \<in> set (p_Refunds q). refund_ok (p_ID q) r)"
  proof -
    define ok where "ok = (\<lambda>pid c. case c of ((i, pid', ref, a), st :: refund_status) \<Rightarrow>
      0 < sint (a :: int64) \<and> pid' = (pid :: uuid) \<and> ref \<noteq> ([] :: string) \<and> (i :: uuid) = i)"
    have "refund_ok pid r = ok pid (rcore r)" for pid r
      by (auto simp: ok_def refund_ok_def rcore_def rstatic_def)
    then have all: "(\<forall>r \<in> set (p_Refunds x). refund_ok pid r) = (\<forall>c \<in> rcore ` set (p_Refunds x). ok pid c)" for x pid
      by simp
    show ?thesis unfolding all core_set [OF assms] coreD(1) [OF assms] ..
  qed
  have ids: "distinct (map r_ID (p_Refunds p)) = distinct (map r_ID (p_Refunds q))"
    by (rule core_distinct [OF assms, of _ "\<lambda>c. fst (fst c)"]) (simp add: rcore_def rstatic_def)
  have refs: "distinct (map r_ReferenceID (p_Refunds p)) = distinct (map r_ReferenceID (p_Refunds q))"
    by (rule core_distinct [OF assms, of _ "\<lambda>c. fst (snd (snd (fst c)))"]) (simp add: rcore_def rstatic_def)
  have t1: "rtotal is_open_or_done (p_Refunds p) = rtotal is_open_or_done (p_Refunds q)"
    by (rule core_rtotal [OF assms, of _ "\<lambda>s. s \<noteq> RefundStatusFailed"]) simp
  have t2: "rtotal is_succeeded (p_Refunds p) = rtotal is_succeeded (p_Refunds q)"
    by (rule core_rtotal [OF assms, of _ "\<lambda>s. s = RefundStatusSucceeded"]) simp
  have empty: "p_Refunds p = [] \<longleftrightarrow> p_Refunds q = []"
    using core_set [OF assms] by auto
  show ?thesis
    unfolding payment_ok_def refunds ids refs t1 t2 empty coreD(4-6) [OF assms] ..
qed

text \<open>The view: what is in flight is a function of the set of refunds, their total of the multiset.\<close>

lemma foldl_acc:
  fixes a :: int64
  shows "foldl (\<lambda>t r. if P r then t + r_Amount r else t) a rs =
    a + sum_list (map (\<lambda>r. if P r then r_Amount r else 0) rs)"
  by (induction rs arbitrary: a) (auto simp: add.assoc)

lemma core_refunded:
  assumes "core p = core q"
  shows "RefundedAmount p = RefundedAmount q"
proof -
  let ?f = "\<lambda>r. if is_succeeded r then r_Amount r else 0"
  have "mset (map ?f (p_Refunds p)) = mset (map ?f (p_Refunds q))"
    by (rule mset_map_via [OF coreD(7) [OF assms], of _
          "\<lambda>c. if snd c = RefundStatusSucceeded then snd (snd (snd (fst c))) else 0"])
       (simp add: rcore_def rstatic_def)
  then have "sum_mset (mset (map ?f (p_Refunds p))) = sum_mset (mset (map ?f (p_Refunds q)))"
    by (rule arg_cong)
  then show ?thesis unfolding RefundedAmount_def foldl_acc sum_mset_sum_list by simp
qed

lemma view_open_iff:
  assumes "distinct (map r_ID (p_Refunds p))"
  shows "v_open (view_of p) uid = Some a \<longleftrightarrow>
    (\<exists>pid ref. ((uid, pid, ref, a), RefundStatusPending) \<in> rcore ` set (p_Refunds p))"
proof -
  have find: "find_Refund uid p = Some r \<longleftrightarrow> r \<in> set (p_Refunds p) \<and> r_ID r = uid" for r
    using find_distinct [OF assms, of r] find_mem [of "\<lambda>r. r_ID r = uid" "p_Refunds p" r]
    by (auto simp: find_Refund_def)
  have "v_open (view_of p) uid = Some a \<longleftrightarrow>
      (\<exists>r. find_Refund uid p = Some r \<and> is_pending r \<and> r_Amount r = a)"
    by (auto simp: view_of_def split: option.splits)
  also have "\<dots> \<longleftrightarrow> (\<exists>r \<in> set (p_Refunds p). r_ID r = uid \<and> is_pending r \<and> r_Amount r = a)"
    unfolding find by blast
  also have "\<dots> \<longleftrightarrow>
    (\<exists>pid ref. ((uid, pid, ref, a), RefundStatusPending) \<in> rcore ` set (p_Refunds p))"
  proof
    assume "\<exists>r \<in> set (p_Refunds p). r_ID r = uid \<and> is_pending r \<and> r_Amount r = a"
    then obtain r where r: "r \<in> set (p_Refunds p)"
      and "rcore r = ((uid, r_PaymentID r, r_ReferenceID r, a), RefundStatusPending)"
      by (auto simp: rcore_def rstatic_def)
    then show "\<exists>pid ref. ((uid, pid, ref, a), RefundStatusPending) \<in> rcore ` set (p_Refunds p)"
      by (metis imageI)
  qed (auto simp: rcore_def rstatic_def)
  finally show ?thesis .
qed

lemma core_view:
  assumes "core p = core q" "payment_ok p"
  shows "view_of p = view_of q"
proof (rule view_ext)
  have "payment_ok q" using assms core_payment_ok by blast
  show "v_open (view_of p) = v_open (view_of q)"
  proof
    fix uid
    have "v_open (view_of p) uid = Some a \<longleftrightarrow> v_open (view_of q) uid = Some a" for a
      using view_open_iff [OF payment_okD(4) [OF assms(2)]] view_open_iff [OF payment_okD(4) [OF \<open>payment_ok q\<close>]]
        core_set [OF assms(1)] by simp
    then show "v_open (view_of p) uid = v_open (view_of q) uid" by (metis option.exhaust)
  qed
qed (simp_all add: view_of_def coreD [OF assms(1)] core_refunded [OF assms(1)])

section \<open>What the operations do to the refunds, in any state\<close>

lemma op_static:
  assumes "apply_op L op p = Inr p'" "\<not> (\<exists>now uid ref a reason rb. op = OpRequestRefund now uid ref a reason rb)"
  shows "map rstatic (p_Refunds p') = map rstatic (p_Refunds p)"
  using assms
  by (cases op)
     (auto simp: op_defs raise_def Let_def rstatic_def map_upd_first
       split: if_splits option.splits refund_status.splits)

lemma request_static:
  assumes "RequestRefund now uid ref a reason rb p = Inr (p', r)"
  shows "p_Refunds p' = p_Refunds p @ [r]" "r_ID r = uid" "r_PaymentID r = p_ID p"
  using assms by (auto simp: RequestRefund_def raise_def Let_def split: if_splits)

definition no_initiated :: "domain_event list \<Rightarrow> bool" where
  "no_initiated es \<longleftrightarrow> (\<forall>e \<in> set es. EventType e \<noteq> ''PaymentInitiated'')"

lemma op_events:
  assumes "apply_op L op p = Inr p'"
  shows "\<exists>es. p_events p' = p_events p @ es \<and> no_initiated es"
  using assms
  by (cases op)
     (auto simp: op_defs raise_def Let_def map_sum_def no_initiated_def
       split: if_splits option.splits refund_status.splits sum.splits)

text \<open>Identifiers and static parts along a history: what was there stays, in place.\<close>

lemma step_static:
  assumes "op_step L p p'"
  shows "\<exists>new. map rstatic (p_Refunds p') = map rstatic (p_Refunds p) @ new"
  using assms
proof (rule op_stepE)
  fix op
  assume op: "apply_op L op p = Inr p'" "op_fresh op p"
  show ?thesis
  proof (cases op)
    case (OpRequestRefund now uid ref a reason rb)
    with op(1) obtain r where "RequestRefund now uid ref a reason rb p = Inr (p', r)"
      using apply_RequestRefund by blast
    from request_static(1) [OF this] show ?thesis by simp
  qed (use op_static [OF op(1)] in auto)
qed

lemma evolves_static:
  "evolves L p p' \<Longrightarrow> \<exists>new. map rstatic (p_Refunds p') = map rstatic (p_Refunds p) @ new"
proof (induction rule: rtranclp_induct)
  case (step q r)
  then obtain n1 where "map rstatic (p_Refunds q) = map rstatic (p_Refunds p) @ n1" by blast
  moreover obtain n2 where "map rstatic (p_Refunds r) = map rstatic (p_Refunds q) @ n2"
    using step_static [OF step.hyps(2)] by blast
  ultimately show ?case by simp
qed simp

end
