(* ===== verification/Store_Laws.thy ===== *)
theory Store_Laws
  imports Payment_Repo Payment_Core
begin

text \<open>
  The invariant of the database, \<open>db_ok\<close>, what later states keep of earlier ones, \<open>db_ext\<close>, and
  what the statements of a save do to the tables.
\<close>

section \<open>Stored payments\<close>

definition refunds_of :: "db \<Rightarrow> uuid \<Rightarrow> refund_row list" where
  "refunds_of d pid = filter (\<lambda>r. rw_PaymentID r = pid) (db_refunds d)"

definition events_of :: "db \<Rightarrow> uuid \<Rightarrow> event_row list" where
  "events_of d pid = filter (\<lambda>e. ev_AggregateID e = pid) (db_events d)"

definition outbox_of :: "db \<Rightarrow> uuid \<Rightarrow> outbox_row list" where
  "outbox_of d pid = filter (\<lambda>e. ob_AggregateID e = pid) (db_outbox d)"

definition stored :: "db \<Rightarrow> payment_row \<Rightarrow> payment" where
  "stored d row = (projr (toDomain row))\<lparr>p_Refunds := map refund_of_row (ListRefundsByPayment (pr_ID row) d)\<rparr>"

definition decodes :: "payment_row \<Rightarrow> bool" where
  "decodes row \<longleftrightarrow> toDomain row = Inr (projr (toDomain row))"

abbreviation rwstatic :: "refund_row \<Rightarrow> uuid \<times> uuid \<times> string \<times> int64" where
  "rwstatic r \<equiv> rstatic (refund_of_row r)"

abbreviation rwcore :: "refund_row \<Rightarrow> (uuid \<times> uuid \<times> string \<times> int64) \<times> refund_status" where
  "rwcore r \<equiv> rcore (refund_of_row r)"

lemma rwstatic_eq: "rwstatic r = (rw_ID r, rw_PaymentID r, rw_ReferenceID r, rw_Amount r)"
  by (simp add: rstatic_def refund_of_row_def)

lemma rwcore_eq: "rwcore r = (rwstatic r, rw_Status r)"
  by (simp add: rcore_def refund_of_row_def)

lemma rwcore_params [simp]: "rwcore (toRefundParams r) = rcore r" "rwstatic (toRefundParams r) = rstatic r"
  "rw_ID (toRefundParams r) = r_ID r" "rw_PaymentID (toRefundParams r) = r_PaymentID r"
  "rw_DeletedAt (toRefundParams r) = None"
  by (simp_all add: rcore_def rstatic_def refund_of_row_def toRefundParams_def)

lemma toDomain_fields:
  assumes "toDomain row = Inr p"
  shows "p_ID p = pr_ID row" "p_ReferenceID p = pr_ReferenceID row" "p_CallerService p = pr_CallerService row"
    "p_Status p = pr_Status row" "m_Amount (p_Amount p) = pr_Amount row" "p_PaidAt p = pr_PaidAt row"
    "p_Version p = pr_Version row" "p_events p = []" "p_Refunds p = []"
    "p_GatewayTransactionID p = derefString (pr_GatewayTransactionID row)"
  using assms by (auto simp: toDomain_def split: option.splits)

lemma decodes_iff:
  "decodes row \<longleftrightarrow> customer_of_json (pr_CustomerInfo row) \<noteq> None \<and> unmarshal_map (pr_Metadata row) \<noteq> None \<and>
     unmarshal_map (pr_GatewayRequestPayload row) \<noteq> None \<and>
     unmarshal_map (pr_GatewayResponsePayload row) \<noteq> None"
  by (auto simp: decodes_def toDomain_def split: option.splits)

lemma toDomain_row_of: "decodes (payment_row_of p)"
  by (simp add: decodes_iff payment_row_of_def) (simp add: unmarshal_map_def)

text \<open>\<open>core\<close> of a stored payment, read off the rows.\<close>

lemma stored_core:
  assumes "decodes row" "\<forall>r \<in> set (db_refunds d). rw_DeletedAt r = None"
  shows "core (stored d row) = (pr_ID row, pr_ReferenceID row, pr_CallerService row, pr_Amount row,
    pr_Status row, pr_PaidAt row \<noteq> None, mset (map rwcore (refunds_of d (pr_ID row))))"
proof -
  have "filter (\<lambda>r. rw_PaymentID r = pr_ID row \<and> rw_DeletedAt r = None) (db_refunds d) =
      refunds_of d (pr_ID row)"
    unfolding refunds_of_def by (rule filter_cong) (use assms(2) in auto)
  then have "mset (ListRefundsByPayment (pr_ID row) d) = mset (refunds_of d (pr_ID row))"
    by (simp add: ListRefundsByPayment_def)
  then have "image_mset rcore (mset (p_Refunds (stored d row))) =
      mset (map rwcore (refunds_of d (pr_ID row)))"
    by (simp add: stored_def image_mset.compositionality comp_def)
  then show ?thesis
    using toDomain_fields [OF assms(1) [unfolded decodes_def]] by (simp add: core_def stored_def)
qed

lemma stored_fields:
  assumes "decodes row"
  shows "p_ID (stored d row) = pr_ID row" "p_Status (stored d row) = pr_Status row"
    "p_Version (stored d row) = pr_Version row" "p_events (stored d row) = []"
    "p_ReferenceID (stored d row) = pr_ReferenceID row"
    "p_CallerService (stored d row) = pr_CallerService row"
  using toDomain_fields [OF assms [unfolded decodes_def]] by (simp_all add: stored_def)

section \<open>The invariant of the database\<close>

definition ev_data :: "event_row \<Rightarrow> string \<times> json" where
  "ev_data e = (ev_EventType e, ev_Payload e)"

definition ob_data :: "outbox_row \<Rightarrow> string \<times> json" where
  "ob_data e = (ob_EventType e, ob_Payload e)"

definition event_data :: "uuid_lib \<Rightarrow> domain_event \<Rightarrow> string \<times> json" where
  "event_data L e = (EventType e, event_json L e)"

text \<open>
  The stored events of a payment are its whole history: replaying them gives the stored payment's
  view, they are numbered 1, 2, 3, \<dots> (while the number fits the column), and the outbox carries
  the same events in the same order.
\<close>

definition history_ok :: "uuid_lib \<Rightarrow> db \<Rightarrow> payment_row \<Rightarrow> bool" where
  "history_ok L d row \<longleftrightarrow>
     (\<exists>es. replay es = Some (view_of (stored d row)) \<and>
           map ev_data (events_of d (pr_ID row)) = map (event_data L) es \<and>
           map ob_data (outbox_of d (pr_ID row)) = map (event_data L) es \<and>
           (\<forall>e \<in> set es. AggregateID e = pr_ID row) \<and>
           (length es < 2 ^ 31 \<longrightarrow>
              map ev_SequenceNumber (events_of d (pr_ID row)) = map (\<lambda>i. int i + 1) [0..<length es]))"

definition row_ok :: "uuid_lib \<Rightarrow> db \<Rightarrow> payment_row \<Rightarrow> bool" where
  "row_ok L d row \<longleftrightarrow>
     pr_DeletedAt row = None \<and> 1 \<le> pr_Version row \<and> pr_Version row < 2 ^ 31 \<and> decodes row \<and>
     payment_ok (stored d row) \<and> history_ok L d row"

definition pr_key :: "payment_row \<Rightarrow> string \<times> string" where
  "pr_key r = (pr_ReferenceID r, pr_CallerService r)"

definition db_ok :: "uuid_lib \<Rightarrow> db \<Rightarrow> bool" where
  "db_ok L d \<longleftrightarrow>
     distinct (map pr_ID (db_payments d)) \<and> distinct (map pr_key (db_payments d)) \<and>
     distinct (map rw_ID (db_refunds d)) \<and>
     (\<forall>row \<in> set (db_payments d). row_ok L d row) \<and>
     (\<forall>r \<in> set (db_refunds d). rw_DeletedAt r = None \<and> rw_PaymentID r \<in> pr_ID ` set (db_payments d)) \<and>
     (\<forall>e \<in> set (db_events d). ev_AggregateID e \<in> pr_ID ` set (db_payments d)) \<and>
     (\<forall>e \<in> set (db_outbox d). ob_AggregateID e \<in> pr_ID ` set (db_payments d))"

definition db_ids :: "db \<Rightarrow> uuid set" where
  "db_ids d = pr_ID ` set (db_payments d) \<union> rw_ID ` set (db_refunds d)"

definition pr_static :: "payment_row \<Rightarrow> uuid \<times> (string \<times> string) \<times> int64" where
  "pr_static r = (pr_ID r, pr_key r, pr_Amount r)"

lemma pr_staticD: "pr_static r = pr_static r' \<Longrightarrow> pr_ID r = pr_ID r'"
  by (simp add: pr_static_def)

text \<open>
  Later states: no payment disappears or changes owner, reference or price, its version only grows, and while the version stays nothing
  of the payment or its refunds changed; no refund disappears or changes its identity or amount.
\<close>

definition db_ext :: "db \<Rightarrow> db \<Rightarrow> bool" where
  "db_ext d d' \<longleftrightarrow>
     (\<forall>row \<in> set (db_payments d). \<exists>row' \<in> set (db_payments d').
        pr_static row' = pr_static row \<and> pr_Version row \<le> pr_Version row' \<and>
        (pr_Version row' = pr_Version row \<longrightarrow>
           row' = row \<and> refunds_of d' (pr_ID row) = refunds_of d (pr_ID row))) \<and>
     rwstatic ` set (db_refunds d) \<subseteq> rwstatic ` set (db_refunds d')"

lemma db_ext_refl: "db_ext d d"
  by (auto simp: db_ext_def)

lemma db_extE:
  assumes "db_ext d d'" "row \<in> set (db_payments d)"
  obtains row' where "row' \<in> set (db_payments d')" "pr_static row' = pr_static row" "pr_ID row' = pr_ID row"
    "pr_Version row \<le> pr_Version row'"
    "pr_Version row' = pr_Version row \<longrightarrow> row' = row \<and> refunds_of d' (pr_ID row) = refunds_of d (pr_ID row)"
  using assms unfolding db_ext_def by (metis pr_staticD)

lemma db_ext_trans:
  assumes "db_ext d d'" "db_ext d' d''"
  shows "db_ext d d''"
  unfolding db_ext_def
proof (intro conjI ballI)
  fix row
  assume "row \<in> set (db_payments d)"
  from assms(1) this obtain r1 where r1: "r1 \<in> set (db_payments d')" "pr_static r1 = pr_static row"
      "pr_ID r1 = pr_ID row" "pr_Version row \<le> pr_Version r1"
    and e1: "pr_Version r1 = pr_Version row \<longrightarrow>
       r1 = row \<and> refunds_of d' (pr_ID row) = refunds_of d (pr_ID row)" by (rule db_extE)
  from assms(2) r1(1) obtain r2 where r2: "r2 \<in> set (db_payments d'')" "pr_static r2 = pr_static r1"
      "pr_ID r2 = pr_ID r1" "pr_Version r1 \<le> pr_Version r2"
    and e2: "pr_Version r2 = pr_Version r1 \<longrightarrow>
       r2 = r1 \<and> refunds_of d'' (pr_ID r1) = refunds_of d' (pr_ID r1)" by (rule db_extE)
  show "\<exists>row' \<in> set (db_payments d''). pr_static row' = pr_static row \<and> pr_Version row \<le> pr_Version row' \<and>
      (pr_Version row' = pr_Version row \<longrightarrow>
         row' = row \<and> refunds_of d'' (pr_ID row) = refunds_of d (pr_ID row))"
  proof (rule bexI [OF _ r2(1)], intro conjI impI)
    assume "pr_Version r2 = pr_Version row"
    then have "pr_Version r1 = pr_Version row" "pr_Version r2 = pr_Version r1" using r1 r2 by auto
    with e1 e2 r1(3) show "r2 = row" "refunds_of d'' (pr_ID row) = refunds_of d (pr_ID row)" by auto
  qed (use r1 r2 in auto)
next
  show "rwstatic ` set (db_refunds d) \<subseteq> rwstatic ` set (db_refunds d'')"
    using assms unfolding db_ext_def by (meson subset_trans)
qed

lemma db_okD:
  assumes "db_ok L d" "row \<in> set (db_payments d)"
  shows "row_ok L d row" "payment_ok (stored d row)" "decodes row" "1 \<le> pr_Version row"
    "pr_Version row < 2 ^ 31" "history_ok L d row" "pr_DeletedAt row = None"
  using assms by (auto simp: db_ok_def row_ok_def)

lemma db_ok_live: "db_ok L d \<Longrightarrow> \<forall>r \<in> set (db_refunds d). rw_DeletedAt r = None"
  by (auto simp: db_ok_def)

lemma db_ok_same_row:
  assumes "db_ok L d" "row \<in> set (db_payments d)" "row' \<in> set (db_payments d)" "pr_ID row = pr_ID row'"
  shows "row = row'"
  using assms by (auto simp: db_ok_def distinct_map inj_on_def)

text \<open>What depends on a payment only through its own rows.\<close>

lemma stored_core_cong:
  assumes "refunds_of d' (pr_ID row) = refunds_of d (pr_ID row)" "decodes row"
    and "\<forall>r \<in> set (db_refunds d). rw_DeletedAt r = None" "\<forall>r \<in> set (db_refunds d'). rw_DeletedAt r = None"
  shows "core (stored d' row) = core (stored d row)"
  using stored_core [OF assms(2,3)] stored_core [OF assms(2,4)] assms(1) by simp

lemma row_ok_cong:
  assumes "row_ok L d row" "refunds_of d' (pr_ID row) = refunds_of d (pr_ID row)"
    and "events_of d' (pr_ID row) = events_of d (pr_ID row)" "outbox_of d' (pr_ID row) = outbox_of d (pr_ID row)"
    and "\<forall>r \<in> set (db_refunds d). rw_DeletedAt r = None" "\<forall>r \<in> set (db_refunds d'). rw_DeletedAt r = None"
  shows "row_ok L d' row"
proof -
  have ok: "decodes row" "payment_ok (stored d row)" "history_ok L d row"
    using assms(1) by (auto simp: row_ok_def)
  have c: "core (stored d row) = core (stored d' row)"
    using stored_core_cong [OF assms(2) ok(1) assms(5,6)] by simp
  have "payment_ok (stored d' row)" using core_payment_ok [OF c] ok(2) by blast
  moreover have "history_ok L d' row"
    using ok(3) unfolding history_ok_def assms(3,4) core_view [OF c ok(2)] .
  ultimately show ?thesis using assms(1) by (simp add: row_ok_def)
qed

section \<open>Refund rows after a save\<close>

fun upserts :: "refund_row list \<Rightarrow> db \<Rightarrow> goerr + db" where
  "upserts [] d = Inr d"
| "upserts (r # rs) d = (case UpsertRefund r d of Inl e \<Rightarrow> Inl e | Inr d' \<Rightarrow> upserts rs d')"

lemma UpsertRefund_refunds:
  assumes "UpsertRefund row d = Inr d'" "distinct (map rw_ID (db_refunds d))"
  shows "db_payments d' = db_payments d \<and> db_events d' = db_events d \<and> db_outbox d' = db_outbox d \<and>
    db_attempts d' = db_attempts d \<and>
    db_refunds d' = (if rw_ID row \<in> rw_ID ` set (db_refunds d)
      then map (\<lambda>r. if rw_ID r = rw_ID row then merge_refund row r else r) (db_refunds d)
      else db_refunds d @ [row])"
  using assms upd_first_map [OF assms(2), of "rw_ID row" "merge_refund row"]
  by (auto simp: UpsertRefund_def split: if_splits)

lemma merge_core: "rwstatic r = rwstatic row \<Longrightarrow> rwcore (merge_refund row r) = rwcore row"
  by (simp add: rwcore_eq rwstatic_eq merge_refund_def)

lemma merge_simps [simp]:
  "rw_ID (merge_refund row r) = rw_ID r" "rw_PaymentID (merge_refund row r) = rw_PaymentID r"
  "rw_DeletedAt (merge_refund row r) = rw_DeletedAt r" "rwstatic (merge_refund row r) = rwstatic r"
  by (simp_all add: merge_refund_def rwstatic_eq)

text \<open>The rows to store agree with stored rows on everything that never changes.\<close>

definition agree :: "refund_row list \<Rightarrow> db \<Rightarrow> bool" where
  "agree rows d \<longleftrightarrow>
     (\<forall>row \<in> set rows. \<forall>r \<in> set (db_refunds d). rw_ID r = rw_ID row \<longrightarrow> rwstatic r = rwstatic row)"

lemma Upsert_step:
  assumes "UpsertRefund row d = Inr d1" "distinct (map rw_ID (db_refunds d))" "agree [row] d"
    and "rw_DeletedAt row = None"
  shows "distinct (map rw_ID (db_refunds d1))"
    and "rw_ID ` set (db_refunds d1) = insert (rw_ID row) (rw_ID ` set (db_refunds d))"
    and "x \<in> set (db_refunds d1) \<Longrightarrow>
         (rw_ID x = rw_ID row \<and> rwcore x = rwcore row) \<or> (x \<in> set (db_refunds d) \<and> rw_ID x \<noteq> rw_ID row)"
    and "\<exists>x \<in> set (db_refunds d1). rwcore x = rwcore row"
    and "x \<in> set (db_refunds d) \<Longrightarrow> rw_ID x \<noteq> rw_ID row \<Longrightarrow> x \<in> set (db_refunds d1)"
    and "rwstatic ` set (db_refunds d) \<subseteq> rwstatic ` set (db_refunds d1)"
    and "pid \<noteq> rw_PaymentID row \<Longrightarrow> refunds_of d1 pid = refunds_of d pid"
    and "\<forall>r \<in> set (db_refunds d). rw_DeletedAt r = None \<Longrightarrow> \<forall>r \<in> set (db_refunds d1). rw_DeletedAt r = None"
proof -
  have rs: "db_refunds d1 = (if rw_ID row \<in> rw_ID ` set (db_refunds d)
      then map (\<lambda>r. if rw_ID r = rw_ID row then merge_refund row r else r) (db_refunds d)
      else db_refunds d @ [row])"
    using UpsertRefund_refunds [OF assms(1,2)] by blast
  have same: "r \<in> set (db_refunds d) \<Longrightarrow> rw_ID r = rw_ID row \<Longrightarrow> rwstatic r = rwstatic row" for r
    using assms(3) by (auto simp: agree_def)
  have ids: "map rw_ID (map (\<lambda>r. if rw_ID r = rw_ID row then merge_refund row r else r) (db_refunds d)) =
      map rw_ID (db_refunds d)"
    by (induction "db_refunds d") auto
  show "distinct (map rw_ID (db_refunds d1))"
    using assms(2) ids unfolding rs by (auto simp del: map_map)
  show "rw_ID ` set (db_refunds d1) = insert (rw_ID row) (rw_ID ` set (db_refunds d))"
  proof (cases "rw_ID row \<in> rw_ID ` set (db_refunds d)")
    case True
    then have "set (map rw_ID (db_refunds d1)) = set (map rw_ID (db_refunds d))"
      using rs ids by (simp del: map_map set_map list.set_map)
    with True show ?thesis by (simp add: insert_absorb)
  qed (simp add: rs)
  show "x \<in> set (db_refunds d1) \<Longrightarrow>
         (rw_ID x = rw_ID row \<and> rwcore x = rwcore row) \<or> (x \<in> set (db_refunds d) \<and> rw_ID x \<noteq> rw_ID row)"
  proof (cases "rw_ID row \<in> rw_ID ` set (db_refunds d)")
    case True
    then show "x \<in> set (db_refunds d1) \<Longrightarrow> ?thesis"
      using rs same merge_core by (auto split: if_splits)
  next
    case False
    then have "rw_ID r \<noteq> rw_ID row" if "r \<in> set (db_refunds d)" for r
      using that False by (metis imageI)
    then show "x \<in> set (db_refunds d1) \<Longrightarrow> ?thesis" using rs False by auto
  qed
  show "\<exists>x \<in> set (db_refunds d1). rwcore x = rwcore row"
  proof (cases "rw_ID row \<in> rw_ID ` set (db_refunds d)")
    case True
    then obtain r where r: "r \<in> set (db_refunds d)" "rw_ID r = rw_ID row" by auto
    then have "merge_refund row r \<in> set (db_refunds d1)" using rs True by (auto simp: image_iff)
    then show ?thesis using merge_core [OF same [OF r]] by blast
  qed (use rs in auto)
  show "x \<in> set (db_refunds d) \<Longrightarrow> rw_ID x \<noteq> rw_ID row \<Longrightarrow> x \<in> set (db_refunds d1)"
    unfolding rs by auto
  have stat: "map rwstatic (map (\<lambda>r. if rw_ID r = rw_ID row then merge_refund row r else r) xs) =
      map rwstatic xs" for xs
    by (induction xs) auto
  show "rwstatic ` set (db_refunds d) \<subseteq> rwstatic ` set (db_refunds d1)"
  proof (cases "rw_ID row \<in> rw_ID ` set (db_refunds d)")
    case True
    then have "set (map rwstatic (db_refunds d1)) = set (map rwstatic (db_refunds d))"
      by (simp only: rs if_True stat)
    then show ?thesis by (simp only: set_map subset_refl)
  qed (use rs in auto)
  show "pid \<noteq> rw_PaymentID row \<Longrightarrow> refunds_of d1 pid = refunds_of d pid"
  proof -
    assume pid: "pid \<noteq> rw_PaymentID row"
    have "filter (\<lambda>r. rw_PaymentID r = pid)
        (map (\<lambda>r. if rw_ID r = rw_ID row then merge_refund row r else r) rs) =
      filter (\<lambda>r. rw_PaymentID r = pid) rs" if "set rs \<subseteq> set (db_refunds d)" for rs
      using that
    proof (induction rs)
      case (Cons r rs)
      then show ?case using same [of r] pid by (auto simp: rwstatic_eq)
    qed simp
    then show ?thesis using pid unfolding refunds_of_def rs by simp
  qed
  show "\<forall>r \<in> set (db_refunds d). rw_DeletedAt r = None \<Longrightarrow> \<forall>r \<in> set (db_refunds d1). rw_DeletedAt r = None"
    using assms(4) unfolding rs by auto
qed

lemma upserts_tables:
  assumes "upserts rows d = Inr d'"
  shows "db_payments d' = db_payments d" "db_events d' = db_events d" "db_outbox d' = db_outbox d"
    "db_attempts d' = db_attempts d"
proof -
  have one: "UpsertRefund r d = Inr d1 \<Longrightarrow> db_payments d1 = db_payments d \<and> db_events d1 = db_events d \<and>
      db_outbox d1 = db_outbox d \<and> db_attempts d1 = db_attempts d" for r d d1
    by (auto simp: UpsertRefund_def split: if_splits)
  have "db_payments d' = db_payments d \<and> db_events d' = db_events d \<and> db_outbox d' = db_outbox d \<and>
      db_attempts d' = db_attempts d"
    using assms
  proof (induction rows arbitrary: d)
    case (Cons r rows)
    from Cons.prems obtain d1 where "UpsertRefund r d = Inr d1" "upserts rows d1 = Inr d'"
      by (auto split: sum.splits)
    with one Cons.IH show ?case by metis
  qed simp
  then show "db_payments d' = db_payments d" "db_events d' = db_events d" "db_outbox d' = db_outbox d"
    "db_attempts d' = db_attempts d" by simp_all
qed

text \<open>
  All rows stored: exactly the rows given, with their status, and every other row as it was.
\<close>

lemma upserts_effect:
  assumes "upserts rows d = Inr d'" "distinct (map rw_ID (db_refunds d))" "agree rows d"
    and "distinct (map rw_ID rows)" "\<forall>row \<in> set rows. rw_DeletedAt row = None"
  shows "distinct (map rw_ID (db_refunds d')) \<and>
    rw_ID ` set (db_refunds d') = rw_ID ` set rows \<union> rw_ID ` set (db_refunds d) \<and>
    (\<forall>x \<in> set (db_refunds d'). (\<exists>row \<in> set rows. rwcore x = rwcore row) \<or>
        (x \<in> set (db_refunds d) \<and> rw_ID x \<notin> rw_ID ` set rows)) \<and>
    (\<forall>row \<in> set rows. \<exists>x \<in> set (db_refunds d'). rwcore x = rwcore row) \<and>
    rwstatic ` set (db_refunds d) \<subseteq> rwstatic ` set (db_refunds d') \<and>
    (\<forall>pid. pid \<notin> rw_PaymentID ` set rows \<longrightarrow> refunds_of d' pid = refunds_of d pid) \<and>
    ((\<forall>r \<in> set (db_refunds d). rw_DeletedAt r = None) \<longrightarrow> (\<forall>r \<in> set (db_refunds d'). rw_DeletedAt r = None))"
  using assms
proof (induction rows arbitrary: d)
  case (Cons row rows)
  from Cons.prems(1) obtain d1 where d1: "UpsertRefund row d = Inr d1" and rest: "upserts rows d1 = Inr d'"
    by (auto split: sum.splits)
  have "agree [row] d" using Cons.prems(3) by (simp add: agree_def)
  note st = Upsert_step [OF d1 Cons.prems(2) this]
  have del: "rw_DeletedAt row = None" using Cons.prems(5) by simp
  have new: "rw_ID row \<notin> rw_ID ` set rows" using Cons.prems(4) by simp
  have "agree rows d1"
    unfolding agree_def
  proof (intro ballI impI)
    fix r x
    assume r: "r \<in> set rows" and x: "x \<in> set (db_refunds d1)" "rw_ID x = rw_ID r"
    have "rw_ID x \<noteq> rw_ID row" using new r x(2) by (metis imageI)
    then have "x \<in> set (db_refunds d)" using st(3) [OF del x(1)] by blast
    then show "rwstatic x = rwstatic r" using Cons.prems(3) r x(2) by (auto simp: agree_def)
  qed
  then have IH: "distinct (map rw_ID (db_refunds d'))"
    "rw_ID ` set (db_refunds d') = rw_ID ` set rows \<union> rw_ID ` set (db_refunds d1)"
    "\<forall>x \<in> set (db_refunds d'). (\<exists>row \<in> set rows. rwcore x = rwcore row) \<or>
        (x \<in> set (db_refunds d1) \<and> rw_ID x \<notin> rw_ID ` set rows)"
    "\<forall>row \<in> set rows. \<exists>x \<in> set (db_refunds d'). rwcore x = rwcore row"
    "rwstatic ` set (db_refunds d1) \<subseteq> rwstatic ` set (db_refunds d')"
    "\<forall>pid. pid \<notin> rw_PaymentID ` set rows \<longrightarrow> refunds_of d' pid = refunds_of d1 pid"
    "(\<forall>r \<in> set (db_refunds d1). rw_DeletedAt r = None) \<longrightarrow> (\<forall>r \<in> set (db_refunds d'). rw_DeletedAt r = None)"
    using Cons.IH [OF rest st(1) [OF del]] Cons.prems(4,5) by auto
  have kept: "\<exists>x \<in> set (db_refunds d'). rwcore x = rwcore row"
  proof -
    obtain x where x: "x \<in> set (db_refunds d1)" "rwcore x = rwcore row" using st(4) [OF del] by blast
    have "rwstatic x \<in> rwstatic ` set (db_refunds d')" using IH(5) x(1) by blast
    then obtain y where y: "y \<in> set (db_refunds d')" "rwstatic y = rwstatic x" by auto
    have "rw_ID y \<notin> rw_ID ` set rows" using new x(2) y(2) by (simp add: rwcore_eq rwstatic_eq)
    moreover have "\<not> (\<exists>r \<in> set rows. rwcore y = rwcore r)"
      using calculation by (auto simp: rwcore_eq rwstatic_eq)
    ultimately have "y \<in> set (db_refunds d1)" using IH(3) y(1) by blast
    moreover have "rw_ID y = rw_ID x" using y(2) by (simp add: rwstatic_eq)
    ultimately have "y = x" using st(1) [OF del] x(1) by (auto simp: distinct_map inj_on_def)
    with x y show ?thesis by blast
  qed
  have origin: "(\<exists>r \<in> set (row # rows). rwcore x = rwcore r) \<or>
      (x \<in> set (db_refunds d) \<and> rw_ID x \<notin> rw_ID ` set (row # rows))" if "x \<in> set (db_refunds d')" for x
    using IH(3) that st(3) [OF del] by fastforce
  show ?case
  proof (intro conjI)
    show "rw_ID ` set (db_refunds d') = rw_ID ` set (row # rows) \<union> rw_ID ` set (db_refunds d)"
      using IH(2) st(2) [OF del] by auto
    show "rwstatic ` set (db_refunds d) \<subseteq> rwstatic ` set (db_refunds d')"
      using IH(5) st(6) [OF del] by (meson subset_trans)
    show "\<forall>pid. pid \<notin> rw_PaymentID ` set (row # rows) \<longrightarrow> refunds_of d' pid = refunds_of d pid"
      using IH(6) st(7) [OF del] by auto
    show "(\<forall>r \<in> set (db_refunds d). rw_DeletedAt r = None) \<longrightarrow> (\<forall>r \<in> set (db_refunds d'). rw_DeletedAt r = None)"
      using IH(7) st(8) [OF del] by blast
  qed (use IH(1,4) kept origin in auto)
qed (simp add: agree_def)

section \<open>The transaction of a save, statement by statement\<close>

lemma run_stmt:
  assumes "run_state (stmt E n f) (d, k) = (Inr x, (d', k'))"
  shows "f k d = Inr (x, d')"
  using assms by (auto simp: stmt_def split: option.splits sum.splits)

lemma run_forE_refunds:
  assumes "run_state (forE (persist_refund E n) rs) (d, k) = (Inr (), (d', k'))"
  shows "upserts (map toRefundParams rs) d = Inr d'"
  using assms
proof (induction rs arbitrary: d k)
  case (Cons r rs)
  from Cons.prems obtain d1 k1 where one: "run_state (persist_refund E n r) (d, k) = (Inr (), (d1, k1))"
    and rest: "run_state (forE (persist_refund E n) rs) (d1, k1) = (Inr (), (d', k'))"
    by (auto split: prod.splits sum.splits)
  from one have "run_state (stmt E n (exec (UpsertRefund (toRefundParams r)))) (d, k) = (Inr (), (d1, k1))"
    by (auto simp: persist_refund_def map_sum_def split: prod.splits sum.splits)
  from run_stmt [OF this] have "UpsertRefund (toRefundParams r) d = Inr d1"
    by (auto simp: exec_def map_sum_def split: sum.splits)
  with Cons.IH [OF rest] show ?case by simp
qed simp

text \<open>The rows of the payment: inserted for a new one, updated at its version for a known one.\<close>

lemma run_persist_payment:
  assumes "run_state (persist_payment E n p) (d, k) = (Inr (), (d', k'))"
  shows "isNewPayment p \<Longrightarrow> InsertPayment (payment_row_of p) d = Inr (1, d')"
    and "\<not> isNewPayment p \<Longrightarrow>
      UpdatePaymentFull (p_ID p) (toNullableString (p_GatewayTransactionID p)) (p_Status p)
        (marshalJSONOrNil (p_GatewayResponsePayload p)) (map_option pg_time (p_PaidAt p))
        (pg_time (p_UpdatedAt p)) (int32 (p_Version p)) d = Inr (1, d')"
proof -
  assume new: "isNewPayment p"
  from assms new obtain x d1 k1 where
    "run_state (stmt E n (\<lambda>k. InsertPayment (payment_row_of p))) (d, k) = (Inr x, (d1, k1))" "d1 = d'" "x \<noteq> 0"
    by (auto simp: persist_payment_def map_sum_def split: prod.splits sum.splits if_splits)
  from run_stmt [OF this(1)] this(2,3) show "InsertPayment (payment_row_of p) d = Inr (1, d')"
    by (auto simp: InsertPayment_def split: if_splits)
next
  assume old: "\<not> isNewPayment p"
  from assms old obtain x d1 k1 where
    "run_state (stmt E n (\<lambda>k. UpdatePaymentFull (p_ID p) (toNullableString (p_GatewayTransactionID p))
        (p_Status p) (marshalJSONOrNil (p_GatewayResponsePayload p)) (map_option pg_time (p_PaidAt p))
        (pg_time (p_UpdatedAt p)) (int32 (p_Version p)))) (d, k) = (Inr x, (d1, k1))" "d1 = d'" "x \<noteq> 0"
    by (auto simp: persist_payment_def map_sum_def split: prod.splits sum.splits if_splits)
  from run_stmt [OF this(1)] this(2,3)
  show "UpdatePaymentFull (p_ID p) (toNullableString (p_GatewayTransactionID p)) (p_Status p)
        (marshalJSONOrNil (p_GatewayResponsePayload p)) (map_option pg_time (p_PaidAt p))
        (pg_time (p_UpdatedAt p)) (int32 (p_Version p)) d = Inr (1, d')"
    by (auto simp: UpdatePaymentFull_def Let_def split: if_splits)
qed

lemma run_persist_rows:
  assumes "run_state (persist_rows E n p) (d, k) = (Inr lastSeq, (d', k'))"
  obtains d1 k1 where "run_state (persist_payment E n p) (d, k) = (Inr (), (d1, k1))"
    and "upserts (map toRefundParams (p_Refunds p)) d1 = Inr d'"
    and "lastSeq = GetLastEventSequence (p_ID p) d'"
proof -
  from assms obtain d1 k1 d2 k2 where
    one: "run_state (persist_payment E n p) (d, k) = (Inr (), (d1, k1))"
    and two: "run_state (forE (persist_refund E n) (p_Refunds p)) (d1, k1) = (Inr (), (d2, k2))"
    and three: "run_state (stmt E n (\<lambda>k d. Inr (GetLastEventSequence (p_ID p) d, d))) (d2, k2) =
      (Inr lastSeq, (d', k'))"
    by (auto simp: persist_rows_def map_sum_def split: prod.splits sum.splits)
  from run_stmt [OF three] have "d2 = d'" "lastSeq = GetLastEventSequence (p_ID p) d'" by auto
  with one run_forE_refunds [OF two] show thesis using that by blast
qed

text \<open>The event rows and the outbox rows of a save.\<close>

lemma run_persist_event:
  assumes "run_state (persist_event E n pid lst ie) (d, k) = (Inr (), (d', k'))"
  shows "\<exists>e. d' = d\<lparr>db_events := db_events d @ [e]\<rparr> \<and> ev_AggregateID e = pid \<and>
    ev_data e = event_data (en_lib E) (snd ie) \<and>
    ev_SequenceNumber e = int32 (lst + int32 (int (fst ie) + 1))"
proof -
  from assms have "run_state (stmt E n (\<lambda>k. exec (InsertPaymentEvent (en_rowid E n k) (en_time E n) pid
      (EventType (snd ie)) (int32 (lst + int32 (int (fst ie) + 1))) (event_json (en_lib E) (snd ie))) k))
      (d, k) = (Inr (), (d', k'))"
    by (auto simp: persist_event_def map_sum_def split: prod.splits sum.splits)
  from run_stmt [OF this] show ?thesis
    by (auto simp: exec_def map_sum_def InsertPaymentEvent_def ev_data_def event_data_def
        split: sum.splits if_splits)
qed

lemma run_persist_event_list:
  assumes "run_state (forE (persist_event E n pid lst) (enumerate i es)) (d, k) = (Inr (), (d', k'))"
  shows "\<exists>evs. d' = d\<lparr>db_events := db_events d @ evs\<rparr> \<and> (\<forall>e \<in> set evs. ev_AggregateID e = pid) \<and>
    map ev_data evs = map (event_data (en_lib E)) es \<and>
    map ev_SequenceNumber evs = map (\<lambda>j. int32 (lst + int32 (int j + 1))) [i..<i + length es]"
  using assms
proof (induction es arbitrary: i d k)
  case (Cons e es)
  from Cons.prems obtain d1 k1 where one: "run_state (persist_event E n pid lst (i, e)) (d, k) = (Inr (), (d1, k1))"
    and rest: "run_state (forE (persist_event E n pid lst) (enumerate (Suc i) es)) (d1, k1) = (Inr (), (d', k'))"
    by (auto split: prod.splits sum.splits)
  from run_persist_event [OF one] obtain ev where ev: "d1 = d\<lparr>db_events := db_events d @ [ev]\<rparr>"
    "ev_AggregateID ev = pid" "ev_data ev = event_data (en_lib E) e"
    "ev_SequenceNumber ev = int32 (lst + int32 (int i + 1))" by auto
  from Cons.IH [OF rest] obtain evs where evs: "d' = d1\<lparr>db_events := db_events d1 @ evs\<rparr>"
    "\<forall>e \<in> set evs. ev_AggregateID e = pid" "map ev_data evs = map (event_data (en_lib E)) es"
    "map ev_SequenceNumber evs = map (\<lambda>j. int32 (lst + int32 (int j + 1))) [Suc i..<Suc i + length es]"
    by blast
  have "[i..<i + length (e # es)] = i # [Suc i..<Suc i + length es]" by (simp add: upt_conv_Cons del: upt_Suc)
  with ev evs show ?case
    by (intro exI [of _ "ev # evs"]) (simp del: upt_Suc)
qed simp

lemma run_write_outbox_list:
  assumes "run_state (forE (write_outbox E n) es) (d, k) = (Inr (), (d', k'))"
  shows "\<exists>obs. d' = d\<lparr>db_outbox := db_outbox d @ obs\<rparr> \<and>
    map ob_data obs = map (event_data (en_lib E)) es \<and> map ob_AggregateID obs = map AggregateID es"
  using assms
proof (induction es arbitrary: d k)
  case (Cons e es)
  from Cons.prems obtain d1 k1 where one: "run_state (write_outbox E n e) (d, k) = (Inr (), (d1, k1))"
    and rest: "run_state (forE (write_outbox E n) es) (d1, k1) = (Inr (), (d', k'))"
    by (auto split: prod.splits sum.splits)
  from one have "run_state (stmt E n (\<lambda>k d. Inr ((), InsertOutboxEvent (en_rowid E n k) (en_time E n)
      (AggregateID e) (EventType e) (event_json (en_lib E) e) d))) (d, k) = (Inr (), (d1, k1))"
    by (auto simp: write_outbox_def map_sum_def split: prod.splits sum.splits)
  from run_stmt [OF this] obtain ob where ob: "d1 = d\<lparr>db_outbox := db_outbox d @ [ob]\<rparr>"
    "ob_data ob = event_data (en_lib E) e" "ob_AggregateID ob = AggregateID e"
    by (auto simp: InsertOutboxEvent_def ob_data_def event_data_def)
  from Cons.IH [OF rest] obtain obs where "d' = d1\<lparr>db_outbox := db_outbox d1 @ obs\<rparr>"
    "map ob_data obs = map (event_data (en_lib E)) es" "map ob_AggregateID obs = map AggregateID es" by blast
  with ob show ?case by (intro exI [of _ "ob # obs"]) simp
qed simp

lemma run_persist_events:
  assumes "run_state (persist_events E n pid lst es) (d, k) = (Inr (), (d', k'))"
  shows "\<exists>evs obs. d' = d\<lparr>db_events := db_events d @ evs, db_outbox := db_outbox d @ obs\<rparr> \<and>
    (\<forall>e \<in> set evs. ev_AggregateID e = pid) \<and> map ev_data evs = map (event_data (en_lib E)) es \<and>
    map ev_SequenceNumber evs = map (\<lambda>j. int32 (lst + int32 (int j + 1))) [0..<length es] \<and>
    map ob_data obs = map (event_data (en_lib E)) es \<and> map ob_AggregateID obs = map AggregateID es"
proof -
  from assms obtain d1 k1 where
    one: "run_state (forE (persist_event E n pid lst) (enumerate 0 es)) (d, k) = (Inr (), (d1, k1))"
    and two: "run_state (forE (write_outbox E n) es) (d1, k1) = (Inr (), (d', k'))"
    by (auto simp: persist_events_def split: prod.splits sum.splits)
  from run_persist_event_list [OF one] obtain evs where "d1 = d\<lparr>db_events := db_events d @ evs\<rparr>"
    "\<forall>e \<in> set evs. ev_AggregateID e = pid" "map ev_data evs = map (event_data (en_lib E)) es"
    "map ev_SequenceNumber evs = map (\<lambda>j. int32 (lst + int32 (int j + 1))) [0..<length es]" by auto
  moreover from run_write_outbox_list [OF two] obtain obs where "d' = d1\<lparr>db_outbox := db_outbox d1 @ obs\<rparr>"
    "map ob_data obs = map (event_data (en_lib E)) es" "map ob_AggregateID obs = map AggregateID es" by auto
  ultimately show ?thesis by (intro exI [of _ evs] exI [of _ obs]) simp
qed

end
