(* ===== verification/Save_Laws.thy ===== *)
theory Save_Laws
  imports Store_Laws
begin

text \<open>
  A save keeps the database's invariant. \<open>loaded\<close> describes a payment this process has read and
  changed, however long ago: if the stored version is still the one it read, the payment evolved
  from exactly what is stored. \<open>created\<close> describes a new payment. \<open>fr\<close> are identifiers nobody uses.
\<close>

definition evolved_from :: "uuid_lib \<Rightarrow> db \<Rightarrow> (uuid \<Rightarrow> bool) \<Rightarrow> payment_row \<Rightarrow> payment \<Rightarrow> bool" where
  "evolved_from L d fr row p \<longleftrightarrow>
     (\<exists>q. core q = core (stored d row) \<and> p_events q = [] \<and> evolves L q p \<and>
        (\<forall>r \<in> set (p_Refunds p). r_ID r \<in> r_ID ` set (p_Refunds q) \<or> fr (r_ID r)))"

definition known_refunds :: "db \<Rightarrow> (uuid \<Rightarrow> bool) \<Rightarrow> payment \<Rightarrow> bool" where
  "known_refunds d fr p \<longleftrightarrow>
     (\<forall>r \<in> set (p_Refunds p). rstatic r \<in> rwstatic ` set (db_refunds d) \<or> fr (r_ID r))"

definition loaded :: "uuid_lib \<Rightarrow> db \<Rightarrow> (uuid \<Rightarrow> bool) \<Rightarrow> payment \<Rightarrow> bool" where
  "loaded L d fr p \<longleftrightarrow>
     \<not> isNewPayment p \<and> 1 \<le> p_Version p \<and>
     (\<exists>row \<in> set (db_payments d). pr_ID row = p_ID p \<and> p_Version p \<le> pr_Version row \<and>
        (p_Version p = pr_Version row \<longrightarrow> evolved_from L d fr row p)) \<and>
     known_refunds d fr p"

definition created :: "(uuid \<Rightarrow> bool) \<Rightarrow> payment \<Rightarrow> bool" where
  "created fr p \<longleftrightarrow> isNewPayment p \<and> fr (p_ID p) \<and> payment_ok p \<and> p_Refunds p = [] \<and>
     replay (p_events p) = Some (view_of p) \<and> (\<forall>e \<in> set (p_events p). AggregateID e = p_ID p)"

definition unused :: "(uuid \<Rightarrow> bool) \<Rightarrow> db \<Rightarrow> bool" where
  "unused fr d \<longleftrightarrow> (\<forall>u. fr u \<longrightarrow> u \<notin> db_ids d)"

lemma db_ok_owner:
  assumes "db_ok L d"
  shows "r \<in> set (db_refunds d) \<Longrightarrow> rw_PaymentID r \<in> pr_ID ` set (db_payments d)"
    "e \<in> set (db_events d) \<Longrightarrow> ev_AggregateID e \<in> pr_ID ` set (db_payments d)"
    "ob \<in> set (db_outbox d) \<Longrightarrow> ob_AggregateID ob \<in> pr_ID ` set (db_payments d)"
  using assms by (simp_all add: db_ok_def)

lemma unknown_payment:
  assumes "db_ok L d" "pid \<notin> pr_ID ` set (db_payments d)"
  shows "refunds_of d pid = []" "events_of d pid = []" "outbox_of d pid = []"
  unfolding refunds_of_def events_of_def outbox_of_def filter_empty_conv
  using db_ok_owner [OF assms(1)] assms(2) by metis+

lemma saved_core: "core (p\<lparr>p_events := es, p_Version := v\<rparr>) = core p"
  by (simp add: core_def)

section \<open>Sequence numbers\<close>

lemma last_sequence:
  assumes "map ev_SequenceNumber (events_of d pid) = map (\<lambda>i. int i + 1) [0..<n]"
  shows "GetLastEventSequence pid d = int n"
proof (cases n)
  case 0
  then show ?thesis using assms by (simp add: GetLastEventSequence_def events_of_def Let_def)
next
  case (Suc m)
  have "Max (set (map (\<lambda>i. int i + 1) [0..<n])) = int n"
    by (rule Max_eqI) (auto simp: Suc image_iff intro!: bexI [of _ m])
  then show ?thesis
    using assms Suc by (simp add: GetLastEventSequence_def events_of_def Let_def del: upt_Suc)
qed

lemma new_sequence:
  assumes "int (n + length es) < 2 ^ 31" "j < length es"
  shows "int32 (int n + int32 (int j + 1)) = int (n + j) + 1"
proof -
  have "int32 (int j + 1) = int j + 1" using assms by (intro int32_id) auto
  then show ?thesis using assms by (simp add: int32_id)
qed

lemma sequence_append:
  assumes "length es0 + length es < 2 ^ 31"
    and "map ev_SequenceNumber (events_of d pid) = map (\<lambda>i. int i + 1) [0..<length es0]"
    and "map ev_SequenceNumber evs =
      map (\<lambda>j. int32 (GetLastEventSequence pid d + int32 (int j + 1))) [0..<length es]"
  shows "map ev_SequenceNumber (events_of d pid @ evs) = map (\<lambda>i. int i + 1) [0..<length es0 + length es]"
proof -
  have "map (\<lambda>j. int32 (int (length es0) + int32 (int j + 1))) [0..<length es] =
      map (\<lambda>j. int (length es0 + j) + 1) [0..<length es]"
    by (rule map_cong) (use assms(1) new_sequence [of "length es0" es] in auto)
  also have "\<dots> = map (\<lambda>i. int i + 1) [length es0..<length es0 + length es]"
    by (rule nth_equalityI) simp_all
  finally show ?thesis
    using assms(2,3) last_sequence [OF assms(2)] by (simp add: upt_add_eq_append [of 0])
qed

section \<open>The history after the events are written\<close>

lemma history_append:
  assumes d2: "d2 = dr\<lparr>db_events := db_events dr @ evs, db_outbox := db_outbox dr @ obs\<rparr>"
    and evs: "\<forall>e \<in> set evs. ev_AggregateID e = pid" "map ev_data evs = map (event_data L) es"
      "map ev_SequenceNumber evs = map (\<lambda>j. int32 (GetLastEventSequence pid dr + int32 (int j + 1))) [0..<length es]"
    and obs: "map ob_data obs = map (event_data L) es" "map ob_AggregateID obs = map AggregateID es"
    and agg: "\<forall>e \<in> set es. AggregateID e = pid" and pid: "pid = pr_ID row'"
    and old: "map ev_data (events_of dr pid) = map (event_data L) es0"
      "map ob_data (outbox_of dr pid) = map (event_data L) es0"
      "\<forall>e \<in> set es0. AggregateID e = pid"
      "length es0 < 2 ^ 31 \<longrightarrow> map ev_SequenceNumber (events_of dr pid) = map (\<lambda>i. int i + 1) [0..<length es0]"
    and view: "replay (es0 @ es) = Some (view_of (stored d2 row'))"
  shows "history_ok L d2 row'"
    and "pid' \<noteq> pid \<Longrightarrow> events_of d2 pid' = events_of dr pid' \<and> outbox_of d2 pid' = outbox_of dr pid'"
proof -
  have obs_pid: "ob_AggregateID e = pid" if "e \<in> set obs" for e
  proof -
    have "ob_AggregateID e \<in> set (map ob_AggregateID obs)" using that by simp
    then show ?thesis using agg unfolding obs(2) by auto
  qed
  have ev: "events_of d2 pid = events_of dr pid @ evs"
    using evs(1) by (simp add: d2 events_of_def filter_id_conv)
  have ob: "outbox_of d2 pid = outbox_of dr pid @ obs"
    using obs_pid by (simp add: d2 outbox_of_def filter_id_conv)
  show "pid' \<noteq> pid \<Longrightarrow> events_of d2 pid' = events_of dr pid' \<and> outbox_of d2 pid' = outbox_of dr pid'"
    using evs(1) obs_pid by (auto simp: d2 events_of_def outbox_of_def filter_empty_conv)
  show "history_ok L d2 row'"
    unfolding history_ok_def
  proof (intro exI [of _ "es0 @ es"] conjI impI)
    assume "length (es0 @ es) < 2 ^ 31"
    then show "map ev_SequenceNumber (events_of d2 (pr_ID row')) = map (\<lambda>i. int i + 1) [0..<length (es0 @ es)]"
      using sequence_append [of es0 es dr pid evs] old(4) evs(3) ev pid by simp
  qed (use view ev ob evs obs old agg pid in auto)
qed

section \<open>Saving a new payment\<close>

lemma int32_0 [simp]: "int32 0 = 0"
  by (simp add: int32_def)

lemma save_created:
  assumes ok: "db_ok L d" and p: "created fr p" "unused fr d" and L: "L = en_lib E"
    and rows: "run_state (persist_rows E n p) (d, k) = (Inr lastSeq, (dr, k1))"
    and evts: "run_state (persist_events E n (p_ID p) lastSeq (p_events p)) (dr, k1) = (Inr (), (d2, k2))"
  shows "db_ok L d2" "db_ext d d2" "db_ids d2 \<subseteq> insert (p_ID p) (db_ids d)"
    "loaded L d2 (\<lambda>_. False) (p\<lparr>p_events := [], p_Version := 1\<rparr>)"
proof -
  have new: "isNewPayment p" "payment_ok p" "p_Refunds p = []" "replay (p_events p) = Some (view_of p)"
    "\<forall>e \<in> set (p_events p). AggregateID e = p_ID p" "p_ID p \<notin> db_ids d"
    using p by (auto simp: created_def unused_def)
  let ?row = "payment_row_of p"
  have row: "pr_ID ?row = p_ID p" "pr_ReferenceID ?row = p_ReferenceID p" "pr_CallerService ?row = p_CallerService p"
    "pr_Amount ?row = m_Amount (p_Amount p)" "pr_Status ?row = p_Status p" "pr_Version ?row = 1"
    "pr_DeletedAt ?row = None" "(pr_PaidAt ?row = None) = (p_PaidAt p = None)"
    by (simp_all add: payment_row_of_def)
  obtain d1 k0 where "run_state (persist_payment E n p) (d, k) = (Inr (), (d1, k0))"
    and "upserts (map toRefundParams (p_Refunds p)) d1 = Inr dr" and last: "lastSeq = GetLastEventSequence (p_ID p) dr"
    using run_persist_rows [OF rows] by blast
  then have "InsertPayment ?row d = Inr (1, dr)" using run_persist_payment(1) new(1,3) by auto
  then have dr: "dr = d\<lparr>db_payments := db_payments d @ [?row]\<rparr>" and key: "pr_key ?row \<notin> pr_key ` set (db_payments d)"
    by (auto simp: InsertPayment_def pr_key_def image_iff split: if_splits)
  obtain evs obs where d2: "d2 = dr\<lparr>db_events := db_events dr @ evs, db_outbox := db_outbox dr @ obs\<rparr>"
    and evs: "\<forall>e \<in> set evs. ev_AggregateID e = p_ID p" "map ev_data evs = map (event_data L) (p_events p)"
      "map ev_SequenceNumber evs = map (\<lambda>j. int32 (lastSeq + int32 (int j + 1))) [0..<length (p_events p)]"
    and obs: "map ob_data obs = map (event_data L) (p_events p)" "map ob_AggregateID obs = map AggregateID (p_events p)"
    using run_persist_events [OF evts] L by blast
  have fresh: "p_ID p \<notin> pr_ID ` set (db_payments d)" using new(6) by (simp add: db_ids_def)
  have none: "refunds_of dr (p_ID p) = []" "events_of dr (p_ID p) = []" "outbox_of dr (p_ID p) = []"
    using unknown_payment [OF ok fresh] by (simp_all add: refunds_of_def events_of_def outbox_of_def dr)
  have refs: "refunds_of d2 x = refunds_of d x" "refunds_of dr x = refunds_of d x" for x
    by (simp_all add: refunds_of_def d2 dr)
  have live: "\<forall>r \<in> set (db_refunds d). rw_DeletedAt r = None" "\<forall>r \<in> set (db_refunds d2). rw_DeletedAt r = None"
    using db_ok_live [OF ok] by (simp_all add: d2 dr)
  have core: "core (stored d2 ?row) = core p"
    unfolding stored_core [OF toDomain_row_of live(2)] using none refs
    by (cases "p_PaidAt p") (simp_all add: core_def row(1-5) new(3) payment_row_of_def)
  have view: "view_of (stored d2 ?row) = view_of p" using core_view [OF core [symmetric] new(2)] by simp
  note h = history_append [OF d2 evs(1,2) evs(3) [unfolded last] obs new(5) row(1) [symmetric], of "[]"]
  have hist: "history_ok L d2 ?row" by (rule h(1)) (simp_all add: none new(4) view)
  have others: "events_of d2 x = events_of dr x \<and> outbox_of d2 x = outbox_of dr x" if "x \<noteq> p_ID p" for x
    by (rule h(2) [OF _ _ _ _ _ that]) (simp_all add: none new(4) view)
  have same: "row_ok L d2 r" if r: "r \<in> set (db_payments d)" for r
  proof (rule row_ok_cong [OF db_okD(1) [OF ok r]])
    have "pr_ID r \<noteq> p_ID p" using fresh r by (metis imageI)
    from others [OF this] show "events_of d2 (pr_ID r) = events_of d (pr_ID r)"
      "outbox_of d2 (pr_ID r) = outbox_of d (pr_ID r)" by (simp_all add: dr events_of_def outbox_of_def)
  qed (use refs live in auto)
  have "row_ok L d2 ?row"
    using hist core_payment_ok [OF core] new(2) toDomain_row_of by (simp add: row_ok_def row)
  with same have all: "\<forall>r \<in> set (db_payments d2). row_ok L d2 r" by (simp add: d2 dr)
  have obs_pid: "ob_AggregateID e = p_ID p" if "e \<in> set obs" for e
  proof -
    have "ob_AggregateID e \<in> set (map ob_AggregateID obs)" using that by simp
    then show ?thesis using new(5) unfolding obs(2) by auto
  qed
  show "db_ok L d2"
    using ok all fresh key evs(1) obs_pid row(1)
    by (auto simp: db_ok_def d2 dr)
  show "db_ext d d2"
    unfolding db_ext_def
  proof (intro conjI ballI)
    fix r
    assume "r \<in> set (db_payments d)"
    then show "\<exists>row' \<in> set (db_payments d2). pr_static row' = pr_static r \<and> pr_Version r \<le> pr_Version row' \<and>
        (pr_Version row' = pr_Version r \<longrightarrow> row' = r \<and> refunds_of d2 (pr_ID r) = refunds_of d (pr_ID r))"
      using refs by (intro bexI [of _ r]) (simp_all add: d2 dr)
  qed (simp add: d2 dr)
  show "db_ids d2 \<subseteq> insert (p_ID p) (db_ids d)" by (auto simp: db_ids_def d2 dr row(1))
  show "loaded L d2 (\<lambda>_. False) (p\<lparr>p_events := [], p_Version := 1\<rparr>)"
    unfolding loaded_def evolved_from_def known_refunds_def
  proof (intro conjI bexI [of _ ?row] impI exI [of _ "p\<lparr>p_events := [], p_Version := 1\<rparr>"])
    show "core (p\<lparr>p_events := [], p_Version := 1\<rparr>) = core (stored d2 ?row)" using core by (simp add: saved_core)
  qed (use new(3) row in \<open>auto simp: isNewPayment_def PeekEvents_def d2 dr\<close>)
qed

section \<open>Saving a known payment\<close>

lemma upd_first_cong: "(\<And>x. x \<in> set xs \<Longrightarrow> P x = Q x) \<Longrightarrow> upd_first P f xs = upd_first Q f xs"
  by (induction xs) auto

definition new_row :: "payment \<Rightarrow> payment_row \<Rightarrow> payment_row" where
  "new_row p r = r\<lparr>pr_GatewayTransactionID := toNullableString (p_GatewayTransactionID p),
     pr_Status := p_Status p, pr_GatewayResponsePayload := marshalJSONOrNil (p_GatewayResponsePayload p),
     pr_PaidAt := map_option pg_time (p_PaidAt p), pr_UpdatedAt := pg_time (p_UpdatedAt p),
     pr_Version := pr_Version r + 1\<rparr>"

lemma new_row_fields [simp]:
  "pr_ID (new_row p r) = pr_ID r" "pr_ReferenceID (new_row p r) = pr_ReferenceID r"
  "pr_CallerService (new_row p r) = pr_CallerService r" "pr_Amount (new_row p r) = pr_Amount r"
  "pr_Status (new_row p r) = p_Status p" "pr_Version (new_row p r) = pr_Version r + 1"
  "pr_DeletedAt (new_row p r) = pr_DeletedAt r" "(pr_PaidAt (new_row p r) = None) = (p_PaidAt p = None)"
  "pr_key (new_row p r) = pr_key r" "pr_static (new_row p r) = pr_static r" "decodes (new_row p r) = (decodes (r\<lparr>pr_GatewayResponsePayload := None\<rparr>))"
  by (simp_all add: new_row_def pr_static_def pr_key_def decodes_iff) (simp add: unmarshal_map_def)

lemma new_row_abs:
  "(\<lambda>r. r\<lparr>pr_GatewayTransactionID := toNullableString (p_GatewayTransactionID p),
     pr_Status := p_Status p, pr_GatewayResponsePayload := marshalJSONOrNil (p_GatewayResponsePayload p),
     pr_PaidAt := map_option pg_time (p_PaidAt p), pr_UpdatedAt := pg_time (p_UpdatedAt p),
     pr_Version := pr_Version r + 1\<rparr>) = new_row p"
  by (simp add: fun_eq_iff new_row_def)

lemma decodes_drop: "decodes r \<Longrightarrow> decodes (r\<lparr>pr_GatewayResponsePayload := None\<rparr>)"
  by (simp add: decodes_iff) (simp add: unmarshal_map_def)

text \<open>The update only happens on the version that was read, and moves exactly that row.\<close>

lemma update_hits:
  assumes "db_ok L d" "loaded L d fr p"
    and "UpdatePaymentFull (p_ID p) (toNullableString (p_GatewayTransactionID p)) (p_Status p)
        (marshalJSONOrNil (p_GatewayResponsePayload p)) (map_option pg_time (p_PaidAt p))
        (pg_time (p_UpdatedAt p)) (int32 (p_Version p)) d = Inr (1, d1)"
  obtains row where "row \<in> set (db_payments d)" "pr_ID row = p_ID p" "p_Version p = pr_Version row"
    "pr_Version row + 1 < 2 ^ 31"
    "d1 = d\<lparr>db_payments := map (\<lambda>r. if pr_ID r = p_ID p then new_row p r else r) (db_payments d)\<rparr>"
proof -
  let ?hit = "\<lambda>r. pr_ID r = p_ID p \<and> pr_Version r = int32 (p_Version p)"
  from assms(3) obtain r where r: "r \<in> set (db_payments d)" "?hit r"
    and bound: "int32 (p_Version p) + 1 < 2 ^ 31"
    and d1: "d1 = d\<lparr>db_payments := upd_first ?hit (new_row p) (db_payments d)\<rparr>"
    by (auto simp: UpdatePaymentFull_def Let_def new_row_abs not_le split: if_splits)
  from assms(2) obtain row where row: "row \<in> set (db_payments d)" "pr_ID row = p_ID p"
    "p_Version p \<le> pr_Version row" and ge: "1 \<le> p_Version p" by (auto simp: loaded_def evolved_from_def known_refunds_def)
  have "row = r" using db_ok_same_row [OF assms(1) row(1) r(1)] row(2) r(2) by simp
  have "int32 (p_Version p) = p_Version p"
    using ge row(3) db_okD(5) [OF assms(1) row(1)] by (intro int32_id) auto
  with \<open>row = r\<close> r(2) bound have ver: "p_Version p = pr_Version row" "pr_Version row + 1 < 2 ^ 31" by auto
  have "?hit x = (pr_ID x = p_ID p)" if "x \<in> set (db_payments d)" for x
    using db_ok_same_row [OF assms(1) that r(1)] r(2) by auto
  then have "upd_first ?hit (new_row p) (db_payments d) =
      upd_first (\<lambda>r. pr_ID r = p_ID p) (new_row p) (db_payments d)" by (rule upd_first_cong)
  also have "\<dots> = map (\<lambda>r. if pr_ID r = p_ID p then new_row p r else r) (db_payments d)"
    by (rule upd_first_map) (use assms(1) in \<open>simp add: db_ok_def\<close>)
  finally show thesis using that row ver d1 by simp
qed

text \<open>After the refund rows are stored, the payment's rows are exactly its refunds.\<close>

lemma refunds_saved:
  assumes ok: "db_ok L d" and p: "payment_ok p"
    and known: "\<forall>r \<in> set (p_Refunds p). rstatic r \<in> rwstatic ` set (db_refunds d) \<or> r_ID r \<notin> rw_ID ` set (db_refunds d)"
    and all: "rwstatic ` set (refunds_of d (p_ID p)) \<subseteq> rstatic ` set (p_Refunds p)"
    and d1: "db_refunds d1 = db_refunds d"
    and up: "upserts (map toRefundParams (p_Refunds p)) d1 = Inr dr"
  shows "mset (map rwcore (refunds_of dr (p_ID p))) = mset (map rcore (p_Refunds p))"
    and "\<forall>pid. pid \<noteq> p_ID p \<longrightarrow> refunds_of dr pid = refunds_of d pid"
    and "distinct (map rw_ID (db_refunds dr))"
    and "\<forall>r \<in> set (db_refunds dr). rw_DeletedAt r = None"
    and "rwstatic ` set (db_refunds d) \<subseteq> rwstatic ` set (db_refunds dr)"
    and "rw_ID ` set (db_refunds dr) = r_ID ` set (p_Refunds p) \<union> rw_ID ` set (db_refunds d)"
    and "\<forall>r \<in> set (db_refunds dr). rw_PaymentID r = p_ID p \<or> r \<in> set (db_refunds d)"
    and "\<forall>r \<in> set (p_Refunds p). rstatic r \<in> rwstatic ` set (db_refunds dr)"
proof -
  note pd = payment_okD [OF p]
  have ids: "distinct (map rw_ID (map toRefundParams (p_Refunds p)))"
    using pd(4) by (simp add: comp_def)
  have dd: "distinct (map rw_ID (db_refunds d1))" using ok d1 by (simp add: db_ok_def)
  have ag: "agree (map toRefundParams (p_Refunds p)) d1"
    unfolding agree_def
  proof (intro ballI impI)
    fix row x
    assume "row \<in> set (map toRefundParams (p_Refunds p))" and x: "x \<in> set (db_refunds d1)" "rw_ID x = rw_ID row"
    then obtain r where r: "r \<in> set (p_Refunds p)" "row = toRefundParams r" by auto
    have "r_ID r \<in> rw_ID ` set (db_refunds d)" using x r d1 by (metis imageI rwcore_params(3))
    with known r(1) obtain y where y: "y \<in> set (db_refunds d)" "rwstatic y = rstatic r" by fastforce
    have "rw_ID y = r_ID r" using y(2) by (simp add: rstatic_def refund_of_row_def)
    then have "y = x" using dd d1 x y(1) r(2) by (auto simp: distinct_map inj_on_def)
    with y(2) r(2) show "rwstatic x = rwstatic row" by simp
  qed
  note e = upserts_effect [OF up dd ag ids]
  have own: "r_PaymentID r = p_ID p" if "r \<in> set (p_Refunds p)" for r using pd(3) that by blast
  have e: "distinct (map rw_ID (db_refunds dr))"
    "rw_ID ` set (db_refunds dr) = r_ID ` set (p_Refunds p) \<union> rw_ID ` set (db_refunds d)"
    "\<And>x. x \<in> set (db_refunds dr) \<Longrightarrow> (\<exists>r \<in> set (p_Refunds p). rwcore x = rcore r) \<or>
        (x \<in> set (db_refunds d) \<and> rw_ID x \<notin> r_ID ` set (p_Refunds p))"
    "\<And>r. r \<in> set (p_Refunds p) \<Longrightarrow> \<exists>x \<in> set (db_refunds dr). rwcore x = rcore r"
    "rwstatic ` set (db_refunds d) \<subseteq> rwstatic ` set (db_refunds dr)"
    "\<And>pid. pid \<notin> r_PaymentID ` set (p_Refunds p) \<Longrightarrow> refunds_of dr pid = refunds_of d pid"
    "\<forall>r \<in> set (db_refunds dr). rw_DeletedAt r = None"
    using e db_ok_live [OF ok] d1 by (simp_all add: image_image refunds_of_def)
  show "distinct (map rw_ID (db_refunds dr))" "\<forall>r \<in> set (db_refunds dr). rw_DeletedAt r = None"
    "rwstatic ` set (db_refunds d) \<subseteq> rwstatic ` set (db_refunds dr)"
    "rw_ID ` set (db_refunds dr) = r_ID ` set (p_Refunds p) \<union> rw_ID ` set (db_refunds d)" by (rule e)+
  show "\<forall>pid. pid \<noteq> p_ID p \<longrightarrow> refunds_of dr pid = refunds_of d pid"
    using e(6) own by auto
  have core_pid: "rw_PaymentID x = p_ID p" if "rwcore x = rcore r" "r \<in> set (p_Refunds p)" for x r
    using that own by (auto simp: rcore_def rstatic_def refund_of_row_def)
  show "\<forall>r \<in> set (db_refunds dr). rw_PaymentID r = p_ID p \<or> r \<in> set (db_refunds d)"
    using e(3) core_pid by blast
  show "\<forall>r \<in> set (p_Refunds p). rstatic r \<in> rwstatic ` set (db_refunds dr)"
  proof
    fix r
    assume "r \<in> set (p_Refunds p)"
    from e(4) [OF this] show "rstatic r \<in> rwstatic ` set (db_refunds dr)"
      by (metis imageI rcore_def prod.inject)
  qed
  have "set (map rwcore (refunds_of dr (p_ID p))) = set (map rcore (p_Refunds p))"
  proof (intro equalityI subsetI)
    fix c
    assume "c \<in> set (map rwcore (refunds_of dr (p_ID p)))"
    then obtain x where x: "x \<in> set (db_refunds dr)" "rw_PaymentID x = p_ID p" "c = rwcore x"
      by (auto simp: refunds_of_def)
    from e(3) [OF x(1)] show "c \<in> set (map rcore (p_Refunds p))"
    proof
      assume "x \<in> set (db_refunds d) \<and> rw_ID x \<notin> r_ID ` set (p_Refunds p)"
      moreover from this x(2) all obtain r where "r \<in> set (p_Refunds p)" "rwstatic x = rstatic r"
        by (auto simp: refunds_of_def)
      ultimately show ?thesis by (auto simp: rstatic_def refund_of_row_def)
    qed (use x(3) in auto)
  next
    fix c
    assume "c \<in> set (map rcore (p_Refunds p))"
    then obtain r where r: "r \<in> set (p_Refunds p)" "c = rcore r" by auto
    from e(4) [OF r(1)] obtain x where "x \<in> set (db_refunds dr)" "rwcore x = rcore r" by blast
    with core_pid [OF this(2) r(1)] r(2) show "c \<in> set (map rwcore (refunds_of dr (p_ID p)))"
      by (force simp: refunds_of_def)
  qed
  moreover have "distinct (map rwcore (refunds_of dr (p_ID p)))"
  proof -
    have "distinct (map rw_ID (refunds_of dr (p_ID p)))"
      using e(1) by (simp add: refunds_of_def distinct_map_filter)
    then show ?thesis by (auto simp: distinct_map inj_on_def rcore_def rstatic_def refund_of_row_def)
  qed
  moreover have "distinct (map rcore (p_Refunds p))"
    using pd(4) by (auto simp: distinct_map inj_on_def rcore_def rstatic_def)
  ultimately show "mset (map rwcore (refunds_of dr (p_ID p))) = mset (map rcore (p_Refunds p))"
    using set_eq_iff_mset_eq_distinct by blast
qed

lemma save_loaded:
  assumes ok: "db_ok L d" and p: "loaded L d fr p" "unused fr d" and L: "L = en_lib E"
    and rows: "run_state (persist_rows E n p) (d, k) = (Inr lastSeq, (dr, k1))"
    and evts: "run_state (persist_events E n (p_ID p) lastSeq (p_events p)) (dr, k1) = (Inr (), (d2, k2))"
  shows "db_ok L d2 \<and> db_ext d d2 \<and> db_ids d2 \<subseteq> db_ids d \<union> {u. fr u} \<and>
    loaded L d2 (\<lambda>_. False) (p\<lparr>p_events := [], p_Version := p_Version p + 1\<rparr>)"
proof -
  have old: "\<not> isNewPayment p" using p(1) by (simp add: loaded_def evolved_from_def known_refunds_def)
  obtain d1 k0 where "run_state (persist_payment E n p) (d, k) = (Inr (), (d1, k0))"
    and up: "upserts (map toRefundParams (p_Refunds p)) d1 = Inr dr"
    and last: "lastSeq = GetLastEventSequence (p_ID p) dr"
    using run_persist_rows [OF rows] by blast
  from run_persist_payment(2) [OF this(1) old] obtain row where
    row: "row \<in> set (db_payments d)" "pr_ID row = p_ID p" "p_Version p = pr_Version row" "pr_Version row + 1 < 2 ^ 31"
    and d1: "d1 = d\<lparr>db_payments := map (\<lambda>r. if pr_ID r = p_ID p then new_row p r else r) (db_payments d)\<rparr>"
    by (rule update_hits [OF ok p(1)])
  obtain row' where row': "row' \<in> set (db_payments d)" "pr_ID row' = p_ID p"
    and q': "p_Version p = pr_Version row' \<longrightarrow> (\<exists>q. core q = core (stored d row') \<and> p_events q = [] \<and> evolves L q p \<and>
              (\<forall>r \<in> set (p_Refunds p). r_ID r \<in> r_ID ` set (p_Refunds q) \<or> fr (r_ID r)))"
    using p(1) by (auto simp: loaded_def evolved_from_def known_refunds_def)
  have "row' = row" using db_ok_same_row [OF ok row'(1) row(1)] row'(2) row(2) by simp
  with q' row(3) obtain q where q: "core q = core (stored d row)" "p_events q = []" "evolves L q p"
    "\<forall>r \<in> set (p_Refunds p). r_ID r \<in> r_ID ` set (p_Refunds q) \<or> fr (r_ID r)" by blast
  note rowok = db_okD [OF ok row(1)]
  have okq: "payment_ok q" using core_payment_ok [OF q(1)] rowok(2) by simp
  have okp: "payment_ok p" using evolves_ok [OF q(3) okq] .
  have live: "\<forall>r \<in> set (db_refunds d). rw_DeletedAt r = None" by (rule db_ok_live [OF ok])
  have cq: "core q = (pr_ID row, pr_ReferenceID row, pr_CallerService row, pr_Amount row, pr_Status row,
      pr_PaidAt row \<noteq> None, mset (map rwcore (refunds_of d (pr_ID row))))"
    using q(1) stored_core [OF rowok(3) live] by simp
  have frame: "p_ID p = p_ID q" "p_ReferenceID p = p_ReferenceID q" "p_CallerService p = p_CallerService q"
    "p_Amount p = p_Amount q" using frameD [OF evolves_frame [OF q(3)]] by simp_all
  text \<open>the refund rows\<close>
  have known: "\<forall>r \<in> set (p_Refunds p). rstatic r \<in> rwstatic ` set (db_refunds d) \<or> r_ID r \<notin> rw_ID ` set (db_refunds d)"
    using p by (auto simp: loaded_def known_refunds_def unused_def db_ids_def)
  have "rcore ` set (p_Refunds q) = rwcore ` set (refunds_of d (p_ID p))"
  proof -
    have "mset (map rcore (p_Refunds q)) = mset (map rwcore (refunds_of d (p_ID p)))"
      using cq row(2) by (simp add: core_def)
    then show ?thesis by (metis list.set_map mset_eq_setD)
  qed
  then have "fst ` rcore ` set (p_Refunds q) = fst ` rwcore ` set (refunds_of d (p_ID p))" by simp
  then have "rstatic ` set (p_Refunds q) = rwstatic ` set (refunds_of d (p_ID p))"
    by (simp add: image_image rcore_def)
  moreover obtain extra where "map rstatic (p_Refunds p) = map rstatic (p_Refunds q) @ extra"
    using evolves_static [OF q(3)] by blast
  then have "set (map rstatic (p_Refunds p)) = set (map rstatic (p_Refunds q)) \<union> set extra" by simp
  ultimately have all: "rwstatic ` set (refunds_of d (p_ID p)) \<subseteq> rstatic ` set (p_Refunds p)" by simp
  have tabs: "db_payments dr = db_payments d1" "db_events dr = db_events d" "db_outbox dr = db_outbox d"
    using upserts_tables [OF up] by (simp_all add: d1)
  have "db_refunds d1 = db_refunds d" by (simp add: d1)
  note rf = refunds_saved [OF ok okp known all this up]
  text \<open>the events\<close>
  obtain es where es: "tells q p es" using evolves_tells [OF q(3) okq] by blast
  then have es: "p_events p = es" "foldl apply_event (Some (view_of q)) es = Some (view_of p)"
    "\<forall>e \<in> set es. AggregateID e = p_ID p"
    using q(2) frame(1) by (auto simp: tells_def)
  obtain evs obs where d2: "d2 = dr\<lparr>db_events := db_events dr @ evs, db_outbox := db_outbox dr @ obs\<rparr>"
    and evs: "\<forall>e \<in> set evs. ev_AggregateID e = p_ID p" "map ev_data evs = map (event_data L) es"
      "map ev_SequenceNumber evs = map (\<lambda>j. int32 (lastSeq + int32 (int j + 1))) [0..<length es]"
    and obs: "map ob_data obs = map (event_data L) es" "map ob_AggregateID obs = map AggregateID es"
    using run_persist_events [OF evts] L es(1) by blast
  have refs: "refunds_of d2 x = refunds_of dr x" "db_refunds d2 = db_refunds dr" for x
    by (simp_all add: refunds_of_def d2)
  let ?row = "new_row p row"
  have dec: "decodes ?row" using decodes_drop [OF rowok(3)] by simp
  have live2: "\<forall>r \<in> set (db_refunds d2). rw_DeletedAt r = None" using rf(4) refs by simp
  have core: "core (stored d2 ?row) = core p"
    unfolding stored_core [OF dec live2] using cq rf(1) row(2) frame refs
    by (simp add: core_def)
  have view: "view_of (stored d2 ?row) = view_of p" using core_view [OF core [symmetric] okp] by simp
  from rowok(6) obtain es0 where es0: "replay es0 = Some (view_of (stored d row))"
    "map ev_data (events_of d (p_ID p)) = map (event_data L) es0"
    "map ob_data (outbox_of d (p_ID p)) = map (event_data L) es0" "\<forall>e \<in> set es0. AggregateID e = p_ID p"
    "length es0 < 2 ^ 31 \<longrightarrow> map ev_SequenceNumber (events_of d (p_ID p)) = map (\<lambda>i. int i + 1) [0..<length es0]"
    unfolding history_ok_def row(2) by blast
  have evd: "events_of dr x = events_of d x" "outbox_of dr x = outbox_of d x" for x
    by (simp_all add: events_of_def outbox_of_def tabs)
  have rep: "replay (es0 @ es) = Some (view_of (stored d2 ?row))"
    using es(2) es0(1) view core_view [OF q(1) okq] by (simp add: replay_append)
  have pid: "p_ID p = pr_ID ?row" using row(2) by simp
  note h = history_append [OF d2 evs(1,2) evs(3) [unfolded last] obs es(3) pid, of es0, unfolded evd,
      OF es0(2-5) rep]
  have ok': "row_ok L d2 ?row"
    using h(1) core_payment_ok [OF core] okp dec rowok row(4) by (simp add: row_ok_def)
  have same: "row_ok L d2 r" if r: "r \<in> set (db_payments d)" "pr_ID r \<noteq> p_ID p" for r
    by (rule row_ok_cong [OF db_okD(1) [OF ok r(1)]])
       (use rf(2) refs live live2 h(2) [OF r(2)] r(2) evd in auto)
  have pays: "db_payments d2 = map (\<lambda>r. if pr_ID r = p_ID p then new_row p r else r) (db_payments d)"
    by (simp add: d2 tabs(1) d1)
  have at: "new_row p r = ?row" if "r \<in> set (db_payments d)" "pr_ID r = p_ID p" for r
    using db_ok_same_row [OF ok that(1) row(1)] that(2) row(2) by simp
  have all_ok: "\<forall>r \<in> set (db_payments d2). row_ok L d2 r"
    unfolding pays using same ok' at by auto
  have keep: "map pr_ID (db_payments d2) = map pr_ID (db_payments d)" "map pr_key (db_payments d2) = map pr_key (db_payments d)"
    unfolding pays by (induction "db_payments d") auto
  have keep': "pr_ID ` set (db_payments d2) = pr_ID ` set (db_payments d)"
    using keep(1) by (metis list.set_map)
  have obs_pid: "ob_AggregateID e = p_ID p" if "e \<in> set obs" for e
  proof -
    have "ob_AggregateID e \<in> set (map ob_AggregateID obs)" using that by simp
    then show ?thesis using es(3) unfolding obs(2) by auto
  qed
  have pidin: "p_ID p \<in> pr_ID ` set (db_payments d)" using row(1,2) by (metis imageI)
  have A: "db_ok L d2"
    unfolding db_ok_def keep keep'
  proof (intro conjI)
    show "distinct (map pr_ID (db_payments d))" "distinct (map pr_key (db_payments d))"
      using ok by (simp_all add: db_ok_def)
    show "distinct (map rw_ID (db_refunds d2))" using rf(3) refs by simp
    show "\<forall>r \<in> set (db_payments d2). row_ok L d2 r" by (rule all_ok)
    show "\<forall>r \<in> set (db_refunds d2). rw_DeletedAt r = None \<and> rw_PaymentID r \<in> pr_ID ` set (db_payments d)"
      using live2 rf(7) refs pidin db_ok_owner(1) [OF ok] by metis
    show "\<forall>e \<in> set (db_events d2). ev_AggregateID e \<in> pr_ID ` set (db_payments d)"
      using db_ok_owner(2) [OF ok] evs(1) pidin by (auto simp: d2 tabs)
    show "\<forall>e \<in> set (db_outbox d2). ob_AggregateID e \<in> pr_ID ` set (db_payments d)"
      using db_ok_owner(3) [OF ok] obs_pid pidin by (auto simp: d2 tabs)
  qed
  have B: "db_ext d d2"
    unfolding db_ext_def
  proof (intro conjI ballI)
    fix r
    assume r: "r \<in> set (db_payments d)"
    show "\<exists>row' \<in> set (db_payments d2). pr_static row' = pr_static r \<and> pr_Version r \<le> pr_Version row' \<and>
        (pr_Version row' = pr_Version r \<longrightarrow> row' = r \<and> refunds_of d2 (pr_ID r) = refunds_of d (pr_ID r))"
    proof (cases "pr_ID r = p_ID p")
      case True
      then have "new_row p r \<in> set (db_payments d2)" using r by (auto simp: pays image_iff)
      then show ?thesis using True by (intro bexI [of _ "new_row p r"]) simp_all
    next
      case False
      then have "r \<in> set (db_payments d2)" using r by (auto simp: pays image_iff)
      then show ?thesis using False rf(2) refs by (intro bexI [of _ r]) simp_all
    qed
  qed (use rf(5) refs in simp)
  have C: "db_ids d2 \<subseteq> db_ids d \<union> {u. fr u}"
  proof -
    have "r_ID r \<in> rw_ID ` set (db_refunds d) \<or> fr (r_ID r)" if "r \<in> set (p_Refunds p)" for r
    proof -
      have "rstatic r \<in> rwstatic ` set (db_refunds d) \<or> fr (r_ID r)" using p(1) that by (simp add: loaded_def evolved_from_def known_refunds_def)
      then show ?thesis by (auto simp: rstatic_def refund_of_row_def)
    qed
    then show ?thesis using rf(6) keep' refs by (auto simp: db_ids_def)
  qed
  have "loaded L d2 (\<lambda>_. False) (p\<lparr>p_events := [], p_Version := p_Version p + 1\<rparr>)"
    unfolding loaded_def evolved_from_def known_refunds_def
  proof (intro conjI bexI [of _ ?row] impI exI [of _ "p\<lparr>p_events := [], p_Version := p_Version p + 1\<rparr>"])
    show "core (p\<lparr>p_events := [], p_Version := p_Version p + 1\<rparr>) = core (stored d2 ?row)"
      using core by (simp add: saved_core)
    show "?row \<in> set (db_payments d2)" using row(1,2) by (auto simp: pays image_iff)
  qed (use rf(8) refs row p(1) in \<open>auto simp: isNewPayment_def PeekEvents_def loaded_def known_refunds_def\<close>)
  with A B C show ?thesis by blast
qed

end
