(* ===== verification/Admin_Repo.thy ===== *)
theory Admin_Repo
  imports Payment_Repo
begin

text \<open>
  The administrator's reads: the statements of \<open>db/admin.sql.go\<close> and \<open>postgres/admin_repo.go\<close>.
\<close>

section \<open>Statements\<close>

definition GetPaymentAttemptsByPayment :: "uuid \<Rightarrow> db \<Rightarrow> attempt_row list" where
  "GetPaymentAttemptsByPayment pid d =
     sort_key ar_AttemptNumber (filter (\<lambda>a. ar_PaymentID a = pid) (db_attempts d))"

definition GetPaymentEventsByPayment :: "uuid \<Rightarrow> db \<Rightarrow> event_row list" where
  "GetPaymentEventsByPayment pid d =
     sort_key ev_SequenceNumber (filter (\<lambda>e. ev_AggregateID e = pid) (db_events d))"

text \<open>This statement has no \<open>ORDER BY\<close>: the model keeps the order of insertion.\<close>

definition GetRefundsByPayment :: "uuid \<Rightarrow> db \<Rightarrow> refund_row list" where
  "GetRefundsByPayment pid d =
     filter (\<lambda>r. rw_PaymentID r = pid \<and> rw_DeletedAt r = None) (db_refunds d)"

text \<open>
  \<open>EXTRACT(EPOCH ...)::int\<close> rounds to the nearest second, halves away from zero. The groups come in
  some order; each status has at most one.
\<close>

definition round_seconds :: "duration \<Rightarrow> int" where
  "round_seconds d =
     (if d < 0 then - ((2 * (- d) + time_Second) div (2 * time_Second))
      else (2 * d + time_Second) div (2 * time_Second))"

definition stats_group :: "time \<Rightarrow> outbox_row list \<Rightarrow> outbox_status \<Rightarrow> outbox_status \<times> int \<times> int" where
  "stats_group now rows s =
     (let grp = filter (\<lambda>r. ob_Status r = s) rows
      in (s, int (length grp), round_seconds (now - Min (set (map ob_CreatedAt grp)))))"

definition GetOutboxStats :: "time \<Rightarrow> db \<Rightarrow> (outbox_status \<times> int \<times> int) list" where
  "GetOutboxStats now d =
     (let recent = filter (\<lambda>r. ob_CreatedAt r > pg_time now - time_Hour) (db_outbox d)
      in map (stats_group (pg_time now) recent) (remdups (map ob_Status recent)))"

section \<open>The adapter\<close>

definition to_admin_attempt :: "attempt_row \<Rightarrow> admin_attempt" where
  "to_admin_attempt r =
     \<lparr>aa_ID = ar_ID r, aa_Operation = ar_Operation r, aa_RefundID = ar_RefundID r,
      aa_AttemptNumber = ar_AttemptNumber r, aa_Status = ar_Status r,
      aa_ErrorCode = derefString (ar_ErrorCode r), aa_ErrorMessage = derefString (ar_ErrorMessage r),
      aa_GatewayTransactionID = derefString (ar_GatewayTransactionID r),
      aa_DurationMs = (case ar_DurationMs r of None \<Rightarrow> 0 | Some n \<Rightarrow> n), aa_CreatedAt = ar_CreatedAt r\<rparr>"

definition to_admin_event :: "(json \<Rightarrow> string) \<Rightarrow> event_row \<Rightarrow> admin_event" where
  "to_admin_event jsonb e =
     \<lparr>ae_ID = ev_ID e, ae_EventType = ev_EventType e, ae_SequenceNumber = ev_SequenceNumber e,
      ae_Payload = jsonb (ev_Payload e), ae_CreatedAt = ev_CreatedAt e\<rparr>"

definition to_admin_refund :: "refund_row \<Rightarrow> admin_refund" where
  "to_admin_refund r =
     \<lparr>af_ID = rw_ID r, af_ReferenceID = rw_ReferenceID r,
      af_GatewayRefundID = derefString (rw_GatewayRefundID r), af_Status = refund_status_str (rw_Status r),
      af_Amount = rw_Amount r, af_Reason = derefString (rw_Reason r), af_CreatedAt = rw_CreatedAt r\<rparr>"

fun add_stats :: "outbox_stats \<Rightarrow> outbox_status \<times> int \<times> int \<Rightarrow> outbox_stats" where
  "add_stats st (OutboxPending, n, age) = st\<lparr>os_Pending := n, os_OldestPendingAgeSecs := age\<rparr>"
| "add_stats st (OutboxPublished, n, age) = st\<lparr>os_Published := n\<rparr>"
| "add_stats st (OutboxFailed, n, age) = st\<lparr>os_Failed := n\<rparr>"

definition stats_of :: "(outbox_status \<times> int \<times> int) list \<Rightarrow> outbox_stats" where
  "stats_of rows =
     foldl add_stats \<lparr>os_Pending = 0, os_Published = 0, os_Failed = 0, os_OldestPendingAgeSecs = 0\<rparr> rows"

definition read_all :: "env \<Rightarrow> string \<Rightarrow> (nat \<Rightarrow> db \<Rightarrow> 'a) \<Rightarrow> (world, goerr + 'a) state" where
  "read_all E what f = mapE (\<lambda>e. Internal what (Some e)) (query E f)"

definition admin_repo :: "env \<Rightarrow> world admin_reader" where
  "admin_repo E =
     \<lparr>ad_GetPaymentAttempts = (\<lambda>pid. read_all E ''get payment attempts''
        (\<lambda>n d. map to_admin_attempt (GetPaymentAttemptsByPayment pid d))),
      ad_GetPaymentEvents = (\<lambda>pid. read_all E ''get payment events''
        (\<lambda>n d. map (to_admin_event (en_jsonb E)) (GetPaymentEventsByPayment pid d))),
      ad_GetRefunds = (\<lambda>pid. read_all E ''get refunds''
        (\<lambda>n d. map to_admin_refund (GetRefundsByPayment pid d))),
      ad_GetOutboxStats = read_all E ''get outbox stats'' (\<lambda>n d. stats_of (GetOutboxStats (en_time E n) d))\<rparr>"

section \<open>What the counts mean\<close>

lemma stats_of_groups:
  assumes "distinct (map fst rows)"
  shows "(OutboxPending, n, age) \<in> set rows \<Longrightarrow> os_Pending (stats_of rows) = n \<and> os_OldestPendingAgeSecs (stats_of rows) = age"
    and "(OutboxPublished, n, age) \<in> set rows \<Longrightarrow> os_Published (stats_of rows) = n"
    and "(OutboxFailed, n, age) \<in> set rows \<Longrightarrow> os_Failed (stats_of rows) = n"
    and "OutboxPending \<notin> fst ` set rows \<Longrightarrow> os_Pending (stats_of rows) = 0 \<and> os_OldestPendingAgeSecs (stats_of rows) = 0"
    and "OutboxPublished \<notin> fst ` set rows \<Longrightarrow> os_Published (stats_of rows) = 0"
    and "OutboxFailed \<notin> fst ` set rows \<Longrightarrow> os_Failed (stats_of rows) = 0"
proof -
  have "(OutboxPending \<notin> fst ` set rows \<longrightarrow> os_Pending (foldl add_stats st rows) = os_Pending st \<and>
      os_OldestPendingAgeSecs (foldl add_stats st rows) = os_OldestPendingAgeSecs st) \<and>
    (OutboxPublished \<notin> fst ` set rows \<longrightarrow> os_Published (foldl add_stats st rows) = os_Published st) \<and>
    (OutboxFailed \<notin> fst ` set rows \<longrightarrow> os_Failed (foldl add_stats st rows) = os_Failed st) \<and>
    ((OutboxPending, n, age) \<in> set rows \<longrightarrow> os_Pending (foldl add_stats st rows) = n \<and>
      os_OldestPendingAgeSecs (foldl add_stats st rows) = age) \<and>
    ((OutboxPublished, n, age) \<in> set rows \<longrightarrow> os_Published (foldl add_stats st rows) = n) \<and>
    ((OutboxFailed, n, age) \<in> set rows \<longrightarrow> os_Failed (foldl add_stats st rows) = n)" for st n age
    using assms
  proof (induction rows arbitrary: st)
    case (Cons x rows)
    obtain s m a where x: "x = (s, m, a)" by (cases x)
    have fresh: "s \<notin> fst ` set rows" and dist: "distinct (map fst rows)" using Cons.prems x by auto
    from fresh have absent: "(s, n, age) \<notin> set rows" by force
    show ?case using Cons.IH [OF dist, of "add_stats st x"] fresh absent unfolding x by (cases s) auto
  qed simp
  note fold = this [of \<open>\<lparr>os_Pending = 0, os_Published = 0, os_Failed = 0, os_OldestPendingAgeSecs = 0\<rparr>\<close>,
      folded stats_of_def]
  show "(OutboxPending, n, age) \<in> set rows \<Longrightarrow> os_Pending (stats_of rows) = n \<and> os_OldestPendingAgeSecs (stats_of rows) = age"
    "(OutboxPublished, n, age) \<in> set rows \<Longrightarrow> os_Published (stats_of rows) = n"
    "(OutboxFailed, n, age) \<in> set rows \<Longrightarrow> os_Failed (stats_of rows) = n"
    using fold by blast+
  show "OutboxPending \<notin> fst ` set rows \<Longrightarrow> os_Pending (stats_of rows) = 0 \<and> os_OldestPendingAgeSecs (stats_of rows) = 0"
    "OutboxPublished \<notin> fst ` set rows \<Longrightarrow> os_Published (stats_of rows) = 0"
    "OutboxFailed \<notin> fst ` set rows \<Longrightarrow> os_Failed (stats_of rows) = 0"
    using fold by fastforce+
qed

lemma stats_counts:
  "os_Pending (stats_of (GetOutboxStats now d)) =
     int (length (filter (\<lambda>r. ob_Status r = OutboxPending \<and> ob_CreatedAt r > pg_time now - time_Hour) (db_outbox d)))"
  "os_Published (stats_of (GetOutboxStats now d)) =
     int (length (filter (\<lambda>r. ob_Status r = OutboxPublished \<and> ob_CreatedAt r > pg_time now - time_Hour) (db_outbox d)))"
  "os_Failed (stats_of (GetOutboxStats now d)) =
     int (length (filter (\<lambda>r. ob_Status r = OutboxFailed \<and> ob_CreatedAt r > pg_time now - time_Hour) (db_outbox d)))"
proof -
  let ?recent = "filter (\<lambda>r. ob_CreatedAt r > pg_time now - time_Hour) (db_outbox d)"
  let ?rows = "GetOutboxStats now d"
  have rows: "?rows = map (stats_group (pg_time now) ?recent) (remdups (map ob_Status ?recent))"
    by (simp add: GetOutboxStats_def Let_def)
  have fst_group: "fst (stats_group t rs s) = s" for t rs s by (simp add: stats_group_def Let_def)
  then have fsts: "map fst ?rows = remdups (map ob_Status ?recent)" by (simp add: rows comp_def)
  then have dist: "distinct (map fst ?rows)" by simp
  have group: "(s, int (length (filter (\<lambda>r. ob_Status r = s) ?recent)), snd (snd (stats_group (pg_time now) ?recent s))) \<in> set ?rows"
    if "s \<in> fst ` set ?rows" for s
  proof -
    have "s \<in> set (map ob_Status ?recent)" using that fsts by (metis list.set_map set_remdups)
    then have "stats_group (pg_time now) ?recent s \<in> set ?rows" by (simp add: rows)
    then show ?thesis by (simp add: stats_group_def Let_def)
  qed
  have none: "length (filter (\<lambda>r. ob_Status r = s) ?recent) = 0" if "s \<notin> fst ` set ?rows" for s
  proof -
    have "s \<notin> set (map ob_Status ?recent)" using that fsts by (metis list.set_map set_remdups)
    then show ?thesis by (auto simp: filter_empty_conv)
  qed
  have "filter (\<lambda>r. ob_Status r = s) ?recent =
      filter (\<lambda>r. ob_Status r = s \<and> ob_CreatedAt r > pg_time now - time_Hour) (db_outbox d)" for s
    by (simp add: conj_commute)
  note eq = this
  show "os_Pending (stats_of ?rows) =
     int (length (filter (\<lambda>r. ob_Status r = OutboxPending \<and> ob_CreatedAt r > pg_time now - time_Hour) (db_outbox d)))"
    unfolding eq [symmetric]
    using stats_of_groups(1) [OF dist group] stats_of_groups(4) [OF dist] none [of OutboxPending] by fastforce
  show "os_Published (stats_of ?rows) =
     int (length (filter (\<lambda>r. ob_Status r = OutboxPublished \<and> ob_CreatedAt r > pg_time now - time_Hour) (db_outbox d)))"
    unfolding eq [symmetric]
    using stats_of_groups(2) [OF dist group] stats_of_groups(5) [OF dist] none [of OutboxPublished] by fastforce
  show "os_Failed (stats_of ?rows) =
     int (length (filter (\<lambda>r. ob_Status r = OutboxFailed \<and> ob_CreatedAt r > pg_time now - time_Hour) (db_outbox d)))"
    unfolding eq [symmetric]
    using stats_of_groups(3) [OF dist group] stats_of_groups(6) [OF dist] none [of OutboxFailed] by fastforce
qed

end
