(* ===== verification/Listing.thy ===== *)
theory Listing
  imports Admin_Repo
begin

text \<open>
  \<open>PaymentRepo.ListPaginated\<close>: the dynamic query of \<open>payment_repo.go\<close>. \<open>LIKE\<close> works on characters, so
  a string is cut into its UTF-8 sequences first.
\<close>

section \<open>LIKE\<close>

definition continuation :: "char \<Rightarrow> bool" where
  "continuation c \<longleftrightarrow> 128 \<le> (of_char c :: nat) \<and> (of_char c :: nat) < 192"

fun utf8_chars :: "string \<Rightarrow> string list" where
  "utf8_chars [] = []"
| "utf8_chars (c # s) =
     (case utf8_chars s of
        [] \<Rightarrow> [[c]]
      | x # xs \<Rightarrow> if continuation (hd x) then (c # x) # xs else [c] # x # xs)"

text \<open>\<open>%\<close> matches any characters, \<open>_\<close> one, a backslash makes the next one literal.\<close>

function like_match :: "string list \<Rightarrow> string list \<Rightarrow> bool" where
  "like_match [] s \<longleftrightarrow> s = []"
| "like_match (p # ps) s \<longleftrightarrow>
     (if p = ''%'' then like_match ps s \<or> (case s of [] \<Rightarrow> False | _ # s' \<Rightarrow> like_match (p # ps) s')
      else if p = ''_'' then (case s of [] \<Rightarrow> False | _ # s' \<Rightarrow> like_match ps s')
      else if p = [CHR 0x5C] then
        (case ps of [] \<Rightarrow> False
         | q # ps' \<Rightarrow> (case s of [] \<Rightarrow> False | x # s' \<Rightarrow> x = q \<and> like_match ps' s'))
      else (case s of [] \<Rightarrow> False | x # s' \<Rightarrow> x = p \<and> like_match ps s'))"
  by pat_completeness auto
termination
  by (relation "measure (\<lambda>(ps, s). length ps + length s)") auto

declare like_match.simps [simp del]

definition sql_like :: "string \<Rightarrow> string \<Rightarrow> bool" where
  "sql_like s pat \<longleftrightarrow> like_match (utf8_chars pat) (utf8_chars s)"

section \<open>The query\<close>

definition key_less :: "time \<times> uuid \<Rightarrow> time \<times> uuid \<Rightarrow> bool" where
  "key_less a b \<longleftrightarrow> fst a < fst b \<or> (fst a = fst b \<and> snd a < snd b)"

definition row_key :: "payment_row \<Rightarrow> time \<times> uuid" where
  "row_key r = (pr_CreatedAt r, pr_ID r)"

definition list_where :: "list_filter \<Rightarrow> payment_row \<Rightarrow> bool" where
  "list_where f r \<longleftrightarrow>
     live r \<and>
     (lf_Status f \<noteq> [] \<longrightarrow> status_str (pr_Status r) = lf_Status f) \<and>
     (lf_CallerService f \<noteq> [] \<longrightarrow> pr_CallerService r = lf_CallerService f) \<and>
     (lf_GatewayType f \<noteq> [] \<longrightarrow> pr_GatewayType r = lf_GatewayType f) \<and>
     (lf_ReferenceID f \<noteq> [] \<longrightarrow> sql_like (pr_ReferenceID r) (lf_ReferenceID f @ ''%'')) \<and>
     (case lf_From f of None \<Rightarrow> True | Some t \<Rightarrow> pr_CreatedAt r \<ge> pg_time t) \<and>
     (case lf_To f of None \<Rightarrow> True | Some t \<Rightarrow> pr_CreatedAt r \<le> pg_time t) \<and>
     (case lf_After f of None \<Rightarrow> True
      | Some k \<Rightarrow> key_less (row_key r) (pg_time (pk_CreatedAt k), pk_ID k))"

definition newest_first :: "payment_row list \<Rightarrow> payment_row list" where
  "newest_first rows = rev (sort_key pr_CreatedAt (sort_key pr_ID rows))"

definition list_query :: "list_filter \<Rightarrow> db \<Rightarrow> payment_row list" where
  "list_query f d =
     limited (if lf_Limit f \<le> 0 then 50 else lf_Limit f)
       (newest_first (filter (list_where f) (db_payments d)))"

definition repo_ListPaginated :: "env \<Rightarrow> list_filter \<Rightarrow> (world, goerr + payment list) state" where
  "repo_ListPaginated E f =
     bindE (mapE (\<lambda>e. Internal ''list payments'' (Some e)) (query E (\<lambda>n. list_query f))) (\<lambda>rows.
     State_Monad.return (toDomains rows))"

section \<open>The service over PostgreSQL\<close>

definition pg_repo :: "env \<Rightarrow> world repository" where
  "pg_repo E =
     \<lparr>rp_Save = repo_Save E, rp_FindByID = repo_FindByID E, rp_FindByReference = repo_FindByReference E,
      rp_FindByGatewayTransactionID = repo_FindByGatewayTransactionID E,
      rp_FindExpired = repo_FindExpired E, rp_ListPaginated = repo_ListPaginated E,
      rp_FindAwaitingChargeOutcome = repo_FindAwaitingChargeOutcome E,
      rp_FindWithPendingRefunds = repo_FindWithPendingRefunds E\<rparr>"

definition pg_service :: "env \<Rightarrow> world service" where
  "pg_service E =
     \<lparr>sv_repo = pg_repo E, sv_factory = remote_factory E, sv_cache = redis_adapter E,
      sv_attempts = Some (recorder_Record E), sv_admin = admin_repo E, sv_rt = sys_runtime E\<rparr>"

end
