(* ===== verification/Go_Time.thy ===== *)
theory Go_Time
  imports Prelude
begin

text \<open>
  What the source uses of package \<open>time\<close>'s text forms: \<open>Format\<close> with \<open>RFC3339\<close> and \<open>RFC3339Nano\<close>
  in UTC, and \<open>Parse\<close> with the same layouts, leniencies included (one digit for the hour, a comma
  as the decimal separator, more than nine fractional digits, offsets up to 24:60). An instant is a
  number of nanoseconds since the Unix epoch; the calendar is the proleptic Gregorian one.
\<close>

section \<open>The calendar\<close>

definition is_leap :: "int \<Rightarrow> bool" where
  "is_leap y \<longleftrightarrow> y mod 4 = 0 \<and> (y mod 100 \<noteq> 0 \<or> y mod 400 = 0)"

definition days_before_month :: "bool \<Rightarrow> int \<Rightarrow> int" where
  "days_before_month leap m =
     (if m \<le> 1 then 0 else if m = 2 then 31
      else (if leap then 1 else 0) +
        (if m = 3 then 59 else if m = 4 then 90 else if m = 5 then 120 else if m = 6 then 151
         else if m = 7 then 181 else if m = 8 then 212 else if m = 9 then 243 else if m = 10 then 273
         else if m = 11 then 304 else if m = 12 then 334 else 365))"

definition days_in_month :: "int \<Rightarrow> int \<Rightarrow> int" where
  "days_in_month y m = days_before_month (is_leap y) (m + 1) - days_before_month (is_leap y) m"

text \<open>Days are counted from 1 January of year 1; the epoch is day 719162.\<close>

definition day_of_date :: "int \<Rightarrow> int \<Rightarrow> int \<Rightarrow> int" where
  "day_of_date y m d =
     365 * (y - 1) + (y - 1) div 4 - (y - 1) div 100 + (y - 1) div 400 +
     days_before_month (is_leap y) m + (d - 1)"

definition year_day :: "int \<Rightarrow> int \<times> int" where
  "year_day z =
     (let a = z div 146097; r = z mod 146097;
          b = min 3 (r div 36524); r = r - 36524 * b;
          c = r div 1461; r = r mod 1461;
          e = min 3 (r div 365)
      in (400 * a + 100 * b + 4 * c + e + 1, r - 365 * e))"

definition month_of_day :: "bool \<Rightarrow> int \<Rightarrow> int" where
  "month_of_day leap yd =
     (let l = (if leap then 1 else 0)
      in if yd < 31 then 1 else if yd < 59 + l then 2 else if yd < 90 + l then 3
         else if yd < 120 + l then 4 else if yd < 151 + l then 5 else if yd < 181 + l then 6
         else if yd < 212 + l then 7 else if yd < 243 + l then 8 else if yd < 273 + l then 9
         else if yd < 304 + l then 10 else if yd < 334 + l then 11 else 12)"

definition date_of_day :: "int \<Rightarrow> int \<times> int \<times> int" where
  "date_of_day z =
     (let (y, yd) = year_day z; m = month_of_day (is_leap y) yd
      in (y, m, yd - days_before_month (is_leap y) m + 1))"

lemma year_day_parts:
  obtains a b c e yd where "year_day z = (400 * a + 100 * b + 4 * c + e + 1, yd)"
    "z = 146097 * a + 36524 * b + 1461 * c + 365 * e + yd"
    "0 \<le> b" "b \<le> 3" "0 \<le> c" "c \<le> 24" "0 \<le> e" "e \<le> 3" "0 \<le> yd" "yd \<le> 365"
    "yd = 365 \<Longrightarrow> e = 3 \<and> (c < 24 \<or> b = 3)"
proof -
  define a where "a = z div 146097"
  define r where "r = z mod 146097"
  define b where "b = min 3 (r div 36524)"
  define r1 where "r1 = r - 36524 * b"
  define c where "c = r1 div 1461"
  define r2 where "r2 = r1 mod 1461"
  define e where "e = min 3 (r2 div 365)"
  have z: "z = 146097 * a + r" "0 \<le> r" "r < 146097" by (simp_all add: a_def r_def)
  have min3: "0 \<le> min 3 (x div n) \<and> min 3 (x div n) \<le> 3 \<and> 0 \<le> x - n * min 3 (x div n) \<and>
      x - n * min 3 (x div n) \<le> n \<and> (x - n * min 3 (x div n) = n \<longrightarrow> min 3 (x div n) = 3)"
    if "0 \<le> x" "x \<le> 4 * n" "0 < n" for x n :: int
  proof (cases "x div n \<le> 3")
    case True
    have "x = n * (x div n) + x mod n" "0 \<le> x mod n" "x mod n < n" using that by simp_all
    moreover have "0 \<le> x div n" using that by (simp add: pos_imp_zdiv_nonneg_iff)
    moreover from True have m: "min 3 (x div n) = x div n" by simp
    ultimately show ?thesis using True unfolding m by (intro conjI impI) linarith+
  next
    case False
    then have "n * 4 \<le> n * (x div n)" using that(3) by (intro mult_left_mono) simp_all
    moreover have "n * (x div n) + x mod n = x" "0 \<le> x mod n" using that(3) by simp_all
    moreover have m: "min 3 (x div n) = 3" using False by simp
    ultimately show ?thesis using that(1,2) unfolding m by linarith
  qed
  have b: "0 \<le> b" "b \<le> 3" "0 \<le> r1" "r1 \<le> 36524" "r1 = 36524 \<Longrightarrow> b = 3"
    using min3 [of r 36524] z(2,3) unfolding b_def r1_def by simp_all
  have r1: "r1 = 1461 * c + r2" "0 \<le> r2" "r2 < 1461" by (simp_all add: c_def r2_def)
  have c: "0 \<le> c" "c \<le> 24" using b(3,4) r1 by linarith+
  have e: "0 \<le> e" "e \<le> 3" "0 \<le> r2 - 365 * e" "r2 - 365 * e \<le> 365" "r2 - 365 * e = 365 \<Longrightarrow> e = 3"
    using min3 [of r2 365] r1(2,3) unfolding e_def by simp_all
  have last: "c < 24 \<or> b = 3" if "r2 - 365 * e = 365"
  proof -
    have "r2 = 1460" using e(5) [OF that] that by simp
    then show ?thesis using r1(1) b(4,5) c(2) by (cases "c = 24") auto
  qed
  have "year_day z = (400 * a + 100 * b + 4 * c + e + 1, r2 - 365 * e)"
    unfolding year_day_def Let_def a_def r_def b_def r1_def c_def r2_def e_def by (rule refl)
  then show thesis
  proof (rule that)
    show "z = 146097 * a + 36524 * b + 1461 * c + 365 * e + (r2 - 365 * e)"
      using z(1) r1(1) unfolding r1_def by linarith
    show "r2 - 365 * e = 365 \<Longrightarrow> e = 3 \<and> (c < 24 \<or> b = 3)" using e(5) last by blast
  qed (rule b c e)+
qed

lemma leap_parts:
  fixes a b c e :: int
  assumes "0 \<le> b" "b \<le> 3" "0 \<le> c" "c \<le> 24" "0 \<le> e" "e \<le> 3" "y = 400 * a + 100 * b + 4 * c + e + 1"
  shows "(y - 1) div 4 = 100 * a + 25 * b + c" "(y - 1) div 100 = 4 * a + b" "(y - 1) div 400 = a"
    "e = 3 \<Longrightarrow> c < 24 \<or> b = 3 \<Longrightarrow> is_leap y"
proof -
  show "(y - 1) div 4 = 100 * a + 25 * b + c" by (rule int_div_pos_eq [of _ _ _ e]) (use assms in simp_all)
  show "(y - 1) div 100 = 4 * a + b" by (rule int_div_pos_eq [of _ _ _ "4 * c + e"]) (use assms in simp_all)
  show "(y - 1) div 400 = a" by (rule int_div_pos_eq [of _ _ _ "100 * b + 4 * c + e"]) (use assms in simp_all)
  assume e: "e = 3" "c < 24 \<or> b = 3"
  have "y mod 4 = 0" by (rule int_mod_pos_eq [of _ _ "100 * a + 25 * b + c + 1"]) (use assms e in simp_all)
  moreover have "y mod 100 = 4 * c + 4" if "c < 24"
    by (rule int_mod_pos_eq [of _ _ "4 * a + b"]) (use assms e that in simp_all)
  moreover have "y mod 400 = 0" if "c = 24" "b = 3"
    by (rule int_mod_pos_eq [of _ _ "a + 1"]) (use assms e that in simp_all)
  ultimately show "is_leap y" using e(2) assms(3,4) unfolding is_leap_def by (cases "c = 24") auto
qed

lemma month_of_day:
  assumes "0 \<le> yd" "yd < (if leap then 366 else 365)"
  shows "1 \<le> month_of_day leap yd" "month_of_day leap yd \<le> 12"
    "days_before_month leap (month_of_day leap yd) \<le> yd"
    "yd < days_before_month leap (month_of_day leap yd + 1)"
proof -
  let ?l = "if leap then 1 else 0 :: int"
  have dm: "days_before_month leap 1 = 0" "days_before_month leap 2 = 31" "days_before_month leap 3 = 59 + ?l"
    "days_before_month leap 4 = 90 + ?l" "days_before_month leap 5 = 120 + ?l" "days_before_month leap 6 = 151 + ?l"
    "days_before_month leap 7 = 181 + ?l" "days_before_month leap 8 = 212 + ?l" "days_before_month leap 9 = 243 + ?l"
    "days_before_month leap 10 = 273 + ?l" "days_before_month leap 11 = 304 + ?l" "days_before_month leap 12 = 334 + ?l"
    "days_before_month leap 13 = 365 + ?l" by (simp_all add: days_before_month_def)
  define l where "l = ?l"
  have yd: "yd < 365 + l" using assms(2) by (simp add: l_def split: if_splits)
  note dm = dm [folded l_def]
  have "month_of_day leap yd \<in> {1..12} \<and> days_before_month leap (month_of_day leap yd) \<le> yd \<and>
      yd < days_before_month leap (month_of_day leap yd + 1)"
    unfolding month_of_day_def Let_def l_def [symmetric] using yd assms(1)
    by (simp add: dm)
  then show "1 \<le> month_of_day leap yd" "month_of_day leap yd \<le> 12"
    "days_before_month leap (month_of_day leap yd) \<le> yd"
    "yd < days_before_month leap (month_of_day leap yd + 1)" by simp_all
qed

theorem date_of_day_inverse:
  assumes "date_of_day z = (y, m, d)"
  shows "day_of_date y m d = z" "1 \<le> m" "m \<le> 12" "1 \<le> d" "d \<le> days_in_month y m"
proof -
  obtain a b c e yd where p: "year_day z = (400 * a + 100 * b + 4 * c + e + 1, yd)"
    "z = 146097 * a + 36524 * b + 1461 * c + 365 * e + yd"
    "0 \<le> b" "b \<le> 3" "0 \<le> c" "c \<le> 24" "0 \<le> e" "e \<le> 3" "0 \<le> yd" "yd \<le> 365"
    "yd = 365 \<Longrightarrow> e = 3 \<and> (c < 24 \<or> b = 3)" by (rule year_day_parts [of z]) blast
  have y: "y = 400 * a + 100 * b + 4 * c + e + 1" and m: "m = month_of_day (is_leap y) yd"
    and d: "d = yd - days_before_month (is_leap y) m + 1"
    using assms by (auto simp: date_of_day_def p(1) Let_def)
  note l = leap_parts [OF p(3-8) y]
  have "yd < (if is_leap y then 366 else 365)" using p(10,11) l(4) by (cases "yd = 365") auto
  note mo = month_of_day [OF p(9) this, folded m]
  show "1 \<le> m" "m \<le> 12" by (rule mo)+
  show "1 \<le> d" "d \<le> days_in_month y m" using mo(3,4) by (simp_all add: d days_in_month_def)
  show "day_of_date y m d = z"
    unfolding day_of_date_def l(1-3) d using p(2) y by simp
qed

lemma year_range:
  assumes "date_of_day z = (y, m, d)" "- 366 \<le> z" "z < 3652059"
  shows "0 \<le> y" "y \<le> 9999"
proof -
  obtain a b c e yd where p: "year_day z = (400 * a + 100 * b + 4 * c + e + 1, yd)"
    "z = 146097 * a + 36524 * b + 1461 * c + 365 * e + yd"
    "0 \<le> b" "b \<le> 3" "0 \<le> c" "c \<le> 24" "0 \<le> e" "e \<le> 3" "0 \<le> yd" "yd \<le> 365"
    "yd = 365 \<Longrightarrow> e = 3 \<and> (c < 24 \<or> b = 3)" by (rule year_day_parts [of z]) blast
  have y: "y = 400 * a + 100 * b + 4 * c + e + 1" using assms(1) by (auto simp: date_of_day_def p(1) Let_def)
  have "-1 \<le> a" "a \<le> 24" using p assms(2,3) by linarith+
  show "y \<le> 9999"
  proof (rule ccontr)
    assume "\<not> y \<le> 9999"
    then have "a = 24" "b = 3" "c = 24" "e = 3" using y p \<open>a \<le> 24\<close> by linarith+
    with p(2,9) assms(3) show False by simp
  qed
  show "0 \<le> y"
  proof (cases "a = -1")
    case True
    with p assms(2) have "b = 3" by linarith
    with True p assms(2) have "c = 24" by linarith
    with True \<open>b = 3\<close> p(2,10) assms(2) have "365 * e + yd \<ge> 1095" by simp
    then have "e \<ge> 3" using p(8,10,11) by (cases "yd = 365") auto
    with True \<open>b = 3\<close> \<open>c = 24\<close> y show ?thesis by simp
  next
    case False
    with \<open>-1 \<le> a\<close> y p show ?thesis by linarith
  qed
qed

section \<open>Decimal fields\<close>

definition is_digit :: "char \<Rightarrow> bool" where
  "is_digit c \<longleftrightarrow> 48 \<le> (of_char c :: nat) \<and> (of_char c :: nat) \<le> 57"

definition digit_val :: "char \<Rightarrow> int" where
  "digit_val c = int (of_char c) - 48"

definition digits_val :: "string \<Rightarrow> int" where
  "digits_val s = foldl (\<lambda>n c. 10 * n + digit_val c) 0 s"

text \<open>\<open>n\<close> in decimal with exactly \<open>w\<close> digits (\<open>n\<close> is below \<open>10 ^ w\<close> wherever this is used).\<close>

fun pad_digits :: "nat \<Rightarrow> int \<Rightarrow> string" where
  "pad_digits 0 n = []"
| "pad_digits (Suc w) n = pad_digits w (n div 10) @ [digit_char (nat (n mod 10))]"

lemma digit_char [simp]:
  assumes "n < 10"
  shows "is_digit (digit_char n)" "digit_val (digit_char n) = int n"
proof -
  have "(of_char (digit_char n) :: nat) = 48 + n" using assms by (simp add: digit_char_def)
  then show "is_digit (digit_char n)" "digit_val (digit_char n) = int n"
    using assms by (simp_all add: is_digit_def digit_val_def)
qed

lemma length_pad_digits [simp]: "length (pad_digits w n) = w"
  by (induction w arbitrary: n) simp_all

lemma pad_digits_digits [simp]: "list_all is_digit (pad_digits w n)"
proof (induction w arbitrary: n)
  case (Suc w)
  have "nat (n mod 10) < 10" by simp
  with Suc show ?case by simp
qed simp

lemma digits_val_snoc: "digits_val (s @ [c]) = 10 * digits_val s + digit_val c"
  by (simp add: digits_val_def)

lemma pad_digits_val: "0 \<le> n \<Longrightarrow> n < 10 ^ w \<Longrightarrow> digits_val (pad_digits w n) = n"
proof (induction w arbitrary: n)
  case 0
  then show ?case by (simp add: digits_val_def)
next
  case (Suc w)
  have "n div 10 < 10 ^ w" using Suc.prems by (simp add: div_less_iff_less_mult mult.commute)
  then have "digits_val (pad_digits w (n div 10)) = n div 10" using Suc by simp
  moreover have "digit_val (digit_char (nat (n mod 10))) = n mod 10" by simp
  ultimately show ?case by (simp add: digits_val_snoc)
qed

section \<open>Format\<close>

fun strip_zeros :: "string \<Rightarrow> string" where
  "strip_zeros s = rev (dropWhile (\<lambda>c. c = CHR ''0'') (rev s))"

declare strip_zeros.simps [simp del]

definition format_seconds :: "time \<Rightarrow> string" where
  "format_seconds t =
     (let s = t div 1000000000; (y, m, d) = date_of_day (s div 86400 + 719162); sod = s mod 86400
      in pad_digits 4 y @ ''-'' @ pad_digits 2 m @ ''-'' @ pad_digits 2 d @ ''T'' @
         pad_digits 2 (sod div 3600) @ '':'' @ pad_digits 2 (sod mod 3600 div 60) @ '':'' @
         pad_digits 2 (sod mod 60))"

definition format_RFC3339 :: "time \<Rightarrow> string" where
  "format_RFC3339 t = format_seconds t @ ''Z''"

definition format_RFC3339Nano :: "time \<Rightarrow> string" where
  "format_RFC3339Nano t =
     (let frac = strip_zeros (pad_digits 9 (t mod 1000000000))
      in format_seconds t @ (if frac = [] then [] else CHR ''.'' # frac) @ ''Z'')"

section \<open>Parse\<close>

text \<open>Each field consumes a prefix of the input; \<open>None\<close> is a parse or range error.\<close>

fun take_char :: "char \<Rightarrow> string \<Rightarrow> string option" where
  "take_char c [] = None"
| "take_char c (x # s) = (if x = c then Some s else None)"

definition take_digits :: "nat \<Rightarrow> string \<Rightarrow> (int \<times> string) option" where
  "take_digits w s =
     (if length (take w s) = w \<and> list_all is_digit (take w s)
      then Some (digits_val (take w s), drop w s) else None)"

definition take_hour :: "string \<Rightarrow> (int \<times> string) option" where
  "take_hour s =
     (case take_digits 2 s of Some r \<Rightarrow> Some r | None \<Rightarrow> take_digits 1 s)"

definition take_fraction :: "string \<Rightarrow> int \<times> string" where
  "take_fraction s =
     (case s of
        c # d # r \<Rightarrow>
          if (c = CHR ''.'' \<or> c = CHR '','') \<and> is_digit d then
            (let ds = takeWhile is_digit (d # r); ns = take 9 ds
             in (digits_val ns * 10 ^ (9 - length ns), dropWhile is_digit (d # r)))
          else (0, s)
      | _ \<Rightarrow> (0, s))"

definition take_zone :: "string \<Rightarrow> (int \<times> string) option" where
  "take_zone s =
     (case s of
        [] \<Rightarrow> None
      | c # r \<Rightarrow>
          if c = CHR ''Z'' then Some (0, r)
          else
            Option.bind (take_digits 2 r) (\<lambda>(hh, r).
            Option.bind (take_char CHR '':'' r) (\<lambda>r.
            Option.bind (take_digits 2 r) (\<lambda>(mm, r).
              if hh > 24 \<or> mm > 60 then None
              else if c = CHR ''+'' then Some ((hh * 60 + mm) * 60, r)
              else if c = CHR ''-'' then Some (- ((hh * 60 + mm) * 60), r)
              else None))))"

definition parse_RFC3339 :: "string \<Rightarrow> time option" where
  "parse_RFC3339 s =
     Option.bind (take_digits 4 s) (\<lambda>(y, s).
     Option.bind (take_char CHR ''-'' s) (\<lambda>s.
     Option.bind (take_digits 2 s) (\<lambda>(m, s).
     Option.bind (take_char CHR ''-'' s) (\<lambda>s.
     Option.bind (take_digits 2 s) (\<lambda>(d, s).
     Option.bind (take_char CHR ''T'' s) (\<lambda>s.
     Option.bind (take_hour s) (\<lambda>(hh, s).
     Option.bind (take_char CHR '':'' s) (\<lambda>s.
     Option.bind (take_digits 2 s) (\<lambda>(mi, s).
     Option.bind (take_char CHR '':'' s) (\<lambda>s.
     Option.bind (take_digits 2 s) (\<lambda>(sec, s).
       (let (ns, s) = take_fraction s
        in Option.bind (take_zone s) (\<lambda>(off, s).
           if m < 1 \<or> m > 12 \<or> d < 1 \<or> d > days_in_month y m \<or> hh \<ge> 24 \<or> mi \<ge> 60 \<or> sec \<ge> 60 \<or> s \<noteq> []
           then None
           else Some (((day_of_date y m d - 719162) * 86400 + hh * 3600 + mi * 60 + sec - off)
                  * 1000000000 + ns))))))))))))))"

section \<open>Round trip\<close>

text \<open>The instants whose year has four digits.\<close>

definition year_ok :: "time \<Rightarrow> bool" where
  "year_ok t \<longleftrightarrow> - 62167219200000000000 \<le> t \<and> t < 253402300800000000000"

lemma take_digits_pad [simp]:
  "0 \<le> n \<Longrightarrow> n < 10 ^ w \<Longrightarrow> take_digits w (pad_digits w n @ s) = Some (n, s)"
  by (simp add: take_digits_def pad_digits_val)

lemma strip_zeros_digits: "list_all is_digit s \<Longrightarrow> list_all is_digit (strip_zeros s)"
  by (auto simp: strip_zeros.simps list_all_iff dest: set_dropWhileD)

lemma strip_zeros_pad:
  obtains k where "s = strip_zeros s @ replicate k CHR ''0''"
proof -
  have "rev s = takeWhile (\<lambda>c. c = CHR ''0'') (rev s) @ dropWhile (\<lambda>c. c = CHR ''0'') (rev s)" by simp
  then have s: "s = strip_zeros s @ rev (takeWhile (\<lambda>c. c = CHR ''0'') (rev s))"
    unfolding strip_zeros.simps by (metis rev_append rev_rev_ident)
  have "takeWhile (\<lambda>c. c = CHR ''0'') (rev s) = replicate (length (takeWhile (\<lambda>c. c = CHR ''0'') (rev s))) CHR ''0''"
    by (rule replicate_eqI) (auto dest: set_takeWhileD)
  then have "rev (takeWhile (\<lambda>c. c = CHR ''0'') (rev s)) =
      replicate (length (takeWhile (\<lambda>c. c = CHR ''0'') (rev s))) CHR ''0''"
    by (metis rev_replicate)
  with s that show thesis by metis
qed

lemma digits_val_zeros: "digits_val (s @ replicate k CHR ''0'') = digits_val s * 10 ^ k"
proof (induction k)
  case (Suc k)
  have "s @ replicate (Suc k) CHR ''0'' = (s @ replicate k CHR ''0'') @ [CHR ''0'']"
    by (simp flip: replicate_append_same)
  then show ?case using Suc by (simp only: digits_val_snoc) (simp add: digit_val_def)
qed simp

lemma take_fraction_format:
  assumes "0 \<le> ns" "ns < 1000000000"
    and "frac = strip_zeros (pad_digits 9 ns)"
  shows "take_fraction ((if frac = [] then [] else CHR ''.'' # frac) @ ''Z'') = (ns, ''Z'')"
proof -
  obtain k where k: "pad_digits 9 ns = frac @ replicate k CHR ''0''"
    using strip_zeros_pad [of "pad_digits 9 ns"] assms(3) by metis
  have len: "length frac + k = 9" using arg_cong [OF k, of length] by simp
  have val: "digits_val frac * 10 ^ k = ns"
    using arg_cong [OF k, of digits_val] assms(1,2) by (simp add: pad_digits_val digits_val_zeros)
  have dig: "list_all is_digit frac" using strip_zeros_digits assms(3) by simp
  show ?thesis
  proof (cases frac)
    case Nil
    with val show ?thesis by (simp add: take_fraction_def digits_val_def)
  next
    case (Cons d r)
    have all: "\<forall>c \<in> set (d # r). is_digit c" using dig Cons by (simp add: list_all_iff)
    have z: "\<not> is_digit CHR ''Z''" by (simp add: is_digit_def)
    have tw: "takeWhile is_digit (frac @ ''Z'') = frac" "dropWhile is_digit (frac @ ''Z'') = ''Z''"
      using all z Cons by (simp_all add: takeWhile_append2 dropWhile_append2)
    have "take 9 frac = frac" "9 - length frac = k" using len by simp_all
    with tw val all Cons show ?thesis by (simp add: take_fraction_def Let_def)
  qed
qed

lemma days_in_month_le: "days_in_month y m \<le> 31"
  by (simp add: days_in_month_def days_before_month_def)

lemma take_same: "take_char c (c # s) = Some s"
  by simp

lemma zone_Z: "take_zone ''Z'' = Some (0, [])"
  by (simp add: take_zone_def)

theorem parse_format_RFC3339Nano:
  assumes "year_ok t"
  shows "parse_RFC3339 (format_RFC3339Nano t) = Some t"
proof -
  define s where "s = t div 1000000000"
  define ns where "ns = t mod 1000000000"
  define sod where "sod = s mod 86400"
  obtain y m d where date: "date_of_day (s div 86400 + 719162) = (y, m, d)" by (metis prod_cases3)
  note inv = date_of_day_inverse [OF date]
  have "- 62167219200 \<le> s" "s < 253402300800" using assms unfolding year_ok_def s_def by linarith+
  then have "- 366 \<le> s div 86400 + 719162" "s div 86400 + 719162 < 3652059" by linarith+
  note yr = year_range [OF date this]
  have sod: "0 \<le> sod" "sod < 86400" by (simp_all add: sod_def)
  define H where "H = sod div 3600"
  define M where "M = sod mod 3600 div 60"
  define S where "S = sod mod 60"
  have hms: "0 \<le> H" "H < 24" "0 \<le> M" "M < 60" "0 \<le> S" "S < 60"
    using sod unfolding H_def M_def S_def by linarith+
  have sum: "H * 3600 + M * 60 + S = sod"
  proof -
    have "sod mod 3600 mod 60 = sod mod 60" by (rule mod_mod_cancel) simp
    then have "M * 60 + S = sod mod 3600"
      using div_mult_mod_eq [of "sod mod 3600" 60] by (simp add: M_def S_def)
    moreover have "sod div 3600 * 3600 + sod mod 3600 = sod" by (rule div_mult_mod_eq)
    ultimately show ?thesis unfolding H_def by (simp only: add.assoc)
  qed
  have d31: "d \<le> 31" using inv(5) days_in_month_le [of y m] by (rule order_trans)
  have two: "take_digits 2 (pad_digits 2 n @ r) = Some (n, r)" if "0 \<le> n" "n < 100" for n r
    by (rule take_digits_pad) (use that in simp_all)
  have fields: "take_digits 4 (pad_digits 4 y @ r) = Some (y, r)" "take_digits 2 (pad_digits 2 m @ r) = Some (m, r)"
    "take_digits 2 (pad_digits 2 d @ r) = Some (d, r)" "take_hour (pad_digits 2 H @ r) = Some (H, r)"
    "take_digits 2 (pad_digits 2 M @ r) = Some (M, r)" "take_digits 2 (pad_digits 2 S @ r) = Some (S, r)" for r
  proof -
    show "take_digits 4 (pad_digits 4 y @ r) = Some (y, r)" by (rule take_digits_pad) (use yr in simp_all)
    show "take_digits 2 (pad_digits 2 m @ r) = Some (m, r)" by (rule two) (use inv(2,3) in simp_all)
    show "take_digits 2 (pad_digits 2 d @ r) = Some (d, r)" by (rule two) (use inv(4) d31 in simp_all)
    have "take_digits 2 (pad_digits 2 H @ r) = Some (H, r)" by (rule two) (use hms in simp_all)
    then show "take_hour (pad_digits 2 H @ r) = Some (H, r)" by (simp only: take_hour_def option.case)
    show "take_digits 2 (pad_digits 2 M @ r) = Some (M, r)" by (rule two) (use hms in simp_all)
    show "take_digits 2 (pad_digits 2 S @ r) = Some (S, r)" by (rule two) (use hms in simp_all)
  qed
  have ns: "0 \<le> ns" "ns < 1000000000" by (simp_all add: ns_def)
  note frac = take_fraction_format [OF ns refl]
  have "s div 86400 * 86400 + sod = s" "s * 1000000000 + ns = t" by (simp_all add: sod_def s_def ns_def)
  then have total: "((day_of_date y m d - 719162) * 86400 + H * 3600 + M * 60 + S - 0) * 1000000000 + ns = t"
    using sum by (simp add: inv(1))
  have "format_RFC3339Nano t = pad_digits 4 y @ CHR ''-'' # pad_digits 2 m @ CHR ''-'' # pad_digits 2 d @ CHR ''T'' #
      pad_digits 2 H @ CHR '':'' # pad_digits 2 M @ CHR '':'' # pad_digits 2 S @
      ((if strip_zeros (pad_digits 9 ns) = [] then [] else CHR ''.'' # strip_zeros (pad_digits 9 ns)) @ ''Z'')"
    unfolding format_RFC3339Nano_def format_seconds_def s_def [symmetric] ns_def [symmetric] sod_def [symmetric]
      Let_def date H_def [symmetric] M_def [symmetric] S_def [symmetric] prod.case
    by (simp only: append.simps append_assoc append_Cons)
  then have "parse_RFC3339 (format_RFC3339Nano t) =
      (if m < 1 \<or> m > 12 \<or> d < 1 \<or> d > days_in_month y m \<or> H \<ge> 24 \<or> M \<ge> 60 \<or> S \<ge> 60 \<or> [] \<noteq> ([] :: string)
       then None
       else Some (((day_of_date y m d - 719162) * 86400 + H * 3600 + M * 60 + S - 0) * 1000000000 + ns))"
    by (simp only: parse_RFC3339_def fields take_same frac if_True bind.bind_lunit prod.case Let_def
        zone_Z)
  also have "\<dots> = Some t"
    unfolding total using inv(2-5) hms by (simp only: not_less [symmetric] simp_thms if_False)
  finally show ?thesis .
qed

lemma bar_not_in_format: "CHR ''|'' \<notin> set (format_RFC3339Nano t)"
proof -
  have d: "CHR ''|'' \<notin> set s" if "list_all is_digit s" for s
    using that by (auto simp: list_all_iff is_digit_def)
  have pad: "CHR ''|'' \<notin> set (pad_digits w n)" for w n by (rule d) simp
  have "CHR ''|'' \<notin> set (strip_zeros (pad_digits 9 (t mod 1000000000)))" by (intro d strip_zeros_digits) simp
  with pad show ?thesis
    by (auto simp: format_RFC3339Nano_def format_seconds_def Let_def split: prod.splits)
qed

end
