(* ===== verification/Go_Json.thy ===== *)
theory Go_Json
  imports Go_Time
begin

text \<open>
  What the source uses of \<open>encoding/json\<close> when it decodes into a struct, field by field. A key
  matches a field exactly or under case folding; the last matching key that is not \<open>null\<close> gives the
  field, a missing one leaves the zero value, a value of the wrong kind is an error (\<open>None\<close>).
\<close>

text \<open>Case folding of \<open>strings.EqualFold\<close> and of the decoder, on the runes that fold to ASCII.\<close>

fun fold_str :: "string \<Rightarrow> string" where
  "fold_str [] = []"
| "fold_str [c] = [lower_char c]"
| "fold_str [c, d] =
     (if c = CHR 0xC5 \<and> d = CHR 0xBF then [CHR ''s''] else [lower_char c, lower_char d])"
| "fold_str (c # d # e # s) =
     (if c = CHR 0xC5 \<and> d = CHR 0xBF then CHR ''s'' # fold_str (e # s)
      else if c = CHR 0xE2 \<and> d = CHR 0x84 \<and> e = CHR 0xAA then CHR ''k'' # fold_str s
      else lower_char c # fold_str (d # e # s))"

definition str_EqualFold :: "string \<Rightarrow> string \<Rightarrow> bool" where
  "str_EqualFold s t \<longleftrightarrow> fold_str s = fold_str t"

definition json_field :: "jobj \<Rightarrow> string \<Rightarrow> json option" where
  "json_field obj k =
     map_option snd (List.find (\<lambda>(k', v). v \<noteq> JNull \<and> (k' = k \<or> str_EqualFold k' k)) (rev obj))"

definition get_string :: "jobj \<Rightarrow> string \<Rightarrow> string option" where
  "get_string obj k =
     (case json_field obj k of
        None \<Rightarrow> Some []
      | Some (JStr s) \<Rightarrow> Some s
      | Some (JTime t) \<Rightarrow> Some (format_RFC3339Nano t)
      | _ \<Rightarrow> None)"

text \<open>\<open>strconv.ParseInt\<close> on the literal of a JSON number.\<close>

definition parse_int :: "string \<Rightarrow> int option" where
  "parse_int s =
     (case s of
        [] \<Rightarrow> None
      | c # r \<Rightarrow>
          if c = CHR ''-'' then (if r \<noteq> [] \<and> list_all is_digit r then Some (- digits_val r) else None)
          else if list_all is_digit s then Some (digits_val s) else None)"

definition parse_int64 :: "string \<Rightarrow> int64 option" where
  "parse_int64 s =
     (case parse_int s of
        None \<Rightarrow> None
      | Some n \<Rightarrow> if - (2 ^ 63) \<le> n \<and> n < 2 ^ 63 then Some (i64 n) else None)"

definition get_int64 :: "jobj \<Rightarrow> string \<Rightarrow> int64 option" where
  "get_int64 obj k =
     (case json_field obj k of
        None \<Rightarrow> Some 0
      | Some (JNum s) \<Rightarrow> parse_int64 s
      | _ \<Rightarrow> None)"

text \<open>\<open>time.Time\<close> decodes strictly: no one-digit hour, no comma, no offset of 24:00 or more.\<close>

definition parse_strict :: "string \<Rightarrow> time option" where
  "parse_strict s =
     (case parse_RFC3339 s of
        None \<Rightarrow> None
      | Some t \<Rightarrow>
          if s ! 12 = CHR '':'' \<or> s ! 19 = CHR '','' \<or>
             (last s \<noteq> CHR ''Z'' \<and>
               (digits_val (take 2 (drop (length s - 5) s)) \<ge> 24 \<or> digits_val (drop (length s - 2) s) \<ge> 60))
          then None else Some t)"

definition dec_time :: "json \<Rightarrow> time option" where
  "dec_time j = (case j of JTime t \<Rightarrow> Some t | JStr s \<Rightarrow> parse_strict s | _ \<Rightarrow> None)"

definition zero_time :: time where "zero_time = - 62135596800000000000"

definition get_time :: "jobj \<Rightarrow> string \<Rightarrow> time option" where
  "get_time obj k = (case json_field obj k of None \<Rightarrow> Some zero_time | Some j \<Rightarrow> dec_time j)"

definition get_time_ptr :: "jobj \<Rightarrow> string \<Rightarrow> time option option" where
  "get_time_ptr obj k = (case json_field obj k of None \<Rightarrow> Some None | Some j \<Rightarrow> map_option Some (dec_time j))"

definition get_map :: "jobj \<Rightarrow> string \<Rightarrow> jobj option option" where
  "get_map obj k =
     (case json_field obj k of None \<Rightarrow> Some None | Some (JObj m) \<Rightarrow> Some (Some m) | _ \<Rightarrow> None)"

section \<open>Round trips\<close>

lemma nat_str_props: "nat_str n \<noteq> [] \<and> list_all is_digit (nat_str n) \<and> digits_val (nat_str n) = int n"
proof (induction n rule: nat_str.induct)
  case (1 n)
  show ?case
  proof (cases "n < 10")
    case True
    then show ?thesis by (simp add: nat_str.simps [of n] digits_val_def)
  next
    case False
    have "10 * int (n div 10) + int (n mod 10) = int (10 * (n div 10) + n mod 10)" by (simp only: of_nat_add of_nat_mult of_nat_numeral)
    then have "10 * int (n div 10) + int (n mod 10) = int n" by (simp only: mult_div_mod_eq)
    with False show ?thesis using 1
      by (subst (1 2 3) nat_str.simps) (simp add: digits_val_snoc)
  qed
qed

lemma parse_int_str: "parse_int (int_str n) = Some n"
proof (cases "n < 0")
  case True
  then show ?thesis using nat_str_props [of "nat (- n)"] by (simp add: int_str_def parse_int_def)
next
  case False
  obtain c r where cr: "nat_str (nat n) = c # r" using nat_str_props [of "nat n"] by (cases "nat_str (nat n)") auto
  then have "is_digit c" using nat_str_props [of "nat n"] by simp
  then have "c \<noteq> CHR ''-''" by (auto simp: is_digit_def)
  with cr False nat_str_props [of "nat n"] show ?thesis by (simp add: int_str_def parse_int_def)
qed

lemma parse_int64_str: "parse_int64 (int_str (sint (n :: int64))) = Some n"
  using i64_range [of n] by (simp add: parse_int64_def parse_int_str) (simp add: i64_def)

lemma fold_str_id: "list_all (\<lambda>c. lower_char c = c \<and> c \<noteq> CHR 0xC5 \<and> c \<noteq> CHR 0xE2) s \<Longrightarrow> fold_str s = s"
  by (induction s rule: fold_str.induct) auto

end
