(* ===== verification/Encoding.thy ===== *)
theory Encoding
  imports Prelude
begin

text \<open>
  Text encodings of byte strings the source uses: \<open>base64.RawURLEncoding\<close> and \<open>hex\<close>, and the
  SHA-256 hash of \<open>crypto/sha256\<close>. Bytes are numbers below 256; strings are converted with
  \<^const>\<open>of_char\<close> and \<^const>\<open>char_of\<close>.
\<close>

unbundle bit_operations_syntax

definition bytes_of :: "string \<Rightarrow> nat list" where
  "bytes_of = map of_char"

definition string_of :: "nat list \<Rightarrow> string" where
  "string_of = map char_of"

lemma string_of_bytes [simp]: "string_of (bytes_of s) = s"
  by (simp add: string_of_def bytes_of_def comp_def)

lemma bytes_of_string: "list_all (\<lambda>n. n < 256) ns \<Longrightarrow> bytes_of (string_of ns) = ns"
  by (induction ns) (auto simp: string_of_def bytes_of_def)

lemma bytes_of_less: "list_all (\<lambda>n. n < 256) (bytes_of s)"
proof -
  have "(of_char c :: nat) < 256" for c by (cases c) simp
  then show ?thesis by (simp add: bytes_of_def list_all_iff)
qed

section \<open>Base64, URL alphabet, no padding\<close>

definition b64_char :: "nat \<Rightarrow> char" where
  "b64_char n =
     (if n < 26 then char_of (65 + n) else if n < 52 then char_of (71 + n)
      else if n < 62 then char_of (n - 4) else if n = 62 then CHR ''-'' else CHR ''_'')"

definition b64_val :: "char \<Rightarrow> nat option" where
  "b64_val c =
     (let n = of_char c :: nat
      in if 65 \<le> n \<and> n \<le> 90 then Some (n - 65) else if 97 \<le> n \<and> n \<le> 122 then Some (n - 71)
         else if 48 \<le> n \<and> n \<le> 57 then Some (n + 4) else if c = CHR ''-'' then Some 62
         else if c = CHR ''_'' then Some 63 else None)"

fun b64_quanta :: "nat list \<Rightarrow> nat list" where
  "b64_quanta [] = []"
| "b64_quanta [a] = [a div 4, a mod 4 * 16]"
| "b64_quanta [a, b] = [a div 4, a mod 4 * 16 + b div 16, b mod 16 * 4]"
| "b64_quanta (a # b # c # r) =
     a div 4 # (a mod 4 * 16 + b div 16) # (b mod 16 * 4 + c div 64) # c mod 64 # b64_quanta r"

fun b64_bytes :: "nat list \<Rightarrow> nat list option" where
  "b64_bytes [] = Some []"
| "b64_bytes [p] = None"
| "b64_bytes [p, q] = Some [p * 4 + q div 16]"
| "b64_bytes [p, q, r] = Some [p * 4 + q div 16, q mod 16 * 16 + r div 4]"
| "b64_bytes (p # q # r # s # t) =
     map_option (\<lambda>bs. (p * 4 + q div 16) # (q mod 16 * 16 + r div 4) # (r mod 4 * 64 + s) # bs) (b64_bytes t)"

definition base64_encode :: "string \<Rightarrow> string" where
  "base64_encode s = map b64_char (b64_quanta (bytes_of s))"

fun those_vals :: "string \<Rightarrow> nat list option" where
  "those_vals [] = Some []"
| "those_vals (c # s) =
     (case b64_val c of
        None \<Rightarrow> None
      | Some n \<Rightarrow> map_option (\<lambda>ns. n # ns) (those_vals s))"

text \<open>The decoder skips line breaks and does not look at the unused bits of the last character.\<close>

definition base64_decode :: "string \<Rightarrow> string option" where
  "base64_decode s =
     Option.bind (those_vals (filter (\<lambda>c. c \<noteq> CHR 0x0A \<and> c \<noteq> CHR 0x0D) s)) (\<lambda>ns.
     map_option string_of (b64_bytes ns))"

lemma b64_quanta_less: "list_all (\<lambda>n. n < 256) bs \<Longrightarrow> list_all (\<lambda>n. n < 64) (b64_quanta bs)"
  by (induction bs rule: b64_quanta.induct) (auto simp: less_mult_imp_div_less)

lemma b64_bytes_quanta: "list_all (\<lambda>n. n < 256) bs \<Longrightarrow> b64_bytes (b64_quanta bs) = Some bs"
proof (induction bs rule: b64_quanta.induct)
  case (4 a b c r)
  have bc: "b div 16 < 16" "c div 64 < 4" using 4(2) by (simp_all add: less_mult_imp_div_less)
  then have "a div 4 * 4 + (a mod 4 * 16 + b div 16) div 16 = a" by simp
  moreover have "(a mod 4 * 16 + b div 16) mod 16 * 16 + (b mod 16 * 4 + c div 64) div 4 = b"
    using bc by simp
  moreover have "(b mod 16 * 4 + c div 64) mod 4 * 64 + c mod 64 = c" using bc by simp
  ultimately show ?case using 4 by simp
qed auto

lemma b64_val_char:
  assumes "n < 64"
  shows "b64_val (b64_char n) = Some n" "b64_char n \<noteq> CHR 0x0A" "b64_char n \<noteq> CHR 0x0D"
proof -
  have oc: "(of_char (char_of k) :: nat) = k" if "k < 256" for k using that by simp
  have "b64_char n = char_of (65 + n)" if "n < 26" using that by (simp add: b64_char_def)
  moreover have "b64_char n = char_of (71 + n)" if "\<not> n < 26" "n < 52" using that by (simp add: b64_char_def)
  moreover have "b64_char n = char_of (n - 4) \<and> 48 \<le> n - 4 \<and> n - 4 \<le> 57 \<and> n - 4 < 256 \<and> Suc (Suc (Suc (Suc (n - 4)))) = n"
    if "\<not> n < 52" "n < 62" using that by (auto simp: b64_char_def)
  moreover have "b64_char n = CHR ''-''" if "n = 62" using that by (simp add: b64_char_def)
  moreover have "b64_char n = CHR ''_''" if "n = 63" using that by (simp add: b64_char_def)
  moreover have "n < 26 \<or> \<not> n < 26 \<and> n < 52 \<or> \<not> n < 52 \<and> n < 62 \<or> n = 62 \<or> n = 63" using assms by linarith
  ultimately show val: "b64_val (b64_char n) = Some n"
    by (elim disjE conjE) (simp_all add: b64_val_def Let_def oc)
  have "b64_val CHR 0x0A = None" "b64_val CHR 0x0D = None" by (simp_all add: b64_val_def)
  with val show "b64_char n \<noteq> CHR 0x0A" "b64_char n \<noteq> CHR 0x0D" by (metis option.distinct(1))+
qed

theorem base64_roundtrip: "base64_decode (base64_encode s) = Some s"
proof -
  let ?q = "b64_quanta (bytes_of s)"
  have q: "list_all (\<lambda>n. n < 64) ?q" by (rule b64_quanta_less [OF bytes_of_less])
  then have "filter (\<lambda>c. c \<noteq> CHR 0x0A \<and> c \<noteq> CHR 0x0D) (map b64_char ?q) = map b64_char ?q"
    by (intro filter_True) (auto simp: list_all_iff b64_val_char)
  moreover have "those_vals (map b64_char ns) = Some ns" if "list_all (\<lambda>n. n < 64) ns" for ns
    using that by (induction ns) (simp_all add: b64_val_char)
  ultimately show ?thesis
    using q by (simp add: base64_decode_def base64_encode_def b64_bytes_quanta [OF bytes_of_less])
qed

section \<open>Hexadecimal\<close>

definition hex_char :: "nat \<Rightarrow> char" where
  "hex_char n = (if n < 10 then char_of (48 + n) else char_of (87 + n))"

definition hex_val :: "char \<Rightarrow> nat option" where
  "hex_val c =
     (let n = of_char c :: nat
      in if 48 \<le> n \<and> n \<le> 57 then Some (n - 48) else if 97 \<le> n \<and> n \<le> 102 then Some (n - 87)
         else if 65 \<le> n \<and> n \<le> 70 then Some (n - 55) else None)"

fun hex_encode :: "nat list \<Rightarrow> string" where
  "hex_encode [] = []"
| "hex_encode (b # bs) = hex_char (b div 16) # hex_char (b mod 16) # hex_encode bs"

fun hex_decode :: "string \<Rightarrow> nat list option" where
  "hex_decode [] = Some []"
| "hex_decode [c] = None"
| "hex_decode (c # d # s) =
     (case (hex_val c, hex_val d) of
        (Some a, Some b) \<Rightarrow> map_option (\<lambda>bs. (16 * a + b) # bs) (hex_decode s)
      | _ \<Rightarrow> None)"

lemma hex_val_char: "n < 16 \<Longrightarrow> hex_val (hex_char n) = Some n"
  by (simp add: hex_val_def hex_char_def Let_def)

lemma hex_roundtrip: "list_all (\<lambda>n. n < 256) bs \<Longrightarrow> hex_decode (hex_encode bs) = Some bs"
  by (induction bs) (auto simp: hex_val_char less_mult_imp_div_less)

lemma length_hex_encode: "length (hex_encode bs) = 2 * length bs"
  by (induction bs) auto

section \<open>SHA-256\<close>

type_synonym w32 = "32 word"

text \<open>The constants, eight words in each number.\<close>

definition words_of :: "int \<Rightarrow> w32 list" where
  "words_of n = map (\<lambda>i. word_of_int (n div 2 ^ (32 * i))) [7, 6, 5, 4, 3, 2, 1, 0]"

lemma length_words_of: "length (words_of n) = 8"
  by (simp add: words_of_def)

definition sha_k :: "w32 list" where
  "sha_k = concat (map words_of
    [0x428a2f9871374491b5c0fbcfe9b5dba53956c25b59f111f1923f82a4ab1c5ed5,
     0xd807aa9812835b01243185be550c7dc372be5d7480deb1fe9bdc06a7c19bf174,
     0xe49b69c1efbe47860fc19dc6240ca1cc2de92c6f4a7484aa5cb0a9dc76f988da,
     0x983e5152a831c66db00327c8bf597fc7c6e00bf3d5a7914706ca635114292967,
     0x27b70a852e1b21384d2c6dfc53380d13650a7354766a0abb81c2c92e92722c85,
     0xa2bfe8a1a81a664bc24b8b70c76c51a3d192e819d6990624f40e3585106aa070,
     0x19a4c1161e376c082748774c34b0bcb5391c0cb34ed8aa4a5b9cca4f682e6ff3,
     0x748f82ee78a5636f84c878148cc7020890befffaa4506cebbef9a3f7c67178f2])"

definition sha_init :: "w32 list" where
  "sha_init = words_of 0x6a09e667bb67ae853c6ef372a54ff53a510e527f9b05688c1f83d9ab5be0cd19"

definition rotr :: "nat \<Rightarrow> w32 \<Rightarrow> w32" where
  "rotr n x = drop_bit n x OR push_bit (32 - n) x"

text \<open>The message schedule, newest word first, and one round on the eight working variables.\<close>

fun sha_extend :: "nat \<Rightarrow> w32 list \<Rightarrow> w32 list" where
  "sha_extend 0 ws = ws"
| "sha_extend (Suc k) ws =
     (let w15 = ws ! 14; w2 = ws ! 1;
          s0 = rotr 7 w15 XOR rotr 18 w15 XOR drop_bit 3 w15;
          s1 = rotr 17 w2 XOR rotr 19 w2 XOR drop_bit 10 w2
      in sha_extend k ((ws ! 15 + s0 + ws ! 6 + s1) # ws))"

fun sha_round :: "w32 \<times> w32 \<Rightarrow> w32 list \<Rightarrow> w32 list" where
  "sha_round (k, w) [a, b, c, d, e, f, g, h] =
     (let S1 = rotr 6 e XOR rotr 11 e XOR rotr 25 e;
          ch = (e AND f) XOR (NOT e AND g);
          t1 = h + S1 + ch + k + w;
          S0 = rotr 2 a XOR rotr 13 a XOR rotr 22 a;
          maj = (a AND b) XOR (a AND c) XOR (b AND c)
      in [t1 + (S0 + maj), a, b, c, d + t1, e, f, g])"
| "sha_round kw hs = hs"

fun sha_words :: "nat list \<Rightarrow> w32 list" where
  "sha_words (a # b # c # d # r) = word_of_nat (((a * 256 + b) * 256 + c) * 256 + d) # sha_words r"
| "sha_words _ = []"

definition sha_block :: "nat list \<Rightarrow> w32 list \<Rightarrow> w32 list" where
  "sha_block bs hs = map2 (+) hs (fold sha_round (zip sha_k (rev (sha_extend 48 (rev (sha_words bs))))) hs)"

text \<open>Padding: a one bit, zeros, the length in bits as 64 bits.\<close>

fun be_bytes :: "nat \<Rightarrow> nat \<Rightarrow> nat list" where
  "be_bytes 0 n = []"
| "be_bytes (Suc k) n = be_bytes k (n div 256) @ [n mod 256]"

definition sha_pad :: "nat list \<Rightarrow> nat list" where
  "sha_pad bs = bs @ 128 # replicate ((119 - length bs mod 64) mod 64) 0 @ be_bytes 8 (8 * length bs)"

function sha_blocks :: "nat list \<Rightarrow> w32 list \<Rightarrow> w32 list" where
  "sha_blocks bs hs = (if bs = [] then hs else sha_blocks (drop 64 bs) (sha_block (take 64 bs) hs))"
  by pat_completeness auto
termination by (relation "measure (\<lambda>(bs, hs). length bs)") auto

declare sha_blocks.simps [simp del]

definition sha256 :: "string \<Rightarrow> nat list" where
  "sha256 s = concat (map (\<lambda>w. be_bytes 4 (unat w)) (sha_blocks (sha_pad (bytes_of s)) sha_init))"

definition sha256_hex :: "string \<Rightarrow> string" where
  "sha256_hex s = hex_encode (sha256 s)"

lemma length_sha_round [simp]: "length (sha_round kw hs) = length hs"
  by (cases "(kw, hs)" rule: sha_round.cases) (auto simp: Let_def)

lemma length_fold_round [simp]: "length (fold sha_round kws hs) = length hs"
  by (induction kws arbitrary: hs) auto

lemma length_sha_blocks: "length (sha_blocks bs hs) = length hs"
  by (induction bs hs rule: sha_blocks.induct) (subst sha_blocks.simps, simp add: sha_block_def)

lemma be_bytes: "length (be_bytes k n) = k \<and> list_all (\<lambda>b. b < 256) (be_bytes k n)"
  by (induction k arbitrary: n) auto

lemma sha256_bytes: "length (sha256 s) = 32" "list_all (\<lambda>b. b < 256) (sha256 s)"
proof -
  have "length (sha_blocks (sha_pad (bytes_of s)) sha_init) = 8"
    by (simp only: length_sha_blocks sha_init_def length_words_of)
  then show "length (sha256 s) = 32"
    by (simp add: sha256_def length_concat comp_def be_bytes sum_list_triv)
  show "list_all (\<lambda>b. b < 256) (sha256 s)"
    using be_bytes by (auto simp: sha256_def list_all_iff)
qed

lemma length_sha256_hex: "length (sha256_hex s) = 64"
  by (simp add: sha256_hex_def length_hex_encode sha256_bytes)

end
