(* ===== verification/Queries.thy ===== *)
theory Queries
  imports Ports Go_Json Encoding
begin

text \<open>
  The read side, \<open>internal/application/query\<close>, with \<open>adapter/outbound/redis/ttl.go\<close>: views of a
  payment, the cache in front of two of the queries, the cursor of the list queries, and the
  administrator's queries over the \<open>AdminReader\<close> port.
\<close>

section \<open>The view\<close>

record payment_dto =
  pd_ID :: string
  pd_ReferenceID :: string
  pd_CallerService :: string
  pd_Status :: string
  pd_GatewayType :: string
  pd_GatewayTransactionID :: string
  pd_Amount :: int64
  pd_Currency :: string
  pd_PaymentMethodType :: string
  pd_CustomerInfo :: "jobj option"
  pd_Metadata :: "jobj option"
  pd_Description :: string
  pd_ExpiredAt :: "time option"
  pd_PaidAt :: "time option"
  pd_CreatedAt :: time
  pd_UpdatedAt :: time

definition toDTO :: "uuid_lib \<Rightarrow> payment \<Rightarrow> payment_dto" where
  "toDTO L p =
     \<lparr>pd_ID = uuid_String L (p_ID p), pd_ReferenceID = p_ReferenceID p,
      pd_CallerService = p_CallerService p, pd_Status = status_str (p_Status p),
      pd_GatewayType = p_GatewayType p, pd_GatewayTransactionID = p_GatewayTransactionID p,
      pd_Amount = m_Amount (p_Amount p), pd_Currency = m_Currency (p_Amount p),
      pd_PaymentMethodType = p_PaymentMethodType p,
      pd_CustomerInfo = Some
        [(''external_id'', JStr (c_ExternalID (p_CustomerInfo p))),
         (''name'', JStr (c_Name (p_CustomerInfo p))),
         (''email'', JStr (c_Email (p_CustomerInfo p))),
         (''phone'', JStr (c_Phone (p_CustomerInfo p)))],
      pd_Metadata = p_Metadata p, pd_Description = p_Description p, pd_ExpiredAt = p_ExpiredAt p,
      pd_PaidAt = p_PaidAt p, pd_CreatedAt = p_CreatedAt p, pd_UpdatedAt = p_UpdatedAt p\<rparr>"

text \<open>A view that shows a payment: with a status of the source and a customer.\<close>

definition view_ok :: "payment_dto \<Rightarrow> bool" where
  "view_ok d \<longleftrightarrow> pd_Status d \<in> range status_str \<and> pd_CustomerInfo d \<noteq> None"

lemma view_ok_metadata [simp]: "view_ok (d\<lparr>pd_Metadata := m\<rparr>) = view_ok d"
  by (simp add: view_ok_def)

lemma view_ok_toDTO [simp]: "view_ok (toDTO L p)"
  by (simp add: view_ok_def toDTO_def)

text \<open>\<open>json.Marshal\<close> of a view; \<open>omitempty\<close> drops empty fields, a year past 9999 is an error.\<close>

definition omit_str :: "string \<Rightarrow> string \<Rightarrow> jobj" where
  "omit_str k s = (if s = [] then [] else [(k, JStr s)])"

definition omit_time :: "string \<Rightarrow> time option \<Rightarrow> jobj" where
  "omit_time k t = (case t of None \<Rightarrow> [] | Some t \<Rightarrow> [(k, JTime t)])"

definition omit_map :: "string \<Rightarrow> jobj option \<Rightarrow> jobj" where
  "omit_map k m = (case m of None \<Rightarrow> [] | Some [] \<Rightarrow> [] | Some o' \<Rightarrow> [(k, JObj o')])"

definition view_obj :: "payment_dto \<Rightarrow> jobj" where
  "view_obj d =
     [(''id'', JStr (pd_ID d)), (''reference_id'', JStr (pd_ReferenceID d)),
      (''caller_service'', JStr (pd_CallerService d)), (''status'', JStr (pd_Status d)),
      (''gateway'', JStr (pd_GatewayType d))] @
     omit_str ''gateway_transaction_id'' (pd_GatewayTransactionID d) @
     [(''amount'', json_int64 (pd_Amount d)), (''currency'', JStr (pd_Currency d)),
      (''payment_method_type'', JStr (pd_PaymentMethodType d)),
      (''customer'', case pd_CustomerInfo d of None \<Rightarrow> JNull | Some c \<Rightarrow> JObj c)] @
     omit_map ''metadata'' (pd_Metadata d) @ omit_str ''description'' (pd_Description d) @
     omit_time ''expired_at'' (pd_ExpiredAt d) @ omit_time ''paid_at'' (pd_PaidAt d) @
     [(''created_at'', JTime (pd_CreatedAt d)), (''updated_at'', JTime (pd_UpdatedAt d))]"

definition marshal_dto :: "payment_dto \<Rightarrow> json option" where
  "marshal_dto d =
     (if list_all year_ok (pd_CreatedAt d # pd_UpdatedAt d # map the (filter (\<lambda>t. t \<noteq> None) [pd_ExpiredAt d, pd_PaidAt d]))
      then Some (JObj (view_obj d)) else None)"

definition unmarshal_dto :: "cache_text \<Rightarrow> payment_dto option" where
  "unmarshal_dto raw =
     (case raw of
        OtherText _ \<Rightarrow> None
      | JsonText j \<Rightarrow>
          (case (case j of JObj obj \<Rightarrow> Some obj | JNull \<Rightarrow> Some [] | _ \<Rightarrow> None) of
             None \<Rightarrow> None
           | Some obj \<Rightarrow>
               Option.bind (get_string obj ''id'') (\<lambda>uid.
               Option.bind (get_string obj ''reference_id'') (\<lambda>ref.
               Option.bind (get_string obj ''caller_service'') (\<lambda>caller.
               Option.bind (get_string obj ''status'') (\<lambda>st.
               Option.bind (get_string obj ''gateway'') (\<lambda>gt.
               Option.bind (get_string obj ''gateway_transaction_id'') (\<lambda>tx.
               Option.bind (get_int64 obj ''amount'') (\<lambda>a.
               Option.bind (get_string obj ''currency'') (\<lambda>cur.
               Option.bind (get_string obj ''payment_method_type'') (\<lambda>m.
               Option.bind (get_map obj ''customer'') (\<lambda>cust.
               Option.bind (get_map obj ''metadata'') (\<lambda>meta.
               Option.bind (get_string obj ''description'') (\<lambda>desc.
               Option.bind (get_time_ptr obj ''expired_at'') (\<lambda>ex.
               Option.bind (get_time_ptr obj ''paid_at'') (\<lambda>paid.
               Option.bind (get_time obj ''created_at'') (\<lambda>c.
               Option.bind (get_time obj ''updated_at'') (\<lambda>u.
               Some \<lparr>pd_ID = uid, pd_ReferenceID = ref, pd_CallerService = caller, pd_Status = st,
                     pd_GatewayType = gt, pd_GatewayTransactionID = tx, pd_Amount = a,
                     pd_Currency = cur, pd_PaymentMethodType = m, pd_CustomerInfo = cust,
                     pd_Metadata = meta, pd_Description = desc, pd_ExpiredAt = ex, pd_PaidAt = paid,
                     pd_CreatedAt = c, pd_UpdatedAt = u\<rparr>))))))))))))))))))"

section \<open>Get\<close>

definition statusTTL :: "(status \<times> duration) list" where
  "statusTTL =
     [(StatusInitiated, 30 * time_Second), (StatusPending, 60 * time_Second),
      (StatusProcessing, 30 * time_Second), (StatusCompleted, time_Hour), (StatusFailed, time_Hour),
      (StatusCancelled, time_Hour), (StatusExpired, time_Hour),
      (StatusPartiallyRefunded, time_Hour), (StatusRefunded, time_Hour)]"

definition TTLForStatus :: "status \<Rightarrow> duration" where
  "TTLForStatus s = (case map_of statusTTL s of Some ttl \<Rightarrow> ttl | None \<Rightarrow> 60 * time_Second)"

text \<open>The view from the cache, or from the repository, which then fills the cache.\<close>

definition cached_view ::
  "'w service \<Rightarrow> (status \<Rightarrow> duration) \<Rightarrow> string \<Rightarrow> ('w, goerr + payment) state \<Rightarrow> ('w, goerr + payment_dto) state" where
  "cached_view S ttlFn key look = do {
     raw \<leftarrow> cp_Get (sv_cache S) key;
     (case (case raw of Inl _ \<Rightarrow> None | Inr text \<Rightarrow> unmarshal_dto text) of
        Some dto \<Rightarrow> State_Monad.return (Inr dto)
      | None \<Rightarrow>
          bindE look (\<lambda>p. (let dto = toDTO (lib S) p in
            case marshal_dto dto of
              None \<Rightarrow> State_Monad.return (Inr dto)
            | Some b \<Rightarrow> do {
                _ \<leftarrow> cp_Set (sv_cache S) key (JsonText b) (ttlFn (p_Status p));
                State_Monad.return (Inr dto)
              })))
   }"

definition GetPayment_load ::
  "'w service \<Rightarrow> (status \<Rightarrow> duration) \<Rightarrow> uuid \<Rightarrow> ('w, goerr + payment_dto) state" where
  "GetPayment_load S ttlFn uid =
     cached_view S ttlFn (PaymentCacheKey (uuid_String (lib S) uid)) (rp_FindByID (sv_repo S) uid)"

record get_payment_query =
  gq_ID :: uuid
  gq_CallerService :: string
  gq_Admin :: bool

definition GetPayment_Handle ::
  "'w service \<Rightarrow> (status \<Rightarrow> duration) \<Rightarrow> get_payment_query \<Rightarrow> ('w, goerr + payment_dto) state" where
  "GetPayment_Handle S ttlFn q =
     bindE (GetPayment_load S ttlFn (gq_ID q)) (\<lambda>dto.
     State_Monad.return
       (if \<not> gq_Admin q \<and> pd_CallerService dto \<noteq> gq_CallerService q
        then Inl (NotFound (''payment not found: '' @ uuid_String (lib S) (gq_ID q)))
        else Inr dto))"

definition GetByRef_Handle ::
  "'w service \<Rightarrow> (status \<Rightarrow> duration) \<Rightarrow> string \<Rightarrow> string \<Rightarrow> ('w, goerr + payment_dto) state" where
  "GetByRef_Handle S ttlFn referenceID callerService =
     (if referenceID = [] then State_Monad.return (Inl (InvalidInput ''reference_id is required''))
      else if callerService = [] then State_Monad.return (Inl (InvalidInput ''caller_service is required''))
      else cached_view S ttlFn (ReferenceCacheKey callerService referenceID)
             (rp_FindByReference (sv_repo S) referenceID callerService))"

section \<open>Lists\<close>

definition encodeCursor :: "uuid_lib \<Rightarrow> page_key \<Rightarrow> string" where
  "encodeCursor L k =
     base64_encode (format_RFC3339Nano (pk_CreatedAt k) @ ''|'' @ uuid_String L (pk_ID k))"

definition invalidCursor :: goerr where
  "invalidCursor = InvalidInput ''cursor is invalid; pass next_cursor from the previous page unchanged''"

definition decodeCursor :: "uuid_lib \<Rightarrow> string \<Rightarrow> goerr + page_key option" where
  "decodeCursor L s =
     (if s = [] then Inr None
      else (case base64_decode s of
        None \<Rightarrow> Inl invalidCursor
      | Some raw \<Rightarrow>
          (case str_Cut raw (CHR ''|'') of
             (ts, uid, ok) \<Rightarrow>
               if \<not> ok then Inl invalidCursor
               else (case parse_RFC3339 ts of
                   None \<Rightarrow> Inl invalidCursor
                 | Some t \<Rightarrow>
                     (case uuid_Parse L uid of
                        None \<Rightarrow> Inl invalidCursor
                      | Some u \<Rightarrow> Inr (Some \<lparr>pk_CreatedAt = t, pk_ID = u\<rparr>))))))"

definition maxPageSize :: int where "maxPageSize = 100"

definition clampLimit :: "int \<Rightarrow> int \<Rightarrow> int" where
  "clampLimit requested def' =
     (if requested \<le> 0 then def' else if requested > maxPageSize then maxPageSize else requested)"

record list_payments_result =
  lr_Payments :: "payment_dto list"
  lr_NextCursor :: string

definition page_result :: "uuid_lib \<Rightarrow> int \<Rightarrow> payment list \<Rightarrow> list_payments_result" where
  "page_result L limit ps =
     (if int (length ps) > limit then
        (let ps' = take (nat limit) ps; lst = ps' ! nat (limit - 1)
         in \<lparr>lr_Payments = map (toDTO L) ps',
             lr_NextCursor = encodeCursor L \<lparr>pk_CreatedAt = p_CreatedAt lst, pk_ID = p_ID lst\<rparr>\<rparr>)
      else \<lparr>lr_Payments = map (toDTO L) ps, lr_NextCursor = []\<rparr>)"

definition listPage ::
  "'w service \<Rightarrow> list_filter \<Rightarrow> string \<Rightarrow> int \<Rightarrow> ('w, goerr + list_payments_result) state" where
  "listPage S f cursor limit =
     (case decodeCursor (lib S) cursor of
        Inl e \<Rightarrow> State_Monad.return (Inl e)
      | Inr after \<Rightarrow>
          bindE (rp_ListPaginated (sv_repo S) (f\<lparr>lf_After := after, lf_Limit := limit + 1\<rparr>)) (\<lambda>ps.
          State_Monad.return (Inr (page_result (lib S) limit ps))))"

record list_payments_query =
  lq_Status :: string
  lq_CallerService :: string
  lq_From :: "time option"
  lq_To :: "time option"
  lq_Cursor :: string
  lq_Limit :: int

definition list_query_filter :: "list_payments_query \<Rightarrow> list_filter" where
  "list_query_filter q =
     \<lparr>lf_Status = lq_Status q, lf_CallerService = lq_CallerService q, lf_GatewayType = [],
      lf_ReferenceID = [], lf_From = lq_From q, lf_To = lq_To q, lf_After = None, lf_Limit = 0\<rparr>"

definition ListPayments_Handle ::
  "'w service \<Rightarrow> list_payments_query \<Rightarrow> ('w, goerr + list_payments_result) state" where
  "ListPayments_Handle S q =
     (if lq_CallerService q = [] then State_Monad.return (Inl (InvalidInput ''caller_service is required''))
      else listPage S (list_query_filter q) (lq_Cursor q) (clampLimit (lq_Limit q) 50))"

record admin_list_query = list_payments_query +
  aq_GatewayType :: string
  aq_ReferenceID :: string

definition AdminListPayments_Handle ::
  "'w service \<Rightarrow> admin_list_query \<Rightarrow> ('w, goerr + list_payments_result) state" where
  "AdminListPayments_Handle S q =
     listPage S
       \<lparr>lf_Status = lq_Status q, lf_CallerService = lq_CallerService q, lf_GatewayType = aq_GatewayType q,
        lf_ReferenceID = aq_ReferenceID q, lf_From = lq_From q, lf_To = lq_To q, lf_After = None,
        lf_Limit = 0\<rparr>
       (lq_Cursor q) (clampLimit (lq_Limit q) 20)"

definition ListRefunds_Handle :: "'w service \<Rightarrow> uuid \<Rightarrow> string \<Rightarrow> ('w, goerr + payment) state" where
  "ListRefunds_Handle S paymentID callerService =
     bindE (rp_FindByID (sv_repo S) paymentID) (\<lambda>p.
     State_Monad.return
       (if p_CallerService p \<noteq> callerService
        then Inl (NotFound (''payment not found: '' @ uuid_String (lib S) paymentID))
        else Inr p))"

end
