(* ===== verification/Pg_Contract.thy ===== *)
theory Pg_Contract
  imports Handler_Safety Save_Laws Listing Queries
begin

text \<open>
  The PostgreSQL world satisfies \<open>handler_contract\<close>. \<open>sys_ok\<close> is the invariant: the database is
  consistent, every refund a gateway was asked for is a stored refund with that amount, the UUIDs
  still to come are used nowhere, and the other sessions keep the same promises (\<open>env_ok\<close>).
\<close>

definition refund_calls_ok :: "uuid_lib \<Rightarrow> shared \<Rightarrow> bool" where
  "refund_calls_ok L s \<longleftrightarrow>
     (\<forall>q a. CallRefund q a \<in> set (sh_calls s) \<longrightarrow>
        (\<exists>r \<in> set (db_refunds (sh_db s)). rq_RefundKey q = uuid_String L (rw_ID r) \<and> rq_Amount q = rw_Amount r))"

text \<open>
  A cached text that decodes as a view shows a stored payment, its owner and its price, and stands
  under one of the two keys of that payment. The idempotency records have keys of their own.
\<close>

definition dto_of_row :: "uuid_lib \<Rightarrow> payment_dto \<Rightarrow> payment_row \<Rightarrow> bool" where
  "dto_of_row L dto row \<longleftrightarrow>
     pd_ID dto = uuid_String L (pr_ID row) \<and> pd_ReferenceID dto = pr_ReferenceID row \<and>
     pd_CallerService dto = pr_CallerService row \<and> pd_Amount dto = pr_Amount row \<and> view_ok dto"

definition cache_keys :: "uuid_lib \<Rightarrow> payment_row \<Rightarrow> string set" where
  "cache_keys L row =
     {PaymentCacheKey (uuid_String L (pr_ID row)), ReferenceCacheKey (pr_CallerService row) (pr_ReferenceID row)}"

definition shown :: "uuid_lib \<Rightarrow> db \<Rightarrow> string \<Rightarrow> payment_dto \<Rightarrow> bool" where
  "shown L d k dto \<longleftrightarrow> (\<exists>row \<in> set (db_payments d). dto_of_row L dto row \<and> k \<in> cache_keys L row)"

definition cache_ok :: "uuid_lib \<Rightarrow> shared \<Rightarrow> bool" where
  "cache_ok L s \<longleftrightarrow>
     (\<forall>k text t dto. \<not> idem_key k \<longrightarrow> sh_cache s k = Some (text, t) \<longrightarrow> unmarshal_dto text = Some dto \<longrightarrow> shown L (sh_db s) k dto)"

definition shared_ok :: "uuid_lib \<Rightarrow> shared \<Rightarrow> bool" where
  "shared_ok L s \<longleftrightarrow> db_ok L (sh_db s) \<and> refund_calls_ok L s \<and> cache_ok L s"

definition shared_ext :: "shared \<Rightarrow> shared \<Rightarrow> bool" where
  "shared_ext s s' \<longleftrightarrow> db_ext (sh_db s) (sh_db s') \<and> (\<exists>more. sh_calls s' = sh_calls s @ more)"

abbreviation ids_of :: "shared \<Rightarrow> uuid set" where
  "ids_of s \<equiv> db_ids (sh_db s)"

text \<open>One step of the shared state that leaves the identifiers \<open>U\<close> alone.\<close>

definition fair_step :: "uuid_lib \<Rightarrow> uuid set \<Rightarrow> shared \<Rightarrow> shared \<Rightarrow> bool" where
  "fair_step L U s s' \<longleftrightarrow> shared_ok L s' \<and> shared_ext s s' \<and> (ids_of s' - ids_of s) \<inter> U = {}"

text \<open>
  \<open>U\<close> is the set of the UUIDs that other processes will draw. The other sessions leave them alone,
  and this process's UUIDs too.
\<close>

definition env_ok :: "uuid set \<Rightarrow> env \<Rightarrow> bool" where
  "env_ok U E \<longleftrightarrow> inj (en_uuid E) \<and> U \<inter> range (en_uuid E) = {} \<and>
     (\<forall>n s. shared_ok (en_lib E) s \<longrightarrow> fair_step (en_lib E) (range (en_uuid E) \<union> U) s (en_others E n s))"

definition sys_ok :: "uuid set \<Rightarrow> env \<Rightarrow> world \<Rightarrow> bool" where
  "sys_ok U E w \<longleftrightarrow> env_ok U E \<and> shared_ok (en_lib E) (w_shared w) \<and>
     (\<forall>n \<ge> w_tick w. en_uuid E n \<notin> ids_of (w_shared w))"

definition sys_ext :: "uuid set \<Rightarrow> world \<Rightarrow> world \<Rightarrow> bool" where
  "sys_ext U w w' \<longleftrightarrow> shared_ext (w_shared w) (w_shared w') \<and> w_tick w \<le> w_tick w' \<and>
     (ids_of (w_shared w') - ids_of (w_shared w)) \<inter> U = {}"

definition sys_quiet :: "uuid set \<Rightarrow> env \<Rightarrow> world \<Rightarrow> world \<Rightarrow> bool" where
  "sys_quiet U E w w' \<longleftrightarrow> sys_ext U w w' \<and>
     (ids_of (w_shared w') - ids_of (w_shared w)) \<inter> range (en_uuid E) = {}"

definition sys_fresh :: "env \<Rightarrow> world \<Rightarrow> uuid \<Rightarrow> bool" where
  "sys_fresh E w uid \<longleftrightarrow> (\<exists>n < w_tick w. uid = en_uuid E n) \<and> uid \<notin> ids_of (w_shared w)"

definition sys_held :: "env \<Rightarrow> world \<Rightarrow> payment \<Rightarrow> bool" where
  "sys_held E w p \<longleftrightarrow> loaded (en_lib E) (sh_db (w_shared w)) (\<lambda>_. False) p"

definition sys_ready :: "env \<Rightarrow> world \<Rightarrow> payment \<Rightarrow> bool" where
  "sys_ready E w p \<longleftrightarrow>
     loaded (en_lib E) (sh_db (w_shared w)) (sys_fresh E w) p \<or> created (sys_fresh E w) p"

section \<open>Later worlds\<close>

lemma shown_ext:
  assumes "shown L d k dto" "db_ext d d'"
  shows "shown L d' k dto"
proof -
  obtain row where row: "row \<in> set (db_payments d)" "dto_of_row L dto row" "k \<in> cache_keys L row"
    using assms(1) by (auto simp: shown_def)
  obtain row' where row': "row' \<in> set (db_payments d')" "pr_static row' = pr_static row"
    using db_extE [OF assms(2) row(1)] by metis
  then have "dto_of_row L dto row'" "k \<in> cache_keys L row'"
    using row(2,3) by (simp_all add: dto_of_row_def cache_keys_def pr_static_def pr_key_def)
  with row'(1) show ?thesis by (auto simp: shown_def)
qed

lemma cache_ok_ext:
  assumes "cache_ok L s" "db_ext (sh_db s) (sh_db s')" "sh_cache s' = sh_cache s"
  shows "cache_ok L s'"
  using assms shown_ext unfolding cache_ok_def by (metis (no_types))

lemma cache_ok_put:
  assumes "cache_ok L s" "\<And>dto. \<not> idem_key k \<Longrightarrow> unmarshal_dto v = Some dto \<Longrightarrow> shown L (sh_db s) k dto"
  shows "cache_ok L (redis_put now k v ttl s)"
  using assms unfolding cache_ok_def redis_put_def by simp

lemma cache_ok_drop: "cache_ok L s \<Longrightarrow> cache_ok L (s\<lparr>sh_cache := (sh_cache s)(k := None)\<rparr>)"
  unfolding cache_ok_def by simp

lemma unmarshal_lock [simp]: "unmarshal_dto (JsonText (JNum s)) = None"
  by (simp add: unmarshal_dto_def)

lemma shared_ext_refl: "shared_ext s s"
  by (simp add: shared_ext_def db_ext_refl)

lemma shared_ext_trans: "shared_ext s s' \<Longrightarrow> shared_ext s' s'' \<Longrightarrow> shared_ext s s''"
  by (auto simp: shared_ext_def intro: db_ext_trans)

lemma fair_step_refl: "shared_ok L s \<Longrightarrow> fair_step L U s s"
  by (simp add: fair_step_def shared_ext_refl)

lemma fair_step_trans: "fair_step L U s s' \<Longrightarrow> fair_step L U s' s'' \<Longrightarrow> fair_step L U s s''"
  by (auto simp: fair_step_def intro: shared_ext_trans)

lemma sys_ext_refl: "sys_ext U w w"
  by (simp add: sys_ext_def shared_ext_refl)

lemma sys_ext_trans: "sys_ext U w w' \<Longrightarrow> sys_ext U w' w'' \<Longrightarrow> sys_ext U w w''"
  by (auto simp: sys_ext_def intro: shared_ext_trans)

lemma sys_quiet_trans: "sys_quiet U E w w' \<Longrightarrow> sys_quiet U E w' w'' \<Longrightarrow> sys_quiet U E w w''"
  by (auto simp: sys_quiet_def intro: sys_ext_trans)

lemma fresh_quiet_law: "sys_fresh E w uid \<Longrightarrow> sys_quiet U E w w' \<Longrightarrow> sys_fresh E w' uid"
proof -
  assume f: "sys_fresh E w uid" and q: "sys_quiet U E w w'"
  then obtain n where n: "n < w_tick w" "uid = en_uuid E n" "uid \<notin> ids_of (w_shared w)"
    by (auto simp: sys_fresh_def)
  have "w_tick w \<le> w_tick w'" using q by (simp add: sys_quiet_def sys_ext_def)
  then have "n < w_tick w'" using n(1) by simp
  moreover have "uid \<notin> ids_of (w_shared w')" using q n(2,3) unfolding sys_quiet_def by blast
  ultimately show ?thesis using n(2) by (auto simp: sys_fresh_def)
qed

lemma stored_cong:
  assumes "refunds_of d' (pr_ID row) = refunds_of d (pr_ID row)"
  shows "stored d' row = stored d row"
proof -
  have "filter (\<lambda>r. rw_PaymentID r = pr_ID row \<and> rw_DeletedAt r = None) (db_refunds x) =
      filter (\<lambda>r. rw_DeletedAt r = None) (refunds_of x (pr_ID row))" for x
    unfolding refunds_of_def filter_filter by (rule filter_cong) auto
  with assms show ?thesis by (simp add: stored_def ListRefundsByPayment_def)
qed

lemma loadedE:
  assumes "loaded L d fr p"
  obtains row where "row \<in> set (db_payments d)" "pr_ID row = p_ID p" "p_Version p \<le> pr_Version row"
    "p_Version p = pr_Version row \<Longrightarrow> evolved_from L d fr row p" "known_refunds d fr p"
    "\<not> isNewPayment p" "1 \<le> p_Version p"
  using assms unfolding loaded_def by blast

lemma loadedI:
  assumes "row \<in> set (db_payments d)" "pr_ID row = p_ID p" "p_Version p \<le> pr_Version row"
    "p_Version p = pr_Version row \<Longrightarrow> evolved_from L d fr row p" "known_refunds d fr p"
    "\<not> isNewPayment p" "1 \<le> p_Version p"
  shows "loaded L d fr p"
  using assms unfolding loaded_def by blast

lemma evolved_mono:
  assumes "\<And>u. fr u \<Longrightarrow> fr' u" "evolved_from L d fr row p"
  shows "evolved_from L d fr' row p"
proof -
  obtain q where q: "core q = core (stored d row)" "p_events q = []" "evolves L q p"
    and r: "\<And>r. r \<in> set (p_Refunds p) \<Longrightarrow> r_ID r \<in> r_ID ` set (p_Refunds q) \<or> fr (r_ID r)"
    using assms(2) unfolding evolved_from_def by blast
  have "\<forall>r \<in> set (p_Refunds p). r_ID r \<in> r_ID ` set (p_Refunds q) \<or> fr' (r_ID r)"
    using r assms(1) by meson
  with q show ?thesis unfolding evolved_from_def by blast
qed

lemma loaded_ext:
  assumes "loaded L d fr p" "db_ext d d'" "\<And>u. fr u \<Longrightarrow> fr' u"
  shows "loaded L d' fr' p"
  using assms(1)
proof (rule loadedE)
  fix row
  assume row: "row \<in> set (db_payments d)" "pr_ID row = p_ID p" "p_Version p \<le> pr_Version row"
    "p_Version p = pr_Version row \<Longrightarrow> evolved_from L d fr row p" "known_refunds d fr p"
    "\<not> isNewPayment p" "1 \<le> p_Version p"
  obtain row' where row': "row' \<in> set (db_payments d')" "pr_ID row' = pr_ID row" "pr_Version row \<le> pr_Version row'"
    and same: "pr_Version row' = pr_Version row \<longrightarrow>
       row' = row \<and> refunds_of d' (pr_ID row) = refunds_of d (pr_ID row)"
    using db_extE [OF assms(2) row(1)] by metis
  show "loaded L d' fr' p"
  proof (rule loadedI [OF row'(1)])
    assume v: "p_Version p = pr_Version row'"
    then have v': "pr_Version row' = pr_Version row" "p_Version p = pr_Version row" using row(3) row'(3) by auto
    then have "stored d' row' = stored d row" using same stored_cong [of d' row d] by simp
    then have "evolved_from L d' fr' row' p = evolved_from L d fr' row p" by (simp only: evolved_from_def)
    then show "evolved_from L d' fr' row' p" using evolved_mono [OF assms(3) row(4) [OF v'(2)]] by simp
  next
    have "rwstatic ` set (db_refunds d) \<subseteq> rwstatic ` set (db_refunds d')" using assms(2) by (simp add: db_ext_def)
    then show "known_refunds d' fr' p" using row(5) assms(3) unfolding known_refunds_def by blast
  qed (use row row' in simp_all)
qed

section \<open>The aggregate's operations\<close>

lemma is_initiated_type: "is_initiated e \<longleftrightarrow> EventType e = ''PaymentInitiated''"
  by (cases e) simp_all

lemma isNew_append: "no_initiated es \<Longrightarrow> p_events p' = p_events p @ es \<Longrightarrow> isNewPayment p' = isNewPayment p"
  by (auto simp: isNewPayment_def PeekEvents_def list_ex_iff is_initiated_type no_initiated_def)

lemma apply_op_isNew: "apply_op L op p = Inr p' \<Longrightarrow> isNewPayment p' = isNewPayment p"
  using op_events isNew_append by blast

lemma same_static_ids: "map rstatic rs = map rstatic rs' \<Longrightarrow> r_ID ` set rs = r_ID ` set rs'"
proof -
  assume "map rstatic rs = map rstatic rs'"
  then have "map (fst \<circ> rstatic) rs = map (fst \<circ> rstatic) rs'" by (simp flip: map_map)
  then have "map r_ID rs = map r_ID rs'" by (simp add: comp_def rstatic_def)
  then show ?thesis by (metis list.set_map)
qed

lemma loaded_step:
  assumes "loaded L d fr p" "op_step L p p'" "p_ID p' = p_ID p" "p_Version p' = p_Version p"
    and "isNewPayment p' = isNewPayment p" "\<And>u. fr u \<Longrightarrow> fr' u"
    and refunds: "\<And>r. r \<in> set (p_Refunds p') \<Longrightarrow>
      (r_ID r \<in> r_ID ` set (p_Refunds p) \<and> rstatic r \<in> rstatic ` set (p_Refunds p)) \<or> fr' (r_ID r)"
  shows "loaded L d fr' p'"
  using assms(1)
proof (rule loadedE)
  fix row
  assume row: "row \<in> set (db_payments d)" "pr_ID row = p_ID p" "p_Version p \<le> pr_Version row"
    "p_Version p = pr_Version row \<Longrightarrow> evolved_from L d fr row p" "known_refunds d fr p"
    "\<not> isNewPayment p" "1 \<le> p_Version p"
  show "loaded L d fr' p'"
  proof (rule loadedI [OF row(1)])
    assume "p_Version p' = pr_Version row"
    then obtain q where q: "core q = core (stored d row)" "p_events q = []" "evolves L q p"
      "\<forall>r \<in> set (p_Refunds p). r_ID r \<in> r_ID ` set (p_Refunds q) \<or> fr (r_ID r)"
      using row(4) assms(4) unfolding evolved_from_def by metis
    have "evolves L q p'" using q(3) assms(2) by (rule rtranclp.rtrancl_into_rtrancl)
    moreover have "r_ID r \<in> r_ID ` set (p_Refunds q) \<or> fr' (r_ID r)" if "r \<in> set (p_Refunds p')" for r
      using refunds [OF that] q(4) assms(6) by auto
    ultimately show "evolved_from L d fr' row p'" using q(1,2) unfolding evolved_from_def by blast
  next
    show "known_refunds d fr' p'"
      unfolding known_refunds_def
    proof
      fix r
      assume "r \<in> set (p_Refunds p')"
      from refunds [OF this] show "rstatic r \<in> rwstatic ` set (db_refunds d) \<or> fr' (r_ID r)"
      proof
        assume "r_ID r \<in> r_ID ` set (p_Refunds p) \<and> rstatic r \<in> rstatic ` set (p_Refunds p)"
        then obtain x where x: "x \<in> set (p_Refunds p)" "rstatic r = rstatic x" by auto
        then have "rstatic x \<in> rwstatic ` set (db_refunds d) \<or> fr (r_ID x)"
          using row(5) by (simp add: known_refunds_def)
        moreover have "r_ID x = r_ID r" using x(2) by (simp add: rstatic_def)
        ultimately show ?thesis using assms(6) unfolding x(2) by metis
      qed simp
    qed
  qed (use row assms(3,4,5) in simp_all)
qed

lemma loaded_op:
  assumes "loaded L d fr p" "apply_op L op p = Inr p'" "\<not> op_requests op"
  shows "loaded L d fr p'"
proof (rule loaded_step [OF assms(1)])
  have st: "map rstatic (p_Refunds p') = map rstatic (p_Refunds p)"
    by (rule op_static [OF assms(2)]) (use assms(3) in auto)
  show "op_step L p p'" using assms(2) by (rule op_stepI) (use assms(3) in \<open>cases op; simp\<close>)
  have "rstatic ` set (p_Refunds p') = rstatic ` set (p_Refunds p)" using st by (metis list.set_map)
  moreover have "r_ID ` set (p_Refunds p') = r_ID ` set (p_Refunds p)" by (rule same_static_ids [OF st])
  ultimately show "r \<in> set (p_Refunds p') \<Longrightarrow>
      (r_ID r \<in> r_ID ` set (p_Refunds p) \<and> rstatic r \<in> rstatic ` set (p_Refunds p)) \<or> fr (r_ID r)" for r
    by (metis imageI)
qed (use frameD(1,14) [OF apply_op_frame [OF assms(2)]] apply_op_isNew [OF assms(2)] in simp_all)

lemma loaded_request:
  assumes "loaded L d (\<lambda>_. False) p" "uid \<notin> db_ids d" "fr uid"
    and "RequestRefund now uid ref a reason rb p = Inr (p', r)"
  shows "loaded L d fr p'"
proof (rule loaded_step [OF assms(1)])
  have op: "apply_op L (OpRequestRefund now uid ref a reason rb) p = Inr p'" using assms(4) by simp
  note rq = request_static [OF assms(4)]
  have "r_ID x \<in> db_ids d" if "x \<in> set (p_Refunds p)" for x
  proof -
    have "rstatic x \<in> rwstatic ` set (db_refunds d)" using assms(1) that by (simp add: loaded_def known_refunds_def)
    then show ?thesis by (auto simp: rstatic_def refund_of_row_def db_ids_def)
  qed
  then have "op_fresh (OpRequestRefund now uid ref a reason rb) p" using assms(2) by auto
  with op show "op_step L p p'" by (rule op_stepI)
  show "p_ID p' = p_ID p" "p_Version p' = p_Version p" using frameD(1,14) [OF apply_op_frame [OF op]] by simp_all
  show "isNewPayment p' = isNewPayment p" by (rule apply_op_isNew [OF op])
  show "x \<in> set (p_Refunds p') \<Longrightarrow>
      (r_ID x \<in> r_ID ` set (p_Refunds p) \<and> rstatic x \<in> rstatic ` set (p_Refunds p)) \<or> fr (r_ID x)" for x
    using rq assms(3) by auto
qed simp

lemma created_op:
  assumes "created fr p" "apply_op L op p = Inr p'" "\<not> op_requests op"
  shows "created fr p'"
proof -
  have "map rstatic (p_Refunds p') = map rstatic (p_Refunds p)"
    by (rule op_static [OF assms(2)]) (use assms(3) in auto)
  then have empty: "p_Refunds p' = []" using assms(1) by (simp add: created_def)
  have fresh: "op_fresh op p" using assms(3) by (cases op) simp_all
  obtain es where es: "tells p p' es" using apply_op_tells [OF assms(2) _ fresh] assms(1) by (auto simp: created_def)
  have "p_ID p' = p_ID p" by (rule frameD(1) [OF apply_op_frame [OF assms(2)]])
  with es assms(1) empty show ?thesis
    using apply_op_ok [OF assms(2) fresh] apply_op_isNew [OF assms(2)]
    by (auto simp: created_def tells_def replay_append)
qed

lemma created_New:
  assumes "New now uid ref caller m gt meth cust desc ex meta = Inr p" "0 < sint (m_Amount m)" "fr uid"
  shows "created fr p"
  using New_shape [OF assms(1)] New_ok [OF assms(1,2)] New_replays [OF assms(1)] assms(3)
  by (simp add: created_def isNewPayment_def PeekEvents_def)

section \<open>Calls that leave the tables of payments alone\<close>

text \<open>What a call does to the state it finds, once the others have run.\<close>

definition tame :: "uuid set \<Rightarrow> env \<Rightarrow> (nat \<Rightarrow> shared \<Rightarrow> 'a \<times> shared) \<Rightarrow> bool" where
  "tame U E f \<longleftrightarrow> (\<forall>n s. shared_ok (en_lib E) s \<longrightarrow>
     fair_step (en_lib E) (range (en_uuid E) \<union> U) s (snd (f n s)))"

lemma others_fair:
  assumes "sys_ok U E w"
  shows "fair_step (en_lib E) (range (en_uuid E) \<union> U) (w_shared w) (en_others E (w_tick w) (w_shared w))"
  using assms by (simp add: sys_ok_def env_ok_def)

lemma fair_quiet:
  assumes "sys_ok U E w" "fair_step (en_lib E) (range (en_uuid E) \<union> U) (w_shared w) s"
  shows "sys_ok U E \<lparr>w_shared = s, w_tick = w_tick w + 1\<rparr> \<and> sys_quiet U E w \<lparr>w_shared = s, w_tick = w_tick w + 1\<rparr>"
  using assms by (auto simp: sys_ok_def fair_step_def sys_quiet_def sys_ext_def)

lemma run_act_tame:
  assumes "sys_ok U E w" "run_state (act E f) w = (x, w')" "tame U E f"
  shows "sys_ok U E w' \<and> sys_quiet U E w w'"
proof -
  let ?s = "en_others E (w_tick w) (w_shared w)"
  obtain s' where s': "f (w_tick w) ?s = (x, s')" "w' = \<lparr>w_shared = s', w_tick = w_tick w + 1\<rparr>"
    using assms(2) by (auto simp: run_act split: prod.splits)
  have fair: "fair_step (en_lib E) (range (en_uuid E) \<union> U) (w_shared w) ?s" by (rule others_fair [OF assms(1)])
  then have "fair_step (en_lib E) (range (en_uuid E) \<union> U) ?s (snd (f (w_tick w) ?s))"
    using assms(3) unfolding tame_def by (auto simp: fair_step_def)
  with fair have "fair_step (en_lib E) (range (en_uuid E) \<union> U) (w_shared w) s'" using s' fair_step_trans by simp
  from fair_quiet [OF assms(1) this] show ?thesis using s'(2) by simp
qed

lemma tame_same: "(\<And>n s. snd (f n s) = s) \<Longrightarrow> tame U E f"
  by (simp add: tame_def fair_step_refl)

lemma fair_cache:
  assumes "shared_ok L s" "sh_db s' = sh_db s" "sh_calls s' = sh_calls s" "cache_ok L s'"
  shows "fair_step L U s s'"
  using assms by (simp add: fair_step_def shared_ok_def refund_calls_ok_def shared_ext_def db_ext_refl)

lemma fair_put:
  assumes "shared_ok L s" "\<And>dto. \<not> idem_key k \<Longrightarrow> unmarshal_dto v = Some dto \<Longrightarrow> shown L (sh_db s) k dto"
  shows "fair_step L U s (redis_put now k v ttl s)"
  using assms by (intro fair_cache cache_ok_put) (auto simp: shared_ok_def redis_put_def)

lemma fair_drop: "shared_ok L s \<Longrightarrow> fair_step L U s (s\<lparr>sh_cache := (sh_cache s)(k := None)\<rparr>)"
  by (intro fair_cache cache_ok_drop) (auto simp: shared_ok_def)

lemma fair_log:
  assumes "shared_ok L s" "\<And>q a. c = CallRefund q a \<Longrightarrow>
    \<exists>r \<in> set (db_refunds (sh_db s)). rq_RefundKey q = uuid_String L (rw_ID r) \<and> rq_Amount q = rw_Amount r"
  shows "fair_step L U s (log_call c s)"
  using assms by (auto simp: fair_step_def shared_ok_def refund_calls_ok_def shared_ext_def log_call_def db_ext_refl
      elim: cache_ok_ext)

lemma tame_log: "(\<And>n q a. c n \<noteq> CallRefund q a) \<Longrightarrow> tame U E (\<lambda>n s. (f n, log_call (c n) s))"
  unfolding tame_def by (auto intro: fair_log)

lemma tame_redis:
  "idem_key k \<or> unmarshal_dto v = None \<Longrightarrow> tame U E (\<lambda>n s. (case en_redis E n of
        Some e \<Rightarrow> (Inl (Internal m (Some e)), s)
      | None \<Rightarrow> if redis_live (en_time E n) s k \<noteq> None then (Inr False, s)
                else (Inr True, redis_put (en_time E n) k v ttl s)))"
  "idem_key k \<or> unmarshal_dto v = None \<Longrightarrow> tame U E (\<lambda>n s. (case en_redis E n of
        Some e \<Rightarrow> (Some (Internal m (Some e)), s)
      | None \<Rightarrow> (None, redis_put (en_time E n) k v ttl s)))"
  "tame U E (\<lambda>n s. (case en_redis E n of
        Some e \<Rightarrow> (Some (Internal m (Some e)), s)
      | None \<Rightarrow> (None, s\<lparr>sh_cache := (sh_cache s)(k := None)\<rparr>)))"
  unfolding tame_def
  by (auto split: option.splits if_splits intro: fair_step_refl fair_put fair_drop)

text \<open>An attempt adds a row to a table that nothing else depends on.\<close>

lemma db_ok_attempts:
  assumes "db_payments d' = db_payments d" "db_refunds d' = db_refunds d" "db_events d' = db_events d"
    "db_outbox d' = db_outbox d"
  shows "db_ok L d' = db_ok L d" "db_ext d d'" "db_ids d' = db_ids d"
proof -
  have "row_ok L d' row = row_ok L d row" for row
    using assms by (simp add: row_ok_def history_ok_def stored_def ListRefundsByPayment_def events_of_def outbox_of_def)
  then show "db_ok L d' = db_ok L d" using assms by (simp add: db_ok_def)
  show "db_ext d d'" using assms by (auto simp: db_ext_def refunds_of_def)
  show "db_ids d' = db_ids d" using assms by (simp add: db_ids_def)
qed

lemma fair_attempts:
  assumes "shared_ok L s" "sh_calls s' = sh_calls s" "sh_cache s' = sh_cache s"
    "db_payments (sh_db s') = db_payments (sh_db s)" "db_refunds (sh_db s') = db_refunds (sh_db s)"
    "db_events (sh_db s') = db_events (sh_db s)" "db_outbox (sh_db s') = db_outbox (sh_db s)"
  shows "fair_step L U s s'"
  using assms db_ok_attempts [OF assms(4-7)] cache_ok_ext [OF _ _ assms(3)]
  by (simp add: fair_step_def shared_ok_def refund_calls_ok_def shared_ext_def)

lemma run_insert_attempt:
  assumes "sys_ok U E w" "run_state (insert_attempt E row) w = (x, w')"
  shows "sys_ok U E w' \<and> sys_quiet U E w w'"
  using assms unfolding insert_attempt_def
proof (rule run_act_tame)
  show "tame U E (\<lambda>n s. (case en_fault E n 0 of
        Some e \<Rightarrow> (Some e, s)
      | None \<Rightarrow>
          (case InsertPaymentAttempt
                  (row\<lparr>ar_ID := en_rowid E n 0, ar_CreatedAt := pg_time (en_time E n)\<rparr>) (sh_db s) of
             Inl e \<Rightarrow> (Some e, s)
           | Inr d \<Rightarrow> (None, s\<lparr>sh_db := d\<rparr>))))"
    unfolding tame_def
    by (auto split: option.splits sum.splits intro!: fair_step_refl fair_attempts
        simp: InsertPaymentAttempt_def Let_def split: if_splits)
qed

lemma sys_quiet_refl: "sys_quiet U E w w"
  by (simp add: sys_quiet_def sys_ext_refl)

lemma run_insert_retrying:
  assumes "sys_ok U E w" "run_state (insert_retrying E k err row) w = (x, w')"
  shows "sys_ok U E w' \<and> sys_quiet U E w w'"
  using assms
proof (induction k arbitrary: w err)
  case 0
  then show ?case by (simp add: sys_quiet_refl)
next
  case (Suc k)
  obtain err' v where v: "run_state (insert_attempt E row) w = (err', v)" by fastforce
  note one = run_insert_attempt [OF Suc.prems(1) v]
  show ?case
  proof (cases "isUniqueViolation err'")
    case True
    then have "run_state (insert_retrying E k err' row) v = (x, w')" using Suc.prems(2) v by simp
    from Suc.IH [OF _ this] one show ?thesis using sys_quiet_trans by blast
  next
    case False
    then have "w' = v" using Suc.prems(2) v by simp
    with one show ?thesis by simp
  qed
qed

lemma run_Record:
  assumes "sys_ok U E w" "run_state (recorder_Record E a) w = (x, w')"
  shows "sys_ok U E w' \<and> sys_quiet U E w w'"
proof -
  obtain err v where v: "run_state (insert_retrying E maxNumberRetries None (attempt_params a)) w = (err, v)"
    by fastforce
  then have "w' = v" using assms(2) by (simp add: recorder_Record_def)
  with run_insert_retrying [OF assms(1) v] show ?thesis by simp
qed

section \<open>Queries\<close>

lemma run_query:
  assumes "sys_ok U E w" "run_state (query E f) w = (r, w')"
  shows "sys_ok U E w'" "sys_quiet U E w w'" "r = Inr x \<Longrightarrow> x = f (w_tick w) (sh_db (w_shared w'))"
proof -
  have "tame U E (\<lambda>n s. (case en_fault E n 0 of Some e \<Rightarrow> Inl e | None \<Rightarrow> Inr (f n (sh_db s)), s))"
    by (rule tame_same) simp
  from run_act_tame [OF assms(1) assms(2) [unfolded query_def] this]
  show "sys_ok U E w'" "sys_quiet U E w w'" by auto
  show "r = Inr x \<Longrightarrow> x = f (w_tick w) (sh_db (w_shared w'))"
    using assms(2) by (auto simp: query_def run_act split: option.splits)
qed

lemma run_query_row:
  assumes "sys_ok U E w" "run_state (query_row E f) w = (r, w')"
  shows "sys_ok U E w'" "sys_quiet U E w w'" "r = Inr x \<Longrightarrow> f (sh_db (w_shared w')) = Some x"
proof -
  have "tame U E (\<lambda>n s. (case en_fault E n 0 of Some e \<Rightarrow> Inl e
      | None \<Rightarrow> (case f (sh_db s) of None \<Rightarrow> Inl ErrNoRows | Some x \<Rightarrow> Inr x), s))"
    by (rule tame_same) simp
  from run_act_tame [OF assms(1) assms(2) [unfolded query_row_def] this]
  show "sys_ok U E w'" "sys_quiet U E w w'" by auto
  show "r = Inr x \<Longrightarrow> f (sh_db (w_shared w')) = Some x"
    using assms(2) by (auto simp: query_row_def run_act split: option.splits)
qed

lemma sys_held_ext: "sys_held E w p \<Longrightarrow> sys_ext U w w' \<Longrightarrow> sys_held E w' p"
  unfolding sys_held_def sys_ext_def shared_ext_def by (blast intro: loaded_ext)

lemma toDomain_new: "toDomain row = Inr p \<Longrightarrow> \<not> isNewPayment (p\<lparr>p_Refunds := rs\<rparr>)"
  by (simp add: isNewPayment_def PeekEvents_def toDomain_fields)

text \<open>
  A payment is assembled by two queries. Whatever happens between them, either nothing changed and
  it is what is stored, or its version is gone and no save of it can succeed.
\<close>

lemma run_withRefunds:
  assumes "sys_ok U E w" "row \<in> set (db_payments (sh_db (w_shared w)))"
    and "run_state (withRefunds E row) w = (r, w')"
  shows "sys_ok U E w' \<and> sys_quiet U E w w' \<and> (\<forall>p. r = Inr p \<longrightarrow> sys_held E w' p)"
proof (cases "toDomain row")
  case (Inl e)
  with assms show ?thesis by (auto simp: withRefunds_def sys_quiet_refl)
next
  case (Inr p0)
  obtain q v where q: "run_state (query E (\<lambda>n. ListRefundsByPayment (p_ID p0))) w = (q, v)" by fastforce
  note rq = run_query [OF assms(1) q]
  have w': "w' = v" and r: "r = (case q of Inl e \<Rightarrow> Inl (Internal ''list refunds'' (Some e))
      | Inr rows \<Rightarrow> Inr (p0\<lparr>p_Refunds := map refund_of_row rows\<rparr>))"
    using assms(3) Inr q by (auto simp: withRefunds_def map_sum_def split: sum.splits)
  have "sys_held E w' p" if p: "r = Inr p" for p
  proof -
    let ?d = "sh_db (w_shared w')"
    obtain rows where rows: "q = Inr rows" "p = p0\<lparr>p_Refunds := map refund_of_row rows\<rparr>"
      using p r by (auto split: sum.splits)
    have list: "rows = ListRefundsByPayment (pr_ID row) ?d"
      using rq(3) [OF rows(1)] w' toDomain_fields(1) [OF Inr] by simp
    have pst: "p = stored ?d row" by (simp add: rows(2) list stored_def Inr)
    have core: "core p = core (stored ?d row)" by (rule arg_cong [OF pst])
    have ev: "p_events p = []" using toDomain_fields(8) [OF Inr] by (simp add: rows(2))
    have fields: "p_ID p = pr_ID row" "p_Version p = pr_Version row"
      using toDomain_fields [OF Inr] by (simp_all add: rows(2))
    have "db_ext (sh_db (w_shared w)) ?d" using rq(2) w' by (simp add: sys_quiet_def sys_ext_def shared_ext_def)
    then obtain row' where row': "row' \<in> set (db_payments ?d)" "pr_ID row' = pr_ID row"
      "pr_Version row \<le> pr_Version row'" "pr_Version row' = pr_Version row \<longrightarrow> row' = row"
      using db_extE [of _ _ row] assms(2) by metis
    have "loaded (en_lib E) ?d (\<lambda>_. False) p"
    proof (rule loadedI [OF row'(1)])
      assume "p_Version p = pr_Version row'"
      then have "row' = row" using row'(4) fields by metis
      moreover have "evolved_from (en_lib E) ?d (\<lambda>_. False) row p"
        unfolding evolved_from_def
        by (rule exI [of _ p], intro conjI, rule core, rule ev, rule rtranclp.rtrancl_refl) simp
      ultimately show "evolved_from (en_lib E) ?d (\<lambda>_. False) row' p" by (rule ssubst)
    next
      have "r \<in> set (db_refunds ?d)" if "r \<in> set rows" for r
        using that by (auto simp: list ListRefundsByPayment_def)
      then show "known_refunds ?d (\<lambda>_. False) p" by (auto simp: known_refunds_def rows(2))
    next
      have ok: "db_ok (en_lib E) (sh_db (w_shared w))" using assms(1) by (simp add: sys_ok_def shared_ok_def)
      show "1 \<le> p_Version p" using db_okD(4) [OF ok assms(2)] fields by simp
    qed (use row' fields toDomain_new [OF Inr] in \<open>simp_all add: rows(2)\<close>)
    then show ?thesis by (simp add: sys_held_def)
  qed
  with rq(1,2) w' show ?thesis by blast
qed

lemma run_find:
  assumes "sys_ok U E w"
    and "run_state (bindE (mapE g (query_row E f)) (withRefunds E)) w = (r, w')"
    and "\<And>d row. f d = Some row \<Longrightarrow> row \<in> set (db_payments d)"
  shows "sys_ok U E w' \<and> sys_quiet U E w w' \<and> (\<forall>p. r = Inr p \<longrightarrow> sys_held E w' p)"
proof -
  obtain q v where q: "run_state (query_row E f) w = (q, v)" by fastforce
  note rq = run_query_row [OF assms(1) q]
  show ?thesis
  proof (cases q)
    case (Inl e)
    with assms(2) q rq show ?thesis by auto
  next
    case (Inr row)
    then have "run_state (withRefunds E row) v = (r, w')" using assms(2) q by simp
    from run_withRefunds [OF rq(1) assms(3) [OF rq(3) [OF Inr]] this] rq(2)
    show ?thesis using sys_quiet_trans by blast
  qed
qed

lemma run_FindByID:
  assumes "sys_ok U E w" "run_state (repo_FindByID E uid) w = (r, w')"
  shows "sys_ok U E w' \<and> sys_quiet U E w w' \<and> (\<forall>p. r = Inr p \<longrightarrow> sys_held E w' p)"
  using assms unfolding repo_FindByID_def
  by (rule run_find) (auto simp: GetPaymentByID_def dest: find_mem)

lemma run_FindByReference:
  assumes "sys_ok U E w" "run_state (repo_FindByReference E ref caller) w = (r, w')"
  shows "sys_ok U E w' \<and> sys_quiet U E w w' \<and> (\<forall>p. r = Inr p \<longrightarrow> sys_held E w' p)"
  using assms unfolding repo_FindByReference_def
  by (rule run_find) (auto simp: GetPaymentByReference_def dest: find_mem)

lemma run_FindByTx:
  assumes "sys_ok U E w" "run_state (repo_FindByGatewayTransactionID E tx) w = (r, w')"
  shows "sys_ok U E w' \<and> sys_quiet U E w w' \<and> (\<forall>p. r = Inr p \<longrightarrow> sys_held E w' p)"
  using assms unfolding repo_FindByGatewayTransactionID_def
  by (rule run_find) (auto simp: GetPaymentByGatewayTransactionID_def dest: find_mem)

text \<open>What a successful lookup has read: a row, and the refunds of its payment.\<close>

lemma run_find_parts:
  assumes "run_state (bindE (mapE g (query_row E f)) (withRefunds E)) w = (Inr p, w')"
  obtains v row p0 rows where "run_state (query_row E f) w = (Inr row, v)" "toDomain row = Inr p0"
    "run_state (query E (\<lambda>n. ListRefundsByPayment (p_ID p0))) v = (Inr rows, w')"
    "p = p0\<lparr>p_Refunds := map refund_of_row rows\<rparr>"
proof -
  obtain q v where q: "run_state (query_row E f) w = (q, v)" by fastforce
  with assms obtain row where row: "q = Inr row" "run_state (withRefunds E row) v = (Inr p, w')" by (cases q) auto
  then obtain p0 where p0: "toDomain row = Inr p0" by (cases "toDomain row") (auto simp: withRefunds_def)
  obtain r v' where r: "run_state (query E (\<lambda>n. ListRefundsByPayment (p_ID p0))) v = (r, v')" by fastforce
  with row(2) p0 obtain rows where "r = Inr rows" "v' = w'" "p = p0\<lparr>p_Refunds := map refund_of_row rows\<rparr>"
    by (cases r) (auto simp: withRefunds_def map_sum_def)
  with that q row(1) p0 r show thesis by blast
qed

lemma query_row_found: "run_state (query_row E f) w = (Inr row, v) \<Longrightarrow> f (sh_db (w_shared v)) = Some row"
  by (auto simp: query_row_def run_act split: option.splits)

lemma FindByID_names: "run_state (repo_FindByID E uid) w = (Inr p, w') \<Longrightarrow> p_ID p = uid"
  unfolding repo_FindByID_def
  by (erule run_find_parts) (auto dest!: query_row_found find_mem toDomain_fields(1) simp: GetPaymentByID_def)

lemma FindByTx_names: "run_state (repo_FindByGatewayTransactionID E tx) w = (Inr p, w') \<Longrightarrow> p_GatewayTransactionID p = tx"
  unfolding repo_FindByGatewayTransactionID_def
  by (erule run_find_parts)
     (auto dest!: query_row_found find_mem toDomain_fields(10) simp: GetPaymentByGatewayTransactionID_def derefString_def)

lemma run_find_all:
  assumes "sys_ok U E w" "run_state (find_all E uids) w = (r, w')"
  shows "sys_ok U E w' \<and> sys_quiet U E w w' \<and> (\<forall>ps. r = Inr ps \<longrightarrow> (\<forall>p \<in> set ps. sys_held E w' p))"
  using assms
proof (induction uids arbitrary: w r w')
  case Nil
  then show ?case by (auto simp: sys_quiet_refl)
next
  case (Cons uid uids)
  obtain f v where f: "run_state (repo_FindByID E uid) w = (f, v)" by fastforce
  note one = run_FindByID [OF Cons.prems(1) f]
  show ?case
  proof (cases f)
    case (Inl e)
    with Cons.prems(2) f one show ?thesis by auto
  next
    case (Inr p)
    obtain g u where g: "run_state (find_all E uids) v = (g, u)" by fastforce
    note rest = Cons.IH [OF _ g] one
    have w': "w' = u" "r = map_sum id (\<lambda>ps. p # ps) g"
      using Cons.prems(2) f g Inr by (auto simp: map_sum_def split: sum.splits)
    have "sys_held E v p" using one Inr by blast
    moreover have "sys_ext U v u" using rest(1) one unfolding sys_quiet_def by blast
    ultimately have "sys_held E u p" by (rule sys_held_ext)
    with rest w' show ?thesis using sys_quiet_trans by (cases g) auto
  qed
qed

text \<open>The list queries do not load refunds; the payments they select have none.\<close>

lemma run_list:
  assumes "sys_ok U E w"
    and "run_state (bindE (mapE g (query E f)) (\<lambda>rows. State_Monad.return (toDomains rows))) w = (r, w')"
    and "\<And>n d row. row \<in> set (f n d) \<Longrightarrow> row \<in> set (db_payments d) \<and> \<not> WasPaid (pr_Status row)"
  shows "sys_ok U E w' \<and> sys_quiet U E w w' \<and> (\<forall>ps. r = Inr ps \<longrightarrow> (\<forall>p \<in> set ps. sys_held E w' p))"
proof -
  obtain q v where q: "run_state (query E f) w = (q, v)" by fastforce
  note rq = run_query [OF assms(1) q]
  have w': "w' = v" "r = (case q of Inl e \<Rightarrow> Inl (g e) | Inr rows \<Rightarrow> toDomains rows)"
    using assms(2) q by (auto simp: map_sum_def split: sum.splits)
  let ?d = "sh_db (w_shared w')"
  have ok: "db_ok (en_lib E) ?d" using rq(1) w' by (simp add: sys_ok_def shared_ok_def)
  have one: "sys_held E w' p" if row: "row \<in> set (db_payments ?d)" "\<not> WasPaid (pr_Status row)"
    and p: "toDomain row = Inr p" for row p
  proof -
    have "p_Refunds (stored ?d row) = []"
      using payment_okD(9) [OF db_okD(2) [OF ok row(1)]] stored_fields(2) [OF db_okD(3) [OF ok row(1)]] row(2) by simp
    then have "p = stored ?d row" using toDomain_fields(9) [OF p] by (simp add: stored_def p)
    then have "core p = core (stored ?d row)" by (rule arg_cong)
    then have "evolved_from (en_lib E) ?d (\<lambda>_. False) row p"
      unfolding evolved_from_def using toDomain_fields(8) [OF p] by (intro exI [of _ p]) auto
    then have "loaded (en_lib E) ?d (\<lambda>_. False) p"
      using toDomain_fields [OF p] db_okD(4) [OF ok row(1)]
      by (intro loadedI [OF row(1)]) (auto simp: known_refunds_def isNewPayment_def PeekEvents_def)
    then show ?thesis by (simp add: sys_held_def)
  qed
  have all: "\<forall>p \<in> set ps. sys_held E w' p"
    if "toDomains rows = Inr ps" "\<forall>row \<in> set rows. row \<in> set (db_payments ?d) \<and> \<not> WasPaid (pr_Status row)" for rows ps
    using that
  proof (induction rows arbitrary: ps)
    case (Cons row rows)
    then show ?case using one by (fastforce split: sum.splits)
  qed simp
  have "\<forall>p \<in> set ps. sys_held E w' p" if rps: "r = Inr ps" for ps
  proof -
    obtain rows where "q = Inr rows" "toDomains rows = Inr ps" using rps w'(2) by (cases q) auto
    moreover from rq(3) [OF this(1)] w'(1) have "rows = f (w_tick w) ?d" by simp
    ultimately show ?thesis using all assms(3) by blast
  qed
  with rq(1,2) w' show ?thesis by blast
qed

lemma run_FindExpired:
  assumes "sys_ok U E w" "run_state (repo_FindExpired E n) w = (r, w')"
  shows "sys_ok U E w' \<and> sys_quiet U E w w' \<and> (\<forall>ps. r = Inr ps \<longrightarrow> (\<forall>p \<in> set ps. sys_held E w' p))"
  using assms unfolding repo_FindExpired_def
  by (rule run_list) (auto simp: GetExpiredPayments_def limited_def dest!: in_set_takeD)

lemma run_FindAwaiting:
  assumes "sys_ok U E w" "run_state (repo_FindAwaitingChargeOutcome E cutoff n) w = (r, w')"
  shows "sys_ok U E w' \<and> sys_quiet U E w w' \<and> (\<forall>ps. r = Inr ps \<longrightarrow> (\<forall>p \<in> set ps. sys_held E w' p))"
  using assms unfolding repo_FindAwaitingChargeOutcome_def
  by (rule run_list) (auto simp: GetPaymentsAwaitingChargeOutcome_def limited_def dest!: in_set_takeD)

lemma run_FindPendingRefunds:
  assumes "sys_ok U E w" "run_state (repo_FindWithPendingRefunds E cutoff n) w = (r, w')"
  shows "sys_ok U E w' \<and> sys_quiet U E w w' \<and> (\<forall>ps. r = Inr ps \<longrightarrow> (\<forall>p \<in> set ps. sys_held E w' p))"
proof -
  obtain q v where q: "run_state (query E (\<lambda>k. GetPaymentIDsWithPendingRefunds cutoff n)) w = (q, v)" by fastforce
  note rq = run_query [OF assms(1) q]
  show ?thesis
  proof (cases q)
    case (Inl e)
    with assms(2) q rq show ?thesis by (auto simp: repo_FindWithPendingRefunds_def)
  next
    case (Inr uids)
    then have "run_state (find_all E uids) v = (r, w')"
      using assms(2) q by (simp add: repo_FindWithPendingRefunds_def)
    from run_find_all [OF rq(1) this] rq(2) show ?thesis using sys_quiet_trans by blast
  qed
qed

end
