(* ===== verification/Pg_Service_Laws.thy ===== *)
theory Pg_Service_Laws
  imports Pg_Contract
begin

text \<open>
  The remaining laws of \<open>handler_contract\<close> for the service over PostgreSQL: a save, the gateways,
  the clock, the UUIDs and the cache. Then the contract is interpreted, and what it gives for the
  handlers becomes a statement about whole processes: a run of a process is itself one of the fair
  steps that the other processes assume.
\<close>

section \<open>Saving\<close>

lemma save_tx:
  assumes "db_ok L d" "loaded L d fr p \<or> created fr p" "unused fr d" "L = en_lib E"
    and "run_state (persist_rows E n p) (d, k) = (Inr lastSeq, (dr, k1))"
    and "run_state (persist_events E n (p_ID p) lastSeq (p_events p)) (dr, k1) = (Inr (), (d2, k2))"
  shows "db_ok L d2 \<and> db_ext d d2 \<and> db_ids d2 \<subseteq> db_ids d \<union> {u. fr u} \<and>
    loaded L d2 (\<lambda>_. False) (p\<lparr>p_events := [], p_Version := (if isNewPayment p then 1 else p_Version p + 1)\<rparr>)"
  using assms(2)
proof
  assume l: "loaded L d fr p"
  then have "\<not> isNewPayment p" by (simp add: loaded_def)
  with save_loaded [OF assms(1) l assms(3-6)] show ?thesis by simp
next
  assume c: "created fr p"
  then have "isNewPayment p" "fr (p_ID p)" by (simp_all add: created_def)
  with save_created [OF assms(1) c assms(3-6)] show ?thesis by auto
qed

lemma shared_ok_save:
  assumes "shared_ok L s" "db_ok L d" "db_ext (sh_db s) d"
  shows "shared_ok L (s\<lparr>sh_db := d\<rparr>) \<and> shared_ext s (s\<lparr>sh_db := d\<rparr>)"
proof -
  have sub: "rwstatic ` set (db_refunds (sh_db s)) \<subseteq> rwstatic ` set (db_refunds d)"
    using assms(3) by (simp add: db_ext_def)
  have "\<exists>r \<in> set (db_refunds d). rq_RefundKey q = uuid_String L (rw_ID r) \<and> rq_Amount q = rw_Amount r"
    if q: "CallRefund q a \<in> set (sh_calls s)" for q a
  proof -
    obtain r where r: "r \<in> set (db_refunds (sh_db s))" "rq_RefundKey q = uuid_String L (rw_ID r)"
      "rq_Amount q = rw_Amount r"
      using assms(1) q by (auto simp: shared_ok_def refund_calls_ok_def)
    from r(1) sub obtain x where "x \<in> set (db_refunds d)" "rwstatic x = rwstatic r" by force
    with r(2,3) show ?thesis by (metis prod.inject rwstatic_eq)
  qed
  with assms cache_ok_ext [of L s "s\<lparr>sh_db := d\<rparr>"] show ?thesis
    by (simp add: shared_ok_def refund_calls_ok_def shared_ext_def)
qed

lemma sys_ready_quiet: "sys_ready E w p \<Longrightarrow> sys_quiet U E w w' \<Longrightarrow> sys_ready E w' p"
proof -
  assume r: "sys_ready E w p" and q: "sys_quiet U E w w'"
  have fr: "sys_fresh E w u \<Longrightarrow> sys_fresh E w' u" for u using q by (rule fresh_quiet_law [rotated])
  have "db_ext (sh_db (w_shared w)) (sh_db (w_shared w'))"
    using q by (simp add: sys_quiet_def sys_ext_def shared_ext_def)
  with r fr show "sys_ready E w' p"
    unfolding sys_ready_def by (auto intro: loaded_ext simp: created_def)
qed

lemma sys_unused: "unused (sys_fresh E w) (sh_db (w_shared w))"
  by (simp add: unused_def sys_fresh_def)

lemma sys_save:
  assumes "sys_ok U E v" "db_ok (en_lib E) d" "db_ext (sh_db (w_shared v)) d"
    and "db_ids d \<subseteq> ids_of (w_shared v) \<union> {u. sys_fresh E v u}"
    and "w' = \<lparr>w_shared = (w_shared v)\<lparr>sh_db := d\<rparr>, w_tick = w_tick v\<rparr>"
  shows "sys_ok U E w' \<and> sys_ext U v w'"
proof -
  have ok: "shared_ok (en_lib E) (w_shared v)" "env_ok U E" "\<forall>n \<ge> w_tick v. en_uuid E n \<notin> ids_of (w_shared v)"
    using assms(1) by (auto simp: sys_ok_def)
  note s = shared_ok_save [OF ok(1) assms(2,3)]
  have inj: "inj (en_uuid E)" using ok(2) by (simp add: env_ok_def)
  have ids: "en_uuid E n \<notin> db_ids d" if n: "n \<ge> w_tick v" for n
  proof
    assume "en_uuid E n \<in> db_ids d"
    with assms(4) ok(3) n have "sys_fresh E v (en_uuid E n)" by auto
    then obtain m where "m < w_tick v" "en_uuid E n = en_uuid E m" by (auto simp: sys_fresh_def)
    then have "n = m" using injD [OF inj] by blast
    with n \<open>m < w_tick v\<close> show False by simp
  qed
  have "sys_ok U E w'"
    unfolding sys_ok_def assms(5) using ids conjunct1 [OF s] ok(2) by simp
  moreover have "(db_ids d - ids_of (w_shared v)) \<inter> U = {}"
    using assms(4) ok(2) by (auto simp: sys_fresh_def env_ok_def)
  then have "sys_ext U v w'"
    unfolding sys_ext_def assms(5) using conjunct2 [OF s] by simp
  ultimately show ?thesis ..
qed

text \<open>A save that is applied, whether or not the process learns of it.\<close>

lemma sys_committed:
  assumes "sys_ok U E v" "sys_ready E v p"
    and "run_state (persist_rows E n p) (sh_db (w_shared v), k) = (Inr lastSeq, (dr, k1))"
    and "run_state (persist_events E n (p_ID p) lastSeq (p_events p)) (dr, k1) = (Inr (), (d2, k2))"
    and "w' = \<lparr>w_shared = (w_shared v)\<lparr>sh_db := d2\<rparr>, w_tick = w_tick v\<rparr>"
  shows "sys_ok U E w' \<and> sys_ext U v w' \<and>
    sys_held E w' (p\<lparr>p_events := [], p_Version := (if isNewPayment p then 1 else p_Version p + 1)\<rparr>)"
proof -
  have ok: "db_ok (en_lib E) (sh_db (w_shared v))" using assms(1) by (simp add: sys_ok_def shared_ok_def)
  note tx = save_tx [OF ok assms(2) [unfolded sys_ready_def] sys_unused refl assms(3,4)]
  then have "sys_ok U E w' \<and> sys_ext U v w'" using sys_save [OF assms(1) _ _ _ assms(5)] by blast
  with tx assms(5) show ?thesis by (simp add: sys_held_def)
qed

lemma run_Save_commit:
  assumes "s = en_others E (w_tick w) (w_shared w)" "en_fault E (w_tick w) 0 = None"
    and "run_state (persist_rows E (w_tick w) p) (sh_db s, 1) = (Inr lastSeq, dk)"
    and "run_state (persist_events E (w_tick w) (p_ID p) lastSeq (p_events p)) dk = (Inr u, (d2, k2))"
  shows "run_state (repo_Save E p) w =
    (case en_fault E (w_tick w) k2 of
       Some e \<Rightarrow> ((Some (Internal ''commit transaction'' (Some e)), p\<lparr>p_events := []\<rparr>),
                  \<lparr>w_shared = (if en_lost E (w_tick w) then s\<lparr>sh_db := d2\<rparr> else s), w_tick = w_tick w + 1\<rparr>)
     | None \<Rightarrow> ((None, p\<lparr>p_events := [], p_Version := (if isNewPayment p then 1 else p_Version p + 1)\<rparr>),
                \<lparr>w_shared = s\<lparr>sh_db := d2\<rparr>, w_tick = w_tick w + 1\<rparr>))"
  unfolding repo_Save_def run_act assms(1) [symmetric] assms(2) option.case assms(3) sum.case prod.case
    PopEvents_def Let_def assms(4)
  by (cases "en_fault E (w_tick w) k2") simp_all

lemma run_Save:
  assumes "sys_ok U E w" "sys_ready E w p" "run_state (repo_Save E p) w = ((err, p'), w')"
  shows "sys_ok U E w' \<and> sys_ext U w w' \<and> (err = None \<longrightarrow> sys_held E w' p' \<and> p_Refunds p' = p_Refunds p)"
proof -
  let ?n = "w_tick w"
  define s where "s = en_others E ?n (w_shared w)"
  define v where "v = \<lparr>w_shared = s, w_tick = ?n + 1\<rparr>"
  have v: "sys_ok U E v" "sys_quiet U E w v"
    using fair_quiet [OF assms(1) others_fair [OF assms(1)]] by (simp_all add: v_def s_def)
  then have wv: "sys_ext U w v" by (simp add: sys_quiet_def)
  have ready: "sys_ready E v p" by (rule sys_ready_quiet [OF assms(2) v(2)])
  have same: "sys_ok U E w' \<and> sys_ext U w w' \<and> (err = None \<longrightarrow> sys_held E w' p' \<and> p_Refunds p' = p_Refunds p)"
    if "w' = v" "err \<noteq> None" using that v wv by auto
  show ?thesis
  proof (cases "en_fault E ?n 0")
    case (Some e)
    then show ?thesis using assms(3) by (intro same) (auto simp: repo_Save_def run_act v_def s_def)
  next
    case None
    obtain r dr k1 where rows: "run_state (persist_rows E ?n p) (sh_db s, 1) = (r, (dr, k1))"
      by (metis surj_pair)
    show ?thesis
    proof (cases r)
      case (Inl e)
      then show ?thesis using assms(3) None rows
        by (intro same) (auto simp: repo_Save_def run_act v_def s_def)
    next
      case (Inr lastSeq)
      obtain r2 d2 k2 where evts:
        "run_state (persist_events E ?n (p_ID p) lastSeq (p_events p)) (dr, k1) = (r2, (d2, k2))"
        by (metis surj_pair)
      note eval = repo_Save_def run_act PopEvents_def
      show ?thesis
      proof (cases r2)
        case (Inl e)
        then show ?thesis using assms(3) None rows Inr evts
          by (intro same) (auto simp: eval v_def s_def)
      next
        case (Inr u)
        define w2 where "w2 = \<lparr>w_shared = (w_shared v)\<lparr>sh_db := d2\<rparr>, w_tick = w_tick v\<rparr>"
        have "sys_ok U E w2 \<and> sys_ext U v w2 \<and>
          sys_held E w2 (p\<lparr>p_events := [], p_Version := (if isNewPayment p then 1 else p_Version p + 1)\<rparr>)"
          by (rule sys_committed [OF v(1) ready _ _ w2_def, of ?n 1 lastSeq dr k1 k2])
             (use rows evts \<open>r = Inr lastSeq\<close> Inr in \<open>simp_all add: v_def\<close>)
        then have w2: "sys_ok U E w2" "sys_ext U w w2"
          "sys_held E w2 (p\<lparr>p_events := [], p_Version := (if isNewPayment p then 1 else p_Version p + 1)\<rparr>)"
          using wv sys_ext_trans by blast+
        note run = trans [OF assms(3) [symmetric]
          run_Save_commit [OF s_def None rows [unfolded \<open>r = Inr lastSeq\<close>] evts [unfolded Inr]]]
        consider "w' = v" "err \<noteq> None" | "w' = w2" "err \<noteq> None"
          | "w' = w2" "p' = p\<lparr>p_events := [], p_Version := (if isNewPayment p then 1 else p_Version p + 1)\<rparr>"
        proof (cases "en_fault E ?n k2")
          case None
          with run that(3) show thesis by (simp only: option.case prod.inject w2_def v_def world.simps simp_thms)
        next
          case (Some e)
          show thesis
          proof (cases "en_lost E ?n")
            case True
            with run Some that(2) show thesis
              by (simp only: option.case prod.inject w2_def v_def world.simps simp_thms if_True option.simps)
          next
            case False
            with run Some that(1) show thesis
              by (simp only: option.case prod.inject w2_def v_def world.simps simp_thms if_False option.simps)
          qed
        qed
        then show ?thesis
        proof cases
          case 1
          then show ?thesis by (rule same)
        next
          case 2
          with w2 show ?thesis by auto
        next
          case 3
          with w2 show ?thesis by simp
        qed
      qed
    qed
  qed
qed

section \<open>The other calls\<close>

lemma run_uuid:
  assumes "sys_ok U E w" "run_state (sys_NewUUID E) w = (uid, w')"
  shows "sys_ok U E w' \<and> sys_quiet U E w w' \<and> sys_fresh E w' uid"
proof -
  have w': "uid = en_uuid E (w_tick w)" "w_tick w' = w_tick w + 1"
    using assms(2) by (auto simp: sys_NewUUID_def run_act)
  have t: "sys_ok U E w' \<and> sys_quiet U E w w'"
    using assms(2) unfolding sys_NewUUID_def
    by (rule run_act_tame [OF assms(1)]) (simp add: tame_same)
  have "en_uuid E (w_tick w) \<notin> ids_of (w_shared w)" using assms(1) by (simp add: sys_ok_def)
  with t have "en_uuid E (w_tick w) \<notin> ids_of (w_shared w')" by (auto simp: sys_quiet_def)
  with t w' show ?thesis by (auto simp: sys_fresh_def)
qed

lemma run_now: "sys_ok U E w \<Longrightarrow> run_state (sys_Now E) w = (t, w') \<Longrightarrow> sys_ok U E w' \<and> sys_quiet U E w w'"
  unfolding sys_Now_def by (erule run_act_tame, assumption) (simp add: tame_same)

lemma factory_gateway: "remote_factory E ty = Inr gw \<Longrightarrow> gw = remote_gateway E"
  by (auto simp: remote_factory_def split: if_splits)

text \<open>A held payment's refunds are stored, so a gateway may be asked for them.\<close>

lemma held_refund:
  assumes "sys_held E w p" "r \<in> set (p_Refunds p)"
  shows "\<exists>x \<in> set (db_refunds (sh_db (w_shared w))). rw_ID x = r_ID r \<and> rw_Amount x = r_Amount r"
proof -
  have "known_refunds (sh_db (w_shared w)) (\<lambda>_. False) p" using assms(1) by (simp add: sys_held_def loaded_def)
  then have "rstatic r \<in> rwstatic ` set (db_refunds (sh_db (w_shared w)))"
    using assms(2) by (simp add: known_refunds_def)
  then show ?thesis by (auto simp: rstatic_def refund_of_row_def)
qed

lemma run_refund_call:
  assumes "sys_ok U E w" "sys_held E w p" "r \<in> set (p_Refunds p)"
    and "rq_RefundKey q = uuid_String (en_lib E) (r_ID r)" "rq_Amount q = r_Amount r"
    and "run_state (act E (\<lambda>n s. (en_refund E n q, log_call (CallRefund q (en_refund E n q)) s))) w = (x, w')"
  shows "sys_ok U E w' \<and> sys_quiet U E w w'"
proof -
  let ?s = "en_others E (w_tick w) (w_shared w)"
  let ?v = "\<lparr>w_shared = ?s, w_tick = w_tick w + 1\<rparr>"
  have fair: "fair_step (en_lib E) (range (en_uuid E) \<union> U) (w_shared w) ?s" by (rule others_fair [OF assms(1)])
  have v: "sys_quiet U E w ?v" using fair_quiet [OF assms(1) fair] by simp
  then have "sys_held E ?v p" using sys_held_ext [OF assms(2)] unfolding sys_quiet_def by blast
  from held_refund [OF this assms(3)] obtain x where
    "x \<in> set (db_refunds (sh_db ?s))" "rw_ID x = r_ID r" "rw_Amount x = r_Amount r" by auto
  then have known: "\<exists>x \<in> set (db_refunds (sh_db ?s)). rq_RefundKey q = uuid_String (en_lib E) (rw_ID x) \<and> rq_Amount q = rw_Amount x"
    using assms(4,5) by metis
  have "shared_ok (en_lib E) ?s" using fair by (simp add: fair_step_def)
  then have "fair_step (en_lib E) (range (en_uuid E) \<union> U) ?s (log_call (CallRefund q (en_refund E (w_tick w) q)) ?s)"
    by (rule fair_log) (use known in simp)
  then have "fair_step (en_lib E) (range (en_uuid E) \<union> U) (w_shared w) (log_call (CallRefund q (en_refund E (w_tick w) q)) ?s)"
    by (rule fair_step_trans [OF fair])
  from fair_quiet [OF assms(1) this] show ?thesis using assms(6) by (auto simp: run_act)
qed

lemma sys_ready_op:
  assumes "sys_ready E w p" "apply_op (en_lib E) op p = Inr p'" "\<not> op_requests op"
  shows "sys_ready E w p'"
  using assms unfolding sys_ready_def by (blast intro: loaded_op created_op)

lemma sys_held_request:
  assumes "sys_held E w p" "sys_fresh E w uid" "RequestRefund now uid ref a reason rb p = Inr (p', r)"
  shows "sys_ready E w p'"
proof -
  have "uid \<notin> ids_of (w_shared w)" using assms(2) by (simp add: sys_fresh_def)
  with assms have "loaded (en_lib E) (sh_db (w_shared w)) (sys_fresh E w) p'"
    unfolding sys_held_def by (intro loaded_request [where fr = "sys_fresh E w"])
  then show ?thesis by (simp add: sys_ready_def)
qed

lemmas pg_ports = pg_service_def pg_repo_def redis_adapter_def sys_runtime_def remote_gateway_def

section \<open>The contract holds\<close>

interpretation pg: handler_contract "pg_service E" "sys_ok U E" "sys_quiet U E" "sys_ext U" "sys_held E"
  "sys_ready E" "sys_fresh E" "\<lambda>w op p. True" "\<lambda>raw hdrs. True"
  for U E
proof (unfold_locales, goal_cases)
  case 1 then show ?case by (simp add: sys_quiet_def)
next
  case 2 show ?case by (rule sys_quiet_refl)
next
  case 3 then show ?case by (rule sys_quiet_trans)
next
  case 4 show ?case by (rule sys_ext_refl)
next
  case 5 then show ?case by (rule sys_ext_trans)
next
  case 6 then show ?case by (rule sys_held_ext)
next
  case 7 then show ?case by (rule sys_ready_quiet)
next
  case 8 then show ?case by (rule fresh_quiet_law)
next
  case (9 w p) then show ?case
    unfolding sys_held_def sys_ready_def by (blast intro: loaded_ext db_ext_refl)
next
  case 10 then show ?case unfolding sys_held_def by (auto intro: loaded_op simp: pg_ports)
next
  case 11 then show ?case by (auto intro: sys_ready_op simp: pg_ports)
next
  case 12 then show ?case by (rule sys_held_request)
next
  case 13 then show ?case unfolding sys_ready_def by (blast intro: created_New)
next
  case 14 then show ?case by (intro run_now) (simp_all add: pg_ports)
next
  case 15 then show ?case by (intro run_uuid) (simp_all add: pg_ports)
next
  case 16 then show ?case
    by (auto simp: pg_ports redis_Delete_def elim!: run_act_tame intro: tame_redis)
next
  case 17 then show ?case
    by (auto simp: pg_ports redis_SetNX_def elim!: run_act_tame intro: tame_redis)
next
  case 18 then show ?case by (auto simp: pg_ports dest: run_Record)
next
  case 19 then show ?case
    by (auto simp: pg_ports dest!: factory_gateway elim!: run_act_tame intro: tame_log)
next
  case 20 then show ?case
    by (auto simp: pg_ports dest!: factory_gateway elim!: run_act_tame intro: tame_log)
next
  case 21 then show ?case
    by (auto simp: pg_ports dest!: factory_gateway elim!: run_act_tame intro: tame_log)
next
  case (22 w ty gw p r rq res w')
  then have "gw = remote_gateway E" by (auto simp: pg_ports dest: factory_gateway)
  with 22 have "sys_ok U E w' \<and> sys_quiet U E w w'"
    by (intro run_refund_call [OF 22(1,3,4)]) (simp_all add: pg_ports)
  then show ?case by simp
next
  case 23 then show ?case using run_FindByID FindByID_names by (simp add: pg_ports) blast
next
  case 24 then show ?case using run_FindByReference by (fastforce simp: pg_ports)
next
  case 25 then show ?case using run_FindByTx FindByTx_names by (simp add: pg_ports) blast
next
  case 26 then show ?case by (intro run_FindExpired) (simp_all add: pg_ports)
next
  case 27 then show ?case by (intro run_FindAwaiting) (simp_all add: pg_ports)
next
  case 28 then show ?case by (intro run_FindPendingRefunds) (simp_all add: pg_ports)
next
  case 29 then show ?case by (intro run_Save) (simp_all add: pg_ports)
qed simp_all

end
