(* ===== verification/View_Laws.thy ===== *)
theory View_Laws
  imports Queries
begin

text \<open>
  The view of a payment as JSON: its fields, one by one, and the round trip through the cache.
  Only an empty metadata object does not come back (\<open>omitempty\<close> drops it).
\<close>

definition plain_key :: "string \<Rightarrow> bool" where
  "plain_key k \<longleftrightarrow> list_all (\<lambda>c. lower_char c = c \<and> c \<noteq> CHR 0xC5 \<and> c \<noteq> CHR 0xE2) k"

lemma json_field_nil [simp]: "json_field [] k = None"
  by (simp add: json_field_def)

lemma json_field_append:
  "json_field (xs @ ys) k = (case json_field ys k of None \<Rightarrow> json_field xs k | Some v \<Rightarrow> Some v)"
  by (auto simp: json_field_def find_append split: option.splits)

lemma json_field_one: "plain_key k' \<Longrightarrow> plain_key k \<Longrightarrow>
  json_field [(k', v)] k = (if k' = k \<and> v \<noteq> JNull then Some v else None)"
  by (auto simp: json_field_def plain_key_def str_EqualFold_def fold_str_id)

lemma json_field_cons: "plain_key k' \<Longrightarrow> plain_key k \<Longrightarrow>
  json_field ((k', v) # xs) k =
    (case json_field xs k of None \<Rightarrow> if k' = k \<and> v \<noteq> JNull then Some v else None | Some u \<Rightarrow> Some u)"
  using json_field_append [of "[(k', v)]" xs k] by (auto simp: json_field_one split: option.splits)

lemma json_field_omit:
  "plain_key k' \<Longrightarrow> plain_key k \<Longrightarrow> json_field (omit_str k' s) k = (if k' = k \<and> s \<noteq> [] then Some (JStr s) else None)"
  "plain_key k' \<Longrightarrow> plain_key k \<Longrightarrow> json_field (omit_time k' t) k = (if k' = k then map_option JTime t else None)"
  "plain_key k' \<Longrightarrow> plain_key k \<Longrightarrow> json_field (omit_map k' m) k =
     (if k' = k then (case m of None \<Rightarrow> None | Some [] \<Rightarrow> None | Some (x # xs) \<Rightarrow> Some (JObj (x # xs))) else None)"
  by (auto simp: omit_str_def omit_time_def omit_map_def json_field_one split: option.splits list.splits)

lemma view_keys:
  "plain_key ''id''" "plain_key ''reference_id''" "plain_key ''caller_service''" "plain_key ''status''"
  "plain_key ''gateway''" "plain_key ''gateway_transaction_id''" "plain_key ''amount''" "plain_key ''currency''"
  "plain_key ''payment_method_type''" "plain_key ''customer''" "plain_key ''metadata''"
  "plain_key ''description''" "plain_key ''expired_at''" "plain_key ''paid_at''" "plain_key ''created_at''"
  "plain_key ''updated_at''"
  by code_simp+

lemmas view_fields = json_field_append json_field_one json_field_cons json_field_omit view_keys
  get_string_def get_int64_def get_time_def get_time_ptr_def get_map_def dec_time_def

definition drop_empty :: "jobj option \<Rightarrow> jobj option" where
  "drop_empty m = (if m = Some [] then None else m)"

lemma view_obj_fields:
  "get_string (view_obj d) ''id'' = Some (pd_ID d)"
  "get_string (view_obj d) ''reference_id'' = Some (pd_ReferenceID d)"
  "get_string (view_obj d) ''caller_service'' = Some (pd_CallerService d)"
  "get_string (view_obj d) ''status'' = Some (pd_Status d)"
  "get_string (view_obj d) ''gateway'' = Some (pd_GatewayType d)"
  "get_string (view_obj d) ''gateway_transaction_id'' = Some (pd_GatewayTransactionID d)"
  "get_int64 (view_obj d) ''amount'' = Some (pd_Amount d)"
  "get_string (view_obj d) ''currency'' = Some (pd_Currency d)"
  "get_string (view_obj d) ''payment_method_type'' = Some (pd_PaymentMethodType d)"
  "get_map (view_obj d) ''customer'' = Some (pd_CustomerInfo d)"
  "get_map (view_obj d) ''metadata'' = Some (drop_empty (pd_Metadata d))"
  "get_string (view_obj d) ''description'' = Some (pd_Description d)"
  "get_time_ptr (view_obj d) ''expired_at'' = Some (pd_ExpiredAt d)"
  "get_time_ptr (view_obj d) ''paid_at'' = Some (pd_PaidAt d)"
  "get_time (view_obj d) ''created_at'' = Some (pd_CreatedAt d)"
  "get_time (view_obj d) ''updated_at'' = Some (pd_UpdatedAt d)"
  by (simp_all add: view_obj_def view_fields json_int64_def parse_int64_str drop_empty_def
      split: option.splits list.splits)

lemma unmarshal_marshal:
  "marshal_dto d = Some j \<Longrightarrow>
   unmarshal_dto (JsonText j) = Some (d\<lparr>pd_Metadata := drop_empty (pd_Metadata d)\<rparr>)"
  by (auto simp: marshal_dto_def unmarshal_dto_def view_obj_fields split: if_splits)
end
