(* ===== verification/Query_Contract.thy ===== *)
theory Query_Contract
  imports Handler_Safety View_Laws
begin

text \<open>
  The interface of the queries: that of the commands, and a relation \<open>view\<close> between a world, a
  cache key and the views that may stand under it. Whatever the cache holds for a key is such a
  view, and so is what the repository finds for it; \<open>view\<close> lasts. Then so is what a query answers.
\<close>

locale query_contract = handler_contract S I quiet ext held ready fresh backed heard
  for S :: "'w service" and I quiet ext held ready fresh backed heard +
  fixes view :: "'w \<Rightarrow> string \<Rightarrow> payment_dto \<Rightarrow> bool"
  assumes view_ext: "view w k dto \<Longrightarrow> ext w w' \<Longrightarrow> view w' k dto"
    and view_plain: "view w k dto \<Longrightarrow> view w k (dto\<lparr>pd_Metadata := drop_empty (pd_Metadata dto)\<rparr>)"
    and Get_law: "I w \<Longrightarrow> run_state (cp_Get (sv_cache S) k) w = (c, w') \<Longrightarrow>
      I w' \<and> quiet w w' \<and>
      (\<not> idem_key k \<longrightarrow> (\<forall>text dto. c = Inr text \<longrightarrow> unmarshal_dto text = Some dto \<longrightarrow> view w' k dto))"
    and Set_law: "I w \<Longrightarrow> (\<And>dto w'. unmarshal_dto text = Some dto \<Longrightarrow> ext w w' \<Longrightarrow> view w' k dto) \<Longrightarrow>
      run_state (cp_Set (sv_cache S) k text ttl) w = (e, w') \<Longrightarrow> I w' \<and> quiet w w'"
    and FindByID_view: "I w \<Longrightarrow> run_state (rp_FindByID (sv_repo S) uid) w = (Inr p, w') \<Longrightarrow>
      view w' (PaymentCacheKey (uuid_String (lib S) uid)) (toDTO (lib S) p)"
    and FindByReference_view: "I w \<Longrightarrow>
      run_state (rp_FindByReference (sv_repo S) ref caller) w = (Inr p, w') \<Longrightarrow>
      view w' (ReferenceCacheKey caller ref) (toDTO (lib S) p)"
    and List_law: "I w \<Longrightarrow> run_state (rp_ListPaginated (sv_repo S) f) w = (fs, w') \<Longrightarrow>
      I w' \<and> quiet w w' \<and> (\<forall>ps. fs = Inr ps \<longrightarrow> (\<forall>p \<in> set ps.
        view w' (PaymentCacheKey (uuid_String (lib S) (p_ID p))) (toDTO (lib S) p) \<and>
        (lf_CallerService f \<noteq> [] \<longrightarrow> p_CallerService p = lf_CallerService f)))"
begin

lemma call_cached_view:
  assumes find: "\<And>w r w'. I w \<Longrightarrow> run_state look w = (r, w') \<Longrightarrow>
      I w' \<and> quiet w w' \<and> (\<forall>p. r = Inr p \<longrightarrow> view w' key (toDTO (lib S) p))"
    and key: "\<not> idem_key key"
  shows "call (\<lambda>_. True) (cached_view S ttlFn key look) (\<lambda>r w'. \<forall>dto. r = Inr dto \<longrightarrow> view w' key dto)"
proof (rule callI)
  fix w r w'
  assume w: "I w" and run: "run_state (cached_view S ttlFn key look) w = (r, w')"
  obtain raw w1 where get: "run_state (cp_Get (sv_cache S) key) w = (raw, w1)" by fastforce
  note g = Get_law [OF w get]
  let ?hit = "case raw of Inl _ \<Rightarrow> None | Inr text \<Rightarrow> unmarshal_dto text"
  show "I w' \<and> ext w w' \<and> (\<forall>dto. r = Inr dto \<longrightarrow> view w' key dto)"
  proof (cases ?hit)
    case (Some dto)
    then have r: "r = Inr dto" "w' = w1" using run get by (auto simp: cached_view_def)
    from Some obtain c where "raw = Inr c" "unmarshal_dto c = Some dto"
      by (auto split: sum.splits)
    with g r key show ?thesis by (auto intro: quiet_ext)
  next
    case None
    obtain f w2 where look: "run_state look w1 = (f, w2)" by fastforce
    note f = find [OF g [THEN conjunct1] look]
    have ext2: "ext w w2" using g f ext_trans quiet_ext by blast
    show ?thesis
    proof (cases f)
      case (Inl e)
      then have "r = Inl e" "w' = w2" using run get None look by (auto simp: cached_view_def)
      with f ext2 show ?thesis by simp
    next
      case (Inr p)
      let ?dto = "toDTO (lib S) p"
      have view: "view w2 key ?dto" using f Inr by simp
      show ?thesis
      proof (cases "marshal_dto ?dto")
        case None
        then have "r = Inr ?dto" "w' = w2" using run get \<open>?hit = None\<close> look Inr by (auto simp: cached_view_def Let_def)
        with f ext2 view show ?thesis by simp
      next
        case (Some j)
        obtain e w3 where set: "run_state (cp_Set (sv_cache S) key (JsonText j) (ttlFn (p_Status p))) w2 = (e, w3)"
          by fastforce
        have r: "r = Inr ?dto" "w' = w3"
          using run get \<open>?hit = None\<close> look Inr Some set by (auto simp: cached_view_def Let_def)
        have "I w3 \<and> quiet w2 w3"
        proof (rule Set_law [OF _ _ set])
          fix dto v
          assume "unmarshal_dto (JsonText j) = Some dto" "ext w2 v"
          then show "view v key dto" using view_plain [OF view_ext [OF view]] unmarshal_marshal [OF Some] by auto
        qed (use f in simp)
        with ext2 view r show ?thesis using view_ext ext_trans quiet_ext by blast
      qed
    qed
  qed
qed

lemma GetPayment_load_view:
  "call (\<lambda>_. True) (GetPayment_load S ttlFn uid)
     (\<lambda>r w'. \<forall>dto. r = Inr dto \<longrightarrow> view w' (PaymentCacheKey (uuid_String (lib S) uid)) dto)"
  unfolding GetPayment_load_def
  by (rule call_cached_view) (use FindByID_law FindByID_view view_key_not_idem in blast)+

lemma GetPayment_view:
  "call (\<lambda>_. True) (GetPayment_Handle S ttlFn q)
     (\<lambda>r w'. \<forall>dto. r = Inr dto \<longrightarrow>
        view w' (PaymentCacheKey (uuid_String (lib S) (gq_ID q))) dto \<and>
        (gq_Admin q \<or> pd_CallerService dto = gq_CallerService q))"
  unfolding GetPayment_Handle_def
  by (rule call_bindE [OF GetPayment_load_view]) (auto intro!: call_return)

lemma GetByRef_view:
  "call (\<lambda>_. True) (GetByRef_Handle S ttlFn ref caller)
     (\<lambda>r w'. \<forall>dto. r = Inr dto \<longrightarrow> view w' (ReferenceCacheKey caller ref) dto)"
proof -
  have "call (\<lambda>_. True) (cached_view S ttlFn (ReferenceCacheKey caller ref) (rp_FindByReference (sv_repo S) ref caller))
     (\<lambda>r w'. \<forall>dto. r = Inr dto \<longrightarrow> view w' (ReferenceCacheKey caller ref) dto)"
    by (rule call_cached_view) (use FindByReference_law FindByReference_view view_key_not_idem in blast)+
  then show ?thesis by (auto simp: GetByRef_Handle_def call_return)
qed

text \<open>A page holds views of stored payments, of the caller the filter names.\<close>

lemma page_views: "lr_Payments (page_result L limit ps) = map (toDTO L) (if int (length ps) > limit then take (nat limit) ps else ps)"
  by (simp add: page_result_def Let_def)

lemma listPage_view:
  "call (\<lambda>_. True) (listPage S f cursor limit)
     (\<lambda>r w'. \<forall>res. r = Inr res \<longrightarrow> (\<forall>dto \<in> set (lr_Payments res).
        view w' (PaymentCacheKey (pd_ID dto)) dto \<and>
        (lf_CallerService f \<noteq> [] \<longrightarrow> pd_CallerService dto = lf_CallerService f)))"
proof (rule callI)
  fix w r w'
  assume w: "I w" and run: "run_state (listPage S f cursor limit) w = (r, w')"
  show "I w' \<and> ext w w' \<and> (\<forall>res. r = Inr res \<longrightarrow> (\<forall>dto \<in> set (lr_Payments res).
        view w' (PaymentCacheKey (pd_ID dto)) dto \<and>
        (lf_CallerService f \<noteq> [] \<longrightarrow> pd_CallerService dto = lf_CallerService f)))"
  proof (cases "decodeCursor (lib S) cursor")
    case (Inl e)
    with run w show ?thesis by (auto simp: listPage_def ext_refl)
  next
    case (Inr after)
    obtain g v where g: "run_state (rp_ListPaginated (sv_repo S) (f\<lparr>lf_After := after, lf_Limit := limit + 1\<rparr>)) w = (g, v)"
      by fastforce
    note l = List_law [OF w g]
    have "w' = v" "r = map_sum id (page_result (lib S) limit) g"
      using run Inr g by (auto simp: listPage_def map_sum_def split: sum.splits)
    with l show ?thesis
      by (cases g) (auto simp: page_views toDTO_def intro: quiet_ext dest!: in_set_takeD)
  qed
qed

lemma ListPayments_view:
  "call (\<lambda>_. True) (ListPayments_Handle S q)
     (\<lambda>r w'. \<forall>res. r = Inr res \<longrightarrow> (\<forall>dto \<in> set (lr_Payments res).
        view w' (PaymentCacheKey (pd_ID dto)) dto \<and> pd_CallerService dto = lq_CallerService q))"
proof (cases "lq_CallerService q = []")
  case True
  then show ?thesis by (simp add: ListPayments_Handle_def call_return)
next
  case False
  then show ?thesis
    using call_post [OF listPage_view [of "list_query_filter q"]]
    by (simp add: ListPayments_Handle_def list_query_filter_def)
qed

lemma AdminList_view:
  "call (\<lambda>_. True) (AdminListPayments_Handle S q)
     (\<lambda>r w'. \<forall>res. r = Inr res \<longrightarrow> (\<forall>dto \<in> set (lr_Payments res). view w' (PaymentCacheKey (pd_ID dto)) dto))"
  unfolding AdminListPayments_Handle_def by (rule call_post [OF listPage_view]) auto

lemma ListRefunds_view:
  "call (\<lambda>_. True) (ListRefunds_Handle S uid caller)
     (\<lambda>r w'. \<forall>p. r = Inr p \<longrightarrow> held w' p \<and> p_CallerService p = caller)"
proof (rule callI)
  fix w r w'
  assume w: "I w" and run: "run_state (ListRefunds_Handle S uid caller) w = (r, w')"
  obtain f v where f: "run_state (rp_FindByID (sv_repo S) uid) w = (f, v)" by fastforce
  show "I w' \<and> ext w w' \<and> (\<forall>p. r = Inr p \<longrightarrow> held w' p \<and> p_CallerService p = caller)"
    using FindByID_law [OF w f] run f
    by (cases f) (auto simp: ListRefunds_Handle_def intro: quiet_ext split: if_splits)
qed

lemma query_safe:
  "safe (GetPayment_Handle S ttlFn q)" "safe (GetByRef_Handle S ttlFn ref caller)"
  "safe (ListPayments_Handle S lq)" "safe (AdminListPayments_Handle S aq)" "safe (ListRefunds_Handle S uid caller)"
  by (rule call_post [OF GetPayment_view] call_post [OF GetByRef_view] call_post [OF ListPayments_view]
      call_post [OF AdminList_view] call_post [OF ListRefunds_view], simp)+

end

end
