(* ===== verification/Pg_Query_Laws.thy ===== *)
theory Pg_Query_Laws
  imports Pg_Service_Laws Query_Contract
begin

text \<open>
  PostgreSQL and Redis satisfy \<open>query_contract\<close>: a view of a key shows a stored payment to which the
  key belongs.
\<close>

definition pg_view :: "env \<Rightarrow> world \<Rightarrow> string \<Rightarrow> payment_dto \<Rightarrow> bool" where
  "pg_view E w k dto \<longleftrightarrow> shown (en_lib E) (sh_db (w_shared w)) k dto"

lemma pg_view_ext: "pg_view E w k dto \<Longrightarrow> sys_ext U w w' \<Longrightarrow> pg_view E w' k dto"
  by (auto simp: pg_view_def sys_ext_def shared_ext_def intro: shown_ext)

lemma pg_view_row:
  assumes "row \<in> set (db_payments d)" "db_ext d (sh_db (w_shared w))" "k \<in> cache_keys (en_lib E) row"
    and "p_ID p = pr_ID row" "p_ReferenceID p = pr_ReferenceID row" "p_CallerService p = pr_CallerService row"
    and "m_Amount (p_Amount p) = pr_Amount row"
  shows "pg_view E w k (toDTO (en_lib E) p)"
proof -
  have "dto_of_row (en_lib E) (toDTO (en_lib E) p) row"
    using assms(4-7) by (simp add: dto_of_row_def) (simp add: toDTO_def)
  with assms(1,3) have "shown (en_lib E) d k (toDTO (en_lib E) p)" unfolding shown_def by blast
  then show ?thesis using assms(2) by (simp add: pg_view_def shown_ext)
qed

lemma run_Get:
  assumes "sys_ok U E w" "run_state (redis_Get E k) w = (c, w')"
  shows "sys_ok U E w' \<and> sys_quiet U E w w' \<and>
     (\<forall>v dto. c = Inr v \<longrightarrow> unmarshal_dto v = Some dto \<longrightarrow> \<not> idem_key k \<longrightarrow> pg_view E w' k dto)"
proof -
  have one: "sys_ok U E w' \<and> sys_quiet U E w w'"
    by (rule run_act_tame [OF assms(1) assms(2) [unfolded redis_Get_def]]) (rule tame_same, simp)
  have "pg_view E w' k dto" if v: "c = Inr v" "unmarshal_dto v = Some dto" "\<not> idem_key k" for v dto
  proof -
    have "\<exists>t. sh_cache (w_shared w') k = Some (v, t)"
      using assms(2) v(1) by (auto simp: redis_Get_def run_act redis_live_def split: option.splits if_splits)
    moreover have "cache_ok (en_lib E) (w_shared w')" using one by (simp add: sys_ok_def shared_ok_def)
    ultimately show ?thesis using v(2,3) unfolding cache_ok_def pg_view_def by blast
  qed
  with one show ?thesis by blast
qed

lemma run_Set:
  assumes "sys_ok U E w" "run_state (redis_Set E k v ttl) w = (e, w')"
    and view: "\<And>dto w'. unmarshal_dto v = Some dto \<Longrightarrow> sys_ext U w w' \<Longrightarrow> pg_view E w' k dto"
  shows "sys_ok U E w' \<and> sys_quiet U E w w'"
proof -
  let ?s = "en_others E (w_tick w) (w_shared w)"
  have fair: "fair_step (en_lib E) (range (en_uuid E) \<union> U) (w_shared w) ?s" by (rule others_fair [OF assms(1)])
  then have ok: "shared_ok (en_lib E) ?s" "sys_ext U w \<lparr>w_shared = ?s, w_tick = w_tick w\<rparr>"
    by (auto simp: fair_step_def sys_ext_def)
  obtain s' where s': "w' = \<lparr>w_shared = s', w_tick = w_tick w + 1\<rparr>"
    "s' = ?s \<or> s' = redis_put (en_time E (w_tick w)) k v ttl ?s"
    using assms(2) by (auto simp: redis_Set_def run_act split: option.splits)
  have "fair_step (en_lib E) (range (en_uuid E) \<union> U) ?s (redis_put (en_time E (w_tick w)) k v ttl ?s)"
    using view [OF _ ok(2)] by (intro fair_put ok(1)) (simp add: pg_view_def)
  with s'(2) fair have "fair_step (en_lib E) (range (en_uuid E) \<union> U) (w_shared w) s'"
    using fair_step_trans by blast
  from fair_quiet [OF assms(1) this] show ?thesis using s'(1) by simp
qed

lemma run_withRefunds_view:
  assumes "sys_ok U E w" "row \<in> set (db_payments (sh_db (w_shared w)))"
    and "run_state (withRefunds E row) w = (Inr p, w')" "k \<in> cache_keys (en_lib E) row"
  shows "pg_view E w' k (toDTO (en_lib E) p)"
proof (cases "toDomain row")
  case (Inl e)
  with assms show ?thesis by (simp add: withRefunds_def)
next
  case (Inr p0)
  then obtain rs where p: "p = p0\<lparr>p_Refunds := rs\<rparr>"
    using assms(3) by (auto simp: withRefunds_def map_sum_def split: sum.splits prod.splits)
  have "db_ext (sh_db (w_shared w)) (sh_db (w_shared w'))"
    using run_withRefunds [OF assms(1-3)] by (auto simp: sys_quiet_def sys_ext_def shared_ext_def)
  then show ?thesis
    using toDomain_fields [OF Inr] by (intro pg_view_row [OF assms(2) _ assms(4)]) (simp_all add: p)
qed

lemma run_find_view:
  assumes "sys_ok U E w"
    and "run_state (bindE (mapE g (query_row E f)) (withRefunds E)) w = (Inr p, w')"
    and "\<And>d row. f d = Some row \<Longrightarrow> row \<in> set (db_payments d) \<and> k \<in> cache_keys (en_lib E) row"
  shows "pg_view E w' k (toDTO (en_lib E) p)"
proof -
  obtain q v where q: "run_state (query_row E f) w = (q, v)" by fastforce
  note rq = run_query_row [OF assms(1) q]
  obtain row where row: "q = Inr row" "run_state (withRefunds E row) v = (Inr p, w')"
    using assms(2) q by (cases q) auto
  from assms(3) [OF rq(3) [OF row(1)]] show ?thesis
    using run_withRefunds_view [OF rq(1) _ row(2)] by blast
qed

lemma run_FindByID_view:
  assumes "sys_ok U E w" "run_state (repo_FindByID E uid) w = (Inr p, w')"
  shows "pg_view E w' (PaymentCacheKey (uuid_String (en_lib E) uid)) (toDTO (en_lib E) p)"
  by (rule run_find_view [OF assms(1) assms(2) [unfolded repo_FindByID_def]])
     (auto simp: GetPaymentByID_def cache_keys_def dest: find_mem)

lemma run_FindByReference_view:
  assumes "sys_ok U E w" "run_state (repo_FindByReference E ref caller) w = (Inr p, w')"
  shows "pg_view E w' (ReferenceCacheKey caller ref) (toDTO (en_lib E) p)"
  by (rule run_find_view [OF assms(1) assms(2) [unfolded repo_FindByReference_def]])
     (auto simp: GetPaymentByReference_def cache_keys_def dest: find_mem)

lemma toDomains_mem:
  "toDomains rows = Inr ps \<Longrightarrow> p \<in> set ps \<Longrightarrow> \<exists>row \<in> set rows. toDomain row = Inr p"
  by (induction rows arbitrary: ps) (auto split: sum.splits)

lemma list_query_mem: "row \<in> set (list_query f d) \<Longrightarrow> row \<in> set (db_payments d) \<and> list_where f row"
  by (auto simp: list_query_def limited_def newest_first_def dest!: in_set_takeD)

lemma run_ListPaginated:
  assumes "sys_ok U E w" "run_state (repo_ListPaginated E f) w = (r, w')"
  shows "sys_ok U E w' \<and> sys_quiet U E w w' \<and> (\<forall>ps. r = Inr ps \<longrightarrow> (\<forall>p \<in> set ps.
     pg_view E w' (PaymentCacheKey (uuid_String (en_lib E) (p_ID p))) (toDTO (en_lib E) p) \<and>
     (lf_CallerService f \<noteq> [] \<longrightarrow> p_CallerService p = lf_CallerService f)))"
proof -
  obtain q v where q: "run_state (query E (\<lambda>n. list_query f)) w = (q, v)" by fastforce
  note rq = run_query [OF assms(1) q]
  have w': "w' = v" "r = (case q of Inl e \<Rightarrow> Inl (Internal ''list payments'' (Some e)) | Inr rows \<Rightarrow> toDomains rows)"
    using assms(2) q by (auto simp: repo_ListPaginated_def map_sum_def split: sum.splits)
  have "pg_view E w' (PaymentCacheKey (uuid_String (en_lib E) (p_ID p))) (toDTO (en_lib E) p) \<and>
     (lf_CallerService f \<noteq> [] \<longrightarrow> p_CallerService p = lf_CallerService f)"
    if r: "r = Inr ps" and p: "p \<in> set ps" for ps p
  proof -
    obtain rows where rows: "q = Inr rows" "toDomains rows = Inr ps" using r w'(2) by (cases q) auto
    obtain row where row: "row \<in> set rows" "toDomain row = Inr p"
      using toDomains_mem [OF rows(2) p] by blast
    have mem: "row \<in> set (db_payments (sh_db (w_shared w')))" "list_where f row"
      using list_query_mem [of row f] row(1) rq(3) [OF rows(1)] w'(1) by auto
    note fields = toDomain_fields [OF row(2)]
    have "pg_view E w' (PaymentCacheKey (uuid_String (en_lib E) (p_ID p))) (toDTO (en_lib E) p)"
      by (rule pg_view_row [OF mem(1) db_ext_refl]) (use fields in \<open>simp_all add: cache_keys_def\<close>)
    with mem(2) fields(3) show ?thesis by (simp add: list_where_def)
  qed
  with rq(1,2) w'(1) show ?thesis by blast
qed

interpretation pgq: query_contract "pg_service E" "sys_ok U E" "sys_quiet U E" "sys_ext U" "sys_held E"
  "sys_ready E" "sys_fresh E" "\<lambda>w op p. True" "\<lambda>raw hdrs. True" "pg_view E"
  for U E
proof (unfold_locales, goal_cases)
  case 1 then show ?case by (rule pg_view_ext)
next
  case 2 then show ?case by (simp add: pg_view_def shown_def dto_of_row_def)
next
  case 3 then show ?case by (auto simp: pg_ports dest: run_Get)
next
  case (4 w v k ttl e w')
  have "run_state (redis_Set E k v ttl) w = (e, w')" using 4(3) by (simp add: pg_ports)
  from run_Set [OF 4(1) this 4(2)] show ?case .
next
  case 5 then show ?case by (simp add: pg_ports run_FindByID_view)
next
  case 6 then show ?case by (simp add: pg_ports run_FindByReference_view)
next
  case (7 w f fs w') 
  have "run_state (repo_ListPaginated E f) w = (fs, w')" using 7(2) by (simp add: pg_ports)
  from run_ListPaginated [OF 7(1) this] show ?case by (simp add: pg_ports)
qed

end
