(* ===== verification/Api_Keys.thy ===== *)
theory Api_Keys
  imports Go_Json Encoding App_Error Ports
begin

text \<open>
  Who is calling: \<open>internal/pkg/apikey\<close> (keys, their hashes, the configured table of hashes) and the
  two authentication middlewares, \<open>middleware/caller_auth.go\<close> and \<open>middleware/admin_auth.go\<close>.
\<close>

section \<open>Keys\<close>

definition apikey_Prefix :: string where "apikey_Prefix = ''pgk_''"

text \<open>\<open>Generate\<close>, given the 32 random bytes.\<close>

definition apikey_Generate :: "nat list \<Rightarrow> string" where
  "apikey_Generate b = apikey_Prefix @ base64_encode (string_of b)"

definition apikey_Hash :: "string \<Rightarrow> string" where
  "apikey_Hash key = sha256_hex key"

text \<open>\<open>strings.Split\<close> with a separator of one byte.\<close>

fun str_Split :: "string \<Rightarrow> char \<Rightarrow> string list" where
  "str_Split [] c = [[]]"
| "str_Split (x # s) c =
     (if x = c then [] # str_Split s c
      else (case str_Split s c of [] \<Rightarrow> [[x]] | p # ps \<Rightarrow> (x # p) # ps))"

text \<open>
  The verb \<open>%q\<close>: \<open>strconv.Quote\<close>, byte by byte; a byte outside ASCII is taken for a part of a printable
  rune.
\<close>

definition quote_char :: "char \<Rightarrow> string" where
  "quote_char c =
     (let n = of_char c :: nat; hex = ''0123456789abcdef''
      in if n = 34 \<or> n = 92 then [CHR 0x5C, c]
         else if n = 7 then [CHR 0x5C, CHR ''a''] else if n = 8 then [CHR 0x5C, CHR ''b'']
         else if n = 9 then [CHR 0x5C, CHR ''t''] else if n = 10 then [CHR 0x5C, CHR ''n'']
         else if n = 11 then [CHR 0x5C, CHR ''v''] else if n = 12 then [CHR 0x5C, CHR ''f'']
         else if n = 13 then [CHR 0x5C, CHR ''r'']
         else if n < 32 \<or> n = 127 then [CHR 0x5C, CHR ''x'', hex ! (n div 16), hex ! (n mod 16)]
         else [c])"

definition str_Quote :: "string \<Rightarrow> string" where
  "str_Quote s = [CHR 0x22] @ concat (map quote_char s) @ [CHR 0x22]"

text \<open>One turn of the loop of \<open>ParseHashes\<close>.\<close>

definition parse_entry :: "string \<Rightarrow> goerr + (string \<times> string)" where
  "parse_entry entry =
     (case str_Cut entry (CHR '':'') of
        (a, b, ok) \<Rightarrow>
          let service = str_TrimSpace a; hash = str_ToLower (str_TrimSpace b)
          in if \<not> ok \<or> service = [] then Inl (ErrorsNew (''entry '' @ str_Quote entry @ '': want service:sha256hex''))
             else (case hex_decode hash of
                 None \<Rightarrow> Inl (ErrorsNew (''entry for '' @ str_Quote service @ '': hash must be 64 hex characters (SHA-256)''))
               | Some bs \<Rightarrow>
                   if length bs \<noteq> 32
                   then Inl (ErrorsNew (''entry for '' @ str_Quote service @ '': hash must be 64 hex characters (SHA-256)''))
                   else Inr (service, hash)))"

definition add_entry :: "string \<Rightarrow> (string \<rightharpoonup> string) \<Rightarrow> goerr + (string \<rightharpoonup> string)" where
  "add_entry entry tbl =
     (let entry = str_TrimSpace entry
      in if entry = [] then Inr tbl
         else (case parse_entry entry of
             Inl e \<Rightarrow> Inl e
           | Inr (service, hash) \<Rightarrow>
               (case tbl hash of
                  Some other \<Rightarrow>
                    if other \<noteq> service
                    then Inl (ErrorsNew (''the same key hash is configured for both '' @ str_Quote other @ '' and '' @ str_Quote service))
                    else Inr (tbl(hash \<mapsto> service))
                | None \<Rightarrow> Inr (tbl(hash \<mapsto> service)))))"

fun add_entries :: "string list \<Rightarrow> (string \<rightharpoonup> string) \<Rightarrow> goerr + (string \<rightharpoonup> string)" where
  "add_entries [] tbl = Inr tbl"
| "add_entries (e # es) tbl =
     (case add_entry e tbl of Inl err \<Rightarrow> Inl err | Inr tbl \<Rightarrow> add_entries es tbl)"

definition ParseHashes :: "string \<Rightarrow> goerr + (string \<rightharpoonup> string)" where
  "ParseHashes s = add_entries (str_Split s (CHR '','')) Map.empty"

section \<open>The caller\<close>

text \<open>\<open>http.Header.Get\<close>: the first value of a header, or the empty string.\<close>

definition Header_Get :: "headers \<Rightarrow> string \<Rightarrow> string" where
  "Header_Get hs k = (case map_of hs k of Some (v # vs) \<Rightarrow> v | _ \<Rightarrow> [])"

definition bearerToken :: "headers \<Rightarrow> string \<times> bool" where
  "bearerToken hs =
     (case str_Cut (Header_Get hs ''Authorization'') (CHR '' '') of
        (scheme, token, ok) \<Rightarrow>
          if \<not> ok \<or> \<not> str_EqualFold scheme ''Bearer'' then ([], False)
          else (str_TrimSpace token, str_TrimSpace token \<noteq> []))"

text \<open>\<open>CallerAuth\<close>: the error it answers, or the service whose key the request carries.\<close>

definition CallerAuth :: "(string \<rightharpoonup> string) \<Rightarrow> headers \<Rightarrow> goerr + string" where
  "CallerAuth keyHashes hs =
     (let (key, ok) = bearerToken hs;
          service = (if ok then (case keyHashes (apikey_Hash key) of Some s \<Rightarrow> s | None \<Rightarrow> []) else []);
          claimed = Header_Get hs ''X-Service-Name''
      in if service = [] then Inl (Unauthorized ''missing or invalid API key; send Authorization: Bearer <key>'')
         else if claimed \<noteq> [] \<and> claimed \<noteq> service
         then Inl (Forbidden ''X-Service-Name does not match the service this API key belongs to'')
         else Inr service)"

definition AdminAuth :: "string \<Rightarrow> headers \<Rightarrow> goerr + unit" where
  "AdminAuth adminKey hs =
     (let want = sha256 adminKey; got = sha256 (Header_Get hs ''X-Admin-Key'')
      in if adminKey = [] \<or> got \<noteq> want then Inl (Unauthorized ''invalid or missing admin key'') else Inr ())"

section \<open>Issuing a key\<close>

text \<open>
  \<open>cmd/apikey\<close>: its arguments, the program's name first, and the random bytes or the error of
  \<open>crypto/rand\<close>; what it prints and its exit status.
\<close>

record cmd_result =
  cmd_Exit :: int
  cmd_Stdout :: string
  cmd_Stderr :: string

definition newline :: string where "newline = [CHR 0x0A]"

definition str_ContainsAny :: "string \<Rightarrow> string \<Rightarrow> bool" where
  "str_ContainsAny s chars \<longleftrightarrow> list_ex (\<lambda>c. c \<in> set chars) s"

definition apikey_usage :: string where
  "apikey_usage = ''usage: go run ./cmd/apikey <service-name>   (no '' @ [CHR 0x27, CHR '':'', CHR 0x27] @ '' or '' @
     [CHR 0x27, CHR '','', CHR 0x27] @ '' in the name)'' @ newline"

definition key_line :: "string \<Rightarrow> string \<Rightarrow> string" where
  "key_line service key =
     ''API key for '' @ service @ '' (give it to that service as a secret; it is not shown again):'' @ newline @
     ''  '' @ key @ newline @ newline"

definition entry_line :: "string \<Rightarrow> string \<Rightarrow> string" where
  "entry_line service hash =
     ''Add this entry to PayGate'' @ [CHR 0x27] @ ''s CALLER_API_KEYS (comma-separated):'' @ newline @
     ''  '' @ service @ '':'' @ hash @ newline"

definition apikey_main :: "string list \<Rightarrow> goerr + nat list \<Rightarrow> cmd_result" where
  "apikey_main args random =
     (if length args \<noteq> 2 \<or> str_TrimSpace (args ! 1) = [] \<or> str_ContainsAny (args ! 1) '':,''
      then \<lparr>cmd_Exit = 2, cmd_Stdout = [], cmd_Stderr = apikey_usage\<rparr>
      else (let service = str_TrimSpace (args ! 1)
            in case random of
                 Inl e \<Rightarrow> \<lparr>cmd_Exit = 1, cmd_Stdout = [], cmd_Stderr = ''generate key: '' @ error_text e @ newline\<rparr>
               | Inr b \<Rightarrow> (let key = apikey_Generate b
                   in \<lparr>cmd_Exit = 0, cmd_Stdout = key_line service key @ entry_line service (apikey_Hash key), cmd_Stderr = []\<rparr>)))"

section \<open>The table of hashes\<close>

definition key_entry :: "string \<Rightarrow> string \<Rightarrow> bool" where
  "key_entry h s \<longleftrightarrow>
     s \<noteq> [] \<and> CHR '':'' \<notin> set s \<and> length h = 64 \<and> hex_decode h \<noteq> None \<and> str_ToLower h = h"

definition key_table_ok :: "(string \<rightharpoonup> string) \<Rightarrow> bool" where
  "key_table_ok tbl \<longleftrightarrow> (\<forall>h s. tbl h = Some s \<longrightarrow> key_entry h s)"

lemma trim_front_suffix: "\<exists>pre. s = pre @ trim_front rs s"
proof (induction rs s rule: trim_front.induct)
  case (1 rs s)
  show ?case
  proof (cases "List.find (\<lambda>r. r \<noteq> [] \<and> str_HasPrefix s r) rs")
    case None
    then show ?thesis by (subst trim_front.simps) simp
  next
    case (Some r)
    then have "s = r @ drop (length r) s"
      by (auto simp: find_Some_iff str_HasPrefix_def) (metis append_take_drop_id)
    moreover obtain pre where "drop (length r) s = pre @ trim_front rs (drop (length r) s)" using 1 [OF Some] by blast
    ultimately have "s = (r @ pre) @ trim_front rs (drop (length r) s)" by simp
    with Some show ?thesis by (subst trim_front.simps) (metis option.simps(5))
  qed
qed

lemma set_TrimSpace: "set (str_TrimSpace s) \<subseteq> set s"
proof -
  have "set (trim_front rs s) \<subseteq> set s" for rs s using trim_front_suffix [of s rs] by (metis set_append sup_ge2)
  then show ?thesis unfolding str_TrimSpace_def by (metis set_rev subset_trans)
qed

lemma hex_decode_length: "hex_decode s = Some bs \<Longrightarrow> length s = 2 * length bs"
  by (induction s arbitrary: bs rule: hex_decode.induct) (auto split: option.splits)

lemma hex_lower: "hex_val c \<noteq> None \<Longrightarrow> hex_val (lower_char c) = hex_val c \<and> lower_char (lower_char c) = lower_char c"
  by (cases "65 \<le> (of_char c :: nat) \<and> (of_char c :: nat) \<le> 90")
     (auto simp: hex_val_def lower_char_def Let_def split: if_splits)

lemma ascii_ToLower: "list_all (\<lambda>c. c \<noteq> CHR 0xC4 \<and> c \<noteq> CHR 0xE2) s \<Longrightarrow> str_ToLower s = map lower_char s"
  by (induction s rule: str_ToLower.induct) auto

lemma hex_decode_chars: "hex_decode s \<noteq> None \<Longrightarrow> list_all (\<lambda>c. hex_val c \<noteq> None) s"
  by (induction s rule: hex_decode.induct) (auto split: option.splits)

lemma hex_ascii: "hex_val c \<noteq> None \<Longrightarrow> c \<noteq> CHR 0xC4 \<and> c \<noteq> CHR 0xE2"
  by (auto simp: hex_val_def)

lemma str_ToLower_idem:
  assumes "hex_decode (str_ToLower s) \<noteq> None"
  shows "str_ToLower (str_ToLower s) = str_ToLower s"
proof -
  have lows: "\<forall>c \<in> set (str_ToLower s). lower_char c = c"
  proof (induction s rule: str_ToLower.induct)
    case (4 c d e s)
    have "lower_char (lower_char x) = lower_char x" for x by (simp add: lower_char_def Let_def)
    with 4 show ?case by (auto simp: lower_char_def)
  qed (auto simp: lower_char_def Let_def)
  have "list_all (\<lambda>c. c \<noteq> CHR 0xC4 \<and> c \<noteq> CHR 0xE2) (str_ToLower s)"
    using hex_decode_chars [OF assms] hex_ascii by (auto simp: list_all_iff)
  from ascii_ToLower [OF this] lows show ?thesis by (simp add: map_idI)
qed

lemma parse_entry_ok:
  assumes "parse_entry e = Inr (service, hash)"
  shows "key_entry hash service"
proof -
  obtain a b ok where cut: "str_Cut e (CHR '':'') = (a, b, ok)" by (cases "str_Cut e (CHR '':'')") auto
  from assms cut have s: "service = str_TrimSpace a" "hash = str_ToLower (str_TrimSpace b)" "service \<noteq> []"
    by (auto simp: parse_entry_def Let_def split: if_splits option.splits)
  obtain bs where bs: "hex_decode hash = Some bs" "length bs = 32"
    using assms cut by (auto simp: parse_entry_def Let_def split: if_splits option.splits)
  have "CHR '':'' \<notin> set service" using str_Cut_before [OF cut] set_TrimSpace s(1) by blast
  moreover have "str_ToLower hash = hash" using str_ToLower_idem [of "str_TrimSpace b"] bs(1) s(2) by simp
  ultimately show ?thesis using s(3) bs hex_decode_length [OF bs(1)] by (simp add: key_entry_def)
qed

lemma add_entry_ok:
  assumes "add_entry e tbl = Inr tbl'" "key_table_ok tbl"
  shows "key_table_ok tbl'"
proof (cases "str_TrimSpace e = []")
  case True
  with assms show ?thesis by (simp add: add_entry_def)
next
  case False
  then obtain s h where e: "parse_entry (str_TrimSpace e) = Inr (s, h)" "tbl' = tbl(h \<mapsto> s)"
    using assms(1) by (auto simp: add_entry_def Let_def split: if_splits sum.splits option.splits)
  from parse_entry_ok [OF e(1)] e(2) assms(2) show ?thesis by (simp add: key_table_ok_def)
qed

lemma add_entries_ok: "add_entries es t = Inr tbl \<Longrightarrow> key_table_ok t \<Longrightarrow> key_table_ok tbl"
proof (induction es arbitrary: t)
  case (Cons e es)
  then show ?case using add_entry_ok [of e t] by (cases "add_entry e t") simp_all
qed simp

lemma ParseHashes_ok: "ParseHashes s = Inr tbl \<Longrightarrow> key_table_ok tbl"
  unfolding ParseHashes_def by (erule add_entries_ok) (simp add: key_table_ok_def)

end
