(* ===== verification/Http_Wire.thy ===== *)
theory Http_Wire
  imports Queries Commands Api_Keys
begin

text \<open>
  Requests and responses as \<open>net/http\<close> and \<open>encoding/json\<close> present them to the handlers: decoding
  into the request structs of \<open>openapi_gen.go\<close>, the text \<open>json.Marshal\<close> makes of one (the request
  fingerprint hashes it), and the answers.
\<close>

section \<open>Requests and responses\<close>

text \<open>
  A request after \<open>net/http\<close> has parsed it. \<open>rq_Path\<close> holds the unescaped segments of its path, which
  \<open>ServeMux\<close> has cleaned; only the last one can be empty, after a trailing slash. \<open>rq_JSON\<close> is the
  first JSON value of the body, if it has one; \<open>rq_Raw\<close> its bytes. \<open>rq_FromFirst\<close> is the order in
  which Go happens to iterate over the map of \<open>parseListParams\<close>.
\<close>

record http_request =
  rq_Method :: string
  rq_Path :: "string list"
  rq_Query :: headers
  rq_Headers :: headers
  rq_Raw :: string
  rq_ReadFails :: bool
  rq_JSON :: "json option"
  rq_FromFirst :: bool

datatype http_body = NoBody | JsonBody json | TextBody string

record http_response =
  hr_Status :: int
  hr_Headers :: "(string \<times> string) list"
  hr_Body :: http_body

definition json_type :: "string \<times> string" where
  "json_type = (''Content-Type'', ''application/json'')"

text \<open>A value that cannot be marshalled leaves the body empty: the status has been sent by then.\<close>

definition body_of :: "json option \<Rightarrow> http_body" where
  "body_of j = (case j of Some v \<Rightarrow> JsonBody v | None \<Rightarrow> NoBody)"

definition writeJSON :: "int \<Rightarrow> json option \<Rightarrow> http_response" where
  "writeJSON st j = \<lparr>hr_Status = st, hr_Headers = [json_type], hr_Body = body_of j\<rparr>"

definition error_answer :: "goerr \<Rightarrow> http_response" where
  "error_answer err =
     (let e = WriteError err
      in writeJSON (int (er_status e)) (Some (JObj [(''code'', JStr (er_code e)), (''message'', JStr (er_message e))])))"

text \<open>\<open>http.NotFound\<close>, and the answer of \<open>ServeMux\<close> to a path that other methods have.\<close>

definition not_found_answer :: http_response where
  "not_found_answer = \<lparr>hr_Status = 404, hr_Headers = [(''Content-Type'', ''text/plain; charset=utf-8'')],
     hr_Body = TextBody ''404 page not found''\<rparr>"

definition method_answer :: http_response where
  "method_answer = \<lparr>hr_Status = 405, hr_Headers = [(''Content-Type'', ''text/plain; charset=utf-8'')],
     hr_Body = TextBody ''Method Not Allowed''\<rparr>"

section \<open>Decoding a struct\<close>

text \<open>
  \<open>json.Decode\<close> visits the members in order; each one whose name matches the field, exactly or under
  case folding, is stored in it. One value of the wrong type makes the whole call an error.
\<close>

definition members :: "jobj \<Rightarrow> string \<Rightarrow> json list" where
  "members obj k = map snd (filter (\<lambda>(k', v). k' = k \<or> str_EqualFold k' k) obj)"

fun decode_into :: "('a \<Rightarrow> json \<Rightarrow> 'a option) \<Rightarrow> json list \<Rightarrow> 'a \<Rightarrow> 'a option" where
  "decode_into f [] a = Some a"
| "decode_into f (v # vs) a = Option.bind (f a v) (decode_into f vs)"

fun put_string :: "string \<Rightarrow> json \<Rightarrow> string option" where
  "put_string a JNull = Some a"
| "put_string a (JStr s) = Some s"
| "put_string a (JTime t) = Some (format_RFC3339Nano t)"
| "put_string a _ = None"

fun put_string_ptr :: "string option \<Rightarrow> json \<Rightarrow> string option option" where
  "put_string_ptr a JNull = Some None"
| "put_string_ptr a v = map_option Some (put_string [] v)"

fun put_int64 :: "int64 \<Rightarrow> json \<Rightarrow> int64 option" where
  "put_int64 a JNull = Some a"
| "put_int64 a (JNum s) = parse_int64 s"
| "put_int64 a _ = None"

fun put_int64_ptr :: "int64 option \<Rightarrow> json \<Rightarrow> int64 option option" where
  "put_int64_ptr a JNull = Some None"
| "put_int64_ptr a v = map_option Some (put_int64 0 v)"

text \<open>A decoded time keeps the offset it was written with, in seconds.\<close>

definition zone_offset :: "string \<Rightarrow> int" where
  "zone_offset s =
     (if s = [] \<or> last s = CHR ''Z'' then 0
      else let z = drop (length s - 6) s;
               n = (digits_val (take 2 (drop 1 z)) * 60 + digits_val (drop 4 z)) * 60
           in if hd z = CHR ''-'' then - n else n)"

fun put_time_ptr :: "(time \<times> int) option \<Rightarrow> json \<Rightarrow> (time \<times> int) option option" where
  "put_time_ptr a JNull = Some None"
| "put_time_ptr a (JStr s) = map_option (\<lambda>t. Some (t, zone_offset s)) (parse_strict s)"
| "put_time_ptr a (JTime t) = Some (Some (t, 0))"
| "put_time_ptr a _ = None"

text \<open>
  A value decoded into \<open>any\<close>: numbers become \<open>float64\<close>, an object a map, here sorted by its keys; a
  later member replaces an earlier one with the same key.
\<close>

fun str_less :: "string \<Rightarrow> string \<Rightarrow> bool" where
  "str_less [] t \<longleftrightarrow> t \<noteq> []"
| "str_less (c # s) [] \<longleftrightarrow> False"
| "str_less (c # s) (d # t) \<longleftrightarrow>
     (of_char c :: nat) < of_char d \<or> c = d \<and> str_less s t"

fun map_put :: "string \<Rightarrow> json \<Rightarrow> jobj \<Rightarrow> jobj" where
  "map_put k v [] = [(k, v)]"
| "map_put k v ((k', v') # m) =
     (if k = k' then (k, v) # m
      else if str_less k k' then (k, v) # (k', v') # m
      else (k', v') # map_put k v m)"

fun any_of :: "(string \<Rightarrow> string option) \<Rightarrow> json \<Rightarrow> json option"
  and any_list :: "(string \<Rightarrow> string option) \<Rightarrow> json list \<Rightarrow> json list option"
  and any_map :: "(string \<Rightarrow> string option) \<Rightarrow> jobj \<Rightarrow> jobj \<Rightarrow> jobj option" where
  "any_of flt JNull = Some JNull"
| "any_of flt (JBool b) = Some (JBool b)"
| "any_of flt (JNum s) = map_option JNum (flt s)"
| "any_of flt (JStr s) = Some (JStr s)"
| "any_of flt (JTime t) = Some (JTime t)"
| "any_of flt (JArr vs) = map_option JArr (any_list flt vs)"
| "any_of flt (JObj m) = map_option JObj (any_map flt m [])"
| "any_list flt [] = Some []"
| "any_list flt (v # vs) = Option.bind (any_of flt v) (\<lambda>a. map_option (\<lambda>as. a # as) (any_list flt vs))"
| "any_map flt [] acc = Some acc"
| "any_map flt ((k, v) # m) acc = Option.bind (any_of flt v) (\<lambda>a. any_map flt m (map_put k a acc))"

fun put_map_ptr :: "(string \<Rightarrow> string option) \<Rightarrow> jobj option \<Rightarrow> json \<Rightarrow> jobj option option" where
  "put_map_ptr flt a JNull = Some None"
| "put_map_ptr flt a (JObj m) = map_option Some (any_map flt m (case a of None \<Rightarrow> [] | Some m0 \<Rightarrow> m0))"
| "put_map_ptr flt a _ = None"

section \<open>The request structs\<close>

record create_payment_request =
  cr_Amount :: int64
  cr_BankCode :: "string option"
  cr_CardToken :: "string option"
  cr_Currency :: string
  cr_CustomerEmail :: string
  cr_CustomerExternalID :: "string option"
  cr_CustomerName :: string
  cr_CustomerPhone :: "string option"
  cr_Description :: "string option"
  cr_ExpiredAt :: "(time \<times> int) option"
  cr_GatewayType :: string
  cr_Metadata :: "jobj option"
  cr_PaymentMethodType :: string
  cr_ReferenceID :: string
  cr_ReturnURL :: "string option"

record create_refund_request =
  rf_Amount :: "int64 option"
  rf_Reason :: "string option"
  rf_ReferenceID :: string

text \<open>The members of the body: \<open>null\<close> decodes as no member at all, any other value but an object fails.\<close>

definition body_object :: "http_request \<Rightarrow> jobj option" where
  "body_object r = (case rq_JSON r of Some (JObj obj) \<Rightarrow> Some obj | Some JNull \<Rightarrow> Some [] | _ \<Rightarrow> None)"

definition decode_create :: "(string \<Rightarrow> string option) \<Rightarrow> http_request \<Rightarrow> create_payment_request option" where
  "decode_create flt r =
     Option.bind (body_object r) (\<lambda>obj.
     Option.bind (decode_into put_int64 (members obj ''amount'') 0) (\<lambda>amount.
     Option.bind (decode_into put_string_ptr (members obj ''bank_code'') None) (\<lambda>bank.
     Option.bind (decode_into put_string_ptr (members obj ''card_token'') None) (\<lambda>card.
     Option.bind (decode_into put_string (members obj ''currency'') []) (\<lambda>currency.
     Option.bind (decode_into put_string (members obj ''customer_email'') []) (\<lambda>email.
     Option.bind (decode_into put_string_ptr (members obj ''customer_external_id'') None) (\<lambda>ext.
     Option.bind (decode_into put_string (members obj ''customer_name'') []) (\<lambda>name.
     Option.bind (decode_into put_string_ptr (members obj ''customer_phone'') None) (\<lambda>phone.
     Option.bind (decode_into put_string_ptr (members obj ''description'') None) (\<lambda>desc.
     Option.bind (decode_into put_time_ptr (members obj ''expired_at'') None) (\<lambda>exp.
     Option.bind (decode_into put_string (members obj ''gateway_type'') []) (\<lambda>gw.
     Option.bind (decode_into (put_map_ptr flt) (members obj ''metadata'') None) (\<lambda>meta.
     Option.bind (decode_into put_string (members obj ''payment_method_type'') []) (\<lambda>meth.
     Option.bind (decode_into put_string (members obj ''reference_id'') []) (\<lambda>ref.
     Option.bind (decode_into put_string_ptr (members obj ''return_url'') None) (\<lambda>url.
     Some \<lparr>cr_Amount = amount, cr_BankCode = bank, cr_CardToken = card, cr_Currency = currency,
           cr_CustomerEmail = email, cr_CustomerExternalID = ext, cr_CustomerName = name,
           cr_CustomerPhone = phone, cr_Description = desc, cr_ExpiredAt = exp, cr_GatewayType = gw,
           cr_Metadata = meta, cr_PaymentMethodType = meth, cr_ReferenceID = ref, cr_ReturnURL = url\<rparr>))))))))))))))))"

definition decode_refund :: "http_request \<Rightarrow> create_refund_request option" where
  "decode_refund r =
     Option.bind (body_object r) (\<lambda>obj.
     Option.bind (decode_into put_int64_ptr (members obj ''amount'') None) (\<lambda>amount.
     Option.bind (decode_into put_string_ptr (members obj ''reason'') None) (\<lambda>reason.
     Option.bind (decode_into put_string (members obj ''reference_id'') []) (\<lambda>ref.
     Some \<lparr>rf_Amount = amount, rf_Reason = reason, rf_ReferenceID = ref\<rparr>))))"

section \<open>JSON text\<close>

text \<open>
  \<open>json.Marshal\<close>, on the valid UTF-8 that decoding leaves: control characters, the quote, the
  backslash, \<open><\<close>, \<open>>\<close>, \<open>&\<close> and the two line separators are escaped.
\<close>

definition hex4 :: "nat \<Rightarrow> string" where
  "hex4 n = [CHR 0x5C, CHR ''u'', CHR ''0'', CHR ''0'', hex_char (n div 16), hex_char (n mod 16)]"

definition escape_char :: "char \<Rightarrow> string" where
  "escape_char c =
     (let n = of_char c :: nat
      in if n = 34 \<or> n = 92 then [CHR 0x5C, c]
         else if n = 8 then [CHR 0x5C, CHR ''b''] else if n = 12 then [CHR 0x5C, CHR ''f'']
         else if n = 10 then [CHR 0x5C, CHR ''n''] else if n = 13 then [CHR 0x5C, CHR ''r'']
         else if n = 9 then [CHR 0x5C, CHR ''t'']
         else if n < 32 \<or> n = 60 \<or> n = 62 \<or> n = 38 then hex4 n else [c])"

fun escape :: "string \<Rightarrow> string" where
  "escape (c # d # e # s) =
     (if c = CHR 0xE2 \<and> d = CHR 0x80 \<and> (e = CHR 0xA8 \<or> e = CHR 0xA9)
      then [CHR 0x5C, CHR ''u'', CHR ''2'', CHR ''0'', CHR ''2'', if e = CHR 0xA8 then CHR ''8'' else CHR ''9''] @ escape s
      else escape_char c @ escape (d # e # s))"
| "escape (c # s) = escape_char c @ escape s"
| "escape [] = []"

definition json_quote :: "string \<Rightarrow> string" where
  "json_quote s = CHR 0x22 # escape s @ [CHR 0x22]"

fun json_text :: "json \<Rightarrow> string" and json_items :: "json list \<Rightarrow> string" and json_members :: "jobj \<Rightarrow> string" where
  "json_text JNull = ''null''"
| "json_text (JBool b) = (if b then ''true'' else ''false'')"
| "json_text (JNum s) = s"
| "json_text (JStr s) = json_quote s"
| "json_text (JTime t) = json_quote (format_RFC3339Nano t)"
| "json_text (JArr vs) = ''['' @ json_items vs @ '']''"
| "json_text (JObj m) = ''{'' @ json_members m @ ''}''"
| "json_items [] = []"
| "json_items [v] = json_text v"
| "json_items (v # w # vs) = json_text v @ '','' @ json_items (w # vs)"
| "json_members [] = []"
| "json_members [(k, v)] = json_quote k @ '':'' @ json_text v"
| "json_members ((k, v) # kv # m) = json_quote k @ '':'' @ json_text v @ '','' @ json_members (kv # m)"

text \<open>A time with its offset, as \<open>time.Time\<close> prints it.\<close>

definition zone_text :: "int \<Rightarrow> string" where
  "zone_text off =
     (if off = 0 then ''Z''
      else (if off < 0 then ''-'' else ''+'') @ pad_digits 2 (\<bar>off\<bar> div 3600) @ '':'' @
           pad_digits 2 (\<bar>off\<bar> div 60 mod 60))"

definition time_text :: "time \<times> int \<Rightarrow> string" where
  "time_text t = butlast (format_RFC3339Nano (fst t + snd t * time_Second)) @ zone_text (snd t)"

text \<open>\<open>omitempty\<close> on a pointer: no member when it is nil.\<close>

definition omit_nil :: "string \<Rightarrow> ('a \<Rightarrow> json) \<Rightarrow> 'a option \<Rightarrow> jobj" where
  "omit_nil k f x = (case x of None \<Rightarrow> [] | Some a \<Rightarrow> [(k, f a)])"

definition create_request_json :: "create_payment_request \<Rightarrow> json" where
  "create_request_json r = JObj
     ([(''amount'', json_int64 (cr_Amount r))] @ omit_nil ''bank_code'' JStr (cr_BankCode r) @
      omit_nil ''card_token'' JStr (cr_CardToken r) @
      [(''currency'', JStr (cr_Currency r)), (''customer_email'', JStr (cr_CustomerEmail r))] @
      omit_nil ''customer_external_id'' JStr (cr_CustomerExternalID r) @
      [(''customer_name'', JStr (cr_CustomerName r))] @
      omit_nil ''customer_phone'' JStr (cr_CustomerPhone r) @ omit_nil ''description'' JStr (cr_Description r) @
      omit_nil ''expired_at'' (\<lambda>t. JStr (time_text t)) (cr_ExpiredAt r) @
      [(''gateway_type'', JStr (cr_GatewayType r))] @ omit_nil ''metadata'' JObj (cr_Metadata r) @
      [(''payment_method_type'', JStr (cr_PaymentMethodType r)), (''reference_id'', JStr (cr_ReferenceID r))] @
      omit_nil ''return_url'' JStr (cr_ReturnURL r))"

end
