(* ===== verification/Idempotency.thy ===== *)
theory Idempotency
  imports Http_Wire
begin

text \<open>
  \<open>middleware/idempotency.go\<close>: one cache entry per caller and reference. A request claims it, and
  leaves its response there when it has succeeded.
\<close>

definition IdempotencyKey :: "string \<Rightarrow> string \<Rightarrow> string" where
  "IdempotencyKey callerService referenceID =
     idem_prefix @ sha256_hex (callerService @ '':'' @ referenceID)"

definition RequestFingerprint :: "create_payment_request \<Rightarrow> string" where
  "RequestFingerprint req = sha256_hex (json_text (create_request_json req))"

datatype idem_outcome = IdempotencyNew | IdempotencyReplay | IdempotencyInFlight | IdempotencyMismatch

record idem_result =
  ir_Outcome :: idem_outcome
  ir_Status :: int
  ir_Body :: "json option"

definition stateProcessing :: string where "stateProcessing = ''processing''"
definition stateDone :: string where "stateDone = ''done''"
definition processingTTL :: duration where "processingTTL = time_Minute"

record idem_record =
  id_State :: string
  id_RequestHash :: string
  id_Status :: int
  id_Body :: "json option"

definition marshal_record :: "idem_record \<Rightarrow> json" where
  "marshal_record r = JObj
     ([(''state'', JStr (id_State r)), (''request_hash'', JStr (id_RequestHash r))] @
      (if id_Status r = 0 then [] else [(''status'', JNum (int_str (id_Status r)))]) @
      omit_nil ''body'' id (id_Body r))"

fun put_int :: "int \<Rightarrow> json \<Rightarrow> int option" where
  "put_int a JNull = Some a"
| "put_int a (JNum s) = map_option sint (parse_int64 s)"
| "put_int a _ = None"

text \<open>\<open>json.RawMessage\<close> takes any value as it stands.\<close>

definition put_raw :: "json option \<Rightarrow> json \<Rightarrow> json option option" where
  "put_raw a v = Some (Some v)"

definition unmarshal_record :: "cache_text \<Rightarrow> idem_record option" where
  "unmarshal_record raw =
     (case raw of
        OtherText _ \<Rightarrow> None
      | JsonText j \<Rightarrow>
          (case (case j of JObj obj \<Rightarrow> Some obj | JNull \<Rightarrow> Some [] | _ \<Rightarrow> None) of
             None \<Rightarrow> None
           | Some obj \<Rightarrow>
               Option.bind (decode_into put_string (members obj ''state'') []) (\<lambda>st.
               Option.bind (decode_into put_string (members obj ''request_hash'') []) (\<lambda>h.
               Option.bind (decode_into put_int (members obj ''status'') 0) (\<lambda>n.
               Option.bind (decode_into put_raw (members obj ''body'') None) (\<lambda>b.
               Some \<lparr>id_State = st, id_RequestHash = h, id_Status = n, id_Body = b\<rparr>))))))"

definition isCacheMiss :: "goerr \<Rightarrow> bool" where
  "isCacheMiss err \<longleftrightarrow> IsCode (Some err) CodeNotFound \<or> is_cache_not_found err"

definition outcome :: "idem_outcome \<Rightarrow> idem_result" where
  "outcome out = \<lparr>ir_Outcome = out, ir_Status = 0, ir_Body = None\<rparr>"

definition claim_text :: "string \<Rightarrow> cache_text" where
  "claim_text h = JsonText (marshal_record
     \<lparr>id_State = stateProcessing, id_RequestHash = h, id_Status = 0, id_Body = None\<rparr>)"

definition done_text :: "string \<Rightarrow> int \<Rightarrow> json option \<Rightarrow> cache_text" where
  "done_text h st b = JsonText (marshal_record
     \<lparr>id_State = stateDone, id_RequestHash = h, id_Status = st, id_Body = b\<rparr>)"

text \<open>What a record that is already there means for a request with this hash.\<close>

definition judge :: "string \<Rightarrow> cache_text \<Rightarrow> idem_result" where
  "judge h raw =
     (case unmarshal_record raw of
        None \<Rightarrow> outcome IdempotencyInFlight
      | Some rec \<Rightarrow>
          if id_RequestHash rec \<noteq> h then outcome IdempotencyMismatch
          else if id_State rec = stateDone
          then \<lparr>ir_Outcome = IdempotencyReplay, ir_Status = id_Status rec, ir_Body = id_Body rec\<rparr>
          else outcome IdempotencyInFlight)"

definition Begin :: "'w service \<Rightarrow> duration \<Rightarrow> string \<Rightarrow> string \<Rightarrow> ('w, goerr + idem_result) state" where
  "Begin S ttl key requestHash = do {
     acquired \<leftarrow> cp_SetNX (sv_cache S) key (claim_text requestHash) (min processingTTL ttl);
     (case acquired of
        Inl err \<Rightarrow> State_Monad.return (Inl err)
      | Inr True \<Rightarrow> State_Monad.return (Inr (outcome IdempotencyNew))
      | Inr False \<Rightarrow> do {
          raw \<leftarrow> cp_Get (sv_cache S) key;
          State_Monad.return (case raw of
              Inl err \<Rightarrow> if isCacheMiss err then Inr (outcome IdempotencyInFlight) else Inl err
            | Inr text \<Rightarrow> Inr (judge requestHash text))
        })
   }"

definition Complete ::
  "'w service \<Rightarrow> duration \<Rightarrow> string \<Rightarrow> string \<Rightarrow> int \<Rightarrow> json option \<Rightarrow> ('w, goerr option) state" where
  "Complete S ttl key requestHash st b = cp_Set (sv_cache S) key (done_text requestHash st b) ttl"

definition Release :: "'w service \<Rightarrow> string \<Rightarrow> ('w, goerr option) state" where
  "Release S key = cp_Delete (sv_cache S) key"

section \<open>Records\<close>

lemma idem_key_Idempotency [simp]: "idem_key (IdempotencyKey c r)"
  by (simp add: idem_key_def IdempotencyKey_def str_HasPrefix_def)

lemma record_roundtrip:
  assumes "- (2 ^ 63) \<le> id_Status r" "id_Status r < 2 ^ 63"
  shows "unmarshal_record (JsonText (marshal_record r)) = Some r"
proof -
  let ?st = "if id_Status r = 0 then [] else [(''status'', JNum (int_str (id_Status r)))]"
  have m: "marshal_record r = JObj ([(''state'', JStr (id_State r)), (''request_hash'', JStr (id_RequestHash r))] @ ?st @
      omit_nil ''body'' id (id_Body r))" by (simp add: marshal_record_def)
  have fold: "str_EqualFold ''state'' ''state''" "\<not> str_EqualFold ''request_hash'' ''state''" "\<not> str_EqualFold ''status'' ''state''"
    "\<not> str_EqualFold ''body'' ''state''" "\<not> str_EqualFold ''state'' ''request_hash''" "\<not> str_EqualFold ''status'' ''request_hash''"
    "\<not> str_EqualFold ''body'' ''request_hash''" "\<not> str_EqualFold ''state'' ''status''" "\<not> str_EqualFold ''request_hash'' ''status''"
    "\<not> str_EqualFold ''body'' ''status''" "\<not> str_EqualFold ''state'' ''body''" "\<not> str_EqualFold ''request_hash'' ''body''"
    "\<not> str_EqualFold ''status'' ''body''"
    by (simp_all add: str_EqualFold_def lower_char_def)
  obtain z where num: "parse_int64 (int_str (id_Status r)) = Some z" "sint z = id_Status r"
    using assms by (simp add: parse_int64_def parse_int_str i64_def int_word_sint)
  show ?thesis
    unfolding m
    by (cases "id_Body r")
       (simp_all add: unmarshal_record_def members_def fold omit_nil_def put_raw_def num)
qed

lemma judge_claim [simp]: "judge h (claim_text h') = outcome (if h' = h then IdempotencyInFlight else IdempotencyMismatch)"
  by (simp add: judge_def claim_text_def record_roundtrip stateProcessing_def stateDone_def)

lemma judge_done:
  assumes "- (2 ^ 63) \<le> st" "st < 2 ^ 63"
  shows "judge h (done_text h' st b) =
    (if h' = h then \<lparr>ir_Outcome = IdempotencyReplay, ir_Status = st, ir_Body = b\<rparr> else outcome IdempotencyMismatch)"
  using assms by (simp add: judge_def done_text_def record_roundtrip)

end
