(* ===== verification/Admin_Queries.thy ===== *)
theory Admin_Queries
  imports Queries
begin

text \<open>
  The queries over \<open>AdminReader\<close> in \<open>query/admin.go\<close>, and the JSON of their results. Every list is
  the reader's, element by element.
\<close>

definition json_int :: "int \<Rightarrow> json" where
  "json_int n = JNum (int_str n)"

definition attempt_dto :: "uuid_lib \<Rightarrow> admin_attempt \<Rightarrow> json" where
  "attempt_dto L r = JObj
     ([(''id'', JStr (uuid_String L (aa_ID r))), (''operation'', JStr (aa_Operation r))] @
      (case aa_RefundID r of None \<Rightarrow> [] | Some u \<Rightarrow> omit_str ''refund_id'' (uuid_String L u)) @
      [(''attempt_number'', json_int (aa_AttemptNumber r)), (''status'', JStr (aa_Status r))] @
      omit_str ''error_code'' (aa_ErrorCode r) @ omit_str ''error_message'' (aa_ErrorMessage r) @
      omit_str ''gateway_transaction_id'' (aa_GatewayTransactionID r) @
      (if aa_DurationMs r = 0 then [] else [(''duration_ms'', json_int (aa_DurationMs r))]) @
      [(''created_at'', JStr (format_RFC3339 (aa_CreatedAt r)))])"

text \<open>\<open>json.Marshal\<close> writes a \<open>[]byte\<close> in standard base64 with padding.\<close>

definition base64_std :: "string \<Rightarrow> string" where
  "base64_std s =
     (let e = map (\<lambda>c. if c = CHR ''-'' then CHR ''+'' else if c = CHR ''_'' then CHR ''/'' else c) (base64_encode s)
      in e @ replicate ((4 - length e mod 4) mod 4) (CHR ''=''))"

definition event_dto :: "uuid_lib \<Rightarrow> admin_event \<Rightarrow> json" where
  "event_dto L r = JObj
     [(''created_at'', JStr (format_RFC3339 (ae_CreatedAt r))), (''event_type'', JStr (ae_EventType r)),
      (''id'', JStr (uuid_String L (ae_ID r))), (''payload'', JStr (base64_std (ae_Payload r))),
      (''sequence_number'', json_int (ae_SequenceNumber r))]"

definition refund_dto :: "uuid_lib \<Rightarrow> admin_refund \<Rightarrow> json" where
  "refund_dto L r = JObj
     ([(''id'', JStr (uuid_String L (af_ID r))), (''reference_id'', JStr (af_ReferenceID r))] @
      omit_str ''gateway_refund_id'' (af_GatewayRefundID r) @
      [(''status'', JStr (af_Status r)), (''amount'', json_int64 (af_Amount r))] @
      omit_str ''reason'' (af_Reason r) @ [(''created_at'', JStr (format_RFC3339 (af_CreatedAt r)))])"

definition stats_dto :: "outbox_stats \<Rightarrow> json" where
  "stats_dto st = JObj
     [(''failed'', json_int (os_Failed st)), (''oldest_pending_age_seconds'', json_int (os_OldestPendingAgeSecs st)),
      (''pending'', json_int (os_Pending st)), (''published'', json_int (os_Published st))]"

definition GetAttempts_Handle :: "'w service \<Rightarrow> uuid \<Rightarrow> ('w, goerr + json list) state" where
  "GetAttempts_Handle S pid =
     bindE (ad_GetPaymentAttempts (sv_admin S) pid) (\<lambda>rows.
     State_Monad.return (Inr (map (attempt_dto (lib S)) rows)))"

definition GetEvents_Handle :: "'w service \<Rightarrow> uuid \<Rightarrow> ('w, goerr + json list) state" where
  "GetEvents_Handle S pid =
     bindE (ad_GetPaymentEvents (sv_admin S) pid) (\<lambda>rows.
     State_Monad.return (Inr (map (event_dto (lib S)) rows)))"

definition GetRefunds_Handle :: "'w service \<Rightarrow> uuid \<Rightarrow> ('w, goerr + json list) state" where
  "GetRefunds_Handle S pid =
     bindE (ad_GetRefunds (sv_admin S) pid) (\<lambda>rows.
     State_Monad.return (Inr (map (refund_dto (lib S)) rows)))"

definition GetOutboxStats_Handle :: "'w service \<Rightarrow> ('w, goerr + outbox_stats) state" where
  "GetOutboxStats_Handle S = ad_GetOutboxStats (sv_admin S)"

end
