(* ===== verification/Http_Handlers.thy ===== *)
theory Http_Handlers
  imports Idempotency Admin_Queries
begin

text \<open>
  \<open>adapter/inbound/http\<close>: the handlers of the caller API, the webhook and the admin API, and the
  routes that lead to them. \<open>caller\<close> is the service \<open>CallerAuth\<close> has put into the context.
\<close>

section \<open>Creating a payment\<close>

definition derefStr :: "string option \<Rightarrow> string" where
  "derefStr s = (case s of None \<Rightarrow> [] | Some x \<Rightarrow> x)"

definition optStr :: "string \<Rightarrow> string option" where
  "optStr s = (if s = [] then None else Some s)"

definition create_command :: "string \<Rightarrow> create_payment_request \<Rightarrow> create_payment_command" where
  "create_command caller req =
     \<lparr>cc_ReferenceID = cr_ReferenceID req, cc_CallerService = caller, cc_Amount = cr_Amount req,
      cc_Currency = cr_Currency req, cc_GatewayType = cr_GatewayType req,
      cc_PaymentMethodType = cr_PaymentMethodType req, cc_BankCode = derefStr (cr_BankCode req),
      cc_CardToken = derefStr (cr_CardToken req), cc_ReturnURL = derefStr (cr_ReturnURL req),
      cc_CustomerName = cr_CustomerName req, cc_CustomerEmail = cr_CustomerEmail req,
      cc_CustomerPhone = derefStr (cr_CustomerPhone req),
      cc_CustomerExternalID = derefStr (cr_CustomerExternalID req),
      cc_Description = derefStr (cr_Description req), cc_ExpiredAt = map_option fst (cr_ExpiredAt req),
      cc_Metadata = cr_Metadata req\<rparr>"

definition toNextAction :: "next_action \<Rightarrow> jobj" where
  "toNextAction a =
     omit_nil ''bank'' JStr (optStr (na_Bank a)) @ omit_time ''expires_at'' (na_ExpiresAt a) @
     omit_nil ''qr_image_url'' JStr (optStr (na_QRImageURL a)) @ omit_nil ''qr_string'' JStr (optStr (na_QRString a)) @
     omit_nil ''redirect_url'' JStr (optStr (na_RedirectURL a)) @
     [(''type'', JStr (next_action_str (if na_Type a = NextActionUnset then NextActionNone else na_Type a)))] @
     omit_nil ''va_number'' JStr (optStr (na_VANumber a))"

text \<open>\<open>Format(time.RFC3339)\<close> drops the fraction of a second.\<close>

definition legacyInstructions :: "next_action \<Rightarrow> jobj" where
  "legacyInstructions a =
     omit_str ''bank'' (na_Bank a) @
     (case na_ExpiresAt a of None \<Rightarrow> [] | Some t \<Rightarrow> [(''expiry_time'', JTime (t - t mod time_Second))]) @
     omit_str ''qr_image_url'' (na_QRImageURL a) @ omit_str ''qr_string'' (na_QRString a) @
     omit_str ''redirect_url'' (na_RedirectURL a) @ omit_str ''va_number'' (na_VANumber a)"

definition toCreatePaymentResponse :: "uuid_lib \<Rightarrow> payment \<Rightarrow> next_action \<Rightarrow> jobj" where
  "toCreatePaymentResponse L p a =
     [(''amount'', json_int64 (m_Amount (p_Amount p))), (''created_at'', JTime (p_CreatedAt p)),
      (''currency'', JStr (m_Currency (p_Amount p))), (''next_action'', JObj (toNextAction a)),
      (''payment_id'', JStr (uuid_String L (p_ID p)))] @
     (if legacyInstructions a = [] then [] else [(''payment_instructions'', JObj (legacyInstructions a))]) @
     [(''reference_id'', JStr (p_ReferenceID p)), (''status'', JStr (status_str (p_Status p)))]"

definition create_body :: "uuid_lib \<Rightarrow> payment \<Rightarrow> next_action \<Rightarrow> json option" where
  "create_body L p a =
     (if year_ok (p_CreatedAt p) \<and> (case na_ExpiresAt a of None \<Rightarrow> True | Some t \<Rightarrow> year_ok t)
      then Some (JObj (toCreatePaymentResponse L p a)) else None)"

definition replay_answer :: "idem_result \<Rightarrow> http_response" where
  "replay_answer r =
     \<lparr>hr_Status = ir_Status r, hr_Headers = [(''X-Idempotent-Replay'', ''true''), json_type],
      hr_Body = body_of (ir_Body r)\<rparr>"

text \<open>The part of the handler that runs the command: \<open>holdsKey\<close> tells whether Redis answered.\<close>

definition run_create ::
  "'w service \<Rightarrow> duration \<Rightarrow> string \<Rightarrow> create_payment_request \<Rightarrow> bool \<Rightarrow> ('w, http_response) state" where
  "run_create S ttl caller req holdsKey =
     (let idemKey = IdempotencyKey caller (cr_ReferenceID req); reqHash = RequestFingerprint req
      in do {
        result \<leftarrow> CreatePayment_Handle S (create_command caller req);
        (case result of
           Inl err \<Rightarrow> do {
             _ \<leftarrow> (if holdsKey then Release S idemKey else State_Monad.return None);
             State_Monad.return (error_answer err)
           }
         | Inr (p, a) \<Rightarrow> (let body = create_body (lib S) p a in do {
             _ \<leftarrow> (if holdsKey then Complete S ttl idemKey reqHash 201 body else State_Monad.return None);
             State_Monad.return (writeJSON 201 body)
           }))
      })"

definition CreatePayment ::
  "'w service \<Rightarrow> duration \<Rightarrow> string \<Rightarrow> http_request \<Rightarrow> ('w, http_response) state" where
  "CreatePayment S ttl caller r =
     (case decode_create (rt_float (sv_rt S)) r of
        None \<Rightarrow> State_Monad.return (error_answer ErrInvalidJSON)
      | Some req \<Rightarrow> do {
          idem \<leftarrow> Begin S ttl (IdempotencyKey caller (cr_ReferenceID req)) (RequestFingerprint req);
          (case idem of
             Inl _ \<Rightarrow> run_create S ttl caller req False
           | Inr res \<Rightarrow>
               (case ir_Outcome res of
                  IdempotencyReplay \<Rightarrow> State_Monad.return (replay_answer res)
                | IdempotencyInFlight \<Rightarrow> State_Monad.return (error_answer (IdempotencyConflict
                    ''a request for this reference_id is still in progress; retry shortly''))
                | IdempotencyMismatch \<Rightarrow> State_Monad.return (error_answer (IdempotencyConflict
                    ''reference_id was already used with a different request payload''))
                | IdempotencyNew \<Rightarrow> run_create S ttl caller req True))
        })"

section \<open>Reading and cancelling\<close>

text \<open>\<open>uuid.UUID.Scan\<close> leaves the identifier zero for an empty string.\<close>

definition scan_uuid :: "uuid_lib \<Rightarrow> string \<Rightarrow> uuid option" where
  "scan_uuid L s = (if s = [] then Some 0 else uuid_Parse L s)"

text \<open>\<open>if err != nil { WriteError }\<close>, and the answer otherwise.\<close>

definition answer :: "('a \<Rightarrow> http_response) \<Rightarrow> ('w, goerr + 'a) state \<Rightarrow> ('w, http_response) state" where
  "answer f m = do {
     r \<leftarrow> m;
     State_Monad.return (case r of Inl e \<Rightarrow> error_answer e | Inr x \<Rightarrow> f x)
   }"

definition with_id :: "uuid option \<Rightarrow> (uuid \<Rightarrow> ('w, http_response) state) \<Rightarrow> ('w, http_response) state" where
  "with_id u f = (case u of None \<Rightarrow> State_Monad.return (error_answer ErrInvalidPaymentID) | Some uid \<Rightarrow> f uid)"

definition CancelPayment :: "'w service \<Rightarrow> string \<Rightarrow> string \<Rightarrow> ('w, http_response) state" where
  "CancelPayment S caller idStr =
     with_id (scan_uuid (lib S) idStr) (\<lambda>uid.
       answer (\<lambda>_. writeJSON 200 (Some (JObj [(''payment_id'', JStr (uuid_String (lib S) uid)),
           (''status'', JStr (status_str StatusCancelled))])))
         (CancelPayment_Handle S uid caller))"

definition GetPayment :: "'w service \<Rightarrow> string \<Rightarrow> string \<Rightarrow> ('w, http_response) state" where
  "GetPayment S caller idStr =
     with_id (uuid_Parse (lib S) idStr) (\<lambda>uid.
       answer (\<lambda>dto. writeJSON 200 (marshal_dto dto))
         (GetPayment_Handle S TTLForStatus \<lparr>gq_ID = uid, gq_CallerService = caller, gq_Admin = False\<rparr>))"

definition GetPaymentByRef :: "'w service \<Rightarrow> string \<Rightarrow> string \<Rightarrow> ('w, http_response) state" where
  "GetPaymentByRef S caller refID =
     answer (\<lambda>dto. writeJSON 200 (marshal_dto dto)) (GetByRef_Handle S TTLForStatus refID caller)"

section \<open>Lists\<close>

definition Atoi :: "string \<Rightarrow> int option" where
  "Atoi s =
     (let digits = (case s of c # r \<Rightarrow> if c = CHR ''+'' \<or> c = CHR ''-'' then r else s | [] \<Rightarrow> []);
          n = (if s \<noteq> [] \<and> hd s = CHR ''-'' then - digits_val digits else digits_val digits)
      in if digits = [] \<or> \<not> list_all is_digit digits \<or> n < - (2 ^ 63) \<or> n \<ge> 2 ^ 63 then None else Some n)"

record list_params =
  lp_From :: "time option"
  lp_To :: "time option"
  lp_Cursor :: string
  lp_Limit :: int

definition time_param :: "headers \<Rightarrow> string \<Rightarrow> goerr + time option" where
  "time_param q name =
     (if Header_Get q name = [] then Inr None
      else (case parse_RFC3339 (Header_Get q name) of
          None \<Rightarrow> Inl (InvalidInput (name @ '' must be an RFC 3339 timestamp''))
        | Some t \<Rightarrow> Inr (Some t)))"

definition limit_param :: "headers \<Rightarrow> goerr + int" where
  "limit_param q =
     (if Header_Get q ''limit'' = [] then Inr 0
      else (case Atoi (Header_Get q ''limit'') of
          None \<Rightarrow> Inl (InvalidInput ''limit must be a positive integer'')
        | Some n \<Rightarrow> if n < 1 then Inl (InvalidInput ''limit must be a positive integer'') else Inr n))"

definition parseListParams :: "bool \<Rightarrow> headers \<Rightarrow> goerr + list_params" where
  "parseListParams fromFirst q =
     (let times = (case (time_param q ''from'', time_param q ''to'') of
          (Inr f, Inr t) \<Rightarrow> Inr (f, t)
        | (Inl e, Inr _) \<Rightarrow> Inl e
        | (Inr _, Inl e) \<Rightarrow> Inl e
        | (Inl e, Inl e') \<Rightarrow> Inl (if fromFirst then e else e'))
      in case times of
           Inl e \<Rightarrow> Inl e
         | Inr (f, t) \<Rightarrow>
             (case limit_param q of
                Inl e \<Rightarrow> Inl e
              | Inr n \<Rightarrow> Inr \<lparr>lp_From = f, lp_To = t, lp_Cursor = Header_Get q ''cursor'', lp_Limit = n\<rparr>))"

fun all_some :: "'a option list \<Rightarrow> 'a list option" where
  "all_some [] = Some []"
| "all_some (x # xs) = (case x of None \<Rightarrow> None | Some a \<Rightarrow> map_option (\<lambda>as. a # as) (all_some xs))"

definition payment_page :: "list_payments_result \<Rightarrow> json option" where
  "payment_page res =
     map_option (\<lambda>data. JObj [(''data'', JArr data), (''meta'', JObj
       ([(''count'', json_int (int (length (lr_Payments res))))] @ omit_str ''next_cursor'' (lr_NextCursor res) @
        [(''has_more'', JBool (lr_NextCursor res \<noteq> []))]))]) (all_some (map marshal_dto (lr_Payments res)))"

definition writePaymentList :: "list_payments_result \<Rightarrow> http_response" where
  "writePaymentList res = writeJSON 200 (payment_page res)"

definition ListPayments :: "'w service \<Rightarrow> string \<Rightarrow> http_request \<Rightarrow> ('w, http_response) state" where
  "ListPayments S caller r =
     (case parseListParams (rq_FromFirst r) (rq_Query r) of
        Inl e \<Rightarrow> State_Monad.return (error_answer e)
      | Inr p \<Rightarrow> answer writePaymentList (ListPayments_Handle S
          \<lparr>lq_Status = Header_Get (rq_Query r) ''status'', lq_CallerService = caller, lq_From = lp_From p,
           lq_To = lp_To p, lq_Cursor = lp_Cursor p, lq_Limit = lp_Limit p\<rparr>))"

section \<open>Refunds\<close>

definition toRefund :: "uuid_lib \<Rightarrow> refund \<Rightarrow> json option" where
  "toRefund L r =
     (if year_ok (r_CreatedAt r) \<and> (case r_CompletedAt r of None \<Rightarrow> True | Some t \<Rightarrow> year_ok t) then
        Some (JObj
          ([(''amount'', json_int64 (r_Amount r))] @ omit_time ''completed_at'' (r_CompletedAt r) @
           [(''created_at'', JTime (r_CreatedAt r))] @
           omit_nil ''failure_reason'' JStr (optStr (r_FailureReason r)) @
           omit_nil ''gateway_refund_id'' JStr (optStr (r_GatewayRefundID r)) @
           omit_nil ''reason'' JStr (optStr (r_Reason r)) @
           [(''reference_id'', JStr (r_ReferenceID r)), (''refund_id'', JStr (uuid_String L (r_ID r))),
            (''status'', JStr (refund_status_str (r_Status r)))]))
      else None)"

definition toRefundPaymentSummary :: "uuid_lib \<Rightarrow> payment \<Rightarrow> json" where
  "toRefundPaymentSummary L p = JObj
     [(''amount'', json_int64 (m_Amount (p_Amount p))), (''payment_id'', JStr (uuid_String L (p_ID p))),
      (''refundable_amount'', json_int64 (RefundableAmount p)),
      (''refunded_amount'', json_int64 (RefundedAmount p)), (''status'', JStr (status_str (p_Status p)))]"

text \<open>
  A panic of a handler: \<open>net/http\<close> recovers it and closes the connection. The one dereference that
  could panic is that of the refund in the result.
\<close>

definition aborted :: http_response where
  "aborted = \<lparr>hr_Status = 0, hr_Headers = [], hr_Body = NoBody\<rparr>"

definition refund_answer :: "uuid_lib \<Rightarrow> refund_payment_result \<Rightarrow> http_response" where
  "refund_answer L res =
     (case rpr_Refund res of
        None \<Rightarrow> aborted
      | Some rf \<Rightarrow>
          (let body = map_option (\<lambda>j. JObj [(''payment'', toRefundPaymentSummary L (rpr_Payment res)), (''refund'', j)])
                        (toRefund L rf)
           in if rpr_Replayed res
              then \<lparr>hr_Status = 200, hr_Headers = [(''X-Idempotent-Replay'', ''true''), json_type], hr_Body = body_of body\<rparr>
              else writeJSON (if r_Status rf = RefundStatusPending then 202 else 201) body))"

definition refund_create ::
  "'w service \<Rightarrow> string \<Rightarrow> bool \<Rightarrow> string \<Rightarrow> http_request \<Rightarrow> ('w, http_response) state" where
  "refund_create S caller admin idStr r =
     with_id (uuid_Parse (lib S) idStr) (\<lambda>uid.
     (case decode_refund r of
        None \<Rightarrow> State_Monad.return (error_answer ErrInvalidJSON)
      | Some req \<Rightarrow> answer (refund_answer (lib S)) (RefundPayment_Handle S
          \<lparr>rc_PaymentID = uid, rc_ReferenceID = rf_ReferenceID req,
           rc_Amount = (case rf_Amount req of None \<Rightarrow> 0 | Some a \<Rightarrow> a), rc_Reason = derefStr (rf_Reason req),
           rc_CallerService = caller, rc_Admin = admin\<rparr>)))"

definition CreateRefund :: "'w service \<Rightarrow> string \<Rightarrow> string \<Rightarrow> http_request \<Rightarrow> ('w, http_response) state" where
  "CreateRefund S caller idStr r = refund_create S caller False idStr r"

definition AdminCreateRefund :: "'w service \<Rightarrow> string \<Rightarrow> http_request \<Rightarrow> ('w, http_response) state" where
  "AdminCreateRefund S idStr r = refund_create S [] True idStr r"

definition refund_list_answer :: "uuid_lib \<Rightarrow> payment \<Rightarrow> http_response" where
  "refund_list_answer L p = writeJSON 200
     (map_option (\<lambda>data. JObj [(''data'', JArr data), (''payment'', toRefundPaymentSummary L p)])
       (all_some (map (toRefund L) (p_Refunds p))))"

definition ListRefunds :: "'w service \<Rightarrow> string \<Rightarrow> string \<Rightarrow> ('w, http_response) state" where
  "ListRefunds S caller idStr =
     with_id (uuid_Parse (lib S) idStr) (\<lambda>uid.
       answer (refund_list_answer (lib S)) (ListRefunds_Handle S uid caller))"

section \<open>Webhooks\<close>

definition read_error_answer :: http_response where
  "read_error_answer = \<lparr>hr_Status = 400, hr_Headers = [(''Content-Type'', ''text/plain; charset=utf-8'')],
     hr_Body = TextBody ''read error''\<rparr>"

definition HandleMidtrans :: "'w service \<Rightarrow> http_request \<Rightarrow> ('w, http_response) state" where
  "HandleMidtrans S r =
     (if rq_ReadFails r then State_Monad.return read_error_answer
      else answer (\<lambda>_. writeJSON 200 (Some (JObj [(''status'', JStr ''received'')])))
        (ProcessCallback_Handle S ''MIDTRANS'' (take (64 * 1024) (rq_Raw r)) (rq_Headers r)))"

section \<open>The administrator\<close>

definition Admin_ListPayments :: "'w service \<Rightarrow> http_request \<Rightarrow> ('w, http_response) state" where
  "Admin_ListPayments S r =
     (let q = rq_Query r in
      case parseListParams (rq_FromFirst r) q of
        Inl e \<Rightarrow> State_Monad.return (error_answer e)
      | Inr p \<Rightarrow> answer writePaymentList (AdminListPayments_Handle S
          \<lparr>lq_Status = Header_Get q ''status'', lq_CallerService = Header_Get q ''caller_service'',
           lq_From = lp_From p, lq_To = lp_To p, lq_Cursor = lp_Cursor p, lq_Limit = lp_Limit p,
           aq_GatewayType = Header_Get q ''gateway_type'', aq_ReferenceID = Header_Get q ''reference_id''\<rparr>))"

definition payment_detail :: "'w service \<Rightarrow> uuid \<Rightarrow> ('w, goerr + json option) state" where
  "payment_detail S uid =
     bindE (GetPayment_Handle S TTLForStatus \<lparr>gq_ID = uid, gq_CallerService = [], gq_Admin = True\<rparr>) (\<lambda>p.
     bindE (GetAttempts_Handle S uid) (\<lambda>attempts.
     bindE (GetEvents_Handle S uid) (\<lambda>events.
     bindE (GetRefunds_Handle S uid) (\<lambda>refunds.
     State_Monad.return (Inr (map_option (\<lambda>dto. JObj
       [(''attempts'', JArr attempts), (''events'', JArr events), (''payment'', dto),
        (''payment_id'', JStr (uuid_String (lib S) uid)), (''refunds'', JArr refunds)]) (marshal_dto p)))))))"

definition GetPaymentDetail :: "'w service \<Rightarrow> string \<Rightarrow> ('w, http_response) state" where
  "GetPaymentDetail S idStr =
     with_id (uuid_Parse (lib S) idStr) (\<lambda>uid. answer (writeJSON 200) (payment_detail S uid))"

definition data_answer :: "json list \<Rightarrow> http_response" where
  "data_answer xs = writeJSON 200 (Some (JObj [(''data'', JArr xs)]))"

definition ListPaymentAttempts :: "'w service \<Rightarrow> string \<Rightarrow> ('w, http_response) state" where
  "ListPaymentAttempts S idStr =
     with_id (uuid_Parse (lib S) idStr) (\<lambda>uid. answer data_answer (GetAttempts_Handle S uid))"

definition ListPaymentEvents :: "'w service \<Rightarrow> string \<Rightarrow> ('w, http_response) state" where
  "ListPaymentEvents S idStr =
     with_id (uuid_Parse (lib S) idStr) (\<lambda>uid. answer data_answer (GetEvents_Handle S uid))"

definition Admin_ListRefunds :: "'w service \<Rightarrow> string \<Rightarrow> ('w, http_response) state" where
  "Admin_ListRefunds S idStr =
     with_id (uuid_Parse (lib S) idStr) (\<lambda>uid. answer data_answer (GetRefunds_Handle S uid))"

definition ForceExpire :: "'w service \<Rightarrow> string \<Rightarrow> ('w, http_response) state" where
  "ForceExpire S idStr =
     with_id (uuid_Parse (lib S) idStr) (\<lambda>uid.
       answer (\<lambda>_. writeJSON 200 (Some (JObj [(''payment_id'', JStr (uuid_String (lib S) uid)),
           (''status'', JStr ''EXPIRED'')]))) (ForceExpire_Handle S uid))"

definition OutboxStats :: "'w service \<Rightarrow> ('w, http_response) state" where
  "OutboxStats S = answer (\<lambda>st. writeJSON 200 (Some (stats_dto st))) (GetOutboxStats_Handle S)"

section \<open>Routes\<close>

text \<open>
  The patterns of \<open>CallerRoutes\<close> and \<open>AdminRoutes\<close>. A wildcard matches one segment that is not empty;
  \<open>GET\<close> patterns serve \<open>HEAD\<close> too; a path that has other methods only answers 405.
\<close>

datatype caller_route =
    RouteCreate | RouteList | RouteGet string | RouteCancel string | RouteCreateRefund string
  | RouteByRef string | RouteListRefunds string | RouteNotFound | RouteMethod

definition is_get :: "string \<Rightarrow> bool" where
  "is_get m \<longleftrightarrow> m = ''GET'' \<or> m = ''HEAD''"

definition caller_route :: "string \<Rightarrow> string list \<Rightarrow> caller_route" where
  "caller_route m path =
     (case path of
        [a] \<Rightarrow>
          if a \<noteq> ''payments'' then RouteNotFound
          else if m = ''POST'' then RouteCreate else if is_get m then RouteList else RouteMethod
      | [a, uid] \<Rightarrow>
          if a \<noteq> ''payments'' \<or> uid = [] then RouteNotFound
          else if is_get m then RouteGet uid else if m = ''DELETE'' then RouteCancel uid else RouteMethod
      | [a, first, second] \<Rightarrow>
          if a \<noteq> ''payments'' \<or> first = [] \<or> second = [] then RouteNotFound
          else if is_get m then
            (if first = ''ref'' then RouteByRef second
             else if second = ''refunds'' then RouteListRefunds first else RouteNotFound)
          else if m = ''POST'' \<and> second = ''refunds'' then RouteCreateRefund first
          else RouteMethod
      | _ \<Rightarrow> RouteNotFound)"

definition serve_caller ::
  "'w service \<Rightarrow> duration \<Rightarrow> string \<Rightarrow> http_request \<Rightarrow> ('w, http_response) state" where
  "serve_caller S ttl caller r =
     (case caller_route (rq_Method r) (rq_Path r) of
        RouteCreate \<Rightarrow> CreatePayment S ttl caller r
      | RouteList \<Rightarrow> ListPayments S caller r
      | RouteGet uid \<Rightarrow> GetPayment S caller uid
      | RouteCancel uid \<Rightarrow> CancelPayment S caller uid
      | RouteCreateRefund uid \<Rightarrow> CreateRefund S caller uid r
      | RouteByRef ref \<Rightarrow> GetPaymentByRef S caller ref
      | RouteListRefunds uid \<Rightarrow> ListRefunds S caller uid
      | RouteNotFound \<Rightarrow> State_Monad.return not_found_answer
      | RouteMethod \<Rightarrow> State_Monad.return method_answer)"

text \<open>The path below \<open>/api/v1/admin\<close>.\<close>

definition serve_admin :: "'w service \<Rightarrow> http_request \<Rightarrow> string list \<Rightarrow> ('w, http_response) state" where
  "serve_admin S r path =
     (let get = is_get (rq_Method r); post = (rq_Method r = ''POST'') in
      case path of
        [a] \<Rightarrow>
          if a \<noteq> ''payments'' then State_Monad.return not_found_answer
          else if get then Admin_ListPayments S r else State_Monad.return method_answer
      | [a, uid] \<Rightarrow>
          if a = ''outbox'' \<and> uid = ''stats'' then (if get then OutboxStats S else State_Monad.return method_answer)
          else if a \<noteq> ''payments'' \<or> uid = [] then State_Monad.return not_found_answer
          else if get then GetPaymentDetail S uid else State_Monad.return method_answer
      | [a, uid, what] \<Rightarrow>
          if a \<noteq> ''payments'' \<or> uid = [] then State_Monad.return not_found_answer
          else if what = ''attempts'' then (if get then ListPaymentAttempts S uid else State_Monad.return method_answer)
          else if what = ''events'' then (if get then ListPaymentEvents S uid else State_Monad.return method_answer)
          else if what = ''refunds'' then
            (if get then Admin_ListRefunds S uid else if post then AdminCreateRefund S uid r
             else State_Monad.return method_answer)
          else if what = ''expire'' then (if post then ForceExpire S uid else State_Monad.return method_answer)
          else State_Monad.return not_found_answer
      | _ \<Rightarrow> State_Monad.return not_found_answer)"

text \<open>
  The server of \<open>cmd/server/main.go\<close>: which requests reach these handlers, behind which guard. Any
  other request is \<open>net/http\<close>'s own affair (redirects, 404, static files, health checks).
\<close>

record http_config =
  hc_KeyHashes :: "string \<rightharpoonup> string"
  hc_AdminKey :: string
  hc_IdemTTL :: duration

definition http_serve :: "'w service \<Rightarrow> http_config \<Rightarrow> http_request \<Rightarrow> ('w, http_response) state" where
  "http_serve S cfg r =
     (case rq_Path r of
        a # path \<Rightarrow>
          if a = ''payments'' then
            (case CallerAuth (hc_KeyHashes cfg) (rq_Headers r) of
               Inl e \<Rightarrow> State_Monad.return (error_answer e)
             | Inr caller \<Rightarrow> serve_caller S (hc_IdemTTL cfg) caller r)
          else if take 3 (rq_Path r) = [''api'', ''v1'', ''admin''] \<and> length (rq_Path r) > 3 then
            (case AdminAuth (hc_AdminKey cfg) (rq_Headers r) of
               Inl e \<Rightarrow> State_Monad.return (error_answer e)
             | Inr _ \<Rightarrow> serve_admin S r (drop 3 (rq_Path r)))
          else if rq_Path r = [''webhooks'', ''midtrans''] then
            (if rq_Method r = ''POST'' then HandleMidtrans S r else State_Monad.return method_answer)
          else State_Monad.return not_found_answer
      | [] \<Rightarrow> State_Monad.return not_found_answer)"

section \<open>Answers\<close>

definition is_replay :: "http_response \<Rightarrow> bool" where
  "is_replay resp \<longleftrightarrow> (''X-Idempotent-Replay'', ''true'') \<in> set (hr_Headers resp)"

text \<open>
  The shapes an answer can have: an error of the application, one of the fixed texts, a success with
  a JSON body, or the replay of a stored response.
\<close>

definition answer_ok :: "http_response \<Rightarrow> bool" where
  "answer_ok resp \<longleftrightarrow>
     (\<exists>e. resp = error_answer e) \<or> resp \<in> {not_found_answer, method_answer, read_error_answer} \<or>
     (hr_Status resp \<in> {200, 201, 202} \<and> json_type \<in> set (hr_Headers resp) \<and> (\<forall>t. hr_Body resp \<noteq> TextBody t)) \<or>
     (is_replay resp \<and> json_type \<in> set (hr_Headers resp))"

lemma answer_ok_simps [simp]:
  "answer_ok (error_answer e)" "answer_ok not_found_answer" "answer_ok method_answer" "answer_ok read_error_answer"
  "answer_ok (replay_answer res)"
  "st \<in> {200, 201, 202} \<Longrightarrow> answer_ok (writeJSON st j)"
  by (auto simp: answer_ok_def is_replay_def replay_answer_def writeJSON_def body_of_def split: option.splits)

lemma refund_answer_ok: "rpr_Refund res \<noteq> None \<Longrightarrow> answer_ok (refund_answer L res)"
  by (auto simp: refund_answer_def Let_def writeJSON_def answer_ok_def body_of_def split: option.splits)

lemma error_answer_status: "hr_Status (error_answer e) \<in> {400, 401, 403, 404, 409, 422, 500, 502}"
  using WriteError_status [of e] by (auto simp: error_answer_def writeJSON_def Let_def)

end
