(* ===== verification/Http_Contract.thy ===== *)
theory Http_Contract
  imports Query_Contract Http_Handlers
begin

text \<open>
  The interface of the HTTP layer: that of commands and queries, idempotency records under keys of
  their own, and the administrator's reads. Every request, whatever its path, headers and body,
  keeps the invariant, and what a read answers is of the caller who asked.
\<close>

text \<open>The notifications a request brings: the body of a webhook, as far as it is read, and its headers.\<close>

definition notices :: "http_request \<Rightarrow> (string \<times> headers) set" where
  "notices r = (if rq_Path r = [''webhooks'', ''midtrans''] \<and> rq_Method r = ''POST'' \<and> \<not> rq_ReadFails r
     then {(take (64 * 1024) (rq_Raw r), rq_Headers r)} else {})"

locale http_contract = query_contract S I quiet ext held ready fresh backed heard view
  for S :: "'w service" and I quiet ext held ready fresh backed heard view +
  assumes Idem_SetNX_law: "I w \<Longrightarrow> idem_key k \<Longrightarrow> run_state (cp_SetNX (sv_cache S) k v ttl) w = (b, w') \<Longrightarrow>
      I w' \<and> quiet w w'"
    and Idem_Set_law: "I w \<Longrightarrow> idem_key k \<Longrightarrow> run_state (cp_Set (sv_cache S) k v ttl) w = (e, w') \<Longrightarrow>
      I w' \<and> quiet w w'"
    and Attempts_law: "I w \<Longrightarrow> run_state (ad_GetPaymentAttempts (sv_admin S) uid) w = (xs, w') \<Longrightarrow> I w' \<and> quiet w w'"
    and Events_law: "I w \<Longrightarrow> run_state (ad_GetPaymentEvents (sv_admin S) uid) w = (es, w') \<Longrightarrow> I w' \<and> quiet w w'"
    and Refunds_law: "I w \<Longrightarrow> run_state (ad_GetRefunds (sv_admin S) uid) w = (rs, w') \<Longrightarrow> I w' \<and> quiet w w'"
    and Stats_law: "I w \<Longrightarrow> run_state (ad_GetOutboxStats (sv_admin S)) w = (st, w') \<Longrightarrow> I w' \<and> quiet w w'"
begin

lemma calm_admin [intro, simp]:
  "calm (ad_GetPaymentAttempts (sv_admin S) uid)" "calm (ad_GetPaymentEvents (sv_admin S) uid)"
  "calm (ad_GetRefunds (sv_admin S) uid)" "calm (ad_GetOutboxStats (sv_admin S))"
  by (rule calmI, erule (1) Attempts_law Events_law Refunds_law Stats_law)+

lemma calm_bindE [intro]: "calm m \<Longrightarrow> (\<And>x. calm (f x)) \<Longrightarrow> calm (bindE m f)"
proof -
  assume m: "calm m" and f: "\<And>x. calm (f x)"
  have "calm (case r of Inl e \<Rightarrow> State_Monad.return (Inl e) | Inr x \<Rightarrow> f x)" for r
    using f by (cases r) simp_all
  with m show ?thesis unfolding bindE_def by blast
qed

lemma calm_admin_queries [intro, simp]:
  "calm (GetAttempts_Handle S uid)" "calm (GetEvents_Handle S uid)" "calm (GetRefunds_Handle S uid)"
  "calm (GetOutboxStats_Handle S)"
  by (auto simp: GetAttempts_Handle_def GetEvents_Handle_def GetRefunds_Handle_def GetOutboxStats_Handle_def)

lemma calm_Get: "calm (cp_Get (sv_cache S) k)"
  using Get_law by (auto intro: calmI)

lemma calm_Begin: "idem_key k \<Longrightarrow> calm (Begin S ttl k h)"
  unfolding Begin_def
  by (rule calm_bind, use Idem_SetNX_law in \<open>blast intro: calmI\<close>)
     (auto split: sum.splits bool.splits intro: calm_Get)

lemma calm_Complete: "idem_key k \<Longrightarrow> calm (Complete S ttl k h st b)"
  unfolding Complete_def using Idem_Set_law by (blast intro: calmI)

lemma calm_Release: "calm (Release S k)"
  by (simp add: Release_def)

lemma calm_safe: "calm m \<Longrightarrow> safe m"
  by (simp add: calm_def call_def) (use quiet_ext in fastforce)

lemma safe_return: "safe (State_Monad.return x)"
  by (simp add: call_return)

lemma safe_bind: "safe m \<Longrightarrow> (\<And>x. safe (f x)) \<Longrightarrow> safe (m \<bind> f)"
  by (rule call_bind)

lemma idem_safe:
  "safe (Begin S ttl (IdempotencyKey caller ref) h)" "safe (Complete S ttl (IdempotencyKey caller ref) h st b)"
  "safe (Release S k)"
  using calm_Begin calm_Complete calm_Release by (auto intro: calm_safe)

lemma admin_safe:
  "safe (GetAttempts_Handle S uid)" "safe (GetEvents_Handle S uid)" "safe (GetRefunds_Handle S uid)"
  "safe (GetOutboxStats_Handle S)"
  using calm_admin_queries calm_safe by blast+

lemma payment_detail_safe: "safe (payment_detail S uid)"
proof -
  have "calm (bindE (GetAttempts_Handle S uid) (\<lambda>attempts. bindE (GetEvents_Handle S uid) (\<lambda>events.
     bindE (GetRefunds_Handle S uid) (\<lambda>refunds. State_Monad.return (f attempts events refunds)))))" for f
    by (intro calm_bindE calm_admin_queries calm_return)
  then show ?thesis
    unfolding payment_detail_def by (intro call_bindE [OF query_safe(1)] calm_safe) simp_all
qed

section \<open>Every handler keeps the invariant and answers\<close>

abbreviation answers :: "('w, http_response) state \<Rightarrow> bool" where
  "answers m \<equiv> call (\<lambda>_. True) m (\<lambda>resp _. answer_ok resp)"

lemma answers_return: "answer_ok resp \<Longrightarrow> answers (State_Monad.return resp)"
  by (simp add: call_return)

lemma answers_bind: "safe m \<Longrightarrow> (\<And>x. answers (f x)) \<Longrightarrow> answers (m \<bind> f)"
  by (rule call_bind)

lemma call_answer:
  assumes "call P m Q" "\<And>x w. Q (Inr x) w \<Longrightarrow> R (f x) w" "\<And>e w. Q (Inl e) w \<Longrightarrow> R (error_answer e) w"
  shows "call P (answer f m) R"
  unfolding answer_def
  by (rule call_bind [OF assms(1)], rule call_return) (use assms(2,3) in \<open>auto split: sum.splits\<close>)

lemma answers_answer: "safe m \<Longrightarrow> (\<And>x. answer_ok (f x)) \<Longrightarrow> answers (answer f m)"
  by (rule call_answer) simp_all

lemma answers_with_id: "(\<And>uid. answers (f uid)) \<Longrightarrow> answers (with_id u f)"
  by (cases u) (simp_all add: with_id_def answers_return)

lemma answers_refund: "answers (answer (refund_answer (lib S)) (RefundPayment_Handle S cmd))"
  by (rule call_answer [OF RefundPayment_result]) (simp_all add: refund_answer_ok del: not_None_eq)

lemma list_answers [simp]:
  "answer_ok (writePaymentList res)" "answer_ok (refund_list_answer L p)" "answer_ok (data_answer xs)"
  by (simp_all add: writePaymentList_def refund_list_answer_def data_answer_def)

lemma run_create_answers: "answers (run_create S ttl caller req holds)"
  unfolding run_create_def Let_def
  by (rule answers_bind [OF CreatePayment_safe])
     (auto split: sum.split prod.split intro!: answers_bind idem_safe safe_return answers_return)

lemma CreatePayment_http_answers: "answers (CreatePayment S ttl caller r)"
proof (cases "decode_create (rt_float (sv_rt S)) r")
  case (Some req)
  then show ?thesis
    unfolding CreatePayment_def Some option.case
    by (intro answers_bind [OF idem_safe(1)])
       (simp add: run_create_answers answers_return split: sum.split idem_outcome.split)
qed (simp add: CreatePayment_def answers_return)

lemma handlers_answer:
  "answers (CancelPayment S caller i)" "answers (GetPayment S caller i)" "answers (GetPaymentByRef S caller ref)"
  "answers (ListPayments S caller r)" "answers (refund_create S caller admin i r)" "answers (ListRefunds S caller i)"
  "answers (Admin_ListPayments S r)" "answers (GetPaymentDetail S i)"
  "answers (ListPaymentAttempts S i)" "answers (ListPaymentEvents S i)" "answers (Admin_ListRefunds S i)"
  "answers (ForceExpire S i)" "answers (OutboxStats S)"
  unfolding CancelPayment_def GetPayment_def GetPaymentByRef_def ListPayments_def refund_create_def ListRefunds_def
    Admin_ListPayments_def GetPaymentDetail_def ListPaymentAttempts_def ListPaymentEvents_def
    Admin_ListRefunds_def ForceExpire_def OutboxStats_def Let_def
  by ((rule answers_with_id | rule answers_refund | rule answers_answer | rule query_safe CancelPayment_safe
        ForceExpire_safe payment_detail_safe admin_safe | rule answers_return answer_ok_simps list_answers
      | simp only: split: option.split sum.split if_split, intro conjI allI impI | simp)+)

lemma serve_caller_answers: "answers (serve_caller S ttl caller r)"
  by (simp add: serve_caller_def CreateRefund_def CreatePayment_http_answers handlers_answer answers_return
      split: caller_route.splits)

lemma serve_admin_answers: "answers (serve_admin S r path)"
  by (simp add: serve_admin_def Let_def AdminCreateRefund_def handlers_answer answers_return split: list.split)

lemma webhook_answers:
  assumes "\<not> rq_ReadFails r \<Longrightarrow> heard (take (64 * 1024) (rq_Raw r)) (rq_Headers r)"
  shows "answers (HandleMidtrans S r)"
  unfolding HandleMidtrans_def
  by (cases "rq_ReadFails r") (use assms in \<open>simp_all add: answers_return answers_answer ProcessCallback_safe\<close>)

lemma http_answers: "(\<And>raw hdrs. (raw, hdrs) \<in> notices r \<Longrightarrow> heard raw hdrs) \<Longrightarrow> answers (http_serve S cfg r)"
  by (simp add: http_serve_def notices_def webhook_answers serve_caller_answers serve_admin_answers answers_return
      split: list.split sum.split)

lemma http_safe: "(\<And>raw hdrs. (raw, hdrs) \<in> notices r \<Longrightarrow> heard raw hdrs) \<Longrightarrow> safe (http_serve S cfg r)"
  by (rule call_post [OF http_answers]) simp_all

section \<open>What a read shows\<close>

text \<open>The answers to reads of a caller: error answers, or values of the caller's payments.\<close>

definition shows_own :: "string \<Rightarrow> http_response \<Rightarrow> 'w \<Rightarrow> bool" where
  "shows_own caller resp w \<longleftrightarrow> hr_Status resp = 200 \<longrightarrow>
     (\<exists>dto. resp = writeJSON 200 (marshal_dto dto) \<and> pd_CallerService dto = caller \<and>
        (\<exists>s. view w (PaymentCacheKey s) dto)) \<or>
     (\<exists>ref dto. resp = writeJSON 200 (marshal_dto dto) \<and> view w (ReferenceCacheKey caller ref) dto) \<or>
     (\<exists>res. resp = writePaymentList res \<and> (\<forall>dto \<in> set (lr_Payments res). pd_CallerService dto = caller \<and>
        view w (PaymentCacheKey (pd_ID dto)) dto)) \<or>
     (\<exists>p. resp = refund_list_answer (lib S) p \<and> p_CallerService p = caller \<and> held w p)"

lemma error_not_200 [simp]: "hr_Status (error_answer e) \<noteq> 200"
  using error_answer_status [of e] by auto

lemma shows_own_error [simp]:
  "shows_own caller (error_answer e) w" "shows_own caller not_found_answer w" "shows_own caller method_answer w"
  by (simp_all add: shows_own_def not_found_answer_def method_answer_def)

lemma reads_show_own:
  assumes "is_get (rq_Method r)"
  shows "call (\<lambda>_. True) (serve_caller S ttl caller r) (shows_own caller)"
proof -
  have with_id: "call (\<lambda>_. True) (with_id u f) (shows_own caller)"
    if "\<And>uid. call (\<lambda>_. True) (f uid) (shows_own caller)" for u f
    using that by (cases u) (simp_all add: with_id_def call_return)
  have get: "call (\<lambda>_. True) (GetPayment S caller i) (shows_own caller)" for i
    unfolding GetPayment_def
    by (intro with_id call_answer [OF GetPayment_view]) (auto simp: shows_own_def)
  have by_ref: "call (\<lambda>_. True) (GetPaymentByRef S caller ref) (shows_own caller)" for ref
    unfolding GetPaymentByRef_def
    by (rule call_answer [OF GetByRef_view]) (auto simp: shows_own_def)
  have list: "call (\<lambda>_. True) (ListPayments S caller r) (shows_own caller)"
  proof (cases "parseListParams (rq_FromFirst r) (rq_Query r)")
    case (Inr p)
    show ?thesis unfolding ListPayments_def Inr sum.case
      by (rule call_answer [OF ListPayments_view]) (auto simp: shows_own_def)
  qed (simp add: ListPayments_def call_return)
  have refunds: "call (\<lambda>_. True) (ListRefunds S caller i) (shows_own caller)" for i
    unfolding ListRefunds_def
    by (intro with_id call_answer [OF ListRefunds_view]) (auto simp: shows_own_def)
  have "rq_Method r \<noteq> ''POST''" "rq_Method r \<noteq> ''DELETE''" using assms by (auto simp: is_get_def)
  then have route: "caller_route (rq_Method r) (rq_Path r) \<noteq> RouteCreate"
    "caller_route (rq_Method r) (rq_Path r) \<noteq> RouteCancel u"
    "caller_route (rq_Method r) (rq_Path r) \<noteq> RouteCreateRefund u" for u
    by (simp_all add: caller_route_def assms split: list.split)
  show ?thesis
    using route by (cases "caller_route (rq_Method r) (rq_Path r)")
      (simp_all add: serve_caller_def call_return get by_ref list refunds, blast+)
qed

end

end
