(* ===== verification/Pg_Http_Laws.thy ===== *)
theory Pg_Http_Laws
  imports Pg_Query_Laws Http_Contract
begin

text \<open>PostgreSQL and Redis satisfy \<open>http_contract\<close>.\<close>

lemma run_read_all:
  assumes "sys_ok U E w" "run_state (read_all E what f) w = (r, w')"
  shows "sys_ok U E w' \<and> sys_quiet U E w w'"
proof -
  obtain q v where q: "run_state (query E f) w = (q, v)" by fastforce
  with assms(2) have "v = w'" by (simp add: read_all_def)
  with run_query(1,2) [OF assms(1) q] show ?thesis by simp
qed

interpretation pgh: http_contract "pg_service E" "sys_ok U E" "sys_quiet U E" "sys_ext U" "sys_held E"
  "sys_ready E" "sys_fresh E" "\<lambda>w op p. True" "\<lambda>raw hdrs. True" "pg_view E"
  for U E
proof (unfold_locales, goal_cases)
  case 1 then show ?case
    by (auto simp: pg_ports redis_SetNX_def elim!: run_act_tame intro: tame_redis)
next
  case 2 then show ?case
    by (auto simp: pg_ports redis_Set_def elim!: run_act_tame intro: tame_redis)
qed (simp_all add: pg_ports admin_repo_def run_read_all)

end
