(* ===== verification/Processes.thy ===== *)
theory Processes
  imports Pg_Http_Laws
begin

text \<open>
  A process of the service: the requests it serves and the jobs its tickers run, one after the
  other, over PostgreSQL, Redis and the gateways. The environment decides everything the program
  does not: faults, lost replies, what gateways answer, and what other processes do before each
  call. The properties hold for every such environment.
\<close>

datatype request =
    CreateRequest create_payment_command
  | CancelRequest uuid string
  | RefundRequest refund_payment_command
  | CallbackRequest string string headers
  | ForceExpireRequest uuid
  | ExpiryTick
  | ReconcilerTick reconcile_config duration
  | GetRequest get_payment_query
  | GetByReferenceRequest string string
  | ListRequest list_payments_query
  | AdminListRequest admin_list_query
  | ListRefundsRequest uuid string
  | HttpRequest http_config http_request

definition ignore :: "('w, 'a) state \<Rightarrow> ('w, unit) state" where
  "ignore m = do { _ \<leftarrow> m; State_Monad.return () }"

fun handle :: "'w service \<Rightarrow> request \<Rightarrow> ('w, unit) state" where
  "handle S (CreateRequest cmd) = ignore (CreatePayment_Handle S cmd)"
| "handle S (CancelRequest uid caller) = ignore (CancelPayment_Handle S uid caller)"
| "handle S (RefundRequest cmd) = ignore (RefundPayment_Handle S cmd)"
| "handle S (CallbackRequest ty body hdrs) = ignore (ProcessCallback_Handle S ty body hdrs)"
| "handle S (ForceExpireRequest uid) = ignore (ForceExpire_Handle S uid)"
| "handle S ExpiryTick = ExpiryJob_RunOnce S"
| "handle S (ReconcilerTick cfg interval) = tick_reconciler S cfg interval"
| "handle S (GetRequest q) = ignore (GetPayment_Handle S TTLForStatus q)"
| "handle S (GetByReferenceRequest ref caller) = ignore (GetByRef_Handle S TTLForStatus ref caller)"
| "handle S (ListRequest q) = ignore (ListPayments_Handle S q)"
| "handle S (AdminListRequest q) = ignore (AdminListPayments_Handle S q)"
| "handle S (ListRefundsRequest uid caller) = ignore (ListRefunds_Handle S uid caller)"
| "handle S (HttpRequest cfg r) = ignore (http_serve S cfg r)"

definition serve :: "env \<Rightarrow> request \<Rightarrow> world \<Rightarrow> world" where
  "serve E req w = snd (run_state (handle (pg_service E) req) w)"

definition process :: "env \<Rightarrow> request list \<Rightarrow> world \<Rightarrow> world" where
  "process E reqs w = fold (serve E) reqs w"

section \<open>Every request keeps the invariant\<close>

lemma run_ignore: "snd (run_state (ignore m) w) = snd (run_state m w)"
  by (simp add: ignore_def split: prod.splits)

lemma serve_ok:
  assumes "sys_ok U E w"
  shows "sys_ok U E (serve E req w) \<and> sys_ext U w (serve E req w)"
proof -
  have run: "sys_ok U E (snd (run_state m w)) \<and> sys_ext U w (snd (run_state m w))"
    if "handler_contract.call (sys_ok U E) (sys_ext U) (\<lambda>_. True) m (\<lambda>_ _. True)" for m :: "(world, 'a) state"
    using pg.callD [OF that assms TrueI] by (metis prod.exhaust_sel)
  show ?thesis
    unfolding serve_def
    by (cases req) (simp_all add: run_ignore run pg.CreatePayment_safe pg.CancelPayment_safe
        pg.RefundPayment_safe pg.ProcessCallback_safe pg.ForceExpire_safe pg.ExpiryJob_safe
        pg.tick_reconciler_safe pgq.query_safe pgh.http_safe)
qed

lemma process_ok:
  assumes "sys_ok U E w"
  shows "sys_ok U E (process E reqs w) \<and> sys_ext U w (process E reqs w)"
  using assms
proof (induction reqs arbitrary: w)
  case Nil
  then show ?case by (simp add: process_def sys_ext_refl)
next
  case (Cons req reqs)
  note one = serve_ok [OF Cons.prems, of req]
  with Cons.IH [of "serve E req w"] show ?case
    by (auto simp: process_def intro: sys_ext_trans)
qed

section \<open>What the invariant says of the tables\<close>

definition rows_total :: "(refund_status \<Rightarrow> bool) \<Rightarrow> refund_row list \<Rightarrow> int" where
  "rows_total P rows = sum_list (map (\<lambda>r. if P (rw_Status r) then sint (rw_Amount r) else 0) rows)"

abbreviation not_failed :: "refund_status \<Rightarrow> bool" where
  "not_failed s \<equiv> s \<noteq> RefundStatusFailed"

lemma mset_sum_list: "mset xs = mset ys \<Longrightarrow> sum_list xs = sum_list (ys :: int list)"
  by (metis sum_mset_sum_list)

lemma stored_rtotal:
  assumes "decodes row" "\<forall>r \<in> set (db_refunds d). rw_DeletedAt r = None" "\<And>r. P r \<longleftrightarrow> R (r_Status r)"
  shows "rtotal P (p_Refunds (stored d row)) = rows_total R (refunds_of d (pr_ID row))"
proof -
  let ?g = "\<lambda>c. if R (snd c) then sint (snd (snd (snd (fst c)))) else 0"
  have "mset (map rcore (p_Refunds (stored d row))) = mset (map rwcore (refunds_of d (pr_ID row)))"
    using stored_core [OF assms(1,2)] by (simp add: core_def)
  then have "image_mset ?g (mset (map rcore (p_Refunds (stored d row)))) =
      image_mset ?g (mset (map rwcore (refunds_of d (pr_ID row))))" by (rule arg_cong)
  then have "sum_list (map (?g \<circ> rcore) (p_Refunds (stored d row))) =
      sum_list (map (?g \<circ> rwcore) (refunds_of d (pr_ID row)))"
    by (intro mset_sum_list) (simp add: image_mset.compositionality comp_def)
  then show ?thesis
    by (simp add: rtotal_def rows_total_def comp_def rcore_def rstatic_def assms(3) refund_of_row_def cong: if_cong)
qed

lemma stored_refunds_set:
  assumes "decodes row" "\<forall>r \<in> set (db_refunds d). rw_DeletedAt r = None"
  shows "set (p_Refunds (stored d row)) = refund_of_row ` set (refunds_of d (pr_ID row))"
  using assms(2) by (auto simp: stored_def ListRefundsByPayment_def refunds_of_def)

lemma row_money:
  assumes "db_ok L d" "row \<in> set (db_payments d)"
  shows "rows_total not_failed (refunds_of d (pr_ID row)) \<le> sint (pr_Amount row)"
    and "refunds_of d (pr_ID row) \<noteq> [] \<Longrightarrow> WasPaid (pr_Status row)"
    and "WasPaid (pr_Status row) \<Longrightarrow> pr_Status row = paid_status (sint (pr_Amount row))
      (rows_total (\<lambda>s. s = RefundStatusSucceeded) (refunds_of d (pr_ID row)))"
    and "r \<in> set (refunds_of d (pr_ID row)) \<Longrightarrow> 0 < sint (rw_Amount r)"
proof -
  note row = db_okD [OF assms] and live = db_ok_live [OF assms(1)]
  note ok = payment_okD [OF row(2)]
  have amount: "m_Amount (p_Amount (stored d row)) = pr_Amount row"
    using toDomain_fields(5) [OF row(3) [unfolded decodes_def]] by (simp add: stored_def)
  have status: "p_Status (stored d row) = pr_Status row" by (rule stored_fields(2) [OF row(3)])
  show "rows_total not_failed (refunds_of d (pr_ID row)) \<le> sint (pr_Amount row)"
    using ok(6) stored_rtotal [OF row(3) live, of is_open_or_done not_failed] amount by simp
  show "refunds_of d (pr_ID row) \<noteq> [] \<Longrightarrow> WasPaid (pr_Status row)"
    using ok(9) status stored_refunds_set [OF row(3) live] by fastforce
  show "WasPaid (pr_Status row) \<Longrightarrow> pr_Status row = paid_status (sint (pr_Amount row))
      (rows_total (\<lambda>s. s = RefundStatusSucceeded) (refunds_of d (pr_ID row)))"
    using ok(10) stored_rtotal [OF row(3) live, of is_succeeded "\<lambda>s. s = RefundStatusSucceeded"] amount status
    by simp
  assume "r \<in> set (refunds_of d (pr_ID row))"
  then have "refund_of_row r \<in> set (p_Refunds (stored d row))"
    using stored_refunds_set [OF row(3) live] by simp
  from ok(2) [OF this] show "0 < sint (rw_Amount r)" by (simp add: refund_of_row_def)
qed

lemma row_references:
  assumes "db_ok L d" "row \<in> set (db_payments d)"
  shows "distinct (map rw_ReferenceID (refunds_of d (pr_ID row)))"
proof -
  note row = db_okD [OF assms] and live = db_ok_live [OF assms(1)]
  have "mset (map rcore (p_Refunds (stored d row))) = mset (map rwcore (refunds_of d (pr_ID row)))"
    using stored_core [OF row(3) live] by (simp add: core_def)
  then have "image_mset (\<lambda>c. fst (snd (snd (fst c)))) (mset (map rcore (p_Refunds (stored d row)))) =
      image_mset (\<lambda>c. fst (snd (snd (fst c)))) (mset (map rwcore (refunds_of d (pr_ID row))))"
    by (rule arg_cong)
  then have "mset (map r_ReferenceID (p_Refunds (stored d row))) =
      mset (map rw_ReferenceID (refunds_of d (pr_ID row)))"
    by (simp add: image_mset.compositionality comp_def rcore_def rstatic_def refund_of_row_def)
  with payment_okD(5) [OF row(2)] show ?thesis by (metis mset_eq_imp_distinct_iff)
qed

lemma rows_total_filter:
  "(\<And>r. r \<in> set rows \<Longrightarrow> 0 < sint (rw_Amount r)) \<Longrightarrow> rows_total P (filter Q rows) \<le> rows_total P rows"
  by (induction rows) (fastforce simp: rows_total_def)+

section \<open>A concrete process\<close>

text \<open>One gateway that settles every charge and accepts every refund, no faults, no other process.\<close>

abbreviation ex_settled :: "goerr + gateway_response" where
  "ex_settled \<equiv> Inr \<lparr>gr_GatewayTransactionID = ''tx'', gr_Status = TransactionSettled,
      gr_NextAction = \<lparr>na_Type = NextActionNone, na_VANumber = [], na_Bank = [], na_QRString = [],
        na_QRImageURL = [], na_RedirectURL = [], na_ExpiresAt = None\<rparr>, gr_RawResponse = None\<rparr>"

definition ex_env :: env where
  "ex_env = \<lparr>en_lib = ex_lib, en_time = (\<lambda>n. int n * 1000000), en_uuid = (\<lambda>n. 2 * n),
     en_rowid = (\<lambda>n k. 100 * n + k), en_fault = (\<lambda>n k. None), en_lost = (\<lambda>n. False),
     en_others = (\<lambda>n s. s), en_redis = (\<lambda>n. None), en_gateways = [''midtrans''],
     en_capability = (\<lambda>m. \<lparr>mc_Charge = True, mc_Refund = True, mc_PartialRefund = True\<rparr>),
     en_charge = (\<lambda>n q. ex_settled),
     en_status = (\<lambda>n r. Inl (ErrorsNew ''offline'')), en_cancel = (\<lambda>n t. None),
     en_refund = (\<lambda>n q. Inr \<lparr>rr_Accepted = True, rr_GatewayRefundID = ''gr'', rr_DeclineReason = [],
        rr_RawResponse = None\<rparr>),
     en_webhook = (\<lambda>b h. Inl (ErrorsNew ''bad signature'')), en_jsonb = (\<lambda>j. ''{}''), en_float = Some\<rparr>"

definition ex_world :: world where
  "ex_world = \<lparr>w_shared = \<lparr>sh_db = empty_db, sh_cache = (\<lambda>k. None), sh_calls = []\<rparr>, w_tick = 0\<rparr>"

definition ex_create :: create_payment_command where
  "ex_create = \<lparr>cc_ReferenceID = ''o1'', cc_CallerService = ''s'', cc_Amount = 100000, cc_Currency = ''IDR'',
     cc_GatewayType = ''midtrans'', cc_PaymentMethodType = ''QRIS'', cc_BankCode = [], cc_CardToken = [],
     cc_ReturnURL = [], cc_CustomerName = [], cc_CustomerEmail = [], cc_CustomerPhone = [],
     cc_CustomerExternalID = [], cc_Description = [], cc_ExpiredAt = None, cc_Metadata = None\<rparr>"

definition ex_refund :: refund_payment_command where
  "ex_refund = \<lparr>rc_PaymentID = 2, rc_ReferenceID = ''r1'', rc_Amount = 40000, rc_Reason = [],
     rc_CallerService = ''s'', rc_Admin = False\<rparr>"

abbreviation ex_requests :: "request list" where
  "ex_requests \<equiv> [CreateRequest ex_create, RefundRequest ex_refund]"

abbreviation odd_ids :: "uuid set" where
  "odd_ids \<equiv> {u. odd u}"

lemma ex_world_ok: "sys_ok odd_ids ex_env ex_world"
proof -
  have "inj (\<lambda>n :: nat. 2 * n)" by (simp add: inj_on_def)
  moreover have "odd_ids \<inter> range (\<lambda>n :: nat. 2 * n) = {}" by auto
  moreover have "shared_ok ex_lib (w_shared ex_world)"
    by (simp add: shared_ok_def refund_calls_ok_def db_ok_def cache_ok_def ex_world_def empty_db_def)
  ultimately show ?thesis
    by (simp add: sys_ok_def env_ok_def ex_env_def fair_step_refl)
       (simp add: ex_world_def db_ids_def empty_db_def)
qed

text \<open>The same world once one payment has been created, and paid at once.\<close>

definition ex_paid_db :: db where
  "ex_paid_db =
     \<lparr>db_payments =
       [\<lparr>pr_ID = 2, pr_ReferenceID = ''o1'', pr_CallerService = ''s'', pr_GatewayType = ''midtrans'',
         pr_GatewayTransactionID = Some ''tx'', pr_Status = StatusCompleted, pr_Amount = 100000,
         pr_Currency = ''IDR'', pr_PaymentMethodType = Some ''QRIS'', pr_CustomerInfo = JObj [(''external_id'', JStr []),
           (''name'', JStr []), (''email'', JStr []), (''phone'', JStr [])],
         pr_Metadata = None, pr_GatewayRequestPayload = None, pr_GatewayResponsePayload = None,
         pr_Description = None, pr_ExpiredAt = None, pr_PaidAt = Some 8000000, pr_CreatedAt = 0,
         pr_UpdatedAt = 9000000, pr_DeletedAt = None, pr_Version = 1\<rparr>],
      db_refunds = [],
      db_events =
       [\<lparr>ev_ID = 1003, ev_AggregateID = 2, ev_EventType = ''PaymentInitiated'', ev_SequenceNumber = 1,
          ev_Payload = JObj [(''payment_id'', JStr ''2''), (''occurred_at'', JTime 0)], ev_CreatedAt = 10000000\<rparr>,
        \<lparr>ev_ID = 1004, ev_AggregateID = 2, ev_EventType = ''PaymentPending'', ev_SequenceNumber = 2,
          ev_Payload = JObj [(''payment_id'', JStr ''2''), (''gateway_transaction_id'', JStr ''tx''), (''occurred_at'', JTime 7000000)], ev_CreatedAt = 10000000\<rparr>,
        \<lparr>ev_ID = 1005, ev_AggregateID = 2, ev_EventType = ''PaymentCompleted'', ev_SequenceNumber = 3,
          ev_Payload = JObj [(''payment_id'', JStr ''2''), (''paid_at'', JTime 8000000), (''occurred_at'', JTime 9000000)], ev_CreatedAt = 10000000\<rparr>],
      db_outbox =
       [\<lparr>ob_ID = 1006, ob_AggregateID = 2, ob_EventType = ''PaymentInitiated'',
          ob_Payload = JObj [(''payment_id'', JStr ''2''), (''occurred_at'', JTime 0)], ob_Status = OutboxPending,
          ob_RetryCount = 0, ob_LastError = None, ob_ScheduledAt = 10000000, ob_PublishedAt = None,
          ob_CreatedAt = 10000000\<rparr>,
        \<lparr>ob_ID = 1007, ob_AggregateID = 2, ob_EventType = ''PaymentPending'',
          ob_Payload = JObj [(''payment_id'', JStr ''2''), (''gateway_transaction_id'', JStr ''tx''), (''occurred_at'', JTime 7000000)], ob_Status = OutboxPending,
          ob_RetryCount = 0, ob_LastError = None, ob_ScheduledAt = 10000000, ob_PublishedAt = None,
          ob_CreatedAt = 10000000\<rparr>,
        \<lparr>ob_ID = 1008, ob_AggregateID = 2, ob_EventType = ''PaymentCompleted'',
          ob_Payload = JObj [(''payment_id'', JStr ''2''), (''paid_at'', JTime 8000000), (''occurred_at'', JTime 9000000)], ob_Status = OutboxPending,
          ob_RetryCount = 0, ob_LastError = None, ob_ScheduledAt = 10000000, ob_PublishedAt = None,
          ob_CreatedAt = 10000000\<rparr>],
      db_attempts =
       [\<lparr>ar_ID = 600, ar_PaymentID = 2, ar_RefundID = None, ar_Operation = ''CHARGE'',
         ar_AttemptNumber = 1, ar_Status = ''SUCCEEDED'', ar_GatewayTransactionID = Some ''tx'',
         ar_ErrorCode = None, ar_ErrorMessage = None, ar_GatewayResponse = None, ar_DurationMs = Some 2,
         ar_CreatedAt = 6000000\<rparr>]\<rparr>"

definition ex_paid_world :: world where
  "ex_paid_world =
     \<lparr>w_shared =
       \<lparr>sh_db = ex_paid_db, sh_cache = (\<lambda>k. None),
        sh_calls = [CallCharge (charge_request ex_lib ex_create ''QRIS''
          (projr (new_payment ex_create \<lparr>m_Amount = 100000, m_Currency = ''IDR''\<rparr> ''QRIS'' 0 2))) ex_settled]\<rparr>,
      w_tick = 11\<rparr>"

lemma ex_paid_tables:
  "sh_db (w_shared (serve ex_env (CreateRequest ex_create) ex_world)) = ex_paid_db"
  "sh_calls (w_shared (serve ex_env (CreateRequest ex_create) ex_world)) = sh_calls (w_shared ex_paid_world)"
  "w_tick (serve ex_env (CreateRequest ex_create) ex_world) = 11"
proof -
  have "(let w = serve ex_env (CreateRequest ex_create) ex_world
         in (sh_db (w_shared w), sh_calls (w_shared w), w_tick w)) =
        (ex_paid_db, sh_calls (w_shared ex_paid_world), 11)" by code_simp
  then show "sh_db (w_shared (serve ex_env (CreateRequest ex_create) ex_world)) = ex_paid_db"
    "sh_calls (w_shared (serve ex_env (CreateRequest ex_create) ex_world)) = sh_calls (w_shared ex_paid_world)"
    "w_tick (serve ex_env (CreateRequest ex_create) ex_world) = 11" by (simp_all add: Let_def)
qed

lemma ex_paid_world_ok: "sys_ok odd_ids ex_env ex_paid_world"
proof -
  have "sh_db (w_shared ex_paid_world) = ex_paid_db" "w_tick ex_paid_world = 11"
    "cache_ok (en_lib ex_env) (w_shared ex_paid_world)"
    by (simp_all add: ex_paid_world_def cache_ok_def)
  with serve_ok [OF ex_world_ok, of "CreateRequest ex_create"] ex_paid_tables show ?thesis
    by (simp add: sys_ok_def shared_ok_def refund_calls_ok_def)
qed

end
