(* ===== verification/Process_Properties.thy ===== *)
theory Process_Properties
  imports Processes
begin

text \<open>
  What holds of the shared state however a process runs: any requests, any faults, any answers of
  the gateways, and other processes at work between its calls.
\<close>

lemma process_db_ok:
  "sys_ok U E w \<Longrightarrow> db_ok (en_lib E) (sh_db (w_shared (process E reqs w)))"
  using process_ok by (fastforce simp: sys_ok_def shared_ok_def)

text \<open>
  C5: money is conserved in the database. After any sequence of requests and jobs, every stored
  payment has refunds only if it was paid; each refund is a positive amount; the refunds that were
  not declined never add up to more than the payment; and the stored status is the one the
  succeeded refunds call for. No reference of a caller has two payments, no payment two refunds
  with one reference.
\<close>

theorem stored_refunds_within_payment:
  assumes "sys_ok U E w" "d = sh_db (w_shared (process E reqs w))"
  shows "(\<forall>row \<in> set (db_payments d).
      rows_total not_failed (refunds_of d (pr_ID row)) \<le> sint (pr_Amount row) \<and>
      (\<forall>r \<in> set (refunds_of d (pr_ID row)). 0 < sint (rw_Amount r)) \<and>
      (refunds_of d (pr_ID row) \<noteq> [] \<longrightarrow> WasPaid (pr_Status row)) \<and>
      (WasPaid (pr_Status row) \<longrightarrow> pr_Status row = paid_status (sint (pr_Amount row))
         (rows_total (\<lambda>s. s = RefundStatusSucceeded) (refunds_of d (pr_ID row)))) \<and>
      distinct (map rw_ReferenceID (refunds_of d (pr_ID row)))) \<and>
    distinct (map (\<lambda>row. (pr_ReferenceID row, pr_CallerService row)) (db_payments d))"
proof (intro conjI ballI)
  have ok: "db_ok (en_lib E) d" unfolding assms(2) by (rule process_db_ok [OF assms(1)])
  then show "distinct (map (\<lambda>row. (pr_ReferenceID row, pr_CallerService row)) (db_payments d))"
    by (simp add: db_ok_def pr_key_def [abs_def])
  fix row
  assume row: "row \<in> set (db_payments d)"
  note m = row_money [OF ok row]
  show "rows_total not_failed (refunds_of d (pr_ID row)) \<le> sint (pr_Amount row)" by (rule m(1))
  show "refunds_of d (pr_ID row) \<noteq> [] \<longrightarrow> WasPaid (pr_Status row)" using m(2) by blast
  show "WasPaid (pr_Status row) \<longrightarrow> pr_Status row = paid_status (sint (pr_Amount row))
         (rows_total (\<lambda>s. s = RefundStatusSucceeded) (refunds_of d (pr_ID row)))" using m(3) by blast
  show "0 < sint (rw_Amount r)" if "r \<in> set (refunds_of d (pr_ID row))" for r using m(4) that by blast
  show "distinct (map rw_ReferenceID (refunds_of d (pr_ID row)))" by (rule row_references [OF ok row])
qed

lemma stored_refunds_within_payment_witness:
  "length (db_payments (sh_db (w_shared (process ex_env [CreateRequest ex_create] ex_world)))) = 1 \<and>
   \<not> (\<exists>row. row \<in> set (db_payments (sh_db (w_shared
             (process ex_env [CreateRequest ex_create, RefundRequest ex_refund] ex_world)))) \<and>
      sint (pr_Amount row) < rows_total not_failed (refunds_of (sh_db (w_shared
             (process ex_env [CreateRequest ex_create, RefundRequest ex_refund] ex_world))) (pr_ID row)))"
proof
  show "length (db_payments (sh_db (w_shared (process ex_env [CreateRequest ex_create] ex_world)))) = 1"
    by (simp add: process_def ex_paid_tables(1)) (simp add: ex_paid_db_def)
qed (use stored_refunds_within_payment [OF ex_world_ok refl,
        of "[CreateRequest ex_create, RefundRequest ex_refund]"] in \<open>simp add: not_less\<close>)



text \<open>
  C7: no gateway is ever asked for money that is not reserved. Every refund call a gateway has
  received, from this process or another, is for a refund in the database, with its identifier as
  the idempotency key and its amount, of a payment that was paid; and what all the calls together
  can move of one payment, the refunds asked for and not declined, is within the payment.
\<close>

theorem gateway_refunds_are_reserved:
  assumes "sys_ok U E w" "s = w_shared (process E reqs w)"
  shows "(\<forall>q a. CallRefund q a \<in> set (sh_calls s) \<longrightarrow>
      (\<exists>row \<in> set (db_payments (sh_db s)). \<exists>r \<in> set (refunds_of (sh_db s) (pr_ID row)).
         rq_RefundKey q = uuid_String (en_lib E) (rw_ID r) \<and> rq_Amount q = rw_Amount r \<and>
         WasPaid (pr_Status row) \<and> 0 < sint (rq_Amount q))) \<and>
    (\<forall>row \<in> set (db_payments (sh_db s)).
      rows_total not_failed (filter (\<lambda>r. \<exists>q a. CallRefund q a \<in> set (sh_calls s) \<and>
          rq_RefundKey q = uuid_String (en_lib E) (rw_ID r)) (refunds_of (sh_db s) (pr_ID row)))
        \<le> sint (pr_Amount row))"
proof (intro conjI ballI allI impI)
  have s: "shared_ok (en_lib E) s" using process_ok [OF assms(1)] assms(2) by (simp add: sys_ok_def)
  then have ok: "db_ok (en_lib E) (sh_db s)" by (simp add: shared_ok_def)
  {
    fix q a
    assume "CallRefund q a \<in> set (sh_calls s)"
    then obtain r where r: "r \<in> set (db_refunds (sh_db s))" "rq_RefundKey q = uuid_String (en_lib E) (rw_ID r)"
      "rq_Amount q = rw_Amount r"
      using s by (auto simp: shared_ok_def refund_calls_ok_def)
    obtain row where row: "row \<in> set (db_payments (sh_db s))" "pr_ID row = rw_PaymentID r"
      using db_ok_owner(1) [OF ok r(1)] by (metis imageE)
    have mem: "r \<in> set (refunds_of (sh_db s) (pr_ID row))" using r(1) row(2) by (simp add: refunds_of_def)
    then have "WasPaid (pr_Status row)" "0 < sint (rw_Amount r)"
      by (auto intro: row_money(2) [OF ok row(1)] row_money(4) [OF ok row(1)])
    with row(1) mem r(2,3)
    show "\<exists>row \<in> set (db_payments (sh_db s)). \<exists>r \<in> set (refunds_of (sh_db s) (pr_ID row)).
         rq_RefundKey q = uuid_String (en_lib E) (rw_ID r) \<and> rq_Amount q = rw_Amount r \<and>
         WasPaid (pr_Status row) \<and> 0 < sint (rq_Amount q)" by auto
  }
  fix row
  assume row: "row \<in> set (db_payments (sh_db s))"
  show "rows_total not_failed (filter (\<lambda>r. \<exists>q a. CallRefund q a \<in> set (sh_calls s) \<and>
          rq_RefundKey q = uuid_String (en_lib E) (rw_ID r)) (refunds_of (sh_db s) (pr_ID row)))
        \<le> sint (pr_Amount row)"
    by (rule order_trans [OF rows_total_filter row_money(1) [OF ok row]])
       (use row_money(4) [OF ok row] in auto)
qed

lemma gateway_refunds_are_reserved_witness:
  "\<not> (\<exists>row. row \<in> set (db_payments (sh_db (w_shared (process ex_env [RefundRequest ex_refund] ex_paid_world)))) \<and>
      sint (pr_Amount row) < rows_total not_failed (filter (\<lambda>r. \<exists>q a.
          CallRefund q a \<in> set (sh_calls (w_shared (process ex_env [RefundRequest ex_refund] ex_paid_world))) \<and>
          rq_RefundKey q = uuid_String (en_lib ex_env) (rw_ID r))
          (refunds_of (sh_db (w_shared (process ex_env [RefundRequest ex_refund] ex_paid_world))) (pr_ID row))))"
  using gateway_refunds_are_reserved [OF ex_paid_world_ok refl, of "[RefundRequest ex_refund]"]
  by (simp add: not_less)

text \<open>
  C8: processes compose. What a process does while it serves requests is, seen from outside, one
  of the steps that every other process is prepared for: the shared state stays consistent, no
  payment disappears or changes without a new version, no refund disappears or changes its amount,
  the gateways' record of calls only grows, and none of the UUIDs other processes will draw is used.
\<close>

theorem process_is_a_fair_neighbour:
  assumes "sys_ok U E w"
  shows "fair_step (en_lib E) U (w_shared w) (w_shared (process E reqs w))"
  using process_ok [OF assms, of reqs]
  by (auto simp: fair_step_def sys_ok_def sys_ext_def)

lemma process_is_a_fair_neighbour_witness:
  "fair_step ex_lib odd_ids (w_shared ex_paid_world)
     (w_shared (process ex_env [RefundRequest ex_refund, ExpiryTick, CreateRequest ex_create] ex_paid_world))"
  using process_is_a_fair_neighbour [OF ex_paid_world_ok] by (simp add: ex_env_def)

end
