(* ===== verification/Paging.thy ===== *)
theory Paging
  imports Pg_Query_Laws
begin

text \<open>
  Pages. The list query returns rows from the newest on, in a strict order of (created_at, id), and
  a cursor stands for one row: after it, the query returns what follows that row.
\<close>

abbreviation newer :: "payment_row \<Rightarrow> payment_row \<Rightarrow> bool" where
  "newer a b \<equiv> key_less (row_key b) (row_key a)"

lemma key_less_irrefl [simp]: "\<not> key_less a a"
  by (simp add: key_less_def)

lemma key_less_trans: "key_less a b \<Longrightarrow> key_less b c \<Longrightarrow> key_less a c"
  by (auto simp: key_less_def)

lemma key_less_asym: "key_less a b \<Longrightarrow> \<not> key_less b a"
  by (auto simp: key_less_def)

section \<open>The order of the list query\<close>

lemma insort_lex:
  assumes "sorted_wrt (\<lambda>a b. key_less (row_key a) (row_key b)) rows"
    and "\<forall>y \<in> set rows. pr_ID x < pr_ID y"
  shows "sorted_wrt (\<lambda>a b. key_less (row_key a) (row_key b)) (insort_key pr_CreatedAt x rows)"
  using assms
proof (induction rows)
  case (Cons y rows)
  then show ?case
    by (fastforce simp: set_insort_key key_less_def row_key_def)
qed simp

lemma sort_lex:
  assumes "sorted_wrt (\<lambda>a b. pr_ID a < pr_ID b) rows"
  shows "sorted_wrt (\<lambda>a b. key_less (row_key a) (row_key b)) (sort_key pr_CreatedAt rows)"
  using assms by (induction rows) (auto simp: set_sort intro!: insort_lex)

lemma sorted_ids: "distinct (map pr_ID rows) \<Longrightarrow> sorted_wrt (\<lambda>a b. pr_ID a < pr_ID b) (sort_key pr_ID rows)"
proof -
  assume "distinct (map pr_ID rows)"
  then have "distinct (map pr_ID (sort_key pr_ID rows))"
    by (metis distinct_map distinct_sort inj_on_def mset_eq_setD mset_sort set_sort)
  moreover have "sorted (map pr_ID (sort_key pr_ID rows))" by simp
  ultimately have "sorted_wrt (<) (map pr_ID (sort_key pr_ID rows))" by (simp add: strict_sorted_iff)
  then show ?thesis by (simp add: sorted_wrt_map)
qed

lemma newest_first_sorted: "distinct (map pr_ID rows) \<Longrightarrow> sorted_wrt newer (newest_first rows)"
  unfolding newest_first_def sorted_wrt_rev by (rule sort_lex [OF sorted_ids])

lemma set_newest_first [simp]: "set (newest_first rows) = set rows"
  by (simp add: newest_first_def)

lemma length_newest_first [simp]: "length (newest_first rows) = length rows"
  by (simp add: newest_first_def)

lemma newest_first_filter: "newest_first (filter P rows) = filter P (newest_first rows)"
  by (simp add: newest_first_def filter_sort flip: rev_filter)

section \<open>What follows a row\<close>

lemma after_row:
  assumes "sorted_wrt newer rows" "i < length rows"
  shows "filter (\<lambda>r. key_less (row_key r) (row_key (rows ! i))) rows = drop (Suc i) rows"
  using assms
proof (induction rows arbitrary: i)
  case (Cons r rows)
  show ?case
  proof (cases i)
    case 0
    with Cons.prems show ?thesis by (simp add: filter_id_conv)
  next
    case (Suc j)
    with Cons.prems have "newer r (rows ! j)" by simp
    then have "\<not> key_less (row_key r) (row_key (rows ! j))" by (rule key_less_asym)
    with Cons Suc show ?thesis by simp
  qed
qed simp

definition selected :: "list_filter \<Rightarrow> db \<Rightarrow> payment_row list" where
  "selected f d = newest_first (filter (list_where (f\<lparr>lf_After := None, lf_Limit := 0\<rparr>)) (db_payments d))"

lemma list_where_after:
  "list_where (f\<lparr>lf_After := Some k, lf_Limit := n\<rparr>) =
     (\<lambda>r. list_where (f\<lparr>lf_After := None, lf_Limit := 0\<rparr>) r \<and>
       key_less (row_key r) (pg_time (pk_CreatedAt k), pk_ID k))"
  by (auto simp: list_where_def fun_eq_iff)

lemma list_where_first:
  "list_where (f\<lparr>lf_After := None, lf_Limit := n\<rparr>) = list_where (f\<lparr>lf_After := None, lf_Limit := 0\<rparr>)"
  by (simp add: list_where_def fun_eq_iff)

lemma limited_take: "0 < n \<Longrightarrow> n < 2 ^ 31 \<Longrightarrow> limited n rows = take (nat n) rows"
  by (simp add: limited_def int32_id)

lemma first_page:
  assumes "0 < n" "n < 2 ^ 31"
  shows "list_query (f\<lparr>lf_After := None, lf_Limit := n\<rparr>) d = take (nat n) (selected f d)"
  using assms by (simp add: list_query_def selected_def limited_take list_where_first [where n = n])

lemma next_page:
  assumes "distinct (map pr_ID (db_payments d))" "0 < n" "n < 2 ^ 31" "i < length (selected f d)"
    and "row = selected f d ! i" "pg_time (pr_CreatedAt row) = pr_CreatedAt row"
  shows "list_query (f\<lparr>lf_After := Some \<lparr>pk_CreatedAt = pr_CreatedAt row, pk_ID = pr_ID row\<rparr>, lf_Limit := n\<rparr>) d =
    take (nat n) (drop (Suc i) (selected f d))"
proof -
  have key: "(pg_time (pr_CreatedAt row), pr_ID row) = row_key (selected f d ! i)"
    using assms(5,6) by (simp add: row_key_def)
  have "distinct (map pr_ID (filter P (db_payments d)))" for P
    using assms(1) by (simp add: distinct_map_filter)
  then have sorted: "sorted_wrt newer (selected f d)" unfolding selected_def by (intro newest_first_sorted)
  have "filter (list_where (f\<lparr>lf_After := Some \<lparr>pk_CreatedAt = pr_CreatedAt row, pk_ID = pr_ID row\<rparr>, lf_Limit := n\<rparr>)) (db_payments d) =
      filter (\<lambda>r. key_less (row_key r) (row_key (selected f d ! i)))
        (filter (list_where (f\<lparr>lf_After := None, lf_Limit := 0\<rparr>)) (db_payments d))"
    by (simp only: list_where_after page_key.simps key filter_filter conj_commute)
  then have "newest_first (filter (list_where (f\<lparr>lf_After := Some \<lparr>pk_CreatedAt = pr_CreatedAt row, pk_ID = pr_ID row\<rparr>, lf_Limit := n\<rparr>)) (db_payments d)) =
      drop (Suc i) (selected f d)"
    using after_row [OF sorted assms(4)] by (simp add: newest_first_filter selected_def)
  then show ?thesis using assms(2,3) by (simp add: list_query_def limited_take)
qed

section \<open>Cursors\<close>

lemma decode_encode_cursor:
  assumes "uuid_roundtrip L" "year_ok (pk_CreatedAt k)"
  shows "decodeCursor L (encodeCursor L k) = Inr (Some k)" "encodeCursor L k \<noteq> []"
proof -
  show "encodeCursor L k \<noteq> []"
  proof
    assume "encodeCursor L k = []"
    then have "base64_decode [] = Some (format_RFC3339Nano (pk_CreatedAt k) @ ''|'' @ uuid_String L (pk_ID k))"
      unfolding encodeCursor_def by (metis base64_roundtrip)
    then show False by (simp add: base64_decode_def string_of_def)
  qed
  then show "decodeCursor L (encodeCursor L k) = Inr (Some k)"
    using assms str_Cut_append [OF bar_not_in_format, of "pk_CreatedAt k" "uuid_String L (pk_ID k)"]
    by (simp add: decodeCursor_def encodeCursor_def base64_roundtrip parse_format_RFC3339Nano uuid_roundtrip_def)
qed

section \<open>Following the cursors\<close>

text \<open>A client that asks for page after page until there is no next one, at most \<open>n\<close> of them.\<close>

fun pages :: "env \<Rightarrow> list_payments_query \<Rightarrow> nat \<Rightarrow> world \<Rightarrow> payment_dto list option" where
  "pages E q 0 w = None"
| "pages E q (Suc n) w =
     (case run_state (ListPayments_Handle (pg_service E) q) w of
        (Inl e, w') \<Rightarrow> None
      | (Inr res, w') \<Rightarrow>
          if lr_NextCursor res = [] then Some (lr_Payments res)
          else map_option (\<lambda>rest. lr_Payments res @ rest) (pages E (q\<lparr>lq_Cursor := lr_NextCursor res\<rparr>) n w'))"

definition alone :: "env \<Rightarrow> bool" where
  "alone E \<longleftrightarrow> (\<forall>n s. en_others E n s = s) \<and> (\<forall>n k. en_fault E n k = None)"

text \<open>A \<open>timestamptz\<close> holds microseconds; years past 9999 have no RFC 3339 form.\<close>

definition pageable :: "db \<Rightarrow> bool" where
  "pageable d \<longleftrightarrow>
     (\<forall>row \<in> set (db_payments d). pg_time (pr_CreatedAt row) = pr_CreatedAt row \<and> year_ok (pr_CreatedAt row))"

abbreviation row_view :: "uuid_lib \<Rightarrow> payment_row \<Rightarrow> payment_dto" where
  "row_view L row \<equiv> toDTO L (projr (toDomain row))"

definition cursor_at :: "uuid_lib \<Rightarrow> payment_row list \<Rightarrow> nat \<Rightarrow> string" where
  "cursor_at L rows i =
     (if i = 0 then []
      else encodeCursor L \<lparr>pk_CreatedAt = pr_CreatedAt (rows ! (i - 1)), pk_ID = pr_ID (rows ! (i - 1))\<rparr>)"

lemma selected_mem: "row \<in> set (selected f d) \<Longrightarrow> row \<in> set (db_payments d)"
  by (simp add: selected_def)

lemma toDomain_times:
  assumes "toDomain row = Inr p"
  shows "p_CreatedAt p = pr_CreatedAt row" "p_UpdatedAt p = pr_UpdatedAt row" "p_ExpiredAt p = pr_ExpiredAt row"
    "p_PaidAt p = pr_PaidAt row"
  using assms by (auto simp: toDomain_def split: option.splits)

lemma toDomains_decodes:
  "\<forall>row \<in> set rows. decodes row \<Longrightarrow> toDomains rows = Inr (map (\<lambda>row. projr (toDomain row)) rows)"
  by (induction rows) (auto simp: decodes_def split: sum.splits)

lemma run_page:
  assumes "alone E" "db_ok (en_lib E) d" "pageable d" "uuid_roundtrip (en_lib E)"
    and "sh_db (w_shared w) = d" "0 < limit" "limit \<le> 100" "rows = selected f d" "i \<le> length rows"
    and "lf_After f = None"
  shows "run_state (listPage (pg_service E) f (cursor_at (en_lib E) rows i) limit) w =
    (Inr (page_result (en_lib E) limit (map (\<lambda>row. projr (toDomain row)) (take (nat (limit + 1)) (drop i rows)))),
     w\<lparr>w_tick := w_tick w + 1\<rparr>)"
proof -
  have mem: "row \<in> set (db_payments d)" if "row \<in> set rows" for row using that assms(8) selected_mem by blast
  obtain after where after: "decodeCursor (en_lib E) (cursor_at (en_lib E) rows i) = Inr after"
    and query: "list_query (f\<lparr>lf_After := after, lf_Limit := limit + 1\<rparr>) d = take (nat (limit + 1)) (drop i rows)"
  proof (cases i)
    case 0
    with that [of None] show ?thesis
      using assms(6-8) first_page [of "limit + 1" f d] by (simp add: cursor_at_def decodeCursor_def)
  next
    case (Suc j)
    let ?row = "rows ! j"
    have j: "j < length rows" using Suc assms(9) by simp
    then have row: "pg_time (pr_CreatedAt ?row) = pr_CreatedAt ?row" "year_ok (pr_CreatedAt ?row)"
      using assms(3) mem [of ?row] by (simp_all add: pageable_def)
    have "distinct (map pr_ID (db_payments d))" using assms(2) by (simp add: db_ok_def)
    from next_page [OF this, of "limit + 1" j f ?row] that Suc j row assms(4,6-8) show ?thesis
      by (simp add: cursor_at_def decode_encode_cursor)
  qed
  have "\<forall>row \<in> set (take (nat (limit + 1)) (drop i rows)). decodes row"
    using db_okD(3) [OF assms(2) mem] by (meson in_set_dropD in_set_takeD)
  from toDomains_decodes [OF this] after query show ?thesis
    using assms(1,5) by (simp add: listPage_def pg_ports repo_ListPaginated_def query_def run_act alone_def)
qed

lemma clampLimit_bounds: "0 < def' \<Longrightarrow> def' \<le> 100 \<Longrightarrow> 0 < clampLimit n def' \<and> clampLimit n def' \<le> 100"
  by (simp add: clampLimit_def maxPageSize_def)

lemma page_result_rows:
  assumes "0 < k" "\<forall>row \<in> set rest. decodes row"
  shows "length rest \<le> k \<Longrightarrow> page_result L (int k) (map (\<lambda>row. projr (toDomain row)) (take (Suc k) rest)) =
      \<lparr>lr_Payments = map (row_view L) rest, lr_NextCursor = []\<rparr>"
    and "k < length rest \<Longrightarrow> page_result L (int k) (map (\<lambda>row. projr (toDomain row)) (take (Suc k) rest)) =
      \<lparr>lr_Payments = map (row_view L) (take k rest),
       lr_NextCursor = encodeCursor L \<lparr>pk_CreatedAt = pr_CreatedAt (rest ! (k - 1)), pk_ID = pr_ID (rest ! (k - 1))\<rparr>\<rparr>"
proof -
  show "length rest \<le> k \<Longrightarrow> page_result L (int k) (map (\<lambda>row. projr (toDomain row)) (take (Suc k) rest)) =
      \<lparr>lr_Payments = map (row_view L) rest, lr_NextCursor = []\<rparr>"
    by (simp add: page_result_def)
  assume k: "k < length rest"
  let ?p = "projr (toDomain (rest ! (k - 1)))"
  have "toDomain (rest ! (k - 1)) = Inr ?p" using assms k by (simp add: decodes_def)
  then have "p_CreatedAt ?p = pr_CreatedAt (rest ! (k - 1))" "p_ID ?p = pr_ID (rest ! (k - 1))"
    using toDomain_times(1) toDomain_fields(1) by blast+
  moreover have "nat (int k - 1) = k - 1" by simp
  ultimately show "page_result L (int k) (map (\<lambda>row. projr (toDomain row)) (take (Suc k) rest)) =
      \<lparr>lr_Payments = map (row_view L) (take k rest),
       lr_NextCursor = encodeCursor L \<lparr>pk_CreatedAt = pr_CreatedAt (rest ! (k - 1)), pk_ID = pr_ID (rest ! (k - 1))\<rparr>\<rparr>"
    using k assms(1) by (simp add: page_result_def Let_def take_map min_def)
qed

lemma pages_from:
  assumes "alone E" "db_ok (en_lib E) d" "pageable d" "uuid_roundtrip (en_lib E)"
    and "sh_db (w_shared w) = d" "lq_CallerService q \<noteq> []" "rows = selected (list_query_filter q) d"
    and "i \<le> length rows" "length rows - i < n" "lq_Cursor q = cursor_at (en_lib E) rows i"
  shows "pages E q n w = Some (map (row_view (en_lib E)) (drop i rows))"
  using assms(5-10)
proof (induction n arbitrary: i w q)
  case (Suc n)
  define k where "k = nat (clampLimit (lq_Limit q) 50)"
  let ?rest = "drop i rows"
  let ?page = "page_result (en_lib E) (int k) (map (\<lambda>row. projr (toDomain row)) (take (Suc k) ?rest))"
  have lim: "clampLimit (lq_Limit q) 50 = int k" "0 < k" "int k \<le> 100"
    using clampLimit_bounds [of 50 "lq_Limit q"] by (auto simp: k_def)
  have run: "run_state (ListPayments_Handle (pg_service E) q) w = (Inr ?page, w\<lparr>w_tick := w_tick w + 1\<rparr>)"
    using run_page [OF assms(1-4) Suc.prems(1) _ lim(3) Suc.prems(3,4)] lim(2) Suc.prems(2,6)
    by (simp add: ListPayments_Handle_def list_query_filter_def lim(1) nat_add_distrib)
  have "decodes row" if "row \<in> set rows" for row
    using db_okD(3) [OF assms(2) selected_mem] that Suc.prems(3) by blast
  then have dec: "\<forall>row \<in> set ?rest. decodes row" by (meson in_set_dropD)
  show ?case
  proof (cases "length ?rest \<le> k")
    case True
    with run page_result_rows(1) [OF lim(2) dec] show ?thesis by simp
  next
    case False
    then have less: "k < length ?rest" by simp
    let ?j = "i + k"
    have nth: "?rest ! (k - 1) = rows ! (?j - 1)" using less lim(2) by simp
    have page: "lr_Payments ?page = map (row_view (en_lib E)) (take k ?rest)"
      "lr_NextCursor ?page = cursor_at (en_lib E) rows ?j"
      using page_result_rows(2) [OF lim(2) dec less] lim(2) by (simp_all add: cursor_at_def nth [unfolded One_nat_def])
    have "rows ! (?j - 1) \<in> set rows" using less lim(2) by simp
    then have "year_ok (pr_CreatedAt (rows ! (?j - 1)))"
      using assms(3) selected_mem Suc.prems(3) unfolding pageable_def by blast
    then have more: "cursor_at (en_lib E) rows ?j \<noteq> []"
      using lim(2) decode_encode_cursor(2) [OF assms(4)] by (simp add: cursor_at_def)
    have "pages E (q\<lparr>lq_Cursor := cursor_at (en_lib E) rows ?j\<rparr>) n (w\<lparr>w_tick := w_tick w + 1\<rparr>) =
        Some (map (row_view (en_lib E)) (drop ?j rows))"
      using Suc.prems less lim(2) by (intro Suc.IH) (simp_all add: list_query_filter_def)
    moreover have "take k ?rest @ drop ?j rows = ?rest"
      by (metis append_take_drop_id drop_drop add.commute)
    ultimately show ?thesis using run page more by (simp flip: map_append)
  qed
qed simp

end
