(* ===== verification/Query_Properties.thy ===== *)
theory Query_Properties
  imports Processes Paging
begin

text \<open>
  What the queries answer: only the caller's own payments, through a shared cache that other
  processes fill too, and every payment once when a client follows the cursors.
\<close>

section \<open>Lookups when nothing fails\<close>

definition reliable :: "env \<Rightarrow> bool" where
  "reliable E \<longleftrightarrow> alone E \<and> (\<forall>n. en_redis E n = None)"

lemma ex_reliable: "reliable ex_env"
  by (simp add: reliable_def alone_def ex_env_def)

lemma alone_FindByID:
  assumes "alone E" "GetPaymentByID uid (sh_db (w_shared w)) = Some row" "toDomain row = Inr p"
  shows "run_state (repo_FindByID E uid) w =
    (Inr (p\<lparr>p_Refunds := map refund_of_row (ListRefundsByPayment (pr_ID row) (sh_db (w_shared w)))\<rparr>),
     \<lparr>w_shared = w_shared w, w_tick = w_tick w + 2\<rparr>)"
  using assms toDomain_fields(1) [OF assms(3)]
  by (simp add: repo_FindByID_def query_row_def withRefunds_def query_def run_act alone_def)

lemma alone_FindByReference:
  assumes "alone E" "GetPaymentByReference ref caller (sh_db (w_shared w)) = Some row" "toDomain row = Inr p"
  shows "run_state (repo_FindByReference E ref caller) w =
    (Inr (p\<lparr>p_Refunds := map refund_of_row (ListRefundsByPayment (pr_ID row) (sh_db (w_shared w)))\<rparr>),
     \<lparr>w_shared = w_shared w, w_tick = w_tick w + 2\<rparr>)"
  using assms toDomain_fields(1) [OF assms(3)]
  by (simp add: repo_FindByReference_def query_row_def withRefunds_def query_def run_act alone_def)

lemma cached_miss:
  assumes "reliable E" "redis_live (en_time E (w_tick w)) (w_shared w) key = None"
    and "run_state look \<lparr>w_shared = w_shared w, w_tick = w_tick w + 1\<rparr> = (Inr p, v)"
    and "marshal_dto (toDTO (en_lib E) p) = Some j"
  shows "run_state (cached_view (pg_service E) ttl key look) w = (Inr (toDTO (en_lib E) p),
    \<lparr>w_shared = redis_put (en_time E (w_tick v)) key (JsonText j) (ttl (p_Status p)) (w_shared v),
     w_tick = w_tick v + 1\<rparr>)"
  using assms by (simp add: cached_view_def pg_ports redis_Get_def redis_Set_def run_act reliable_def alone_def Let_def)

lemma cached_hit:
  assumes "reliable E" "redis_live (en_time E (w_tick w)) (w_shared w) key = Some c" "unmarshal_dto c = Some dto"
  shows "run_state (cached_view (pg_service E) ttl key look) w =
    (Inr dto, \<lparr>w_shared = w_shared w, w_tick = w_tick w + 1\<rparr>)"
  using assms by (simp add: cached_view_def pg_ports redis_Get_def run_act reliable_def alone_def)

text \<open>The lookup of the example's payment.\<close>

definition ex_row :: payment_row where
  "ex_row = hd (db_payments ex_paid_db)"

definition ex_stored :: payment where
  "ex_stored = projr (toDomain ex_row)"

lemma ex_paid_parts [simp]:
  "sh_db (w_shared ex_paid_world) = ex_paid_db" "sh_cache (w_shared ex_paid_world) = (\<lambda>k. None)"
  "w_tick ex_paid_world = 11"
  by (simp_all add: ex_paid_world_def)

lemma ex_rows:
  "db_payments ex_paid_db = [ex_row]" "toDomain ex_row = Inr ex_stored" "db_refunds ex_paid_db = []"
  "pr_ID ex_row = 2" "pr_CallerService ex_row = ''s''" "pr_ReferenceID ex_row = ''o1''" "pr_DeletedAt ex_row = None"
proof -
  show row: "db_payments ex_paid_db = [ex_row]" "db_refunds ex_paid_db = []"
    "pr_ID ex_row = 2" "pr_CallerService ex_row = ''s''" "pr_ReferenceID ex_row = ''o1''" "pr_DeletedAt ex_row = None"
    by (simp_all add: ex_paid_db_def ex_row_def)
  have "db_ok ex_lib ex_paid_db" using ex_paid_world_ok by (simp add: sys_ok_def shared_ok_def) (simp add: ex_env_def)
  from db_okD(3) [OF this, of ex_row] show "toDomain ex_row = Inr ex_stored"
    by (simp add: row ex_stored_def decodes_def)
qed

lemma ex_lookup:
  assumes "run_state look \<lparr>w_shared = w_shared ex_paid_world, w_tick = 12\<rparr> =
      (Inr (ex_stored\<lparr>p_Refunds := []\<rparr>), \<lparr>w_shared = w_shared ex_paid_world, w_tick = 14\<rparr>)"
  shows "\<exists>v. run_state (cached_view (pg_service ex_env) TTLForStatus key look) ex_paid_world =
      (Inr (toDTO ex_lib ex_stored), v) \<and> sh_db (w_shared v) = ex_paid_db \<and> w_tick v = 15 \<and>
      marshal_dto (toDTO ex_lib ex_stored) \<noteq> None"
proof -
  have dto: "toDTO ex_lib (ex_stored\<lparr>p_Refunds := []\<rparr>) = toDTO ex_lib ex_stored" by (simp add: toDTO_def)
  have times: "p_CreatedAt ex_stored = 0" "p_UpdatedAt ex_stored = 9000000" "p_ExpiredAt ex_stored = None"
    "p_PaidAt ex_stored = Some 8000000"
    using toDomain_times [OF ex_rows(2)] by (simp_all add: ex_row_def ex_paid_db_def)
  obtain j where j: "marshal_dto (toDTO ex_lib ex_stored) = Some j"
    by (simp add: marshal_dto_def toDTO_def times year_ok_def)
  have "redis_live t (w_shared ex_paid_world) key = None" for t by (simp add: redis_live_def)
  moreover have "en_lib ex_env = ex_lib" by (simp add: ex_env_def)
  ultimately show ?thesis
    using cached_miss [OF ex_reliable, of ex_paid_world key look] assms dto j by (simp add: redis_put_def)
qed

lemma ex_GetPayment:
  "\<exists>v. run_state (GetPayment_load (pg_service ex_env) TTLForStatus 2) ex_paid_world =
      (Inr (toDTO ex_lib ex_stored), v) \<and> sh_db (w_shared v) = ex_paid_db \<and> w_tick v = 15 \<and>
      marshal_dto (toDTO ex_lib ex_stored) \<noteq> None"
  using alone_FindByID [of ex_env 2 "\<lparr>w_shared = w_shared ex_paid_world, w_tick = 12\<rparr>" ex_row ex_stored] ex_reliable
  unfolding GetPayment_load_def
  by (intro ex_lookup) (simp add: pg_ports reliable_def GetPaymentByID_def live_def ex_rows ListRefundsByPayment_def)

section \<open>Views and cache keys\<close>

lemma shown_by_id:
  assumes "shown L d (PaymentCacheKey s) dto"
  obtains row where "row \<in> set (db_payments d)" "dto_of_row L dto row" "uuid_String L (pr_ID row) = s"
  using assms by (auto simp: shown_def cache_keys_def PaymentCacheKey_def ReferenceCacheKey_def)

lemma shown_by_reference:
  assumes "shown L d (ReferenceCacheKey c r) dto" "CHR '':'' \<notin> set c"
    and "\<forall>row \<in> set (db_payments d). CHR '':'' \<notin> set (pr_CallerService row)"
  obtains row where "row \<in> set (db_payments d)" "dto_of_row L dto row" "pr_CallerService row = c" "pr_ReferenceID row = r"
proof -
  obtain row where row: "row \<in> set (db_payments d)" "dto_of_row L dto row"
    "ReferenceCacheKey c r = ReferenceCacheKey (pr_CallerService row) (pr_ReferenceID row)"
    using assms(1) by (auto simp: shown_def cache_keys_def PaymentCacheKey_def ReferenceCacheKey_def)
  then have "c @ CHR '':'' # r = pr_CallerService row @ CHR '':'' # pr_ReferenceID row"
    by (simp add: ReferenceCacheKey_def)
  with append_sep_inject assms(2,3) row(1) have "c = pr_CallerService row \<and> r = pr_ReferenceID row" by metis
  with row that show ?thesis by simp
qed

text \<open>
  C9: a caller that is not an administrator is only ever shown its own payments. Whatever the
  process did before, whatever the other processes do meanwhile (they share the cache), a lookup by
  identifier answers a view of the stored payment with that identifier, with its owner, reference
  and price, and that owner is the caller; so does a page of a list and a list of refunds.
\<close>

theorem callers_read_their_own_payments:
  assumes "sys_ok U E w" "v = process E reqs w"
  shows "(\<forall>q dto v'. run_state (GetPayment_Handle (pg_service E) TTLForStatus q) v = (Inr dto, v') \<longrightarrow>
      (gq_Admin q \<or> pd_CallerService dto = gq_CallerService q) \<and>
      (\<exists>row \<in> set (db_payments (sh_db (w_shared v'))). dto_of_row (en_lib E) dto row \<and>
         uuid_String (en_lib E) (pr_ID row) = uuid_String (en_lib E) (gq_ID q))) \<and>
    (\<forall>q res v'. run_state (ListPayments_Handle (pg_service E) q) v = (Inr res, v') \<longrightarrow>
      (\<forall>dto \<in> set (lr_Payments res). pd_CallerService dto = lq_CallerService q \<and>
         (\<exists>row \<in> set (db_payments (sh_db (w_shared v'))). dto_of_row (en_lib E) dto row))) \<and>
    (\<forall>uid caller p v'. run_state (ListRefunds_Handle (pg_service E) uid caller) v = (Inr p, v') \<longrightarrow>
      p_CallerService p = caller)"
proof -
  have ok: "sys_ok U E v" using process_ok [OF assms(1)] assms(2) by simp
  note get = pg.callD [OF pgq.GetPayment_view ok TrueI]
    and listing = pg.callD [OF pgq.ListPayments_view ok TrueI]
    and refunds = pg.callD [OF pgq.ListRefunds_view ok TrueI]
  show ?thesis
  proof (intro conjI allI impI ballI)
    fix q dto v'
    assume "run_state (GetPayment_Handle (pg_service E) TTLForStatus q) v = (Inr dto, v')"
    note r = get [OF this]
    show "gq_Admin q \<or> pd_CallerService dto = gq_CallerService q" using r by simp
    show "\<exists>row \<in> set (db_payments (sh_db (w_shared v'))). dto_of_row (en_lib E) dto row \<and>
        uuid_String (en_lib E) (pr_ID row) = uuid_String (en_lib E) (gq_ID q)"
      using r by (auto simp: pg_view_def pg_ports elim: shown_by_id)
  next
    fix q res v' dto
    assume "run_state (ListPayments_Handle (pg_service E) q) v = (Inr res, v')" "dto \<in> set (lr_Payments res)"
    with listing have r: "pg_view E v' (PaymentCacheKey (pd_ID dto)) dto \<and> pd_CallerService dto = lq_CallerService q"
      by blast
    then show "pd_CallerService dto = lq_CallerService q"
      "\<exists>row \<in> set (db_payments (sh_db (w_shared v'))). dto_of_row (en_lib E) dto row"
      by (auto simp: pg_view_def elim: shown_by_id)
  next
    fix uid caller p v'
    assume "run_state (ListRefunds_Handle (pg_service E) uid caller) v = (Inr p, v')"
    with refunds show "p_CallerService p = caller" by blast
  qed
qed

definition ex_get :: "string \<Rightarrow> get_payment_query" where
  "ex_get caller = \<lparr>gq_ID = 2, gq_CallerService = caller, gq_Admin = False\<rparr>"

lemma callers_read_their_own_payments_witness:
  "fst (run_state (GetPayment_Handle (pg_service ex_env) TTLForStatus (ex_get ''s'')) ex_paid_world) =
     Inr (toDTO ex_lib ex_stored) \<and>
   pd_CallerService (toDTO ex_lib ex_stored) = ''s'' \<and>
   fst (run_state (GetPayment_Handle (pg_service ex_env) TTLForStatus (ex_get ''t'')) ex_paid_world) =
     Inl (NotFound ''payment not found: 2'')"
proof -
  obtain v where load: "run_state (GetPayment_load (pg_service ex_env) TTLForStatus 2) ex_paid_world =
      (Inr (toDTO ex_lib ex_stored), v)"
    using ex_GetPayment by blast
  have owner: "p_CallerService ex_stored = ''s''" using toDomain_fields(3) [OF ex_rows(2)] by (simp add: ex_rows)
  have s: "run_state (GetPayment_Handle (pg_service ex_env) TTLForStatus (ex_get ''s'')) ex_paid_world =
      (Inr (toDTO ex_lib ex_stored), v)"
    using load owner by (simp add: GetPayment_Handle_def ex_get_def toDTO_def)
  have "ex_paid_world = process ex_env [] ex_paid_world" by (simp add: process_def)
  from callers_read_their_own_payments [OF ex_paid_world_ok this, THEN conjunct1, rule_format, OF s]
  have "pd_CallerService (toDTO ex_lib ex_stored) = ''s''" by (simp add: ex_get_def)
  moreover have "nat_str 2 = ''2''" by code_simp
  then have "uuid_String (lib (pg_service ex_env)) 2 = ''2''" by (simp add: pg_ports ex_env_def ex_lib_def)
  ultimately show ?thesis
    using s load owner by (simp add: GetPayment_Handle_def ex_get_def toDTO_def)
qed



text \<open>
  C11: a cursor that the service gave out leads back to exactly the row it was made of, for every
  time to the nanosecond, and no two rows share one.
\<close>

theorem cursor_roundtrip:
  assumes "uuid_roundtrip L" "year_ok (pk_CreatedAt k)"
  shows "decodeCursor L (encodeCursor L k) = Inr (Some k) \<and> encodeCursor L k \<noteq> [] \<and>
    (encodeCursor L k = encodeCursor L k' \<longrightarrow> year_ok (pk_CreatedAt k') \<longrightarrow> k = k')"
  using decode_encode_cursor [OF assms] decode_encode_cursor(1) [OF assms(1), of k']
  by (metis option.inject sum.inject(2))

lemma cursor_roundtrip_witness:
  "decodeCursor ex_lib (encodeCursor ex_lib \<lparr>pk_CreatedAt = 1767323045123456789, pk_ID = 42\<rparr>) =
     Inr (Some \<lparr>pk_CreatedAt = 1767323045123456789, pk_ID = 42\<rparr>)"
  by (rule cursor_roundtrip [THEN conjunct1, OF ex_lib_roundtrip], unfold page_key.simps) (simp add: year_ok_def)

text \<open>
  C12: following \<open>next_cursor\<close> to the end shows every payment of the caller that passes the filter,
  each exactly once, from the newest on, whatever the page size asked for; equal timestamps lose
  and repeat nothing.
\<close>

theorem pages_list_every_payment_once:
  assumes "alone E" "db_ok (en_lib E) d" "pageable d" "uuid_roundtrip (en_lib E)"
    and "sh_db (w_shared w) = d" "lq_CallerService q \<noteq> []" "lq_Cursor q = []"
    and "length (db_payments d) < n"
  shows "\<exists>rows. pages E q n w = Some (map (row_view (en_lib E)) rows) \<and>
    set rows = {r \<in> set (db_payments d). list_where (list_query_filter q) r} \<and>
    distinct rows \<and> sorted_wrt newer rows"
proof (intro exI conjI)
  let ?rows = "selected (list_query_filter q) d"
  have f: "list_query_filter q\<lparr>lf_After := None, lf_Limit := 0\<rparr> = list_query_filter q"
    by (simp add: list_query_filter_def)
  have len: "length ?rows \<le> length (db_payments d)" by (simp add: selected_def)
  show "pages E q n w = Some (map (row_view (en_lib E)) ?rows)"
    using pages_from [OF assms(1-6) refl, of 0 n] assms(7,8) len by (simp add: cursor_at_def)
  show "set ?rows = {r \<in> set (db_payments d). list_where (list_query_filter q) r}"
    by (auto simp: selected_def f)
  have ids: "distinct (map pr_ID (filter P (db_payments d)))" for P
    using assms(2) by (simp add: db_ok_def distinct_map_filter)
  then show sorted: "sorted_wrt newer ?rows" unfolding selected_def by (rule newest_first_sorted)
  have "distinct (filter P (db_payments d))" for P using ids by (simp add: distinct_map)
  then show "distinct ?rows" by (simp add: selected_def newest_first_def distinct_sort)
qed

definition ex_list :: list_payments_query where
  "ex_list = \<lparr>lq_Status = [], lq_CallerService = ''s'', lq_From = None, lq_To = None, lq_Cursor = [], lq_Limit = 1\<rparr>"

lemma pages_list_every_payment_once_witness:
  "pages ex_env ex_list 2 ex_paid_world = Some [row_view ex_lib ex_row]"
proof -
  have ok: "db_ok (en_lib ex_env) ex_paid_db" using ex_paid_world_ok by (simp add: sys_ok_def shared_ok_def)
  have lib: "en_lib ex_env = ex_lib" by (simp add: ex_env_def)
  have page: "pageable ex_paid_db"
    by (simp add: pageable_def ex_rows) (simp add: ex_row_def ex_paid_db_def pg_time_def year_ok_def)
  have "list_where (list_query_filter ex_list) ex_row"
    by (simp add: list_where_def list_query_filter_def ex_list_def live_def ex_rows)
  then have one: "{r \<in> set (db_payments ex_paid_db). list_where (list_query_filter ex_list) r} = {ex_row}"
    by (auto simp: ex_rows)
  obtain rows where rows: "pages ex_env ex_list 2 ex_paid_world = Some (map (row_view ex_lib) rows)"
    "set rows = {ex_row}" "distinct rows"
    using pages_list_every_payment_once [OF _ ok page, of ex_paid_world ex_list 2] ex_reliable ex_lib_roundtrip one
    by (auto simp: reliable_def lib ex_rows) (auto simp: ex_list_def)
  from rows(2,3) have "rows = [ex_row]" by (cases rows) (auto simp: subset_singleton_iff)
  with rows(1) show ?thesis by simp
qed

text \<open>
  C13: the cache is transparent. A payment that has just been looked up is answered again from the
  cache for at least half a minute, whatever its status, with one Redis command and no SQL, and the
  answer is the same to the last field; only an empty metadata object turns into none.
\<close>

lemma TTL_positive: "30 * time_Second \<le> TTLForStatus s"
  by (cases s) (simp_all add: TTLForStatus_def statusTTL_def time_Second_def time_Hour_def
      time_Minute_def time_Millisecond_def)

theorem cached_answer_is_the_same:
  assumes "reliable E" "redis_live (en_time E (w_tick w)) (w_shared w) (PaymentCacheKey (uuid_String (en_lib E) uid)) = None"
    and "run_state (GetPayment_load (pg_service E) TTLForStatus uid) w = (Inr dto, v)" "marshal_dto dto \<noteq> None"
    and "en_time E (w_tick v) < en_time E (w_tick v - 1) + 30 * time_Second"
  shows "run_state (GetPayment_load (pg_service E) TTLForStatus uid) v =
    (Inr (dto\<lparr>pd_Metadata := drop_empty (pd_Metadata dto)\<rparr>), \<lparr>w_shared = w_shared v, w_tick = w_tick v + 1\<rparr>)"
proof -
  let ?key = "PaymentCacheKey (uuid_String (en_lib E) uid)"
  let ?look = "repo_FindByID E uid"
  have load: "GetPayment_load (pg_service E) TTLForStatus uid = cached_view (pg_service E) TTLForStatus ?key ?look"
    by (simp add: GetPayment_load_def pg_ports)
  obtain r u where u: "run_state ?look \<lparr>w_shared = w_shared w, w_tick = w_tick w + 1\<rparr> = (r, u)" by fastforce
  show ?thesis
  proof (cases r)
    case (Inl e)
    then have "fst (run_state (cached_view (pg_service E) TTLForStatus ?key ?look) w) = Inl e"
      using assms(1,2) u by (simp add: cached_view_def pg_ports redis_Get_def run_act reliable_def alone_def)
    with assms(3) load show ?thesis by simp
  next
    case (Inr p)
    have dto: "dto = toDTO (en_lib E) p"
    proof (cases "marshal_dto (toDTO (en_lib E) p)")
      case None
      then have "fst (run_state (cached_view (pg_service E) TTLForStatus ?key ?look) w) = Inr (toDTO (en_lib E) p)"
        using assms(1,2) u Inr
        by (simp add: cached_view_def pg_ports redis_Get_def run_act reliable_def alone_def Let_def)
      with assms(3) load show ?thesis by simp
    next
      case (Some j)
      from cached_miss [OF assms(1,2) u [unfolded Inr] Some, of TTLForStatus] assms(3) load show ?thesis by simp
    qed
    with assms(4) obtain j where j: "marshal_dto dto = Some j" by auto
    from cached_miss [OF assms(1,2) u [unfolded Inr], of j TTLForStatus] assms(3) load dto j
    have v: "v = \<lparr>w_shared = redis_put (en_time E (w_tick u)) ?key (JsonText j) (TTLForStatus (p_Status p)) (w_shared u),
        w_tick = w_tick u + 1\<rparr>" by simp
    have pos: "0 < TTLForStatus (p_Status p)"
      using TTL_positive [of "p_Status p"] by (simp add: time_Second_def time_Millisecond_def)
    have "en_time E (w_tick v) < en_time E (w_tick u) + TTLForStatus (p_Status p)"
      using assms(5) TTL_positive [of "p_Status p"] v by simp
    then have "redis_live (en_time E (w_tick v)) (w_shared v) ?key = Some (JsonText j)"
      using pos by (simp add: v redis_live_def redis_put_def)
    from cached_hit [OF assms(1) this unmarshal_marshal [OF j], of TTLForStatus ?look] load show ?thesis by simp
  qed
qed

lemma cached_answer_is_the_same_witness:
  "\<exists>v. fst (run_state (GetPayment_load (pg_service ex_env) TTLForStatus 2) ex_paid_world) = Inr (toDTO ex_lib ex_stored) \<and>
     run_state (GetPayment_load (pg_service ex_env) TTLForStatus 2) v =
       (Inr (toDTO ex_lib ex_stored\<lparr>pd_Metadata := drop_empty (pd_Metadata (toDTO ex_lib ex_stored))\<rparr>),
        \<lparr>w_shared = w_shared v, w_tick = w_tick v + 1\<rparr>)"
proof -
  obtain v where v: "run_state (GetPayment_load (pg_service ex_env) TTLForStatus 2) ex_paid_world =
      (Inr (toDTO ex_lib ex_stored), v)" "w_tick v = 15" "marshal_dto (toDTO ex_lib ex_stored) \<noteq> None"
    using ex_GetPayment by blast
  have "en_time ex_env (w_tick v) < en_time ex_env (w_tick v - 1) + 30 * time_Second"
    by (simp add: v(2) ex_env_def time_Second_def time_Millisecond_def)
  from cached_answer_is_the_same [OF ex_reliable _ v(1,3) this] v(1) show ?thesis
    by (auto simp: redis_live_def)
qed

end
