(* ===== verification/Outbox.thy ===== *)
theory Outbox
  imports Store Go_Json
begin

text \<open>
  Delivery of the outbox: the statements of \<open>db/outbox.sql.go\<close>, \<open>postgres/outbox_worker.go\<close> and
  the publisher \<open>rabbitmq/event_publisher.go\<close>. The broker is the environment: it decides whether a
  message goes out and what it answers.
\<close>

section \<open>Statements\<close>

definition due :: "time \<Rightarrow> outbox_row \<Rightarrow> bool" where
  "due now r \<longleftrightarrow> ob_Status r = OutboxPending \<and> ob_ScheduledAt r \<le> now"

text \<open>\<open>locked\<close>: the rows that other open transactions hold (\<open>FOR UPDATE SKIP LOCKED\<close>).\<close>

definition GetPendingOutboxEvents :: "time \<Rightarrow> int \<Rightarrow> uuid set \<Rightarrow> outbox_row list \<Rightarrow> outbox_row list" where
  "GetPendingOutboxEvents now n locked rows =
     limited n (sort_key ob_CreatedAt (filter (\<lambda>r. due now r \<and> ob_ID r \<notin> locked) rows))"

definition MarkOutboxEventPublished :: "time \<Rightarrow> uuid \<Rightarrow> outbox_row list \<Rightarrow> outbox_row list" where
  "MarkOutboxEventPublished now uid rows =
     map (\<lambda>r. if ob_ID r = uid then r\<lparr>ob_Status := OutboxPublished, ob_PublishedAt := Some now\<rparr> else r) rows"

definition MarkOutboxEventFailed :: "time \<Rightarrow> uuid \<Rightarrow> string \<Rightarrow> outbox_row list \<Rightarrow> outbox_row list" where
  "MarkOutboxEventFailed now uid err rows =
     map (\<lambda>r. if ob_ID r = uid
        then r\<lparr>ob_Status := (if ob_RetryCount r \<ge> 5 then OutboxFailed else OutboxPending),
               ob_RetryCount := ob_RetryCount r + 1, ob_LastError := Some err,
               ob_ScheduledAt := now + (ob_RetryCount r + 1) * (30 * time_Second)\<rparr>
        else r) rows"

section \<open>The publisher\<close>

record event_message =
  em_ID :: uuid
  em_AggregateID :: uuid
  em_EventType :: string
  em_Payload :: json
  em_OccurredAt :: time

definition message_of :: "outbox_row \<Rightarrow> event_message" where
  "message_of r =
     \<lparr>em_ID = ob_ID r, em_AggregateID = ob_AggregateID r, em_EventType = ob_EventType r,
      em_Payload = ob_Payload r, em_OccurredAt = ob_CreatedAt r\<rparr>"

definition routingKey :: "(string \<times> string) list" where
  "routingKey =
     [(''PaymentInitiated'', ''payment.initiated''), (''PaymentPending'', ''payment.pending''),
      (''PaymentCompleted'', ''payment.completed''), (''PaymentFailed'', ''payment.failed''),
      (''PaymentCancelled'', ''payment.cancelled''), (''PaymentExpired'', ''payment.expired''),
      (''RefundRequested'', ''refund.requested''), (''RefundCompleted'', ''refund.completed''),
      (''RefundFailed'', ''refund.failed'')]"

definition errUnroutable :: goerr where
  "errUnroutable = ErrorsNew ''no routing key for event type''"

text \<open>\<open>now\<close> stands in for a zero \<open>OccurredAt\<close>; \<open>json.Marshal\<close> sorts keys and refuses a year past 9999.\<close>

definition envelope :: "uuid_lib \<Rightarrow> time \<Rightarrow> event_message \<Rightarrow> goerr + string \<times> json" where
  "envelope L now ev =
     (case map_of routingKey (em_EventType ev) of
        None \<Rightarrow> Inl errUnroutable
      | Some rk \<Rightarrow>
          let occurredAt = (if em_OccurredAt ev = zero_time then now else em_OccurredAt ev)
          in if year_ok occurredAt
             then Inr (rk, JObj
               [(''aggregate_id'', JStr (uuid_String L (em_AggregateID ev))),
                (''aggregate_type'', JStr ''PAYMENT''), (''data'', em_Payload ev),
                (''event_id'', JStr (uuid_String L (em_ID ev))), (''event_type'', JStr rk),
                (''occurred_at'', JTime occurredAt), (''source_service'', JStr ''paygate-service''),
                (''version'', JNum ''1'')])
             else Inl (ErrorsNew ''json: error calling MarshalJSON for type time.Time''))"

record publication =
  pb_RoutingKey :: string
  pb_MessageId :: string
  pb_Body :: json

datatype broker_answer =
    WriteFailed goerr
  | NotInConfirmMode
  | NoConfirm goerr
  | Confirmed bool

text \<open>The error of \<open>Publish\<close>, and what it handed to the channel with whether the broker acked it.\<close>

definition Publish ::
  "uuid_lib \<Rightarrow> time \<Rightarrow> broker_answer \<Rightarrow> event_message \<Rightarrow> goerr option \<times> (publication \<times> bool) list" where
  "Publish L now answer ev =
     (case envelope L now ev of
        Inl e \<Rightarrow>
          if e = errUnroutable then (None, [])
          else (Some (Internal ''marshal event envelope'' (Some e)), [])
      | Inr (rk, body) \<Rightarrow>
          let msg = \<lparr>pb_RoutingKey = rk, pb_MessageId = uuid_String L (em_ID ev), pb_Body = body\<rparr>
          in (case answer of
                WriteFailed e \<Rightarrow> (Some (GatewayError ''rabbitmq publish'' (Some e)), [(msg, False)])
              | NotInConfirmMode \<Rightarrow> (Some (Internal ''rabbitmq channel is not in confirm mode'' None), [(msg, False)])
              | NoConfirm e \<Rightarrow> (Some (GatewayError ''rabbitmq confirm not received'' (Some e)), [(msg, False)])
              | Confirmed acked \<Rightarrow>
                  if acked then (None, [(msg, True)])
                  else (Some (GatewayError ''rabbitmq nack received'' None), [(msg, False)])))"

definition NoopPublisher_Publish :: "event_message \<Rightarrow> goerr option" where
  "NoopPublisher_Publish ev = None"

section \<open>The worker\<close>

text \<open>
  The state: the table, the rows that other workers' transactions hold, and what the broker was
  sent. \<open>outbox_env\<close>: the transaction's \<open>NOW()\<close>, the clock at each publish, the broker's answers,
  and the statements that fail (begin, the query, each mark, commit).
\<close>

record delivery =
  dv_rows :: "outbox_row list"
  dv_locked :: "uuid set"
  dv_sent :: "(publication \<times> bool) list"

record outbox_env =
  oe_lib :: uuid_lib
  oe_now :: time
  oe_clock :: "nat \<Rightarrow> time"
  oe_answer :: "nat \<Rightarrow> broker_answer"
  oe_begin :: "goerr option"
  oe_query :: "goerr option"
  oe_mark :: "nat \<Rightarrow> goerr option"
  oe_commit :: "goerr option"

definition mark_row :: "time \<Rightarrow> uuid \<Rightarrow> goerr option \<Rightarrow> outbox_row list \<Rightarrow> outbox_row list" where
  "mark_row now uid pubErr rows =
     (case pubErr of
        Some e \<Rightarrow> MarkOutboxEventFailed now uid (error_text e) rows
      | None \<Rightarrow> MarkOutboxEventPublished now uid rows)"

text \<open>The loop over the batch: the table as the transaction sees it (\<open>None\<close> once a mark failed), and the messages.\<close>

fun publish_rows ::
  "outbox_env \<Rightarrow> nat \<Rightarrow> outbox_row list \<Rightarrow> outbox_row list \<Rightarrow> outbox_row list option \<times> (publication \<times> bool) list" where
  "publish_rows E k [] table = (Some table, [])"
| "publish_rows E k (r # rs) table =
     (case Publish (oe_lib E) (oe_clock E k) (oe_answer E k) (message_of r) of
        (pubErr, msgs) \<Rightarrow>
          (case oe_mark E k of
             Some e \<Rightarrow> (None, msgs)
           | None \<Rightarrow>
               (case publish_rows E (k + 1) rs (mark_row (oe_now E) (ob_ID r) pubErr table) of
                  (res, rest) \<Rightarrow> (res, msgs @ rest))))"

definition OutboxWorker_RunOnce :: "outbox_env \<Rightarrow> int \<Rightarrow> delivery \<Rightarrow> delivery" where
  "OutboxWorker_RunOnce E batchSize s =
     (if oe_begin E \<noteq> None then s
      else if oe_query E \<noteq> None then s
      else
        (let batch = GetPendingOutboxEvents (oe_now E) batchSize (dv_locked s) (dv_rows s)
         in (case publish_rows E 0 batch (dv_rows s) of
               (res, msgs) \<Rightarrow>
                 s\<lparr>dv_sent := dv_sent s @ msgs,
                   dv_rows := (case res of
                      None \<Rightarrow> dv_rows s
                    | Some table \<Rightarrow> if oe_commit E = None then table else dv_rows s)\<rparr>)))"

section \<open>Connecting the publisher\<close>

text \<open>
  \<open>NewPublisher\<close> as the calls it makes, in order: it stops at the first one that fails and closes what it has
  opened. \<open>amqp\<close> is what the broker answers to a call.
\<close>

datatype amqp_call =
    AmqpDial string
  | AmqpChannel
  | AmqpExchangeDeclare string string
  | AmqpConfirm
  | AmqpQueueDeclare string string
  | AmqpCloseChannel
  | AmqpCloseConn

definition rabbit_error :: "string \<Rightarrow> goerr \<Rightarrow> goerr" where
  "rabbit_error what e = FmtErrorf (what @ '': '' @ error_text e) e"

fun amqp_setup :: "(amqp_call \<Rightarrow> goerr option) \<Rightarrow> (amqp_call \<times> string) list \<Rightarrow> amqp_call list \<times> goerr option" where
  "amqp_setup amqp [] = ([], None)"
| "amqp_setup amqp ((c, what) # cs) =
     (case amqp c of
        Some e \<Rightarrow> ([c, AmqpCloseChannel, AmqpCloseConn], Some (rabbit_error what e))
      | None \<Rightarrow> (case amqp_setup amqp cs of (done_calls, r) \<Rightarrow> (c # done_calls, r)))"

definition NewPublisher :: "(amqp_call \<Rightarrow> goerr option) \<Rightarrow> string \<Rightarrow> amqp_call list \<times> goerr option" where
  "NewPublisher amqp url =
     (case amqp (AmqpDial url) of
        Some e \<Rightarrow> ([AmqpDial url], Some (rabbit_error ''rabbitmq dial'' e))
      | None \<Rightarrow>
     (case amqp AmqpChannel of
        Some e \<Rightarrow> ([AmqpDial url, AmqpChannel, AmqpCloseConn], Some (rabbit_error ''rabbitmq channel'' e))
      | None \<Rightarrow>
     (case amqp_setup amqp
             [(AmqpExchangeDeclare ''paygate.payments'' ''topic'', ''exchange declare''),
              (AmqpConfirm, ''confirm mode''),
              (AmqpExchangeDeclare ''paygate.payments.dlx'' ''fanout'', ''dlx declare''),
              (AmqpQueueDeclare ''paygate.payments.dead'' ''paygate.payments.dlx'', ''dead-letter queue declare'')] of
        (calls, r) \<Rightarrow> (AmqpDial url # AmqpChannel # calls, r))))"

definition Publisher_Close :: "amqp_call list" where
  "Publisher_Close = [AmqpCloseChannel, AmqpCloseConn]"

end
