(* ===== verification/Outbox_Laws.thy ===== *)
theory Outbox_Laws
  imports Outbox
begin

text \<open>
  Several workers at once. Each holds a transaction: the rows it has claimed, those still to be
  published, and its marks, which the table shows only after the commit. A step is one statement or
  one publish of one worker, a save of the repository that adds rows, or the loss of a transaction
  (a crash, a failed statement, a failed commit). The invariant holds in every reachable state.
\<close>

section \<open>The step relation\<close>

record worker =
  wk_now :: time
  wk_claimed :: "uuid list"
  wk_todo :: "outbox_row list"
  wk_marks :: "(uuid \<times> goerr option) list"

record fleet =
  fl_rows :: "outbox_row list"
  fl_workers :: "nat \<Rightarrow> worker option"
  fl_sent :: "(publication \<times> bool) list"

definition held_by :: "fleet \<Rightarrow> nat \<Rightarrow> uuid set" where
  "held_by s i = (case fl_workers s i of None \<Rightarrow> {} | Some wk \<Rightarrow> set (wk_claimed wk))"

definition locked_by_others :: "fleet \<Rightarrow> nat \<Rightarrow> uuid set" where
  "locked_by_others s i = (\<Union>j \<in> {j. j \<noteq> i}. held_by s j)"

definition marked :: "worker \<Rightarrow> outbox_row list \<Rightarrow> outbox_row list" where
  "marked wk rows = fold (\<lambda>(uid, err). mark_row (wk_now wk) uid err) (wk_marks wk) rows"

definition new_outbox_row :: "outbox_row \<Rightarrow> bool" where
  "new_outbox_row r \<longleftrightarrow> ob_Status r = OutboxPending \<and> ob_RetryCount r = 0 \<and> ob_PublishedAt r = None \<and> ob_LastError r = None"

inductive fleet_step :: "uuid_lib \<Rightarrow> fleet \<Rightarrow> fleet \<Rightarrow> bool" for L where
  store: "\<lbrakk> \<forall>r \<in> set new. new_outbox_row r; distinct (map ob_ID (fl_rows s @ new)) \<rbrakk>
    \<Longrightarrow> fleet_step L s (s\<lparr>fl_rows := fl_rows s @ new\<rparr>)"
| claim: "\<lbrakk> fl_workers s i = None; set batch \<subseteq> {r \<in> set (fl_rows s). due now r}; distinct batch;
      ob_ID ` set batch \<inter> locked_by_others s i = {} \<rbrakk>
    \<Longrightarrow> fleet_step L s (s\<lparr>fl_workers := (fl_workers s)(i \<mapsto>
         \<lparr>wk_now = now, wk_claimed = map ob_ID batch, wk_todo = batch, wk_marks = []\<rparr>)\<rparr>)"
| publish: "\<lbrakk> fl_workers s i = Some wk; wk_todo wk = r # rs; Publish L t answer (message_of r) = (err, msgs) \<rbrakk>
    \<Longrightarrow> fleet_step L s (s\<lparr>fl_sent := fl_sent s @ msgs, fl_workers := (fl_workers s)(i \<mapsto>
         wk\<lparr>wk_todo := rs, wk_marks := wk_marks wk @ [(ob_ID r, err)]\<rparr>)\<rparr>)"
| commit: "\<lbrakk> fl_workers s i = Some wk; wk_todo wk = [] \<rbrakk>
    \<Longrightarrow> fleet_step L s (s\<lparr>fl_rows := marked wk (fl_rows s), fl_workers := (fl_workers s)(i := None)\<rparr>)"
| abort: "fl_workers s i = Some wk \<Longrightarrow> fleet_step L s (s\<lparr>fl_workers := (fl_workers s)(i := None)\<rparr>)"

abbreviation fleet_steps :: "uuid_lib \<Rightarrow> fleet \<Rightarrow> fleet \<Rightarrow> bool" where
  "fleet_steps L \<equiv> (fleet_step L)\<^sup>*\<^sup>*"

section \<open>Marks\<close>

definition mark_one :: "time \<Rightarrow> goerr option \<Rightarrow> outbox_row \<Rightarrow> outbox_row" where
  "mark_one now err r =
     (case err of
        None \<Rightarrow> r\<lparr>ob_Status := OutboxPublished, ob_PublishedAt := Some now\<rparr>
      | Some e \<Rightarrow> r\<lparr>ob_Status := (if ob_RetryCount r \<ge> 5 then OutboxFailed else OutboxPending),
               ob_RetryCount := ob_RetryCount r + 1, ob_LastError := Some (error_text e),
               ob_ScheduledAt := now + (ob_RetryCount r + 1) * (30 * time_Second)\<rparr>)"

lemma mark_row_map: "mark_row now uid err rows = map (\<lambda>r. if ob_ID r = uid then mark_one now err r else r) rows"
  by (auto simp: mark_row_def mark_one_def MarkOutboxEventFailed_def MarkOutboxEventPublished_def split: option.splits)

definition letter :: "outbox_row \<Rightarrow> uuid \<times> uuid \<times> string \<times> json \<times> time" where
  "letter r = (ob_ID r, ob_AggregateID r, ob_EventType r, ob_Payload r, ob_CreatedAt r)"

lemma mark_one_letter [simp]: "letter (mark_one now err r) = letter r" "ob_ID (mark_one now err r) = ob_ID r"
  by (simp_all add: mark_one_def letter_def split: option.splits)

lemma letter_message: "letter r = letter r' \<Longrightarrow> message_of r = message_of r'"
  by (simp add: letter_def message_of_def)

lemma mark_row_letter [simp]: "map letter (mark_row now uid err rows) = map letter rows"
  by (simp add: mark_row_map)

lemma letter_ids: "map letter rows = map letter rows' \<Longrightarrow> map ob_ID rows = map ob_ID rows'"
proof -
  have "map ob_ID rs = map fst (map letter rs)" for rs by (simp add: letter_def)
  then show "map letter rows = map letter rows' \<Longrightarrow> map ob_ID rows = map ob_ID rows'" by metis
qed

text \<open>The marks of a batch act on each row once.\<close>

lemma marks_map:
  assumes "distinct (map fst ms)"
  shows "fold (\<lambda>(uid, err). mark_row now uid err) ms rows =
    map (\<lambda>r. case map_of ms (ob_ID r) of None \<Rightarrow> r | Some err \<Rightarrow> mark_one now err r) rows"
  using assms
proof (induction ms arbitrary: rows)
  case (Cons m ms)
  obtain uid err where m: "m = (uid, err)" by (cases m)
  with Cons.prems have "uid \<notin> fst ` set ms" by simp
  then have none: "map_of ms uid = None" by (simp add: map_of_eq_None_iff)
  have "fold (\<lambda>(uid, err). mark_row now uid err) (m # ms) rows =
      map (\<lambda>r. case map_of ms (ob_ID r) of None \<Rightarrow> r | Some err \<Rightarrow> mark_one now err r) (mark_row now uid err rows)"
    using Cons by (simp add: m)
  also have "\<dots> = map (\<lambda>r. case map_of (m # ms) (ob_ID r) of None \<Rightarrow> r | Some err \<Rightarrow> mark_one now err r) rows"
    using none by (auto simp: m mark_row_map)
  finally show ?case .
qed simp

lemma marked_letter [simp]: "map letter (marked wk rows) = map letter rows"
proof -
  have "map letter (fold (\<lambda>(uid, err). mark_row now uid err) ms rows) = map letter rows" for now ms rows
    by (induction ms arbitrary: rows) auto
  then show ?thesis by (simp add: marked_def)
qed

section \<open>The invariant\<close>

definition acked :: "uuid_lib \<Rightarrow> (publication \<times> bool) list \<Rightarrow> outbox_row \<Rightarrow> bool" where
  "acked L sent r \<longleftrightarrow>
     map_of routingKey (ob_EventType r) = None \<or>
     (\<exists>t rk body. envelope L t (message_of r) = Inr (rk, body) \<and>
        (\<lparr>pb_RoutingKey = rk, pb_MessageId = uuid_String L (ob_ID r), pb_Body = body\<rparr>, True) \<in> set sent)"

definition outbox_row_ok :: "uuid_lib \<Rightarrow> (publication \<times> bool) list \<Rightarrow> outbox_row \<Rightarrow> bool" where
  "outbox_row_ok L sent r \<longleftrightarrow>
     0 \<le> ob_RetryCount r \<and>
     (case ob_Status r of
        OutboxPending \<Rightarrow> ob_RetryCount r \<le> 5
      | OutboxPublished \<Rightarrow> ob_RetryCount r \<le> 5 \<and> ob_PublishedAt r \<noteq> None \<and> acked L sent r
      | OutboxFailed \<Rightarrow> ob_RetryCount r = 6 \<and> ob_LastError r \<noteq> None)"

text \<open>A worker's claim is there, still pending and as it was read; what it marked published was acked.\<close>

definition worker_ok :: "uuid_lib \<Rightarrow> fleet \<Rightarrow> worker \<Rightarrow> bool" where
  "worker_ok L s wk \<longleftrightarrow>
     wk_claimed wk = map fst (wk_marks wk) @ map ob_ID (wk_todo wk) \<and> distinct (wk_claimed wk) \<and>
     set (wk_todo wk) \<subseteq> set (fl_rows s) \<and>
     (\<forall>uid \<in> set (wk_claimed wk). \<exists>r \<in> set (fl_rows s). ob_ID r = uid \<and> ob_Status r = OutboxPending) \<and>
     (\<forall>r \<in> set (fl_rows s). (ob_ID r, None) \<in> set (wk_marks wk) \<longrightarrow> acked L (fl_sent s) r)"

definition fleet_ok :: "uuid_lib \<Rightarrow> fleet \<Rightarrow> bool" where
  "fleet_ok L s \<longleftrightarrow>
     distinct (map ob_ID (fl_rows s)) \<and>
     (\<forall>r \<in> set (fl_rows s). outbox_row_ok L (fl_sent s) r) \<and>
     (\<forall>i wk. fl_workers s i = Some wk \<longrightarrow> worker_ok L s wk) \<and>
     (\<forall>i j. i \<noteq> j \<longrightarrow> held_by s i \<inter> held_by s j = {})"

lemma worker_okD:
  assumes "worker_ok L s wk"
  shows "wk_claimed wk = map fst (wk_marks wk) @ map ob_ID (wk_todo wk)" "distinct (wk_claimed wk)"
    "set (wk_todo wk) \<subseteq> set (fl_rows s)"
    "uid \<in> set (wk_claimed wk) \<Longrightarrow> \<exists>r \<in> set (fl_rows s). ob_ID r = uid \<and> ob_Status r = OutboxPending"
    "r \<in> set (fl_rows s) \<Longrightarrow> (ob_ID r, None) \<in> set (wk_marks wk) \<Longrightarrow> acked L (fl_sent s) r"
    "fst ` set (wk_marks wk) \<subseteq> set (wk_claimed wk)" "ob_ID ` set (wk_todo wk) \<subseteq> set (wk_claimed wk)"
proof -
  show c: "wk_claimed wk = map fst (wk_marks wk) @ map ob_ID (wk_todo wk)" "distinct (wk_claimed wk)"
    "set (wk_todo wk) \<subseteq> set (fl_rows s)"
    "uid \<in> set (wk_claimed wk) \<Longrightarrow> \<exists>r \<in> set (fl_rows s). ob_ID r = uid \<and> ob_Status r = OutboxPending"
    "r \<in> set (fl_rows s) \<Longrightarrow> (ob_ID r, None) \<in> set (wk_marks wk) \<Longrightarrow> acked L (fl_sent s) r"
    using assms unfolding worker_ok_def by blast+
  show "fst ` set (wk_marks wk) \<subseteq> set (wk_claimed wk)" "ob_ID ` set (wk_todo wk) \<subseteq> set (wk_claimed wk)"
    by (simp_all add: c(1))
qed

lemma worker_okI:
  assumes "wk_claimed wk = map fst (wk_marks wk) @ map ob_ID (wk_todo wk)" "distinct (wk_claimed wk)"
    "set (wk_todo wk) \<subseteq> set (fl_rows s)"
    "\<And>uid. uid \<in> set (wk_claimed wk) \<Longrightarrow> \<exists>r \<in> set (fl_rows s). ob_ID r = uid \<and> ob_Status r = OutboxPending"
    "\<And>r. r \<in> set (fl_rows s) \<Longrightarrow> (ob_ID r, None) \<in> set (wk_marks wk) \<Longrightarrow> acked L (fl_sent s) r"
  shows "worker_ok L s wk"
  using assms unfolding worker_ok_def by blast

lemma worker_ok_cong: "fl_rows s = fl_rows s' \<Longrightarrow> fl_sent s = fl_sent s' \<Longrightarrow> worker_ok L s wk = worker_ok L s' wk"
  by (simp add: worker_ok_def)

lemma acked_more: "acked L sent r \<Longrightarrow> acked L (sent @ more') r"
  by (auto simp: acked_def)

lemma row_ok_more: "outbox_row_ok L sent r \<Longrightarrow> outbox_row_ok L (sent @ more') r"
  by (auto simp: outbox_row_ok_def acked_more split: outbox_status.splits)

lemma Publish_ok: "Publish L t answer (message_of r) = (None, msgs) \<Longrightarrow> acked L (sent @ msgs) r"
  by (fastforce simp: Publish_def acked_def envelope_def errUnroutable_def message_of_def Let_def
      split: sum.splits option.splits broker_answer.splits if_splits)

lemma mark_one_ok:
  assumes "outbox_row_ok L sent r" "ob_Status r = OutboxPending" "err = None \<Longrightarrow> acked L sent r"
  shows "outbox_row_ok L sent (mark_one now err r)"
proof (cases err)
  case None
  then have "acked L sent (mark_one now err r)"
    using assms(3) by (simp add: acked_def mark_one_def message_of_def)
  with None assms show ?thesis by (simp add: outbox_row_ok_def mark_one_def)
next
  case (Some e)
  with assms show ?thesis by (auto simp: outbox_row_ok_def mark_one_def)
qed

lemma same_row: "distinct (map ob_ID rows) \<Longrightarrow> r \<in> set rows \<Longrightarrow> r' \<in> set rows \<Longrightarrow> ob_ID r = ob_ID r' \<Longrightarrow> r = r'"
  by (metis distinct_map inj_onD)

section \<open>Every step keeps it\<close>

lemma held_by_simps [simp]:
  "held_by (s\<lparr>fl_rows := rows\<rparr>) i = held_by s i" "held_by (s\<lparr>fl_sent := sent\<rparr>) i = held_by s i"
  "held_by (s\<lparr>fl_workers := (fl_workers s)(j := w)\<rparr>) i =
     (if i = j then (case w of None \<Rightarrow> {} | Some wk \<Rightarrow> set (wk_claimed wk)) else held_by s i)"
  by (simp_all add: held_by_def)

lemma fleet_okD:
  assumes "fleet_ok L s"
  shows "distinct (map ob_ID (fl_rows s))" "r \<in> set (fl_rows s) \<Longrightarrow> outbox_row_ok L (fl_sent s) r"
    "fl_workers s i = Some wk \<Longrightarrow> worker_ok L s wk" "i \<noteq> j \<Longrightarrow> held_by s i \<inter> held_by s j = {}"
  using assms by (auto simp: fleet_ok_def)

lemma store_ok:
  assumes ok: "fleet_ok L s" and new: "\<forall>r \<in> set new. new_outbox_row r" "distinct (map ob_ID (fl_rows s @ new))"
  shows "fleet_ok L (s\<lparr>fl_rows := fl_rows s @ new\<rparr>)"
proof -
  have "worker_ok L (s\<lparr>fl_rows := fl_rows s @ new\<rparr>) wk" if "fl_workers s i = Some wk" for i wk
  proof -
    note wk = fleet_okD(3) [OF ok that]
    have "acked L (fl_sent s) r" if r: "r \<in> set new" "(ob_ID r, None) \<in> set (wk_marks wk)" for r
    proof -
      have "ob_ID r \<in> set (wk_claimed wk)" using worker_okD(6) [OF wk] r(2) by force
      then have "ob_ID r \<in> ob_ID ` set (fl_rows s)" using worker_okD(4) [OF wk] by (metis imageI)
      with new(2) r(1) show ?thesis by auto
    qed
    then show ?thesis
      using worker_okD(3-5) [OF wk] by (intro worker_okI worker_okD(1,2) [OF wk]) fastforce+
  qed
  moreover have "outbox_row_ok L (fl_sent s) r" if "r \<in> set new" for r
    using new(1) that by (auto simp: outbox_row_ok_def new_outbox_row_def)
  ultimately show ?thesis using ok new(2) by (auto simp: fleet_ok_def)
qed

lemma claim_ok:
  assumes ok: "fleet_ok L s" and b: "fl_workers s i = None" "set batch \<subseteq> {r \<in> set (fl_rows s). due now r}"
    "distinct batch" "ob_ID ` set batch \<inter> locked_by_others s i = {}"
  shows "fleet_ok L (s\<lparr>fl_workers := (fl_workers s)(i \<mapsto>
      \<lparr>wk_now = now, wk_claimed = map ob_ID batch, wk_todo = batch, wk_marks = []\<rparr>)\<rparr>)"
proof -
  let ?wk = "\<lparr>wk_now = now, wk_claimed = map ob_ID batch, wk_todo = batch, wk_marks = []\<rparr>"
  have "inj_on ob_ID (set batch)" using b(2) same_row [OF fleet_okD(1) [OF ok]] by (intro inj_onI) blast
  then have "distinct (map ob_ID batch)" using b(3) by (simp add: distinct_map)
  then have new: "worker_ok L s ?wk" using b(2) by (auto simp: worker_ok_def due_def)
  have same: "worker_ok L (s\<lparr>fl_workers := ws\<rparr>) wk = worker_ok L s wk" for ws wk by (rule worker_ok_cong) simp_all
  show ?thesis
    using ok b(4) new by (auto simp: fleet_ok_def same locked_by_others_def split: if_splits)
qed

lemma publish_ok:
  assumes ok: "fleet_ok L s" and wk: "fl_workers s i = Some wk" "wk_todo wk = r # rs"
    and p: "Publish L t answer (message_of r) = (err, msgs)"
  shows "fleet_ok L (s\<lparr>fl_sent := fl_sent s @ msgs, fl_workers := (fl_workers s)(i \<mapsto>
      wk\<lparr>wk_todo := rs, wk_marks := wk_marks wk @ [(ob_ID r, err)]\<rparr>)\<rparr>)" (is "fleet_ok L ?s'")
proof -
  let ?wk = "wk\<lparr>wk_todo := rs, wk_marks := wk_marks wk @ [(ob_ID r, err)]\<rparr>"
  note wok = fleet_okD(3) [OF ok wk(1)]
  have r: "r \<in> set (fl_rows s)" using wok wk(2) by (simp add: worker_ok_def)
  have new: "worker_ok L ?s' ?wk"
  proof -
    have "acked L (fl_sent s @ msgs) r'" if r': "r' \<in> set (fl_rows s)" "(ob_ID r', None) \<in> set (wk_marks ?wk)" for r'
    proof (cases "(ob_ID r', None) \<in> set (wk_marks wk)")
      case True
      with worker_okD(5) [OF wok r'(1)] show ?thesis by (simp add: acked_more)
    next
      case False
      with r'(2) have "ob_ID r' = ob_ID r" "err = None" by auto
      then have "r' = r" using same_row [OF fleet_okD(1) [OF ok]] r r'(1) by blast
      with Publish_ok p \<open>err = None\<close> show ?thesis by blast
    qed
    moreover have "wk_claimed ?wk = map fst (wk_marks ?wk) @ map ob_ID (wk_todo ?wk)"
      using worker_okD(1) [OF wok] wk(2) by simp
    ultimately show ?thesis
      unfolding worker_ok_def using worker_okD(2-4) [OF wok] wk(2) by simp
  qed
  have old: "worker_ok L ?s' w" if w: "worker_ok L s w" for w
    using worker_okD(3,4) [OF w] worker_okD(5) [OF w, THEN acked_more]
    by (intro worker_okI worker_okD(1,2) [OF w]) simp_all
  show ?thesis
    unfolding fleet_ok_def
  proof (intro conjI allI impI ballI)
    show "distinct (map ob_ID (fl_rows ?s'))" using fleet_okD(1) [OF ok] by simp
    show "outbox_row_ok L (fl_sent ?s') x" if "x \<in> set (fl_rows ?s')" for x
      using fleet_okD(2) [OF ok] that by (simp add: row_ok_more)
    show "worker_ok L ?s' w" if "fl_workers ?s' j = Some w" for j w
      using that new old fleet_okD(3) [OF ok, of j] by (cases "j = i") simp_all
    show "held_by ?s' j \<inter> held_by ?s' k = {}" if "j \<noteq> k" for j k
      using fleet_okD(4) [OF ok that] wk(1) by (auto simp: held_by_def split: if_splits)
  qed
qed

lemma commit_ok:
  assumes ok: "fleet_ok L s" and wk: "fl_workers s i = Some wk" "wk_todo wk = []"
  shows "fleet_ok L (s\<lparr>fl_rows := marked wk (fl_rows s), fl_workers := (fl_workers s)(i := None)\<rparr>)" (is "fleet_ok L ?s'")
proof -
  note wok = fleet_okD(3) [OF ok wk(1)]
  have claimed: "wk_claimed wk = map fst (wk_marks wk)" "distinct (map fst (wk_marks wk))"
    using wok wk(2) by (auto simp: worker_ok_def)
  define f where "f r = (case map_of (wk_marks wk) (ob_ID r) of None \<Rightarrow> r | Some err \<Rightarrow> mark_one (wk_now wk) err r)" for r
  have rows: "marked wk (fl_rows s) = map f (fl_rows s)"
    unfolding marked_def f_def by (rule marks_map [OF claimed(2)])
  have ids: "ob_ID (f r) = ob_ID r" for r by (simp add: f_def split: option.splits)
  have row: "outbox_row_ok L (fl_sent s) (f r)" if r: "r \<in> set (fl_rows s)" for r
  proof (cases "map_of (wk_marks wk) (ob_ID r)")
    case None
    then show ?thesis using fleet_okD(2) [OF ok r] by (simp add: f_def)
  next
    case (Some err)
    then have m: "(ob_ID r, err) \<in> set (wk_marks wk)" by (rule map_of_SomeD)
    then have "ob_ID r \<in> set (wk_claimed wk)" using worker_okD(6) [OF wok] by force
    then obtain r' where "r' \<in> set (fl_rows s)" "ob_ID r' = ob_ID r" "ob_Status r' = OutboxPending"
      using worker_okD(4) [OF wok] by blast
    then have "ob_Status r = OutboxPending" using same_row [OF fleet_okD(1) [OF ok]] r by metis
    moreover have "acked L (fl_sent s) r" if "err = None" using worker_okD(5) [OF wok r] m that by simp
    ultimately show ?thesis using mark_one_ok [OF fleet_okD(2) [OF ok r]] Some by (simp add: f_def)
  qed
  have other: "worker_ok L ?s' w" if j: "fl_workers s j = Some w" "j \<noteq> i" for j w
  proof -
    note w = fleet_okD(3) [OF ok j(1)]
    have "held_by s j \<inter> held_by s i = {}" by (rule fleet_okD(4) [OF ok j(2)])
    then have apart: "set (wk_claimed w) \<inter> fst ` set (wk_marks wk) = {}"
      using j(1) wk(1) claimed(1) by (simp add: held_by_def)
    have same: "f r = r" if "ob_ID r \<in> set (wk_claimed w)" for r
    proof -
      have "map_of (wk_marks wk) (ob_ID r) = None" using that apart by (auto simp: map_of_eq_None_iff)
      then show ?thesis by (simp add: f_def)
    qed
    have todo: "ob_ID ` set (wk_todo w) \<subseteq> set (wk_claimed w)" "fst ` set (wk_marks w) \<subseteq> set (wk_claimed w)"
      using worker_okD(6,7) [OF w] by auto
    have "set (wk_todo w) \<subseteq> f ` set (fl_rows s)"
    proof
      fix r
      assume r: "r \<in> set (wk_todo w)"
      then have "r \<in> set (fl_rows s)" "f r = r" using worker_okD(3) [OF w] todo(1) same by auto
      then show "r \<in> f ` set (fl_rows s)" by (intro image_eqI [where x = r]) simp_all
    qed
    moreover have "\<exists>r \<in> f ` set (fl_rows s). ob_ID r = uid \<and> ob_Status r = OutboxPending"
      if uid: "uid \<in> set (wk_claimed w)" for uid
    proof -
      obtain r where "r \<in> set (fl_rows s)" "ob_ID r = uid" "ob_Status r = OutboxPending"
        using worker_okD(4) [OF w uid] by blast
      then show ?thesis using same [of r] uid by (intro bexI [of _ r] image_eqI [where x = r]) simp_all
    qed
    moreover have "acked L (fl_sent s) (f r)"
      if r: "r \<in> set (fl_rows s)" "(ob_ID r, None) \<in> set (wk_marks w)" for r
    proof -
      have "ob_ID r \<in> set (wk_claimed w)" using r(2) todo(2) by force
      from same [OF this] worker_okD(5) [OF w r] show ?thesis by simp
    qed
    ultimately show ?thesis
      by (intro worker_okI worker_okD(1,2) [OF w]) (auto simp: rows ids)
  qed
  show ?thesis
    unfolding fleet_ok_def
  proof (intro conjI allI impI ballI)
    have "map ob_ID (map f (fl_rows s)) = map ob_ID (fl_rows s)" by (simp add: ids)
    then show "distinct (map ob_ID (fl_rows ?s'))" using fleet_okD(1) [OF ok] unfolding rows by (simp del: map_map)
    show "outbox_row_ok L (fl_sent ?s') x" if "x \<in> set (fl_rows ?s')" for x using that row by (auto simp: rows)
    show "worker_ok L ?s' w" if "fl_workers ?s' j = Some w" for j w using that other by (cases "j = i") simp_all
    show "held_by ?s' j \<inter> held_by ?s' k = {}" if "j \<noteq> k" for j k
      using fleet_okD(4) [OF ok that] by (auto simp: held_by_def split: if_splits)
  qed
qed

lemma abort_ok: "fleet_ok L s \<Longrightarrow> fleet_ok L (s\<lparr>fl_workers := (fl_workers s)(i := None)\<rparr>)"
proof -
  assume ok: "fleet_ok L s"
  have same: "worker_ok L (s\<lparr>fl_workers := ws\<rparr>) wk = worker_ok L s wk" for ws wk by (rule worker_ok_cong) simp_all
  show ?thesis using ok by (auto simp: fleet_ok_def same)
qed

lemma fleet_step_ok: "fleet_step L s s' \<Longrightarrow> fleet_ok L s \<Longrightarrow> fleet_ok L s'"
  by (induction rule: fleet_step.induct) (auto intro: store_ok claim_ok publish_ok commit_ok abort_ok)

lemma fleet_steps_ok: "fleet_steps L s s' \<Longrightarrow> fleet_ok L s \<Longrightarrow> fleet_ok L s'"
  by (induction rule: rtranclp_induct) (auto intro: fleet_step_ok)

text \<open>No row disappears or changes what it says, whatever happens.\<close>

lemma fleet_step_letters: "fleet_step L s s' \<Longrightarrow> \<exists>new. map letter (fl_rows s') = map letter (fl_rows s) @ new"
  by (induction rule: fleet_step.induct) auto

lemma fleet_steps_letters: "fleet_steps L s s' \<Longrightarrow> \<exists>new. map letter (fl_rows s') = map letter (fl_rows s) @ new"
  by (induction rule: rtranclp_induct) (auto dest!: fleet_step_letters)

end
