(* ===== verification/Outbox_Run.thy ===== *)
theory Outbox_Run
  imports Outbox_Laws
begin

text \<open>
  One run of a worker: it is a path of the step relation, whatever fails; and when nothing fails it
  publishes the oldest due rows.
\<close>

section \<open>A run is a path\<close>

lemma marked_snoc:
  "marked (wk\<lparr>wk_todo := rs, wk_marks := wk_marks wk @ [(uid, err)]\<rparr>) rows = mark_row (wk_now wk) uid err (marked wk rows)"
  by (simp add: marked_def)

lemma publish_path:
  assumes "fl_workers s i = Some wk" "wk_todo wk = batch" "wk_now wk = oe_now E"
    and "publish_rows E k batch (marked wk (fl_rows s)) = (res, msgs)"
  shows "\<exists>wk'. fleet_steps (oe_lib E) s (s\<lparr>fl_sent := fl_sent s @ msgs, fl_workers := (fl_workers s)(i \<mapsto> wk')\<rparr>) \<and>
    (\<forall>table. res = Some table \<longrightarrow> wk_todo wk' = [] \<and> table = marked wk' (fl_rows s))"
  using assms
proof (induction batch arbitrary: s wk k res msgs)
  case Nil
  have "s\<lparr>fl_sent := fl_sent s @ [], fl_workers := (fl_workers s)(i \<mapsto> wk)\<rparr> = s"
    using Nil.prems(1) by (simp add: fun_upd_idem)
  then have "fleet_steps (oe_lib E) s (s\<lparr>fl_sent := fl_sent s @ [], fl_workers := (fl_workers s)(i \<mapsto> wk)\<rparr>)" by simp
  moreover have "res = Some (marked wk (fl_rows s))" "msgs = []" using Nil.prems(4) by simp_all
  ultimately show ?case using Nil.prems(2) by blast
next
  case (Cons r rs)
  let ?L = "oe_lib E"
  obtain err out where p: "Publish ?L (oe_clock E k) (oe_answer E k) (message_of r) = (err, out)" by fastforce
  define wk1 where "wk1 = wk\<lparr>wk_todo := rs, wk_marks := wk_marks wk @ [(ob_ID r, err)]\<rparr>"
  define s1 where "s1 = s\<lparr>fl_sent := fl_sent s @ out, fl_workers := (fl_workers s)(i \<mapsto> wk1)\<rparr>"
  have step: "fleet_step ?L s s1"
    unfolding s1_def wk1_def by (rule fleet_step.publish [OF Cons.prems(1,2) p])
  show ?case
  proof (cases "oe_mark E k")
    case (Some e)
    then have "res = None" "msgs = out" using Cons.prems(4) p by auto
    then show ?thesis using r_into_rtranclp [of "fleet_step ?L", OF step [unfolded s1_def]] by blast
  next
    case None
    obtain rest where rest: "publish_rows E (k + 1) rs (mark_row (oe_now E) (ob_ID r) err (marked wk (fl_rows s))) = (res, rest)"
      "msgs = out @ rest"
      using Cons.prems(4) p None by (auto split: prod.splits)
    have m: "marked wk1 (fl_rows s1) = mark_row (oe_now E) (ob_ID r) err (marked wk (fl_rows s))"
      using Cons.prems(3) by (simp add: wk1_def marked_snoc s1_def)
    have w1: "fl_workers s1 i = Some wk1" "wk_todo wk1 = rs" "wk_now wk1 = oe_now E"
      using Cons.prems(3) by (simp_all add: s1_def wk1_def)
    obtain wk' where wk': "fleet_steps ?L s1 (s1\<lparr>fl_sent := fl_sent s1 @ rest, fl_workers := (fl_workers s1)(i \<mapsto> wk')\<rparr>)"
      "\<forall>table. res = Some table \<longrightarrow> wk_todo wk' = [] \<and> table = marked wk' (fl_rows s1)"
      using Cons.IH [OF w1 rest(1) [folded m]] by blast
    have "fleet_steps ?L s (s1\<lparr>fl_sent := fl_sent s1 @ rest, fl_workers := (fl_workers s1)(i \<mapsto> wk')\<rparr>)"
      using step wk'(1) by (rule converse_rtranclp_into_rtranclp)
    moreover have "s1\<lparr>fl_sent := fl_sent s1 @ rest, fl_workers := (fl_workers s1)(i \<mapsto> wk')\<rparr> =
        s\<lparr>fl_sent := fl_sent s @ msgs, fl_workers := (fl_workers s)(i \<mapsto> wk')\<rparr>" "fl_rows s1 = fl_rows s"
      by (simp_all add: s1_def rest(2))
    ultimately show ?thesis using wk'(2) by metis
  qed
qed

definition view_for :: "fleet \<Rightarrow> nat \<Rightarrow> delivery" where
  "view_for s i = \<lparr>dv_rows = fl_rows s, dv_locked = locked_by_others s i, dv_sent = fl_sent s\<rparr>"

lemma GetPending_mem:
  "r \<in> set (GetPendingOutboxEvents now n locked rows) \<Longrightarrow> r \<in> set rows \<and> due now r \<and> ob_ID r \<notin> locked"
  by (auto simp: GetPendingOutboxEvents_def limited_def dest!: in_set_takeD)

lemma GetPending_distinct: "distinct rows \<Longrightarrow> distinct (GetPendingOutboxEvents now n locked rows)"
  by (simp add: GetPendingOutboxEvents_def limited_def)

lemma run_is_path:
  assumes "fl_workers s i = None" "distinct (fl_rows s)" "s' = OutboxWorker_RunOnce E n (view_for s i)"
  shows "fleet_steps (oe_lib E) s (s\<lparr>fl_sent := dv_sent s', fl_rows := dv_rows s'\<rparr>)"
proof (cases "oe_begin E \<noteq> None \<or> oe_query E \<noteq> None")
  case True
  then have "s' = view_for s i" by (auto simp: assms(3) OutboxWorker_RunOnce_def)
  then show ?thesis by (simp add: view_for_def)
next
  case False
  let ?L = "oe_lib E"
  define batch where "batch = GetPendingOutboxEvents (oe_now E) n (locked_by_others s i) (fl_rows s)"
  define wk where "wk = \<lparr>wk_now = oe_now E, wk_claimed = map ob_ID batch, wk_todo = batch, wk_marks = []\<rparr>"
  define s1 where "s1 = s\<lparr>fl_workers := (fl_workers s)(i \<mapsto> wk)\<rparr>"
  have claim: "fleet_step ?L s s1"
    unfolding s1_def wk_def
    by (rule fleet_step.claim [OF assms(1)])
       (use GetPending_mem GetPending_distinct [OF assms(2)] in \<open>fastforce simp: batch_def\<close>)+
  obtain res msgs where p: "publish_rows E 0 batch (fl_rows s) = (res, msgs)" by fastforce
  have "publish_rows E 0 batch (marked wk (fl_rows s1)) = (res, msgs)" using p by (simp add: marked_def wk_def s1_def)
  from publish_path [of s1 i wk, OF _ _ _ this]
  obtain wk' where wk': "fleet_steps ?L s1 (s1\<lparr>fl_sent := fl_sent s1 @ msgs, fl_workers := (fl_workers s1)(i \<mapsto> wk')\<rparr>)"
    "\<And>table. res = Some table \<Longrightarrow> wk_todo wk' = [] \<and> table = marked wk' (fl_rows s1)"
    by (auto simp: s1_def wk_def)
  define s2 where "s2 = s\<lparr>fl_sent := fl_sent s @ msgs, fl_workers := (fl_workers s)(i \<mapsto> wk')\<rparr>"
  have s2: "fleet_steps ?L s s2"
    using converse_rtranclp_into_rtranclp [OF claim wk'(1)] by (simp add: s1_def s2_def)
  have free: "(fl_workers s2)(i := None) = fl_workers s" using assms(1) by (auto simp: s2_def)
  have run: "dv_sent s' = fl_sent s @ msgs"
    "dv_rows s' = (case res of None \<Rightarrow> fl_rows s | Some table \<Rightarrow> if oe_commit E = None then table else fl_rows s)"
    using False p by (auto simp: assms(3) OutboxWorker_RunOnce_def view_for_def batch_def Let_def split: option.splits)
  show ?thesis
  proof (cases "res \<noteq> None \<and> oe_commit E = None")
    case True
    then obtain table where "res = Some table" by blast
    with wk'(2) have t: "wk_todo wk' = []" "table = marked wk' (fl_rows s2)" by (auto simp: s1_def s2_def)
    have "fleet_step ?L s2 (s2\<lparr>fl_rows := marked wk' (fl_rows s2), fl_workers := (fl_workers s2)(i := None)\<rparr>)"
      by (rule fleet_step.commit) (simp_all add: s2_def t(1))
    with s2 have "fleet_steps ?L s (s2\<lparr>fl_rows := table, fl_workers := fl_workers s\<rparr>)"
      unfolding free t(2) by (rule rtranclp.rtrancl_into_rtrancl)
    with True \<open>res = Some table\<close> run show ?thesis by (simp add: s2_def)
  next
    case False
    then have rows: "dv_rows s' = fl_rows s" using run(2) by (auto split: option.splits)
    have "fleet_step ?L s2 (s2\<lparr>fl_workers := (fl_workers s2)(i := None)\<rparr>)"
      by (rule fleet_step.abort [of _ _ wk']) (simp add: s2_def)
    with s2 have "fleet_steps ?L s (s2\<lparr>fl_workers := fl_workers s\<rparr>)"
      unfolding free by (rule rtranclp.rtrancl_into_rtrancl)
    with rows run(1) show ?thesis by (simp add: s2_def)
  qed
qed

section \<open>When nothing fails\<close>

definition healthy :: "outbox_env \<Rightarrow> bool" where
  "healthy E \<longleftrightarrow> oe_begin E = None \<and> oe_query E = None \<and> oe_commit E = None \<and>
     (\<forall>k. oe_mark E k = None \<and> oe_answer E k = Confirmed True \<and> year_ok (oe_clock E k))"

text \<open>The rows' times are ones JSON can carry.\<close>

definition datable :: "outbox_row \<Rightarrow> bool" where
  "datable r \<longleftrightarrow> year_ok (ob_CreatedAt r)"

lemma healthy_Publish:
  assumes "healthy E" "datable r"
  shows "fst (Publish (oe_lib E) (oe_clock E k) (oe_answer E k) (message_of r)) = None"
  using assms
  by (auto simp: Publish_def envelope_def healthy_def datable_def message_of_def Let_def errUnroutable_def split: option.splits sum.splits)

lemma healthy_publish_rows:
  assumes "healthy E" "\<forall>r \<in> set batch. datable r"
  shows "fst (publish_rows E k batch table) =
    Some (map (\<lambda>r. if ob_ID r \<in> ob_ID ` set batch then mark_one (oe_now E) None r else r) table)"
  using assms(2)
proof (induction batch arbitrary: k table)
  case (Cons r rs)
  have m: "oe_mark E k = None" using assms(1) by (simp add: healthy_def)
  have twice: "mark_one now None (mark_one now None x) = mark_one now None x" for now x by (simp add: mark_one_def)
  obtain msgs where p: "Publish (oe_lib E) (oe_clock E k) (oe_answer E k) (message_of r) = (None, msgs)"
    using healthy_Publish [OF assms(1), of r k] Cons.prems by (metis list.set_intros(1) prod.collapse)
  have "fst (publish_rows E k (r # rs) table) = fst (publish_rows E (k + 1) rs (mark_row (oe_now E) (ob_ID r) None table))"
    by (simp add: p m split: prod.splits)
  also have "\<dots> = Some (map (\<lambda>x. if ob_ID x \<in> ob_ID ` set (r # rs) then mark_one (oe_now E) None x else x) table)"
    using Cons by (auto simp: mark_row_map twice)
  finally show ?case .
qed simp

lemma healthy_run:
  assumes "healthy E" "\<forall>r \<in> set (dv_rows s). datable r"
    and "batch = GetPendingOutboxEvents (oe_now E) n (dv_locked s) (dv_rows s)"
  shows "dv_rows (OutboxWorker_RunOnce E n s) =
    map (\<lambda>r. if ob_ID r \<in> ob_ID ` set batch then mark_one (oe_now E) None r else r) (dv_rows s)"
    and "dv_locked (OutboxWorker_RunOnce E n s) = dv_locked s"
proof -
  have "\<forall>r \<in> set batch. datable r" using assms(2) GetPending_mem unfolding assms(3) by blast
  from healthy_publish_rows [OF assms(1) this, of 0 "dv_rows s"] assms(1)
  show "dv_rows (OutboxWorker_RunOnce E n s) =
    map (\<lambda>r. if ob_ID r \<in> ob_ID ` set batch then mark_one (oe_now E) None r else r) (dv_rows s)"
    by (auto simp: OutboxWorker_RunOnce_def healthy_def assms(3) Let_def split: prod.splits)
  show "dv_locked (OutboxWorker_RunOnce E n s) = dv_locked s"
    by (simp add: OutboxWorker_RunOnce_def Let_def split: prod.splits)
qed

definition pending :: "outbox_row list \<Rightarrow> nat" where
  "pending rows = length (filter (\<lambda>r. ob_Status r = OutboxPending) rows)"

lemma length_filter_minus:
  assumes "distinct xs" "distinct ys" "set ys \<subseteq> {x \<in> set xs. P x}"
  shows "length (filter (\<lambda>x. P x \<and> x \<notin> set ys) xs) = length (filter P xs) - length ys"
proof -
  have "length (filter (\<lambda>x. P x \<and> x \<notin> set ys) xs) = card (set (filter (\<lambda>x. P x \<and> x \<notin> set ys) xs))"
    using assms(1) by (intro distinct_card [symmetric]) simp
  also have "set (filter (\<lambda>x. P x \<and> x \<notin> set ys) xs) = set (filter P xs) - set ys" by auto
  also have "card \<dots> = card (set (filter P xs)) - card (set ys)"
    using assms(3) by (intro card_Diff_subset) auto
  also have "\<dots> = length (filter P xs) - length ys" using assms(1,2) by (metis distinct_card distinct_filter)
  finally show ?thesis .
qed

text \<open>A run takes as many pending rows as fit in its batch.\<close>

lemma run_progress:
  assumes "healthy E" "\<forall>r \<in> set (dv_rows s). datable r" "dv_locked s = {}" "0 < n" "n < 2 ^ 31"
    and "\<forall>r \<in> set (dv_rows s). ob_Status r = OutboxPending \<longrightarrow> ob_ScheduledAt r \<le> oe_now E"
    and ids: "distinct (map ob_ID (dv_rows s))"
  shows "pending (dv_rows (OutboxWorker_RunOnce E n s)) = pending (dv_rows s) - nat n"
proof -
  let ?P = "\<lambda>r. ob_Status r = OutboxPending"
  define batch where "batch = GetPendingOutboxEvents (oe_now E) n (dv_locked s) (dv_rows s)"
  have "filter (due (oe_now E)) (dv_rows s) = filter ?P (dv_rows s)"
    using assms(6) by (intro filter_cong) (auto simp: due_def)
  then have b: "batch = take (nat n) (sort_key ob_CreatedAt (filter ?P (dv_rows s)))"
    using assms(3-5) by (simp add: batch_def GetPendingOutboxEvents_def limited_def int32_id)
  then have len: "length batch = min (nat n) (pending (dv_rows s))" by (simp add: pending_def)
  have dist: "distinct batch" using ids by (simp add: b distinct_map)
  have mem: "r \<in> set (dv_rows s) \<and> ?P r" if "r \<in> set batch" for r
    using that GetPending_mem unfolding batch_def by (auto simp: due_def)
  have hit: "ob_ID r \<in> ob_ID ` set batch \<longleftrightarrow> r \<in> set batch" if "r \<in> set (dv_rows s)" for r
    using same_row [OF ids that] mem by (metis imageE imageI)
  have "filter ?P (dv_rows (OutboxWorker_RunOnce E n s)) = filter (\<lambda>r. ?P r \<and> r \<notin> set batch) (dv_rows s)"
  proof -
    have "filter ?P (map (\<lambda>r. if ob_ID r \<in> ob_ID ` set batch then mark_one (oe_now E) None r else r) rows) =
        filter (\<lambda>r. ?P r \<and> r \<notin> set batch) rows" if "set rows \<subseteq> set (dv_rows s)" for rows
      using that by (induction rows) (auto simp: hit mark_one_def)
    then show ?thesis using healthy_run(1) [OF assms(1,2) batch_def] by simp
  qed
  moreover have "length (filter (\<lambda>r. ?P r \<and> r \<notin> set batch) (dv_rows s)) = pending (dv_rows s) - length batch"
    unfolding pending_def by (rule length_filter_minus) (use ids dist mem in \<open>auto simp: distinct_map\<close>)
  ultimately show ?thesis using len by (simp add: pending_def min_def)
qed

lemma drained:
  assumes "\<forall>E \<in> set Es. healthy E \<and> t \<le> oe_now E" "\<forall>r \<in> set (dv_rows s). datable r"
    and "dv_locked s = {}" "0 < n" "n < 2 ^ 31" "distinct (map ob_ID (dv_rows s))"
    and "\<forall>r \<in> set (dv_rows s). ob_Status r = OutboxPending \<longrightarrow> ob_ScheduledAt r \<le> t"
  shows "pending (dv_rows (fold (\<lambda>E. OutboxWorker_RunOnce E n) Es s)) = pending (dv_rows s) - length Es * nat n"
  using assms
proof (induction Es arbitrary: s)
  case (Cons E Es)
  let ?s = "OutboxWorker_RunOnce E n s"
  have E: "healthy E" "t \<le> oe_now E" using Cons.prems(1) by auto
  note run = healthy_run [OF E(1) Cons.prems(2) refl, of n]
  have one: "pending (dv_rows ?s) = pending (dv_rows s) - nat n"
    by (rule run_progress [OF E(1) Cons.prems(2-5)]) (use Cons.prems(6,7) E(2) in force)+
  have rest: "pending (dv_rows (fold (\<lambda>E. OutboxWorker_RunOnce E n) Es ?s)) = pending (dv_rows ?s) - length Es * nat n"
  proof (rule Cons.IH)
    show "distinct (map ob_ID (dv_rows ?s))"
      using Cons.prems(6) by (simp add: run comp_def if_distrib [of ob_ID] cong: if_cong)
  qed (use Cons.prems run in \<open>auto simp: datable_def mark_one_def\<close>)
  show ?case by (simp add: rest one)
qed simp

section \<open>Giving up\<close>

text \<open>What repeated failures make of a row.\<close>

fun failures :: "(time \<times> goerr) list \<Rightarrow> outbox_row \<Rightarrow> outbox_row" where
  "failures [] r = r"
| "failures ((now, e) # fs) r = failures fs (mark_one now (Some e) r)"

lemma failures_snoc: "failures (fs @ [(now, e)]) r = mark_one now (Some e) (failures fs r)"
  by (induction fs r rule: failures.induct) simp_all

lemma failures_count: "ob_RetryCount (failures fs r) = ob_RetryCount r + int (length fs)"
  by (induction fs r rule: failures.induct) (simp_all add: mark_one_def)

lemma failures_last:
  assumes "new_outbox_row r" "fs \<noteq> []" "last fs = (now, e)" "length fs \<le> 6"
  shows "ob_Status (failures fs r) = (if length fs = 6 then OutboxFailed else OutboxPending)"
    "ob_ScheduledAt (failures fs r) = now + int (length fs) * (30 * time_Second)"
    "ob_LastError (failures fs r) = Some (error_text e)"
proof -
  obtain gs where gs: "fs = gs @ [(now, e)]" using assms(2,3) by (metis append_butlast_last_id)
  have "ob_RetryCount (failures gs r) = int (length gs)"
    using assms(1) by (simp add: failures_count new_outbox_row_def)
  with gs assms(4) show "ob_Status (failures fs r) = (if length fs = 6 then OutboxFailed else OutboxPending)"
    "ob_ScheduledAt (failures fs r) = now + int (length fs) * (30 * time_Second)"
    "ob_LastError (failures fs r) = Some (error_text e)"
    by (auto simp: failures_snoc mark_one_def algebra_simps)
qed

end
