(* ===== verification/Outbox_Properties.thy ===== *)
theory Outbox_Properties
  imports Outbox_Run Processes
begin

text \<open>
  What the outbox promises to consumers (\<open>docs/events.md\<close>): at least once, nothing lost, given up
  after six failed publishes.
\<close>

text \<open>A worker, a row, and the two together.\<close>

definition ex_event :: outbox_row where
  "ex_event = \<lparr>ob_ID = 9, ob_AggregateID = 2, ob_EventType = ''PaymentPending'', ob_Payload = JObj [],
     ob_Status = OutboxPending, ob_RetryCount = 0, ob_LastError = None, ob_ScheduledAt = 5000,
     ob_PublishedAt = None, ob_CreatedAt = 5000\<rparr>"

definition ex_outbox :: outbox_env where
  "ex_outbox = \<lparr>oe_lib = ex_lib, oe_now = 6000, oe_clock = (\<lambda>k. 7000), oe_answer = (\<lambda>k. Confirmed True),
     oe_begin = None, oe_query = None, oe_mark = (\<lambda>k. None), oe_commit = None\<rparr>"

definition ex_fleet :: fleet where
  "ex_fleet = \<lparr>fl_rows = [ex_event], fl_workers = (\<lambda>i. None), fl_sent = []\<rparr>"

lemma ex_fleet_ok: "fleet_ok L ex_fleet"
  by (simp add: fleet_ok_def ex_fleet_def held_by_def outbox_row_ok_def ex_event_def)

lemma ex_healthy: "healthy ex_outbox"
  by (simp add: healthy_def ex_outbox_def year_ok_def)

lemma ex_view: "view_for ex_fleet 0 = \<lparr>dv_rows = [ex_event], dv_locked = {}, dv_sent = []\<rparr>"
  by (simp add: view_for_def ex_fleet_def locked_by_others_def held_by_def)

lemma ex_run:
  "dv_rows (OutboxWorker_RunOnce ex_outbox 10 (view_for ex_fleet 0)) =
     [ex_event\<lparr>ob_Status := OutboxPublished, ob_PublishedAt := Some 6000\<rparr>]"
  unfolding ex_view by code_simp

text \<open>
  C14: nothing is reported published that the broker did not acknowledge, and nothing is lost. With
  any number of workers at work, saves adding rows, publishes that fail and transactions that are
  lost at any point, a row marked PUBLISHED has an acknowledged message that says what the row says
  (or a type that no consumer can receive); a FAILED row has used all its six tries and a PENDING
  one has not; no two open transactions hold the same row; and every row ever stored is still there
  with the same content.
\<close>

theorem published_means_acknowledged:
  assumes "fleet_steps L s s'" "fleet_ok L s"
  shows "(\<forall>r \<in> set (fl_rows s'). outbox_row_ok L (fl_sent s') r) \<and>
    (\<forall>i j. i \<noteq> j \<longrightarrow> held_by s' i \<inter> held_by s' j = {}) \<and>
    (\<forall>i. \<forall>uid \<in> held_by s' i. \<exists>r \<in> set (fl_rows s'). ob_ID r = uid \<and> ob_Status r = OutboxPending) \<and>
    (\<exists>new. map letter (fl_rows s') = map letter (fl_rows s) @ new)"
proof -
  note ok = fleet_steps_ok [OF assms]
  have "\<exists>r \<in> set (fl_rows s'). ob_ID r = uid \<and> ob_Status r = OutboxPending" if "uid \<in> held_by s' i" for i uid
    using that worker_okD(4) [OF fleet_okD(3) [OF ok]] by (auto simp: held_by_def split: option.splits)
  then show ?thesis using fleet_okD(2,4) [OF ok] fleet_steps_letters [OF assms(1)] by blast
qed

lemma published_means_acknowledged_witness:
  "outbox_row_ok ex_lib (dv_sent (OutboxWorker_RunOnce ex_outbox 10 (view_for ex_fleet 0)))
     (ex_event\<lparr>ob_Status := OutboxPublished, ob_PublishedAt := Some 6000\<rparr>)"
proof -
  have "fleet_steps ex_lib ex_fleet (ex_fleet\<lparr>fl_sent := dv_sent (OutboxWorker_RunOnce ex_outbox 10 (view_for ex_fleet 0)),
      fl_rows := dv_rows (OutboxWorker_RunOnce ex_outbox 10 (view_for ex_fleet 0))\<rparr>)"
    using run_is_path [of ex_fleet 0 _ ex_outbox 10] by (simp add: ex_fleet_def ex_outbox_def)
  from published_means_acknowledged [OF this ex_fleet_ok, THEN conjunct1] show ?thesis by (simp add: ex_run)
qed

text \<open>
  C15: every event that any payment raises can reach a consumer. Whatever the process has done, each
  row of the outbox is an event of a stored payment, its type has a routing key, and its envelope
  carries the row's identifier to deduplicate on, the payment and the event's own payload.
\<close>

lemma routable: "\<exists>rk. map_of routingKey (EventType e) = Some rk"
  by (cases e) (simp_all add: routingKey_def)

theorem every_event_is_routable:
  assumes "sys_ok U E w" "r \<in> set (db_outbox (sh_db (w_shared (process E reqs w))))" "datable r" "year_ok now"
  shows "\<exists>e rk body. ob_EventType r = EventType e \<and> ob_Payload r = event_json (en_lib E) e \<and>
    AggregateID e = ob_AggregateID r \<and> ob_AggregateID r \<in> pr_ID ` set (db_payments (sh_db (w_shared (process E reqs w)))) \<and>
    envelope (en_lib E) now (message_of r) = Inr (rk, JObj body) \<and>
    (''event_id'', JStr (uuid_String (en_lib E) (ob_ID r))) \<in> set body \<and>
    (''aggregate_id'', JStr (uuid_String (en_lib E) (AggregateID e))) \<in> set body \<and>
    (''data'', event_json (en_lib E) e) \<in> set body \<and> (''event_type'', JStr rk) \<in> set body"
proof -
  let ?d = "sh_db (w_shared (process E reqs w))"
  have ok: "db_ok (en_lib E) ?d" using process_ok [OF assms(1)] by (fastforce simp: sys_ok_def shared_ok_def)
  obtain row where row: "row \<in> set (db_payments ?d)" "pr_ID row = ob_AggregateID r"
    using db_ok_owner(3) [OF ok assms(2)] by (metis image_iff)
  from db_okD(6) [OF ok row(1)] obtain es where es:
    "map ob_data (outbox_of ?d (pr_ID row)) = map (event_data (en_lib E)) es" "\<forall>e \<in> set es. AggregateID e = pr_ID row"
    by (auto simp: history_ok_def)
  have "ob_data r \<in> set (map ob_data (outbox_of ?d (pr_ID row)))" using assms(2) row(2) by (simp add: outbox_of_def)
  then obtain e where e: "e \<in> set es" "ob_data r = event_data (en_lib E) e" unfolding es(1) by auto
  obtain rk where rk: "map_of routingKey (EventType e) = Some rk" using routable by blast
  have data: "ob_EventType r = EventType e" "ob_Payload r = event_json (en_lib E) e"
    using e(2) by (simp_all add: ob_data_def event_data_def)
  have agg: "AggregateID e = ob_AggregateID r" using es(2) e(1) row(2) by simp
  have "\<exists>body. envelope (en_lib E) now (message_of r) = Inr (rk, JObj body) \<and>
      (''event_id'', JStr (uuid_String (en_lib E) (ob_ID r))) \<in> set body \<and>
      (''aggregate_id'', JStr (uuid_String (en_lib E) (AggregateID e))) \<in> set body \<and>
      (''data'', event_json (en_lib E) e) \<in> set body \<and> (''event_type'', JStr rk) \<in> set body"
    using rk data agg assms(3,4)
    by (cases "ob_CreatedAt r = zero_time") (simp_all add: envelope_def message_of_def Let_def datable_def)
  with data agg db_ok_owner(3) [OF ok assms(2)] show ?thesis by blast
qed

lemma every_event_is_routable_witness:
  "\<exists>e. ob_EventType (hd (db_outbox ex_paid_db)) = EventType e \<and> AggregateID e = 2"
proof -
  have r: "hd (db_outbox ex_paid_db) \<in> set (db_outbox (sh_db (w_shared (process ex_env [] ex_paid_world))))"
    by (simp add: process_def ex_paid_world_def) (simp add: ex_paid_db_def)
  have "datable (hd (db_outbox ex_paid_db))" "year_ok 0" by (simp_all add: datable_def ex_paid_db_def year_ok_def)
  from every_event_is_routable [OF ex_paid_world_ok r this] show ?thesis by (auto simp: ex_paid_db_def)
qed

text \<open>
  C16: one call of \<open>RunOnce\<close> is a path of those steps: whatever the broker answers and whichever of
  its statements fails (begin, query, a mark, commit), a worker claims, publishes, and commits or
  loses its transaction, and every state it passes through is one the others may see.
\<close>

theorem worker_run_is_a_path:
  assumes "fl_workers s i = None" "fleet_ok (oe_lib E) s"
  shows "fleet_steps (oe_lib E) s
    (s\<lparr>fl_sent := dv_sent (OutboxWorker_RunOnce E n (view_for s i)),
       fl_rows := dv_rows (OutboxWorker_RunOnce E n (view_for s i))\<rparr>)"
proof -
  have "distinct (fl_rows s)" using fleet_okD(1) [OF assms(2)] by (simp add: distinct_map)
  with assms(1) show ?thesis by (rule run_is_path) simp
qed

lemma worker_run_is_a_path_witness:
  "fleet_steps ex_lib ex_fleet (ex_fleet\<lparr>fl_sent := dv_sent (OutboxWorker_RunOnce ex_outbox 10 (view_for ex_fleet 0)),
      fl_rows := dv_rows (OutboxWorker_RunOnce ex_outbox 10 (view_for ex_fleet 0))\<rparr>)"
  using worker_run_is_a_path [of ex_fleet 0 ex_outbox 10] ex_fleet_ok by (simp add: ex_fleet_def ex_outbox_def)

text \<open>
  C17: the outbox drains. When the broker acknowledges and the database answers, every run publishes
  a full batch of what is due; after enough runs nothing is pending.
\<close>

theorem outbox_drains:
  assumes "\<forall>E \<in> set Es. healthy E \<and> t \<le> oe_now E" "\<forall>r \<in> set (dv_rows s). datable r"
    and "dv_locked s = {}" "0 < n" "n < 2 ^ 31" "distinct (map ob_ID (dv_rows s))"
    and "\<forall>r \<in> set (dv_rows s). ob_Status r = OutboxPending \<longrightarrow> ob_ScheduledAt r \<le> t"
    and "length (dv_rows s) \<le> length Es * nat n"
  shows "\<forall>r \<in> set (dv_rows (fold (\<lambda>E. OutboxWorker_RunOnce E n) Es s)). ob_Status r \<noteq> OutboxPending"
proof -
  have "pending (dv_rows s) \<le> length (dv_rows s)" by (simp add: pending_def)
  then have "pending (dv_rows (fold (\<lambda>E. OutboxWorker_RunOnce E n) Es s)) = 0"
    using drained [OF assms(1-7)] assms(8) by simp
  then show ?thesis by (simp add: pending_def filter_empty_conv)
qed

lemma outbox_drains_witness:
  "\<not> (\<exists>r. r \<in> set (dv_rows (fold (\<lambda>E. OutboxWorker_RunOnce E 10) [ex_outbox] (view_for ex_fleet 0))) \<and>
     ob_Status r = OutboxPending)"
proof -
  have "\<forall>E \<in> set [ex_outbox]. healthy E \<and> 5000 \<le> oe_now E" using ex_healthy by (simp add: ex_outbox_def)
  from outbox_drains [OF this, of "view_for ex_fleet 0" 10] show ?thesis
    by (simp add: view_for_def ex_fleet_def datable_def year_ok_def ex_event_def locked_by_others_def held_by_def)
qed

text \<open>
  C18: a row whose publish keeps failing is tried again 30 seconds after the first failure, 60 after
  the second, and so on, and is FAILED for good exactly at the sixth; it keeps the last error. The
  other rows of the table do not change.
\<close>

lemma mark_failures:
  "fold (\<lambda>(now, e). MarkOutboxEventFailed now uid (error_text e)) fs rows =
     map (\<lambda>x. if ob_ID x = uid then failures fs x else x) rows"
proof (induction fs arbitrary: rows)
  case (Cons f fs)
  obtain now e where f: "f = (now, e)" by (cases f)
  have "ob_ID (mark_one now err x) = ob_ID x" for err x by simp
  moreover have "MarkOutboxEventFailed now uid (error_text e) rows =
      map (\<lambda>x. if ob_ID x = uid then mark_one now (Some e) x else x) rows"
    by (simp add: MarkOutboxEventFailed_def mark_one_def)
  ultimately show ?case by (auto simp: f Cons.IH)
qed (simp cong: if_cong)

theorem six_failures_give_up:
  assumes "new_outbox_row r" "fs \<noteq> []" "length fs \<le> 6"
    and "rows = fold (\<lambda>(now, e). MarkOutboxEventFailed now (ob_ID r) (error_text e)) fs (before @ r # after)"
    and "distinct (map ob_ID (before @ r # after))"
  shows "\<exists>r'. rows = before @ r' # after \<and> letter r' = letter r \<and> ob_RetryCount r' = int (length fs) \<and>
    ob_Status r' = (if length fs = 6 then OutboxFailed else OutboxPending) \<and>
    ob_ScheduledAt r' = fst (last fs) + int (length fs) * (30 * time_Second) \<and>
    ob_LastError r' = Some (error_text (snd (last fs)))"
proof (intro exI conjI)
  have other: "map (\<lambda>x. if ob_ID x = ob_ID r then failures fs x else x) xs = xs" if "ob_ID r \<notin> ob_ID ` set xs" for xs
    using that by (induction xs) auto
  show "rows = before @ failures fs r # after"
    using assms(5) by (simp add: assms(4) mark_failures other)
  have "letter (failures gs x) = letter x" for gs x by (induction gs x rule: failures.induct) simp_all
  then show "letter (failures fs r) = letter r" .
  show "ob_RetryCount (failures fs r) = int (length fs)"
    using assms(1) by (simp add: failures_count new_outbox_row_def)
  note l = failures_last [OF assms(1,2) prod.collapse [symmetric] assms(3)]
  show "ob_Status (failures fs r) = (if length fs = 6 then OutboxFailed else OutboxPending)"
    "ob_ScheduledAt (failures fs r) = fst (last fs) + int (length fs) * (30 * time_Second)"
    "ob_LastError (failures fs r) = Some (error_text (snd (last fs)))"
    by (rule l)+
qed

lemma six_failures_give_up_witness:
  "\<exists>r'. fold (\<lambda>(now, e). MarkOutboxEventFailed now 9 (error_text e)) (replicate 6 (0, ErrNoRows)) [ex_event] = [r'] \<and>
     ob_Status r' = OutboxFailed"
  using six_failures_give_up [of ex_event "replicate 6 (0, ErrNoRows)" _ "[]" "[]"]
  by (auto simp: new_outbox_row_def ex_event_def numeral_eq_Suc)

end
