(* ===== verification/Auth_Properties.thy ===== *)
theory Auth_Properties
  imports Api_Keys
begin

text \<open>
  The configuration of the callers, end to end: keys that \<open>apikey.Generate\<close> makes, their hashes in
  the configured list, and the requests that carry them.
\<close>

section \<open>Printable text\<close>

definition graphic :: "string \<Rightarrow> bool" where
  "graphic s \<longleftrightarrow> list_all (\<lambda>c. 33 \<le> (of_char c :: nat) \<and> (of_char c :: nat) \<le> 126) s"

lemma trim_front_id: "(\<And>r. r \<in> set rs \<Longrightarrow> r \<noteq> [] \<Longrightarrow> s \<noteq> [] \<Longrightarrow> hd r \<noteq> hd s) \<Longrightarrow> trim_front rs s = s"
proof -
  assume hd: "\<And>r. r \<in> set rs \<Longrightarrow> r \<noteq> [] \<Longrightarrow> s \<noteq> [] \<Longrightarrow> hd r \<noteq> hd s"
  have "\<not> str_HasPrefix s r" if "r \<in> set rs" "r \<noteq> []" for r
    using hd [OF that] that(2) by (cases s; cases r) (auto simp: str_HasPrefix_def)
  then have "List.find (\<lambda>r. r \<noteq> [] \<and> str_HasPrefix s r) rs = None" by (auto simp: find_None_iff)
  then show ?thesis by (subst trim_front.simps) simp
qed

lemma space_runes_ends:
  "r \<in> set space_runes \<Longrightarrow> \<not> (33 \<le> (of_char (hd r) :: nat) \<and> (of_char (hd r) :: nat) \<le> 126)"
  "r \<in> set space_runes \<Longrightarrow> \<not> (33 \<le> (of_char (last r) :: nat) \<and> (of_char (last r) :: nat) \<le> 126)"
  by (auto simp: space_runes_def)

lemma graphic_TrimSpace: "graphic s \<Longrightarrow> str_TrimSpace s = s"
proof -
  assume s: "graphic s"
  have "trim_front space_runes s = s"
    using s space_runes_ends(1) by (intro trim_front_id) (cases s; force simp: graphic_def)
  moreover have "trim_front (map rev space_runes) (rev s) = rev s"
  proof (rule trim_front_id)
    fix r
    assume r: "r \<in> set (map rev space_runes)" "r \<noteq> []" "rev s \<noteq> []"
    then obtain q where q: "r = rev q" "q \<in> set space_runes" by auto
    have "33 \<le> (of_char (last s) :: nat) \<and> (of_char (last s) :: nat) \<le> 126"
      using s r(3) by (auto simp: graphic_def list_all_iff)
    with space_runes_ends(2) [OF q(2)] show "hd r \<noteq> hd (rev s)"
      using q(1) r(3) by (auto simp: hd_rev)
  qed
  ultimately show ?thesis by (simp add: str_TrimSpace_def)
qed

lemma char_code: "n < 256 \<Longrightarrow> (of_char (char_of n :: char) :: nat) = n"
  by simp

lemma hex_char_plain:
  assumes "n < 16"
  shows "33 \<le> (of_char (hex_char n) :: nat) \<and> (of_char (hex_char n) :: nat) \<le> 126"
    "lower_char (hex_char n) = hex_char n" "hex_char n \<notin> {CHR '','', CHR 0xC4, CHR 0xE2}"
proof -
  have code: "(of_char (hex_char n) :: nat) = (if n < 10 then 48 + n else 87 + n)"
    using assms by (simp add: hex_char_def char_code)
  with assms show "33 \<le> (of_char (hex_char n) :: nat) \<and> (of_char (hex_char n) :: nat) \<le> 126" by simp
  from code assms show "lower_char (hex_char n) = hex_char n" by (simp add: lower_char_def Let_def)
  have "(of_char (hex_char n) :: nat) \<notin> {44, 196, 226}" using code assms by auto
  then show "hex_char n \<notin> {CHR '','', CHR 0xC4, CHR 0xE2}" by auto
qed

lemma b64_char_graphic:
  assumes "n < 64"
  shows "33 \<le> (of_char (b64_char n) :: nat) \<and> (of_char (b64_char n) :: nat) \<le> 126"
proof -
  have "(of_char (b64_char n) :: nat) = (if n < 26 then 65 + n else if n < 52 then 71 + n
      else if n < 62 then n - 4 else if n = 62 then 45 else 95)"
    using assms by (simp add: b64_char_def char_code)
  moreover have "n < 26 \<or> \<not> n < 26 \<and> n < 52 \<or> \<not> n < 52 \<and> n < 62 \<or> \<not> n < 62" by linarith
  ultimately show ?thesis using assms by (elim disjE) (simp_all, linarith)
qed

lemma hex_encode_plain:
  assumes "list_all (\<lambda>n. n < 256) bs"
  shows "graphic (hex_encode bs)" "CHR '','' \<notin> set (hex_encode bs)" "str_ToLower (hex_encode bs) = hex_encode bs"
proof -
  have chars: "list_all (\<lambda>c. \<exists>n < 16. c = hex_char n) (hex_encode bs)"
    using assms
  proof (induction bs)
    case (Cons b bs)
    then have "\<exists>n < 16. hex_char (b div 16) = hex_char n" "\<exists>n < 16. hex_char (b mod 16) = hex_char n"
      by (auto intro: exI [of _ "b div 16"] exI [of _ "b mod 16"] simp: less_mult_imp_div_less)
    with Cons show ?case by simp
  qed simp
  show "graphic (hex_encode bs)" using chars hex_char_plain by (fastforce simp: graphic_def list_all_iff)
  show "CHR '','' \<notin> set (hex_encode bs)" using chars hex_char_plain by (fastforce simp: list_all_iff)
  have "list_all (\<lambda>c. c \<noteq> CHR 0xC4 \<and> c \<noteq> CHR 0xE2) (hex_encode bs)"
    using chars hex_char_plain by (fastforce simp: list_all_iff)
  moreover have "map lower_char (hex_encode bs) = hex_encode bs"
    using chars hex_char_plain by (intro map_idI) (fastforce simp: list_all_iff)
  ultimately show "str_ToLower (hex_encode bs) = hex_encode bs" by (simp add: ascii_ToLower)
qed

lemma graphic_append: "graphic (s @ t) \<longleftrightarrow> graphic s \<and> graphic t"
  by (simp add: graphic_def)

lemma graphic_Generate: "graphic (apikey_Generate b)"
proof -
  have "list_all (\<lambda>n. n < 64) (b64_quanta (bytes_of (string_of b)))" by (rule b64_quanta_less [OF bytes_of_less])
  then have "graphic (base64_encode (string_of b))"
    using b64_char_graphic by (simp add: graphic_def base64_encode_def list_all_iff)
  then show ?thesis by (simp add: apikey_Generate_def graphic_append apikey_Prefix_def) (simp add: graphic_def)
qed

section \<open>The configured list\<close>

fun comma_list :: "string list \<Rightarrow> string" where
  "comma_list [] = []"
| "comma_list [e] = e"
| "comma_list (e # es) = e @ '','' @ comma_list es"

lemma split_plain: "c \<notin> set s \<Longrightarrow> str_Split s c = [s]"
  by (induction s) auto

lemma split_sep: "c \<notin> set s \<Longrightarrow> str_Split (s @ c # t) c = s # str_Split t c"
  by (induction s) auto

lemma split_comma_list:
  "es \<noteq> [] \<Longrightarrow> (\<And>e. e \<in> set es \<Longrightarrow> CHR '','' \<notin> set e) \<Longrightarrow> str_Split (comma_list es) (CHR '','') = es"
  by (induction es rule: comma_list.induct) (simp_all add: split_plain split_sep)

text \<open>A service name an operator may choose, and the entry for a key of that service.\<close>

definition service_name :: "string \<Rightarrow> bool" where
  "service_name s \<longleftrightarrow> s \<noteq> [] \<and> graphic s \<and> CHR '','' \<notin> set s \<and> CHR '':'' \<notin> set s"

definition key_entry_text :: "string \<times> nat list \<Rightarrow> string" where
  "key_entry_text sb = fst sb @ '':'' @ apikey_Hash (apikey_Generate (snd sb))"

lemma key_entry_text_plain:
  assumes "service_name (fst sb)"
  shows "CHR '','' \<notin> set (key_entry_text sb)" "str_TrimSpace (key_entry_text sb) = key_entry_text sb"
    "key_entry_text sb \<noteq> []"
    "parse_entry (key_entry_text sb) = Inr (fst sb, apikey_Hash (apikey_Generate (snd sb)))"
proof -
  let ?h = "apikey_Hash (apikey_Generate (snd sb))"
  note bytes = sha256_bytes [of "apikey_Generate (snd sb)"]
  have h: "graphic ?h" "CHR '','' \<notin> set ?h" "str_ToLower ?h = ?h" "hex_decode ?h = Some (sha256 (apikey_Generate (snd sb)))"
    using hex_encode_plain [OF bytes(2)] hex_roundtrip [OF bytes(2)] by (simp_all add: apikey_Hash_def sha256_hex_def)
  show "CHR '','' \<notin> set (key_entry_text sb)" using assms h(2) by (simp add: key_entry_text_def service_name_def)
  show "str_TrimSpace (key_entry_text sb) = key_entry_text sb"
    using assms h(1) by (intro graphic_TrimSpace) (simp add: key_entry_text_def service_name_def graphic_append, simp add: graphic_def)
  show "key_entry_text sb \<noteq> []" by (simp add: key_entry_text_def)
  have "str_Cut (key_entry_text sb) (CHR '':'') = (fst sb, ?h, True)"
    using assms by (simp add: key_entry_text_def service_name_def str_Cut_append)
  then show "parse_entry (key_entry_text sb) = Inr (fst sb, ?h)"
    using assms h bytes(1) by (simp add: parse_entry_def Let_def service_name_def graphic_TrimSpace)
qed

abbreviation entry_hash :: "string \<times> nat list \<Rightarrow> string" where
  "entry_hash sb \<equiv> apikey_Hash (apikey_Generate (snd sb))"

definition table_of :: "(string \<times> nat list) list \<Rightarrow> string \<rightharpoonup> string" where
  "table_of sbs h = map_option fst (List.find (\<lambda>sb. entry_hash sb = h) (rev sbs))"

lemma add_key_entry:
  assumes "service_name (fst sb)" "\<And>s. tbl (entry_hash sb) = Some s \<Longrightarrow> s = fst sb"
  shows "add_entry (key_entry_text sb) tbl = Inr (tbl(entry_hash sb \<mapsto> fst sb))"
  using assms(2) key_entry_text_plain [OF assms(1)] by (auto simp: add_entry_def Let_def split: option.splits)

lemma add_key_entries:
  assumes "\<And>sb. sb \<in> set sbs \<Longrightarrow> service_name (fst sb)"
    and "\<And>sb sb'. sb \<in> set sbs \<Longrightarrow> sb' \<in> set sbs \<Longrightarrow> entry_hash sb = entry_hash sb' \<Longrightarrow> fst sb = fst sb'"
    and "\<And>sb s. sb \<in> set sbs \<Longrightarrow> tbl (entry_hash sb) = Some s \<Longrightarrow> s = fst sb"
  shows "add_entries (map key_entry_text sbs) tbl = Inr (tbl ++ table_of sbs)"
  using assms
proof (induction sbs arbitrary: tbl)
  case Nil
  have "table_of [] = Map.empty" by (rule ext) (simp add: table_of_def)
  then show ?case by simp
next
  case (Cons sb sbs)
  let ?t = "tbl(entry_hash sb \<mapsto> fst sb)"
  have "service_name (fst sb)" "\<And>s. tbl (entry_hash sb) = Some s \<Longrightarrow> s = fst sb"
    using Cons.prems(1) [of sb] Cons.prems(3) [of sb] by simp_all
  then have "add_entry (key_entry_text sb) tbl = Inr ?t" by (rule add_key_entry)
  moreover have "add_entries (map key_entry_text sbs) ?t = Inr (?t ++ table_of sbs)"
  proof (rule Cons.IH)
    fix sb' s
    assume sb': "sb' \<in> set sbs" "?t (entry_hash sb') = Some s"
    show "s = fst sb'"
    proof (cases "entry_hash sb' = entry_hash sb")
      case True
      with sb' Cons.prems(2) [of sb sb'] show ?thesis by simp
    next
      case False
      with sb' Cons.prems(3) [of sb'] show ?thesis by simp
    qed
  next
    fix sb1 sb2
    assume "sb1 \<in> set sbs" "sb2 \<in> set sbs" "entry_hash sb1 = entry_hash sb2"
    then show "fst sb1 = fst sb2" using Cons.prems(2) [of sb1 sb2] by simp
  qed (rule Cons.prems(1), simp)
  moreover have "?t ++ table_of sbs = tbl ++ table_of (sb # sbs)"
    by (rule ext) (auto simp: table_of_def map_add_def find_append split: option.splits)
  ultimately show ?case by simp
qed

lemma table_of_Some: "table_of sbs h = Some s \<Longrightarrow> \<exists>sb \<in> set sbs. fst sb = s \<and> entry_hash sb = h"
proof -
  assume "table_of sbs h = Some s"
  then obtain sb where "List.find (\<lambda>sb. entry_hash sb = h) (rev sbs) = Some sb" "fst sb = s"
    by (auto simp: table_of_def)
  from find_mem [OF this(1)] this(2) show ?thesis by auto
qed

lemma table_of_entry:
  assumes "\<And>sb'. sb' \<in> set sbs \<Longrightarrow> entry_hash sb = entry_hash sb' \<Longrightarrow> fst sb = fst sb'" "sb \<in> set sbs"
  shows "table_of sbs (entry_hash sb) = Some (fst sb)"
proof (cases "table_of sbs (entry_hash sb)")
  case None
  then have "\<not> (\<exists>x. x \<in> set (rev sbs) \<and> entry_hash x = entry_hash sb)" by (simp add: table_of_def find_None_iff)
  with assms(2) show ?thesis by (metis set_rev)
next
  case (Some s)
  with table_of_Some [OF this] assms(1) show ?thesis by metis
qed

lemma bearer_key: "graphic key \<Longrightarrow> key \<noteq> [] \<Longrightarrow> bearerToken [(''Authorization'', [''Bearer '' @ key])] = (key, True)"
  by (simp add: bearerToken_def Header_Get_def str_EqualFold_def graphic_TrimSpace)

lemma CallerAuth_Inr:
  "CallerAuth tbl hs = Inr s \<longleftrightarrow> snd (bearerToken hs) \<and> tbl (apikey_Hash (fst (bearerToken hs))) = Some s \<and> s \<noteq> [] \<and>
     (Header_Get hs ''X-Service-Name'' = [] \<or> Header_Get hs ''X-Service-Name'' = s)"
  by (auto simp: CallerAuth_def Let_def split: prod.splits option.splits)

text \<open>
  C19: the configuration of callers works end to end. For any list of services with plain names and
  the keys \<open>apikey.Generate\<close> made for them (several for one service while a key is rotated), the
  server accepts the list of their hashes; each key then authenticates as its own service; and
  whoever is let in, whatever the headers, presented a token with the SHA-256 of a listed key and is
  the service of that key. Callers never have a colon in their name.
\<close>

theorem generated_keys_authenticate:
  assumes "sbs \<noteq> []" "\<forall>sb \<in> set sbs. service_name (fst sb)"
    and "\<forall>sb \<in> set sbs. \<forall>sb' \<in> set sbs. entry_hash sb = entry_hash sb' \<longrightarrow> fst sb = fst sb'"
  shows "\<exists>tbl. ParseHashes (comma_list (map key_entry_text sbs)) = Inr tbl \<and>
    (\<forall>sb \<in> set sbs. CallerAuth tbl [(''Authorization'', [''Bearer '' @ apikey_Generate (snd sb)])] = Inr (fst sb)) \<and>
    (\<forall>hs s. CallerAuth tbl hs = Inr s \<longrightarrow> CHR '':'' \<notin> set s \<and>
       (\<exists>sb \<in> set sbs. fst sb = s \<and> apikey_Hash (fst (bearerToken hs)) = entry_hash sb))"
proof -
  let ?tbl = "table_of sbs"
  have "str_Split (comma_list (map key_entry_text sbs)) (CHR '','') = map key_entry_text sbs"
    using assms(1,2) key_entry_text_plain(1) by (intro split_comma_list) auto
  moreover have "add_entries (map key_entry_text sbs) Map.empty = Inr (Map.empty ++ ?tbl)"
    by (rule add_key_entries) (use assms(2,3) in \<open>blast | simp\<close>)+
  ultimately have tbl: "ParseHashes (comma_list (map key_entry_text sbs)) = Inr ?tbl" by (simp add: ParseHashes_def)
  have "CallerAuth ?tbl [(''Authorization'', [''Bearer '' @ apikey_Generate (snd sb)])] = Inr (fst sb)"
    if sb: "sb \<in> set sbs" for sb
  proof -
    have "apikey_Generate (snd sb) \<noteq> []" by (simp add: apikey_Generate_def apikey_Prefix_def)
    note key = bearer_key [OF graphic_Generate this]
    have "?tbl (entry_hash sb) = Some (fst sb)" by (rule table_of_entry) (use assms(3) sb in blast)+
    moreover have "fst sb \<noteq> []" using assms(2) sb by (auto simp: service_name_def)
    ultimately show ?thesis unfolding CallerAuth_Inr key by (simp add: Header_Get_def)
  qed
  moreover have "CHR '':'' \<notin> set s" if "CallerAuth ?tbl hs = Inr s" for hs s
    using ParseHashes_ok [OF tbl] that by (auto simp: CallerAuth_Inr key_table_ok_def key_entry_def)
  moreover have "\<exists>sb \<in> set sbs. fst sb = s \<and> apikey_Hash (fst (bearerToken hs)) = entry_hash sb"
    if "CallerAuth ?tbl hs = Inr s" for hs s
    using that table_of_Some by (metis CallerAuth_Inr)
  ultimately show ?thesis using tbl by blast
qed

lemma generated_keys_authenticate_witness:
  "\<exists>tbl. ParseHashes (comma_list (map key_entry_text [(''shop'', replicate 32 7), (''shop'', replicate 32 9)])) = Inr tbl \<and>
     CallerAuth tbl [(''Authorization'', [''Bearer '' @ apikey_Generate (replicate 32 7)])] = Inr ''shop''"
proof -
  have name: "service_name ''shop''" by (simp add: service_name_def graphic_def)
  let ?sbs = "[(''shop'', replicate 32 7), (''shop'', replicate 32 9)]"
  have same: "fst sb = ''shop''" if "sb \<in> set ?sbs" for sb using that by auto
  have "\<forall>sb \<in> set ?sbs. service_name (fst sb)"
    "\<forall>sb \<in> set ?sbs. \<forall>sb' \<in> set ?sbs. entry_hash sb = entry_hash sb' \<longrightarrow> fst sb = fst sb'"
    using same name by metis+
  from generated_keys_authenticate [OF _ this] obtain tbl where
    "ParseHashes (comma_list (map key_entry_text ?sbs)) = Inr tbl"
    "\<forall>sb \<in> set ?sbs. CallerAuth tbl [(''Authorization'', [''Bearer '' @ apikey_Generate (snd sb)])] = Inr (fst sb)"
    by blast
  then show ?thesis by (metis fst_conv list.set_intros(1) snd_conv)
qed

section \<open>The command that issues keys\<close>

text \<open>
  C34: what \<open>cmd/apikey\<close> prints works. For a service name of printable characters, it refuses a name with
  a colon or a comma; otherwise it prints a key and an entry, such that a server configured with that entry
  alone lets a request in exactly when its token has the hash of the key, and the key itself
  authenticates as the service.
\<close>

theorem issued_keys_authenticate:
  assumes "graphic (str_TrimSpace name)"
  shows "case apikey_main [prog, name] (Inr b) of r \<Rightarrow>
    (if str_TrimSpace name = [] \<or> str_ContainsAny name '':,'' then cmd_Exit r = 2 \<and> cmd_Stdout r = []
     else (\<exists>key entry tbl. cmd_Exit r = 0 \<and>
        cmd_Stdout r = key_line (str_TrimSpace name) key @ entry_line (str_TrimSpace name) (apikey_Hash key) \<and>
        entry = str_TrimSpace name @ '':'' @ apikey_Hash key \<and> ParseHashes entry = Inr tbl \<and>
        CallerAuth tbl [(''Authorization'', [''Bearer '' @ key])] = Inr (str_TrimSpace name) \<and>
        (\<forall>hs s. CallerAuth tbl hs = Inr s \<longrightarrow> s = str_TrimSpace name \<and> apikey_Hash (fst (bearerToken hs)) = apikey_Hash key)))"
proof (cases "str_TrimSpace name = [] \<or> str_ContainsAny name '':,''")
  case True
  then show ?thesis by (auto simp: apikey_main_def)
next
  case False
  let ?s = "str_TrimSpace name" and ?key = "apikey_Generate b"
  let ?e = "(?s, b)"
  have "CHR '':'' \<notin> set name" "CHR '','' \<notin> set name"
    using False by (auto simp: str_ContainsAny_def list_ex_iff)
  then have name: "service_name ?s"
    using False assms set_TrimSpace [of name] by (auto simp: service_name_def)
  have "str_Split (key_entry_text ?e) (CHR '','') = [key_entry_text ?e]"
    using key_entry_text_plain(1) [of ?e] name by (simp add: split_plain)
  moreover have "add_entry (key_entry_text ?e) Map.empty = Inr [entry_hash ?e \<mapsto> ?s]"
    using add_key_entry [of ?e Map.empty] name by simp
  ultimately have tbl: "ParseHashes (?s @ '':'' @ apikey_Hash ?key) = Inr [apikey_Hash ?key \<mapsto> ?s]"
    by (simp add: ParseHashes_def key_entry_text_def)
  have "?key \<noteq> []" by (simp add: apikey_Generate_def apikey_Prefix_def)
  note key = bearer_key [OF graphic_Generate this]
  have "CallerAuth [apikey_Hash ?key \<mapsto> ?s] [(''Authorization'', [''Bearer '' @ ?key])] = Inr ?s"
    unfolding CallerAuth_Inr key using False by (simp add: Header_Get_def)
  moreover have "s = ?s \<and> apikey_Hash (fst (bearerToken hs)) = apikey_Hash ?key"
    if "CallerAuth [apikey_Hash ?key \<mapsto> ?s] hs = Inr s" for hs s
    using that by (auto simp: CallerAuth_Inr split: if_splits)
  ultimately show ?thesis using False tbl by (auto simp: apikey_main_def Let_def)
qed

text \<open>A key for the service \<open>shop\<close>.\<close>

lemma issued_keys_authenticate_witness:
  "cmd_Exit (apikey_main [''apikey'', ''shop''] (Inr (replicate 32 7))) = 0 \<and>
   (\<exists>key tbl. ParseHashes (''shop:'' @ apikey_Hash key) = Inr tbl \<and>
     CallerAuth tbl [(''Authorization'', [''Bearer '' @ key])] = Inr ''shop'')"
proof -
  have g: "graphic ''shop''" by code_simp
  then have t: "str_TrimSpace ''shop'' = ''shop''" by (rule graphic_TrimSpace)
  have "\<not> str_ContainsAny ''shop'' '':,''" by code_simp
  with issued_keys_authenticate [of "''shop''" "''apikey''" "replicate 32 7", unfolded t, OF g]
  show ?thesis by (simp add: apikey_main_def t) blast
qed

end
