(* ===== verification/Http_Properties.thy ===== *)
theory Http_Properties
  imports Query_Properties Auth_Properties
begin

text \<open>
  The API seen from outside: who may read what, what shapes the answers have, and that a retry of a
  creation gets the stored response.
\<close>

section \<open>Reads\<close>

definition own_payment :: "uuid_lib \<Rightarrow> db \<Rightarrow> string \<Rightarrow> payment_dto \<Rightarrow> bool" where
  "own_payment L d caller dto \<longleftrightarrow>
     pd_CallerService dto = caller \<and> (\<exists>row \<in> set (db_payments d). dto_of_row L dto row)"

definition reads_own :: "uuid_lib \<Rightarrow> db \<Rightarrow> string \<Rightarrow> http_response \<Rightarrow> bool" where
  "reads_own L d caller resp \<longleftrightarrow>
     (\<exists>dto. resp = writeJSON 200 (marshal_dto dto) \<and> own_payment L d caller dto) \<or>
     (\<exists>res. resp = writePaymentList res \<and> (\<forall>dto \<in> set (lr_Payments res). own_payment L d caller dto)) \<or>
     (\<exists>p. resp = refund_list_answer L p \<and> p_CallerService p = caller)"

lemma shows_own_reads:
  assumes "pgh.shows_own E caller resp v" "hr_Status resp = 200" "CHR '':'' \<notin> set caller"
    and "\<forall>row \<in> set (db_payments (sh_db (w_shared v))). CHR '':'' \<notin> set (pr_CallerService row)"
  shows "reads_own (en_lib E) (sh_db (w_shared v)) caller resp"
proof -
  let ?d = "sh_db (w_shared v)"
  have by_id: "own_payment (en_lib E) ?d caller dto" if "pd_CallerService dto = caller" "pg_view E v (PaymentCacheKey s) dto" for dto s
    using that by (auto simp: own_payment_def pg_view_def elim: shown_by_id)
  have by_ref: "own_payment (en_lib E) ?d caller dto" if "pg_view E v (ReferenceCacheKey caller ref) dto" for dto ref
  proof -
    from that have "shown (en_lib E) ?d (ReferenceCacheKey caller ref) dto" by (simp add: pg_view_def)
    from shown_by_reference [OF this assms(3,4)] show ?thesis by (metis dto_of_row_def own_payment_def)
  qed
  from assms(1,2) consider
    (one) dto s where "resp = writeJSON 200 (marshal_dto dto)" "pd_CallerService dto = caller" "pg_view E v (PaymentCacheKey s) dto"
  | (ref) dto ref where "resp = writeJSON 200 (marshal_dto dto)" "pg_view E v (ReferenceCacheKey caller ref) dto"
  | (lst) res where "resp = writePaymentList res" "\<forall>dto \<in> set (lr_Payments res). pd_CallerService dto = caller \<and>
      pg_view E v (PaymentCacheKey (pd_ID dto)) dto"
  | (refunds) p where "resp = refund_list_answer (lib (pg_service E)) p" "p_CallerService p = caller"
    unfolding pgh.shows_own_def by blast
  then show ?thesis
  proof cases
    case one
    with by_id show ?thesis unfolding reads_own_def by blast
  next
    case ref
    with by_ref show ?thesis unfolding reads_own_def by blast
  next
    case lst
    then have "\<forall>dto \<in> set (lr_Payments res). own_payment (en_lib E) ?d caller dto" using by_id by blast
    with lst(1) show ?thesis unfolding reads_own_def by blast
  next
    case refunds
    then show ?thesis unfolding reads_own_def by (auto simp: pg_ports)
  qed
qed

lemma CallerAuth_error:
  "CallerAuth tbl hs = Inl e \<Longrightarrow> hr_Status (error_answer e) \<in> {401, 403}"
  by (auto simp: CallerAuth_def Let_def error_answer_def writeJSON_def WriteError_def err_defs
      split: prod.splits if_splits)

lemma serve_payments:
  assumes "rq_Path r = ''payments'' # path"
  shows "http_serve S cfg r = (case CallerAuth (hc_KeyHashes cfg) (rq_Headers r) of
     Inl e \<Rightarrow> State_Monad.return (error_answer e) | Inr caller \<Rightarrow> serve_caller S (hc_IdemTTL cfg) caller r)"
  using assms by (simp add: http_serve_def)


text \<open>A configuration with one service, \<open>s\<close>, and a request of it.\<close>

definition ex_keys :: "(string \<times> nat list) list" where
  "ex_keys = [(''s'', replicate 32 7)]"

definition ex_config :: http_config where
  "ex_config = \<lparr>hc_KeyHashes = table_of ex_keys, hc_AdminKey = ''admin'', hc_IdemTTL = 24 * time_Hour\<rparr>"

definition ex_http :: "string \<Rightarrow> string list \<Rightarrow> json option \<Rightarrow> http_request" where
  "ex_http m path j =
     \<lparr>rq_Method = m, rq_Path = path, rq_Query = [],
      rq_Headers = [(''Authorization'', [''Bearer '' @ apikey_Generate (replicate 32 7)])],
      rq_Raw = [], rq_ReadFails = False, rq_JSON = j, rq_FromFirst = True\<rparr>"

lemma ex_http_simps [simp]:
  "rq_Path (ex_http m path j) = path" "rq_Method (ex_http m path j) = m" "rq_JSON (ex_http m path j) = j"
  by (simp_all add: ex_http_def)

lemma ex_auth:
  "ParseHashes (comma_list (map key_entry_text ex_keys)) = Inr (hc_KeyHashes ex_config)"
  "CallerAuth (hc_KeyHashes ex_config) (rq_Headers (ex_http m path j)) = Inr ''s''"
proof -
  have name: "service_name ''s''" by (simp add: service_name_def graphic_def)
  have "str_Split (comma_list (map key_entry_text ex_keys)) (CHR '','') = map key_entry_text ex_keys"
    by (rule split_comma_list) (use name key_entry_text_plain(1) [of "(''s'', replicate 32 7)"] in \<open>auto simp: ex_keys_def\<close>)
  moreover have "add_entries (map key_entry_text ex_keys) Map.empty = Inr (Map.empty ++ table_of ex_keys)"
    by (rule add_key_entries) (use name in \<open>auto simp: ex_keys_def\<close>)
  ultimately show "ParseHashes (comma_list (map key_entry_text ex_keys)) = Inr (hc_KeyHashes ex_config)"
    by (simp add: ParseHashes_def ex_config_def)
  have "apikey_Generate (replicate 32 7) \<noteq> []" by (simp add: apikey_Generate_def apikey_Prefix_def)
  from bearer_key [OF graphic_Generate this]
  have key: "bearerToken (rq_Headers (ex_http m path j)) = (apikey_Generate (replicate 32 7), True)"
    by (simp only: ex_http_def http_request.simps)
  have "Header_Get (rq_Headers (ex_http m path j)) ''X-Service-Name'' = []" by (simp add: ex_http_def Header_Get_def)
  moreover have "table_of ex_keys (apikey_Hash (apikey_Generate (replicate 32 7))) = Some ''s''"
    using table_of_entry [of ex_keys "(''s'', replicate 32 7)"] by (simp add: ex_keys_def)
  ultimately show "CallerAuth (hc_KeyHashes ex_config) (rq_Headers (ex_http m path j)) = Inr ''s''"
    unfolding CallerAuth_Inr key by (simp add: ex_config_def)
qed

lemma ex_parse: "uuid_Parse ex_lib ''2'' = Some 2" "uuid_String ex_lib 2 = ''2''"
proof -
  have "nat_str 2 = ''2''" by code_simp
  then show s: "uuid_String ex_lib 2 = ''2''" by (simp add: ex_lib_def)
  with ex_lib_roundtrip show "uuid_Parse ex_lib ''2'' = Some 2" by (metis uuid_roundtrip_def)
qed

lemma ex_get:
  obtains v where "run_state (http_serve (pg_service ex_env) ex_config (ex_http ''GET'' [''payments'', ''2''] None)) ex_paid_world =
      (writeJSON 200 (marshal_dto (toDTO ex_lib ex_stored)), v)" "sh_db (w_shared v) = ex_paid_db"
proof -
  obtain v where v: "run_state (GetPayment_load (pg_service ex_env) TTLForStatus 2) ex_paid_world =
      (Inr (toDTO ex_lib ex_stored), v)" "sh_db (w_shared v) = ex_paid_db"
    using ex_GetPayment by blast
  have owner: "pd_CallerService (toDTO ex_lib ex_stored) = ''s''"
    using toDomain_fields(3) [OF ex_rows(2)] by (simp add: ex_rows toDTO_def)
  have lib: "lib (pg_service ex_env) = ex_lib" by (simp add: pg_ports ex_env_def)
  have "run_state (http_serve (pg_service ex_env) ex_config (ex_http ''GET'' [''payments'', ''2''] None)) ex_paid_world =
      (writeJSON 200 (marshal_dto (toDTO ex_lib ex_stored)), v)"
    using v(1) owner
    by (simp add: serve_payments ex_auth(2) serve_caller_def caller_route_def is_get_def
         GetPayment_def with_id_def lib ex_parse answer_def GetPayment_Handle_def)
  with v(2) that show ?thesis by blast
qed


section \<open>Answers\<close>



section \<open>Retries\<close>

lemma reliable_Begin:
  assumes "reliable E"
  shows "run_state (Begin (pg_service E) ttl k h) w =
    (case redis_live (en_time E (w_tick w)) (w_shared w) k of
       None \<Rightarrow> (Inr (outcome IdempotencyNew),
         \<lparr>w_shared = redis_put (en_time E (w_tick w)) k (claim_text h) (min processingTTL ttl) (w_shared w),
          w_tick = w_tick w + 1\<rparr>)
     | Some _ \<Rightarrow> (Inr (case redis_live (en_time E (w_tick w + 1)) (w_shared w) k of
           None \<Rightarrow> outcome IdempotencyInFlight | Some c \<Rightarrow> judge h c),
         \<lparr>w_shared = w_shared w, w_tick = w_tick w + 2\<rparr>))"
  using assms
  by (simp add: Begin_def pg_ports redis_SetNX_def redis_Get_def run_act reliable_def alone_def isCacheMiss_def NotFound_def
      split: option.split)

lemma reliable_Complete:
  assumes "reliable E"
  shows "run_state (Complete (pg_service E) ttl k h st b) w =
    (None, \<lparr>w_shared = redis_put (en_time E (w_tick w)) k (done_text h st b) ttl (w_shared w), w_tick = w_tick w + 1\<rparr>)"
  using assms by (simp add: Complete_def pg_ports redis_Set_def run_act reliable_def alone_def)

lemma judge_outcome: "ir_Outcome (judge h c) \<noteq> IdempotencyNew"
  by (auto simp: judge_def outcome_def split: option.splits if_splits)

lemma created_leaves_record:
  assumes "reliable E" "run_state (CreatePayment (pg_service E) ttl caller r) w = (resp, v)" "hr_Status resp = 201"
    and "\<not> is_replay resp" "decode_create (en_float E) r = Some req"
  shows "\<exists>(u :: world) body. resp = writeJSON 201 body \<and>
    v = \<lparr>w_shared = redis_put (en_time E (w_tick u)) (IdempotencyKey caller (cr_ReferenceID req))
           (done_text (RequestFingerprint req) 201 body) ttl (w_shared u), w_tick = w_tick u + 1\<rparr>"
proof -
  let ?k = "IdempotencyKey caller (cr_ReferenceID req)" and ?h = "RequestFingerprint req"
  have err: "hr_Status (error_answer e) \<noteq> 201" for e using error_answer_status [of e] by auto
  obtain idem w1 where bgn: "run_state (Begin (pg_service E) ttl ?k ?h) w = (idem, w1)" by fastforce
  have flt: "rt_float (sv_rt (pg_service E)) = en_float E" by (simp add: pg_ports)
  have "idem = Inr (outcome IdempotencyNew)"
  proof (cases "redis_live (en_time E (w_tick w)) (w_shared w) ?k")
    case None
    with bgn show ?thesis by (simp add: reliable_Begin [OF assms(1)])
  next
    case (Some c)
    obtain res where res: "idem = Inr res" "ir_Outcome res \<noteq> IdempotencyNew"
      using bgn Some judge_outcome [of ?h] by (auto simp: reliable_Begin [OF assms(1)] outcome_def split: option.splits)
    then have "is_replay resp \<or> (\<exists>e. resp = error_answer e)"
      using assms(2) bgn by (cases "ir_Outcome res") (auto simp: CreatePayment_def flt assms(5) is_replay_def replay_answer_def)
    with err assms(3,4) show ?thesis by auto
  qed
  then have run: "run_state (run_create (pg_service E) ttl caller req True) w1 = (resp, v)"
    using assms(2) bgn by (simp add: CreatePayment_def flt assms(5) outcome_def)
  obtain result u where u: "run_state (CreatePayment_Handle (pg_service E) (create_command caller req)) w1 = (result, u)"
    by fastforce
  show ?thesis
  proof (cases result)
    case (Inl e)
    obtain x y where "run_state (Release (pg_service E) ?k) u = (x, y)" by fastforce
    with run u Inl have "resp = error_answer e" by (simp add: run_create_def Let_def)
    with err assms(3) show ?thesis by auto
  next
    case (Inr pa)
    obtain p a where pa: "pa = (p, a)" by fastforce
    let ?b = "create_body (lib (pg_service E)) p a"
    have "resp = writeJSON 201 ?b \<and> v = \<lparr>w_shared = redis_put (en_time E (w_tick u)) ?k (done_text ?h 201 ?b) ttl (w_shared u),
        w_tick = w_tick u + 1\<rparr>"
      using run u by (simp add: run_create_def Let_def Inr pa reliable_Complete [OF assms(1)])
    then show ?thesis by blast
  qed
qed

text \<open>
  C22: a retry of a creation that succeeded gets the stored response. As long as the record lives, a
  second request of the same caller with the same reference runs nothing: with the same payload
  (member order and spelling of the JSON do not matter) it is answered with the same status and the
  same body, marked as a replay; with a different payload it is refused with 409. Database, gateway
  and cache stay as they were.
\<close>

theorem retry_gets_the_stored_response:
  assumes "reliable E" "run_state (CreatePayment (pg_service E) ttl caller r) w = (resp, v)" "hr_Status resp = 201"
    and "\<not> is_replay resp" "decode_create (en_float E) r = Some req"
    and "decode_create (en_float E) r' = Some req'" "cr_ReferenceID req' = cr_ReferenceID req"
    and "0 < ttl" "en_time E (w_tick v) < en_time E (w_tick v - 1) + ttl"
    and "en_time E (w_tick v + 1) < en_time E (w_tick v - 1) + ttl"
  shows "run_state (CreatePayment (pg_service E) ttl caller r') v =
    (if RequestFingerprint req' = RequestFingerprint req
     then \<lparr>hr_Status = 201, hr_Headers = [(''X-Idempotent-Replay'', ''true''), json_type], hr_Body = hr_Body resp\<rparr>
     else error_answer (IdempotencyConflict ''reference_id was already used with a different request payload''),
     \<lparr>w_shared = w_shared v, w_tick = w_tick v + 2\<rparr>)"
proof -
  let ?k = "IdempotencyKey caller (cr_ReferenceID req)" and ?h = "RequestFingerprint req"
  obtain u :: world and body where u: "resp = writeJSON 201 body"
    "v = \<lparr>w_shared = redis_put (en_time E (w_tick u)) ?k (done_text ?h 201 body) ttl (w_shared u), w_tick = w_tick u + 1\<rparr>"
    using created_leaves_record [OF assms(1-5)] by blast
  have live: "redis_live (en_time E (w_tick v)) (w_shared v) ?k = Some (done_text ?h 201 body)"
    "redis_live (en_time E (w_tick v + 1)) (w_shared v) ?k = Some (done_text ?h 201 body)"
    using assms(8-10) by (simp_all add: u(2) redis_live_def redis_put_def)
  have bgn: "run_state (Begin (pg_service E) ttl ?k (RequestFingerprint req')) v =
      (Inr (judge (RequestFingerprint req') (done_text ?h 201 body)), \<lparr>w_shared = w_shared v, w_tick = w_tick v + 2\<rparr>)"
    unfolding reliable_Begin [OF assms(1)] live by simp
  have flt: "rt_float (sv_rt (pg_service E)) = en_float E" by (simp add: pg_ports)
  show ?thesis
    using bgn
    by (auto simp: CreatePayment_def flt assms(6,7) judge_done outcome_def replay_answer_def u(1) writeJSON_def)
qed

lemma members_simps:
  "members [] k = []"
  "plain_key k' \<Longrightarrow> plain_key k \<Longrightarrow> members ((k', v) # obj) k = (if k' = k then v # members obj k else members obj k)"
  by (auto simp: members_def plain_key_def str_EqualFold_def fold_str_id)

lemma request_keys:
  "plain_key ''bank_code''" "plain_key ''card_token''" "plain_key ''customer_email''" "plain_key ''customer_external_id''"
  "plain_key ''customer_name''" "plain_key ''customer_phone''" "plain_key ''gateway_type''" "plain_key ''return_url''"
  by code_simp+

definition ex_create_body :: json where
  "ex_create_body = JObj
     [(''reference_id'', JStr ''o1''), (''amount'', JNum ''100000''), (''currency'', JStr ''IDR''),
      (''gateway_type'', JStr ''midtrans''), (''payment_method_type'', JStr ''QRIS'')]"

definition ex_create_request :: create_payment_request where
  "ex_create_request =
     \<lparr>cr_Amount = 100000, cr_BankCode = None, cr_CardToken = None, cr_Currency = ''IDR'', cr_CustomerEmail = [],
      cr_CustomerExternalID = None, cr_CustomerName = [], cr_CustomerPhone = None, cr_Description = None,
      cr_ExpiredAt = None, cr_GatewayType = ''midtrans'', cr_Metadata = None, cr_PaymentMethodType = ''QRIS'',
      cr_ReferenceID = ''o1'', cr_ReturnURL = None\<rparr>"

lemma ex_decode: "decode_create flt (ex_http m path (Some ex_create_body)) = Some ex_create_request"
proof -
  have n: "parse_int64 ''100000'' = Some 100000" by code_simp
  show ?thesis
    by (simp add: decode_create_def body_object_def ex_create_body_def members_simps request_keys view_keys n
        ex_create_request_def)
qed

lemma ex_charged:
  "(case run_state (CreatePayment_Handle (pg_service ex_env) ex_create)
      \<lparr>w_shared = \<lparr>sh_db = empty_db, sh_cache = c, sh_calls = []\<rparr>, w_tick = 1\<rparr> of (r, v) \<Rightarrow> isl r) = False"
  by code_simp

lemma retry_gets_the_stored_response_witness:
  "\<exists>body v. run_state (CreatePayment (pg_service ex_env) time_Hour ''s'' (ex_http ''POST'' [''payments''] (Some ex_create_body)))
      ex_world = (writeJSON 201 body, v) \<and>
    run_state (CreatePayment (pg_service ex_env) time_Hour ''s'' (ex_http ''POST'' [''payments''] (Some ex_create_body))) v =
      (\<lparr>hr_Status = 201, hr_Headers = [(''X-Idempotent-Replay'', ''true''), json_type], hr_Body = body_of body\<rparr>,
       \<lparr>w_shared = w_shared v, w_tick = w_tick v + 2\<rparr>)"
proof -
  let ?r = "ex_http ''POST'' [''payments''] (Some ex_create_body)" and ?k = "IdempotencyKey ''s'' ''o1''"
    and ?h = "RequestFingerprint ex_create_request"
  have flt: "rt_float (sv_rt (pg_service ex_env)) = en_float ex_env" by (simp add: pg_ports)
  have cmd: "create_command ''s'' ex_create_request = ex_create" "cr_ReferenceID ex_create_request = ''o1''"
    by (simp_all add: create_command_def ex_create_request_def ex_create_def derefStr_def)
  obtain c where bgn: "run_state (Begin (pg_service ex_env) time_Hour ?k ?h) ex_world =
      (Inr (outcome IdempotencyNew), \<lparr>w_shared = \<lparr>sh_db = empty_db, sh_cache = c, sh_calls = []\<rparr>, w_tick = 1\<rparr>)"
    by (simp add: reliable_Begin [OF ex_reliable] ex_world_def redis_live_def redis_put_def)
  obtain res u where run: "run_state (CreatePayment_Handle (pg_service ex_env) ex_create)
      \<lparr>w_shared = \<lparr>sh_db = empty_db, sh_cache = c, sh_calls = []\<rparr>, w_tick = 1\<rparr> = (res, u)" by fastforce
  then obtain p a where res: "res = Inr (p, a)" using ex_charged [of c] by (cases res) auto
  define body where "body = create_body (lib (pg_service ex_env)) p a"
  define v where "v = \<lparr>w_shared = redis_put (en_time ex_env (w_tick u)) ?k (done_text ?h 201 body) time_Hour (w_shared u),
      w_tick = w_tick u + 1\<rparr>"
  have first: "run_state (CreatePayment (pg_service ex_env) time_Hour ''s'' ?r) ex_world = (writeJSON 201 body, v)"
    using bgn run res
    by (simp add: CreatePayment_def flt ex_decode cmd outcome_def run_create_def Let_def body_def v_def
        reliable_Complete [OF ex_reliable])
  have "run_state (CreatePayment (pg_service ex_env) time_Hour ''s'' ?r) v =
      (\<lparr>hr_Status = 201, hr_Headers = [(''X-Idempotent-Replay'', ''true''), json_type], hr_Body = body_of body\<rparr>,
       \<lparr>w_shared = w_shared v, w_tick = w_tick v + 2\<rparr>)"
    using retry_gets_the_stored_response [OF ex_reliable first _ _ ex_decode ex_decode]
    by (simp add: writeJSON_def is_replay_def json_type_def v_def ex_env_def duration_defs)
  with first show ?thesis by blast
qed

end
