(* ===== verification/Go_Float.thy ===== *)
theory Go_Float
  imports Go_Json Encoding
begin

text \<open>
  What the source uses of \<open>float64\<close>: rounding to the nearest double, \<open>strconv.ParseFloat\<close>,
  \<open>math.Round\<close> and \<open>math.Ceil\<close>, and \<open>time.ParseDuration\<close>, which multiplies fractions as floats. A finite
  value that is not negative is a fraction of integers.
\<close>

section \<open>Rounding\<close>

function bit_length :: "int \<Rightarrow> int" where
  "bit_length n = (if n \<le> 0 then 0 else 1 + bit_length (n div 2))"
  by pat_completeness auto
termination by (relation "measure nat") auto

declare bit_length.simps [simp del]

definition pow2 :: "int \<Rightarrow> int" where
  "pow2 e = 2 ^ nat e"

definition log2_floor :: "int \<Rightarrow> int \<Rightarrow> int" where
  "log2_floor n d =
     (let e = bit_length n - bit_length d
      in if d * pow2 e \<le> n * pow2 (- e) then e else e - 1)"

definition half_even :: "int \<Rightarrow> int \<Rightarrow> int" where
  "half_even n d =
     (let q = n div d; r = n mod d in if d < 2 * r \<or> (2 * r = d \<and> odd q) then q + 1 else q)"

definition to_double :: "int \<Rightarrow> int \<Rightarrow> int \<times> int" where
  "to_double n d =
     (if n = 0 then (0, 1)
      else let e = max (- 1074) (log2_floor n d - 52)
           in if 0 \<le> e then (half_even n (d * pow2 e) * pow2 e, 1)
              else (half_even (n * pow2 (- e)) d, pow2 (- e)))"

datatype go_float = Finite bool int int | Infinite bool | NaN

section \<open>Decimal and hexadecimal literals\<close>

definition lower_is :: "char \<Rightarrow> char \<Rightarrow> bool" where
  "lower_is c d \<longleftrightarrow> lower_char c = d"

definition float_digit :: "bool \<Rightarrow> char \<Rightarrow> bool" where
  "float_digit hex c \<longleftrightarrow> is_digit c \<or> (hex \<and> hex_val c \<noteq> None)"

text \<open>\<open>underscoreOK\<close>: an underscore stands between digits, the base prefix counting as one.\<close>

fun underscores_ok :: "bool \<Rightarrow> char \<Rightarrow> string \<Rightarrow> bool" where
  "underscores_ok hex prev [] \<longleftrightarrow> prev \<noteq> CHR ''_''"
| "underscores_ok hex prev (c # s) \<longleftrightarrow>
     (if float_digit hex c then underscores_ok hex (CHR ''0'') s
      else if c = CHR ''_'' then prev = CHR ''0'' \<and> underscores_ok hex c s
      else prev \<noteq> CHR ''_'' \<and> underscores_ok hex (CHR ''!'') s)"

text \<open>The mantissa: its value, whether it has digits, how many of them follow the dot, and the rest.\<close>

fun read_mantissa :: "bool \<Rightarrow> string \<Rightarrow> int \<Rightarrow> bool \<Rightarrow> bool \<Rightarrow> int \<Rightarrow> int \<times> bool \<times> int \<times> string" where
  "read_mantissa hex [] m digits dot f = (m, digits, f, [])"
| "read_mantissa hex (c # s) m digits dot f =
     (if c = CHR ''_'' then read_mantissa hex s m digits dot f
      else if c = CHR ''.'' then
        (if dot then (m, digits, f, c # s) else read_mantissa hex s m digits True f)
      else if float_digit hex c then
        read_mantissa hex s ((if hex then 16 else 10) * m + int (the (hex_val c))) True dot (if dot then f + 1 else f)
      else (m, digits, f, c # s))"

definition is_sign :: "char \<Rightarrow> bool" where
  "is_sign c \<longleftrightarrow> c = CHR ''+'' \<or> c = CHR ''-''"

definition drop_sign :: "string \<Rightarrow> string" where
  "drop_sign s = (if s \<noteq> [] \<and> is_sign (hd s) then tl s else s)"

text \<open>The exponent stops growing at 10000; \<open>None\<close> when it is malformed or something follows it.\<close>

definition read_exponent :: "string \<Rightarrow> int option" where
  "read_exponent s =
     (let ds = drop_sign s; e = fold (\<lambda>c e. if c = CHR ''_'' \<or> e \<ge> 10000 then e else e * 10 + digit_val c) ds 0
      in if ds = [] \<or> \<not> is_digit (hd ds) \<or> \<not> list_all (\<lambda>c. is_digit c \<or> c = CHR ''_'') ds then None
         else Some (if s \<noteq> [] \<and> hd s = CHR ''-'' then - e else e))"

definition special_float :: "string \<Rightarrow> go_float option" where
  "special_float s =
     (let low = map lower_char s; body = drop_sign low
      in if low = ''nan'' then Some NaN
         else if body = ''inf'' \<or> body = ''infinity'' then Some (Infinite (hd s = CHR ''-''))
         else None)"

definition scaled :: "int \<Rightarrow> int \<Rightarrow> int \<Rightarrow> int \<times> int" where
  "scaled b m e = (if 0 \<le> e then (m * b ^ nat e, 1) else (m, b ^ nat (- e)))"

text \<open>A syntax error and a value out of range are both \<open>None\<close>.\<close>

definition ParseFloat :: "string \<Rightarrow> go_float option" where
  "ParseFloat s =
     (case special_float s of Some x \<Rightarrow> Some x | None \<Rightarrow>
        (let neg = (s \<noteq> [] \<and> hd s = CHR ''-''); t = drop_sign s;
             hex = (length t > 2 \<and> hd t = CHR ''0'' \<and> lower_is (t ! 1) (CHR ''x''));
             (m, digits, f, rest) = read_mantissa hex (if hex then drop 2 t else t) 0 False False 0;
             ex = (if rest = [] then (if hex then None else Some 0)
                   else if lower_is (hd rest) (if hex then CHR ''p'' else CHR ''e'') then read_exponent (tl rest)
                   else None)
         in if \<not> digits \<or> (CHR ''_'' \<in> set t \<and> \<not> underscores_ok hex (if hex then CHR ''0'' else CHR ''^'') (if hex then drop 2 t else t))
            then None
            else (case ex of
                None \<Rightarrow> None
              | Some e \<Rightarrow>
                  (let (n, d) = (if hex then scaled 2 m (e - 4 * f) else scaled 10 m (e - f));
                       (n, d) = to_double n d
                   in if n \<ge> d * pow2 1024 then None else Some (Finite neg n d)))))"

section \<open>Whole numbers\<close>

text \<open>
  \<open>int64(math.Round(v))\<close>: halves away from zero; a value that does not fit converts to the least
  \<open>int64\<close>, as on amd64.
\<close>

definition round_int64 :: "go_float \<Rightarrow> int64" where
  "round_int64 x =
     (case x of
        Finite neg n d \<Rightarrow>
          (let k = (2 * n + d) div (2 * d); v = (if neg then - k else k)
           in if v < - (2 ^ 63) \<or> v \<ge> 2 ^ 63 then i64 (- (2 ^ 63)) else i64 v)
      | _ \<Rightarrow> i64 (- (2 ^ 63)))"

text \<open>\<open>int(math.Ceil(d.Minutes()))\<close>: \<open>Minutes\<close> adds the whole minutes and the rest as floats.\<close>

definition ceil_minutes :: "duration \<Rightarrow> int" where
  "ceil_minutes d =
     (let a = \<bar>d\<bar>; (n, q) = to_double (a mod time_Minute) time_Minute;
          (n, q) = to_double (a div time_Minute * q + n) q
      in if 0 \<le> d then (n + q - 1) div q else - (n div q))"

section \<open>Durations\<close>

text \<open>\<open>leadingInt\<close> fails when the value passes \<open>2 ^ 63\<close>; \<open>leadingFraction\<close> ignores what does not fit.\<close>

fun leading_int :: "int \<Rightarrow> string \<Rightarrow> (int \<times> string) option" where
  "leading_int x [] = Some (x, [])"
| "leading_int x (c # s) =
     (if \<not> is_digit c then Some (x, c # s)
      else if x > 2 ^ 63 div 10 then None
      else (let y = x * 10 + digit_val c in if y > 2 ^ 63 then None else leading_int y s))"

fun leading_fraction :: "int \<Rightarrow> int \<Rightarrow> bool \<Rightarrow> string \<Rightarrow> int \<times> int \<times> string" where
  "leading_fraction x scale over [] = (x, scale, [])"
| "leading_fraction x scale over (c # s) =
     (if \<not> is_digit c then (x, scale, c # s)
      else if over \<or> x > (2 ^ 63 - 1) div 10 then leading_fraction x scale True s
      else (let y = x * 10 + digit_val c
            in if y > 2 ^ 63 then leading_fraction x scale True s else leading_fraction y (scale * 10) False s))"

definition duration_unit :: "string \<Rightarrow> int option" where
  "duration_unit u = map_of
     [(''ns'', 1), (''us'', 1000), ([CHR 0xC2, CHR 0xB5, CHR ''s''], 1000), ([CHR 0xCE, CHR 0xBC, CHR ''s''], 1000),
      (''ms'', 1000000), (''s'', 1000000000), (''m'', 60000000000), (''h'', 3600000000000)] u"

text \<open>One number with its unit: the nanoseconds it stands for, and the rest.\<close>

definition duration_part :: "string \<Rightarrow> (int \<times> string) option" where
  "duration_part s =
     (if s = [] \<or> \<not> (is_digit (hd s) \<or> hd s = CHR ''.'') then None
      else (case leading_int 0 s of
          None \<Rightarrow> None
        | Some (v, s1) \<Rightarrow>
            (let pre = (length s1 \<noteq> length s);
                 dot = (s1 \<noteq> [] \<and> hd s1 = CHR ''.'');
                 (f, scale, s2) = (if dot then leading_fraction 0 1 False (tl s1) else (0, 1, s1));
                 post = (dot \<and> length s2 \<noteq> length (tl s1));
                 u = takeWhile (\<lambda>c. c \<noteq> CHR ''.'' \<and> \<not> is_digit c) s2;
                 rest = dropWhile (\<lambda>c. c \<noteq> CHR ''.'' \<and> \<not> is_digit c) s2
             in if \<not> pre \<and> \<not> post then None
                else (case duration_unit u of
                    None \<Rightarrow> None
                  | Some un \<Rightarrow>
                      if v > 2 ^ 63 div un then None
                      else (let (qn, qd) = to_double un scale; (fn, fd) = to_double f 1;
                                (pn, pd) = to_double (fn * qn) (fd * qd); w = v * un + (if f > 0 then pn div pd else 0)
                            in if w > 2 ^ 63 then None else Some (w, rest))))))"

text \<open>Every part consumes at least its unit, so as many turns as there are characters are enough.\<close>

fun duration_parts :: "nat \<Rightarrow> int \<Rightarrow> string \<Rightarrow> int option" where
  "duration_parts 0 d s = (if s = [] then Some d else None)"
| "duration_parts (Suc k) d s =
     (if s = [] then Some d
      else (case duration_part s of
          None \<Rightarrow> None
        | Some (v, rest) \<Rightarrow> if d + v > 2 ^ 63 then None else duration_parts k (d + v) rest))"

definition ParseDuration :: "string \<Rightarrow> duration option" where
  "ParseDuration s =
     (let neg = (s \<noteq> [] \<and> hd s = CHR ''-''); t = drop_sign s
      in if t = ''0'' then Some 0
         else if t = [] then None
         else (case duration_parts (length t) 0 t of
             None \<Rightarrow> None
           | Some d \<Rightarrow> if neg then Some (- d) else if d > 2 ^ 63 - 1 then None else Some d))"

end
