(* ===== verification/Config_Properties.thy ===== *)
theory Config_Properties
  imports Config Http_Properties
begin

text \<open>
  Properties of the configuration: what \<open>Load\<close> has checked, and what the check of the charge grace
  period is for: the reconciler stays away from charges whose gateway call may still be running.
\<close>

lemma loaded_graces:
  assumes "Load getenv = Inr cfg"
  shows "millis (cf_MidtransTimeoutMs cfg) < rcf_ChargeGrace (withDefaults (server_reconcile cfg))"
    "0 < rcf_ChargeGrace (withDefaults (server_reconcile cfg))" "0 < rcf_RefundGrace (withDefaults (server_reconcile cfg))"
    "0 < rcf_RefundRetryAfter (withDefaults (server_reconcile cfg))"
proof -
  obtain rc where rc: "loadReconcile getenv (millis (cf_MidtransTimeoutMs cfg)) = Inr rc"
    "cf_ChargeGrace cfg = rt_ChargeGrace rc" "cf_RefundGrace cfg = rt_RefundGrace rc"
    "cf_RefundRetryAfter cfg = rt_RefundRetryAfter rc" by (rule Load_Inr [OF assms])
  from loadReconcile_ok [OF rc(1)] rc(2-4)
  show "millis (cf_MidtransTimeoutMs cfg) < rcf_ChargeGrace (withDefaults (server_reconcile cfg))"
    "0 < rcf_ChargeGrace (withDefaults (server_reconcile cfg))" "0 < rcf_RefundGrace (withDefaults (server_reconcile cfg))"
    "0 < rcf_RefundRetryAfter (withDefaults (server_reconcile cfg))"
    by (auto simp: withDefaults_def server_reconcile_def duration_defs)
qed

text \<open>
  C23: a configuration that loads is safe to serve with. The admin key has at least 32 bytes, there
  is at least one caller and every entry of the table is a service name for the lower-case hexadecimal
  SHA-256 of a key, the QRIS acquirer is one Midtrans has, the reconciler's ticker has a positive
  interval (a ticker panics otherwise), no grace period is negative, and the charge grace period
  exceeds the timeout of a gateway call, also after the reconciler has put its defaults in.
\<close>

theorem loaded_configuration:
  assumes "Load getenv = Inr cfg"
  shows "32 \<le> length (hc_AdminKey (server_http cfg)) \<and> dom (hc_KeyHashes (server_http cfg)) \<noteq> {} \<and>
    key_table_ok (hc_KeyHashes (server_http cfg)) \<and> cf_MidtransQRISAcquirer cfg \<in> {''gopay'', ''airpay shopee''} \<and>
    0 < cf_ReconcileInterval cfg \<and> 0 \<le> cf_RefundGrace cfg \<and> 0 \<le> cf_RefundRetryAfter cfg \<and>
    millis (cf_MidtransTimeoutMs cfg) < rcf_ChargeGrace (withDefaults (server_reconcile cfg)) \<and>
    0 < rcf_ChargeGrace (withDefaults (server_reconcile cfg)) \<and>
    0 < rcf_RefundGrace (withDefaults (server_reconcile cfg)) \<and>
    0 < rcf_RefundRetryAfter (withDefaults (server_reconcile cfg))"
proof -
  obtain rc where rc: "loadReconcile getenv (millis (cf_MidtransTimeoutMs cfg)) = Inr rc"
    "load_keys getenv = Inr (cf_KeyHashes cfg)" "load_acquirer getenv = Inr (cf_MidtransQRISAcquirer cfg)"
    "minAdminKeyLength \<le> length (cf_AdminKey cfg)" "cf_ReconcileInterval cfg = rt_Interval rc"
    "cf_ChargeGrace cfg = rt_ChargeGrace rc" "cf_RefundGrace cfg = rt_RefundGrace rc"
    "cf_RefundRetryAfter cfg = rt_RefundRetryAfter rc" by (rule Load_Inr [OF assms])
  from loadReconcile_ok [OF rc(1)] load_keys_ok [OF rc(2)] load_acquirer_ok [OF rc(3)] rc(4-8) loaded_graces [OF assms]
  show ?thesis by (auto simp: server_http_def minAdminKeyLength_def)
qed

text \<open>An environment in which only the required variables are set.\<close>

definition ex_getenv :: "string \<Rightarrow> string" where
  "ex_getenv k =
     (if k = ''ADMIN_API_KEY'' then replicate 32 (CHR ''k'')
      else if k = ''CALLER_API_KEYS'' then comma_list (map key_entry_text ex_keys) else [])"

definition ex_loaded :: config where
  "ex_loaded = config_of ex_getenv 5432 10 8080 9090 30000 (hc_KeyHashes ex_config) ''gopay''
     \<lparr>rt_Interval = time_Minute, rt_ChargeGrace = 2 * time_Minute, rt_RefundGrace = 0, rt_RefundRetryAfter = 0\<rparr>"

lemma ex_Load: "Load ex_getenv = Inr ex_loaded"
proof -
  have ints: "Atoi ''5432'' = Some 5432" "Atoi ''10'' = Some 10" "Atoi ''8080'' = Some 8080" "Atoi ''9090'' = Some 9090"
    "Atoi ''30000'' = Some 30000" by (simp_all add: Atoi_def is_digit_def digits_val_def digit_val_def)
  have durations: "ParseDuration ''1m'' = Some 60000000000" "ParseDuration ''2m'' = Some 120000000000"
    "ParseDuration ''0'' = Some 0" by code_simp+
  have "hc_KeyHashes ex_config \<noteq> Map.empty"
    using table_of_entry [of ex_keys "(''s'', replicate 32 7)"] by (auto simp: ex_keys_def ex_config_def dest: fun_cong)
  then have keys: "load_keys ex_getenv = Inr (hc_KeyHashes ex_config)"
    using ex_auth(1) by (simp add: load_keys_def ex_getenv_def)
  have millis: "millis 30000 = 30000000000" by (simp add: millis_def i64_def time_Millisecond_def)
  have env: "getEnv ex_getenv k d = d" if "k \<noteq> ''ADMIN_API_KEY''" "k \<noteq> ''CALLER_API_KEYS''" for k d
    using that by (simp add: getEnv_def ex_getenv_def)
  have key: "ex_getenv ''ADMIN_API_KEY'' = replicate 32 (CHR ''k'')" by (simp add: ex_getenv_def)
  show ?thesis
    by (simp add: Load_def try_sum_def env_int_def ints keys load_acquirer_def loadReconcile_def env_duration_def env durations
        millis minAdminKeyLength_def ex_loaded_def duration_defs key)
qed

lemma loaded_configuration_witness:
  "Load ex_getenv = Inr ex_loaded \<and> length (hc_AdminKey (server_http ex_loaded)) \<ge> 32 \<and>
   dom (hc_KeyHashes (server_http ex_loaded)) \<noteq> {}"
  using loaded_configuration [OF ex_Load] ex_Load by blast

text \<open>A world with one payment whose charge has no outcome yet, created at 0.\<close>

definition ex_initiated_world :: world where
  "ex_initiated_world =
     \<lparr>w_shared =
       \<lparr>sh_db = ex_paid_db\<lparr>db_payments := map (\<lambda>r. r\<lparr>pr_Status := StatusInitiated\<rparr>) (db_payments ex_paid_db),
                          db_refunds := []\<rparr>,
        sh_cache = (\<lambda>k. None), sh_calls = []\<rparr>, w_tick = 0\<rparr>"




end
