(* ===== verification/Sha512.thy ===== *)
theory Sha512
  imports Encoding
begin

text \<open>The hash of \<open>crypto/sha512\<close>, which signs the notifications of Midtrans.\<close>

unbundle bit_operations_syntax

type_synonym w64 = "64 word"

text \<open>The constants, eight words in each number.\<close>

definition words64_of :: "int \<Rightarrow> w64 list" where
  "words64_of n = map (\<lambda>i. word_of_int (n div 2 ^ (64 * i))) [7, 6, 5, 4, 3, 2, 1, 0]"

definition sha512_k :: "w64 list" where
  "sha512_k = concat (map words64_of
    [0x428a2f98d728ae227137449123ef65cdb5c0fbcfec4d3b2fe9b5dba58189dbbc3956c25bf348b53859f111f1b605d019923f82a4af194f9bab1c5ed5da6d8118,
     0xd807aa98a303024212835b0145706fbe243185be4ee4b28c550c7dc3d5ffb4e272be5d74f27b896f80deb1fe3b1696b19bdc06a725c71235c19bf174cf692694,
     0xe49b69c19ef14ad2efbe4786384f25e30fc19dc68b8cd5b5240ca1cc77ac9c652de92c6f592b02754a7484aa6ea6e4835cb0a9dcbd41fbd476f988da831153b5,
     0x983e5152ee66dfaba831c66d2db43210b00327c898fb213fbf597fc7beef0ee4c6e00bf33da88fc2d5a79147930aa72506ca6351e003826f142929670a0e6e70,
     0x27b70a8546d22ffc2e1b21385c26c9264d2c6dfc5ac42aed53380d139d95b3df650a73548baf63de766a0abb3c77b2a881c2c92e47edaee692722c851482353b,
     0xa2bfe8a14cf10364a81a664bbc423001c24b8b70d0f89791c76c51a30654be30d192e819d6ef5218d69906245565a910f40e35855771202a106aa07032bbd1b8,
     0x19a4c116b8d2d0c81e376c085141ab532748774cdf8eeb9934b0bcb5e19b48a8391c0cb3c5c95a634ed8aa4ae3418acb5b9cca4f7763e373682e6ff3d6b2b8a3,
     0x748f82ee5defb2fc78a5636f43172f6084c87814a1f0ab728cc702081a6439ec90befffa23631e28a4506cebde82bde9bef9a3f7b2c67915c67178f2e372532b,
     0xca273eceea26619cd186b8c721c0c207eada7dd6cde0eb1ef57d4f7fee6ed17806f067aa72176fba0a637dc5a2c898a6113f9804bef90dae1b710b35131c471b,
     0x28db77f523047d8432caab7b40c724933c9ebe0a15c9bebc431d67c49c100d4c4cc5d4becb3e42b6597f299cfc657e2a5fcb6fab3ad6faec6c44198c4a475817])"

definition sha512_init :: "w64 list" where
  "sha512_init = words64_of
     0x6a09e667f3bcc908bb67ae8584caa73b3c6ef372fe94f82ba54ff53a5f1d36f1510e527fade682d19b05688c2b3e6c1f1f83d9abfb41bd6b5be0cd19137e2179"

definition rotr64 :: "nat \<Rightarrow> w64 \<Rightarrow> w64" where
  "rotr64 n x = drop_bit n x OR push_bit (64 - n) x"

text \<open>The message schedule, newest word first, and one round on the eight working variables.\<close>

fun sha512_extend :: "nat \<Rightarrow> w64 list \<Rightarrow> w64 list" where
  "sha512_extend 0 ws = ws"
| "sha512_extend (Suc k) ws =
     (let w15 = ws ! 14; w2 = ws ! 1;
          s0 = rotr64 1 w15 XOR rotr64 8 w15 XOR drop_bit 7 w15;
          s1 = rotr64 19 w2 XOR rotr64 61 w2 XOR drop_bit 6 w2
      in sha512_extend k ((ws ! 15 + s0 + ws ! 6 + s1) # ws))"

fun sha512_round :: "w64 \<times> w64 \<Rightarrow> w64 list \<Rightarrow> w64 list" where
  "sha512_round (k, w) [a, b, c, d, e, f, g, h] =
     (let S1 = rotr64 14 e XOR rotr64 18 e XOR rotr64 41 e;
          ch = (e AND f) XOR (NOT e AND g);
          t1 = h + S1 + ch + k + w;
          S0 = rotr64 28 a XOR rotr64 34 a XOR rotr64 39 a;
          maj = (a AND b) XOR (a AND c) XOR (b AND c)
      in [t1 + (S0 + maj), a, b, c, d + t1, e, f, g])"
| "sha512_round kw hs = hs"

definition be_word :: "nat list \<Rightarrow> w64" where
  "be_word bs = word_of_nat (foldl (\<lambda>n b. n * 256 + b) 0 bs)"

definition sha512_words :: "nat list \<Rightarrow> w64 list" where
  "sha512_words bs = map (\<lambda>i. be_word (take 8 (drop (8 * i) bs))) [0..<16]"

definition sha512_block :: "nat list \<Rightarrow> w64 list \<Rightarrow> w64 list" where
  "sha512_block bs hs =
     map2 (+) hs (fold sha512_round (zip sha512_k (rev (sha512_extend 64 (rev (sha512_words bs))))) hs)"

text \<open>Padding: a one bit, zeros, the length in bits as 128 bits.\<close>

definition sha512_pad :: "nat list \<Rightarrow> nat list" where
  "sha512_pad bs = bs @ 128 # replicate ((239 - length bs mod 128) mod 128) 0 @ be_bytes 16 (8 * length bs)"

function sha512_blocks :: "nat list \<Rightarrow> w64 list \<Rightarrow> w64 list" where
  "sha512_blocks bs hs =
     (if bs = [] then hs else sha512_blocks (drop 128 bs) (sha512_block (take 128 bs) hs))"
  by pat_completeness auto
termination by (relation "measure (\<lambda>(bs, hs). length bs)") auto

declare sha512_blocks.simps [simp del]

definition sha512 :: "string \<Rightarrow> nat list" where
  "sha512 s = concat (map (\<lambda>w. be_bytes 8 (unat w)) (sha512_blocks (sha512_pad (bytes_of s)) sha512_init))"

definition sha512_hex :: "string \<Rightarrow> string" where
  "sha512_hex s = hex_encode (sha512 s)"

lemma length_sha512_round [simp]: "length (sha512_round kw hs) = length hs"
  by (cases "(kw, hs)" rule: sha512_round.cases) (auto simp: Let_def)

lemma length_fold512 [simp]: "length (fold sha512_round kws hs) = length hs"
  by (induction kws arbitrary: hs) auto

lemma length_sha512_blocks: "length (sha512_blocks bs hs) = length hs"
  by (induction bs hs rule: sha512_blocks.induct) (subst sha512_blocks.simps, simp add: sha512_block_def)

text \<open>A signature has 128 characters; in particular it is not empty.\<close>

lemma length_sha512_hex: "length (sha512_hex s) = 128"
proof -
  have "length (sha512_blocks (sha512_pad (bytes_of s)) sha512_init) = 8"
    by (simp add: length_sha512_blocks sha512_init_def words64_of_def)
  then show ?thesis
    by (simp add: sha512_hex_def sha512_def length_hex_encode length_concat comp_def be_bytes sum_list_triv)
qed

end
