(* ===== verification/Midtrans.thy ===== *)
theory Midtrans
  imports Sha512 Go_Float Http_Wire
begin

text \<open>
  The Midtrans adapter, \<open>adapter/outbound/gateway/midtrans/adapter.go\<close>: requests over HTTP and how
  their replies are read, the status check, cancel and refund, and the verification of notifications.
  The operations run over the list of requests sent so far. \<open>mt_net\<close> is what the network does with a
  request; the library functions whose text forms the repository does not hold are in \<open>wire_lib\<close>.
\<close>

section \<open>The wire\<close>

record wire_request =
  wq_Method :: string
  wq_URL :: string
  wq_User :: string
  wq_Header :: headers
  wq_Body :: "json option"

text \<open>No reply, a reply whose body cannot be read, or a status and (the first MiB of) a body.\<close>

datatype wire_reply = TransportError string | ReadError int string | Reply int string

text \<open>
  \<open>wl_url_error\<close>: why \<open>http.NewRequest\<close> refuses a URL. \<open>wl_json\<close>: the JSON value a text encodes;
  \<open>wl_json_error\<close>: the text of the error when it does not decode. \<open>wl_float\<close> as \<^const>\<open>rt_float\<close>;
  \<open>wl_float_text\<close>: a \<open>float64\<close> as \<open>%v\<close> prints it, given its literal.
\<close>

record wire_lib =
  wl_url_error :: "string \<Rightarrow> string option"
  wl_json :: "string \<Rightarrow> json option"
  wl_json_error :: "string \<Rightarrow> string"
  wl_float :: "string \<Rightarrow> string option"
  wl_float_text :: "string \<Rightarrow> string"

record midtrans =
  mt_ServerKey :: string
  mt_BaseURL :: string
  mt_Timeout :: duration
  mt_NotificationURL :: string
  mt_QRISAcquirer :: string
  mt_lib :: wire_lib
  mt_net :: "wire_request \<Rightarrow> wire_reply"

definition QRISAcquirerGoPay :: string where "QRISAcquirerGoPay = ''gopay''"

definition NewAdapter :: "midtrans \<Rightarrow> midtrans" where
  "NewAdapter cfg = (if mt_QRISAcquirer cfg = [] then cfg\<lparr>mt_QRISAcquirer := QRISAcquirerGoPay\<rparr> else cfg)"

text \<open>A Go map literal: \<open>json.Marshal\<close> writes its members sorted by key.\<close>

definition go_map :: "jobj \<Rightarrow> jobj" where
  "go_map kvs = fold (\<lambda>(k, v) m. map_put k v m) kvs []"

lemma map_of_put [simp]: "map_of (map_put k v m) k' = (if k' = k then Some v else map_of m k')"
  by (induction k v m rule: map_put.induct) auto

lemma map_of_go_map [simp]: "map_of (go_map (kvs @ [(k, v)])) k' = (if k' = k then Some v else map_of (go_map kvs) k')"
  "map_of (go_map []) k' = None"
  by (simp_all add: go_map_def)

section \<open>Replies\<close>

record mt_response =
  mr_Status :: int
  mr_Code :: string
  mr_Body :: "jobj option"
  mr_Raw :: string

text \<open>\<open>s, _ := body[k].(string)\<close>.\<close>

definition any_string :: "json option \<Rightarrow> string" where
  "any_string v = (case v of Some (JStr s) \<Rightarrow> s | _ \<Rightarrow> [])"

definition body_at :: "jobj option \<Rightarrow> string \<Rightarrow> json option" where
  "body_at m k = (case m of None \<Rightarrow> None | Some m \<Rightarrow> map_of m k)"

definition body_string :: "jobj option \<Rightarrow> string \<Rightarrow> string" where
  "body_string m k = any_string (body_at m k)"

definition response_message :: "mt_response \<Rightarrow> string" where
  "response_message r = body_string (mr_Body r) ''status_message''"

definition response_failed :: "mt_response \<Rightarrow> bool" where
  "response_failed r \<longleftrightarrow> mr_Status r \<ge> 400 \<or> str_HasPrefix (mr_Code r) ''4'' \<or> str_HasPrefix (mr_Code r) ''5''"

definition server_error :: "mt_response \<Rightarrow> bool" where
  "server_error r \<longleftrightarrow> mr_Status r \<ge> 500 \<or> str_HasPrefix (mr_Code r) ''5''"

definition unknownIfServerError :: "mt_response \<Rightarrow> goerr option" where
  "unknownIfServerError r = (if server_error r then Some ErrUnknownOutcome else None)"

text \<open>\<open>json.Unmarshal\<close> into a \<open>map[string]any\<close>.\<close>

definition decode_map :: "wire_lib \<Rightarrow> string \<Rightarrow> jobj option option" where
  "decode_map L raw =
     (case wl_json L raw of
        Some (JObj m) \<Rightarrow> map_option Some (any_map (wl_float L) m [])
      | Some JNull \<Rightarrow> Some None
      | _ \<Rightarrow> None)"

definition unknown_error :: "string \<Rightarrow> goerr" where
  "unknown_error msg = FmtErrorf (error_text ErrUnknownOutcome @ '': '' @ msg) ErrUnknownOutcome"

definition read_reply :: "wire_lib \<Rightarrow> wire_reply \<Rightarrow> goerr + mt_response" where
  "read_reply L reply =
     (case reply of
        TransportError e \<Rightarrow> Inl (unknown_error e)
      | ReadError st e \<Rightarrow> Inl (unknown_error (''read midtrans HTTP '' @ int_str st @ '' response: '' @ e))
      | Reply st raw \<Rightarrow>
          (case decode_map L raw of
             None \<Rightarrow> Inl (unknown_error (''decode midtrans HTTP '' @ int_str st @ '' response: '' @ wl_json_error L raw))
           | Some body \<Rightarrow>
               Inr \<lparr>mr_Status = st,
                    mr_Code = (if body_string body ''status_code'' = [] then int_str st else body_string body ''status_code''),
                    mr_Body = body, mr_Raw = raw\<rparr>))"

definition wire_of :: "midtrans \<Rightarrow> string \<Rightarrow> string \<Rightarrow> jobj option \<Rightarrow> headers \<Rightarrow> wire_request" where
  "wire_of A meth path body header =
     \<lparr>wq_Method = meth, wq_URL = mt_BaseURL A @ path, wq_User = mt_ServerKey A,
      wq_Header = header @ [(''Accept'', [''application/json''])] @
        (if body = None then [] else [(''Content-Type'', [''application/json''])]),
      wq_Body = map_option JObj body\<rparr>"

definition send ::
  "midtrans \<Rightarrow> string \<Rightarrow> string \<Rightarrow> jobj option \<Rightarrow> headers \<Rightarrow> (wire_request list, goerr + mt_response) state" where
  "send A meth path body header =
     (case wl_url_error (mt_lib A) (mt_BaseURL A @ path) of
        Some e \<Rightarrow> State_Monad.return (Inl (ErrorsNew e))
      | None \<Rightarrow> do {
          let q = wire_of A meth path body header;
          State (\<lambda>sent. (read_reply (mt_lib A) (mt_net A q), sent @ [q]))
        })"

definition mt_do :: "midtrans \<Rightarrow> string \<Rightarrow> string \<Rightarrow> jobj option \<Rightarrow> (wire_request list, goerr + mt_response) state" where
  "mt_do A meth path body = send A meth path body []"

lemma run_send:
  "run_state (send A meth path body header) sent =
     (case wl_url_error (mt_lib A) (mt_BaseURL A @ path) of
        Some e \<Rightarrow> (Inl (ErrorsNew e), sent)
      | None \<Rightarrow> (read_reply (mt_lib A) (mt_net A (wire_of A meth path body header)),
                 sent @ [wire_of A meth path body header]))"
  by (simp add: send_def Let_def split: option.splits)

section \<open>Amounts, refunds, statuses\<close>

record refund_entry =
  re_ChargebackID :: string
  re_Amount :: string
  re_Key :: string

definition no_entry :: refund_entry where
  "no_entry = \<lparr>re_ChargebackID = [], re_Amount = [], re_Key = []\<rparr>"

text \<open>
  \<open>flexString.UnmarshalJSON\<close>: a string or the text of any other value; that of an array or an object
  is taken in its compact form.
\<close>

fun put_flex :: "string \<Rightarrow> json \<Rightarrow> string option" where
  "put_flex a JNull = Some a"
| "put_flex a (JStr s) = Some s"
| "put_flex a v = Some (json_text v)"

definition flex_amount :: "string \<Rightarrow> int64" where
  "flex_amount s = (case ParseFloat s of None \<Rightarrow> 0 | Some x \<Rightarrow> round_int64 x)"

fun put_entry :: "refund_entry \<Rightarrow> json \<Rightarrow> refund_entry option" where
  "put_entry a JNull = Some a"
| "put_entry a (JObj m) =
     Option.bind (decode_into put_flex (members m ''refund_chargeback_id'') (re_ChargebackID a)) (\<lambda>cid.
     Option.bind (decode_into put_flex (members m ''refund_amount'') (re_Amount a)) (\<lambda>amt.
     Option.bind (decode_into put_string (members m ''refund_key'') (re_Key a)) (\<lambda>key.
     Some \<lparr>re_ChargebackID = cid, re_Amount = amt, re_Key = key\<rparr>)))"
| "put_entry a _ = None"

text \<open>A slice is decoded over the elements it already has.\<close>

fun put_entries :: "refund_entry list \<Rightarrow> json list \<Rightarrow> refund_entry list option" where
  "put_entries old [] = Some []"
| "put_entries old (v # vs) =
     Option.bind (put_entry (case old of [] \<Rightarrow> no_entry | e # es \<Rightarrow> e) v) (\<lambda>e.
     map_option (\<lambda>es. e # es) (put_entries (tl old) vs))"

fun put_refunds :: "refund_entry list \<Rightarrow> json \<Rightarrow> refund_entry list option" where
  "put_refunds old JNull = Some []"
| "put_refunds old (JArr vs) = put_entries old vs"
| "put_refunds old _ = None"

definition toRefundNotifications :: "refund_entry list \<Rightarrow> refund_notification list" where
  "toRefundNotifications = map (\<lambda>r.
     \<lparr>rn_RefundKey = re_Key r, rn_GatewayRefundID = re_ChargebackID r, rn_Amount = flex_amount (re_Amount r)\<rparr>)"

definition mapTransactionStatus :: "string \<Rightarrow> string \<Rightarrow> transaction_status" where
  "mapTransactionStatus status fraudStatus =
     (if status = ''settlement'' then TransactionSettled
      else if status = ''capture'' then
        (if fraudStatus = [] \<or> fraudStatus = ''accept'' then TransactionSettled else TransactionPending)
      else if status \<in> {''pending'', ''authorize''} then TransactionPending
      else if status \<in> {''deny'', ''cancel'', ''expire'', ''failure''} then TransactionFailed
      else TransactionUnknown)"

text \<open>The members of a decoded struct; \<open>null\<close> leaves it as it is.\<close>

definition struct_members :: "wire_lib \<Rightarrow> string \<Rightarrow> jobj option" where
  "struct_members L raw = (case wl_json L raw of Some (JObj m) \<Rightarrow> Some m | Some JNull \<Rightarrow> Some [] | _ \<Rightarrow> None)"

section \<open>Notifications\<close>

record notification =
  nt_TransactionID :: string
  nt_OrderID :: string
  nt_StatusCode :: string
  nt_GrossAmount :: string
  nt_SignatureKey :: string
  nt_TransactionStatus :: string
  nt_FraudStatus :: string
  nt_Refunds :: "refund_entry list"

definition decode_notification :: "wire_lib \<Rightarrow> string \<Rightarrow> notification option" where
  "decode_notification L payload =
     Option.bind (struct_members L payload) (\<lambda>m.
     Option.bind (decode_into put_string (members m ''transaction_id'') []) (\<lambda>tx.
     Option.bind (decode_into put_string (members m ''order_id'') []) (\<lambda>order.
     Option.bind (decode_into put_string (members m ''status_code'') []) (\<lambda>code.
     Option.bind (decode_into put_string (members m ''gross_amount'') []) (\<lambda>gross.
     Option.bind (decode_into put_string (members m ''signature_key'') []) (\<lambda>sig.
     Option.bind (decode_into put_string (members m ''transaction_status'') []) (\<lambda>st.
     Option.bind (decode_into put_string (members m ''fraud_status'') []) (\<lambda>fraud.
     Option.bind (decode_into put_refunds (members m ''refunds'') []) (\<lambda>refunds.
     Some \<lparr>nt_TransactionID = tx, nt_OrderID = order, nt_StatusCode = code, nt_GrossAmount = gross,
           nt_SignatureKey = sig, nt_TransactionStatus = st, nt_FraudStatus = fraud, nt_Refunds = refunds\<rparr>)))))))))"

definition signature :: "midtrans \<Rightarrow> notification \<Rightarrow> string" where
  "signature A n = sha512_hex (nt_OrderID n @ nt_StatusCode n @ nt_GrossAmount n @ mt_ServerKey A)"

definition ParseWebhook :: "midtrans \<Rightarrow> string \<Rightarrow> headers \<Rightarrow> goerr + webhook_notification" where
  "ParseWebhook A payload hdrs =
     (if mt_ServerKey A = [] then Inl (InvalidInput ''midtrans server key not configured; rejecting webhook'')
      else (case decode_notification (mt_lib A) payload of
          None \<Rightarrow> Inl (InvalidInput ''invalid webhook payload'')
        | Some n \<Rightarrow>
            if signature A n \<noteq> nt_SignatureKey n then Inl (InvalidInput ''webhook signature mismatch'')
            else if nt_TransactionID n = [] then Inl (InvalidInput ''webhook missing transaction_id'')
            else Inr \<lparr>wn_PaymentID = nt_OrderID n, wn_GatewayTransactionID = nt_TransactionID n,
                      wn_Status = mapTransactionStatus (nt_TransactionStatus n) (nt_FraudStatus n),
                      wn_GatewayStatus = nt_TransactionStatus n,
                      wn_Refunds = toRefundNotifications (nt_Refunds n)\<rparr>))"

section \<open>Cancel, status check, refund\<close>

definition CancelTransaction :: "midtrans \<Rightarrow> string \<Rightarrow> (wire_request list, goerr option) state" where
  "CancelTransaction A gatewayTxID = do {
     res \<leftarrow> mt_do A ''POST'' (''/v2/'' @ gatewayTxID @ ''/cancel'') None;
     State_Monad.return (case res of
         Inl err \<Rightarrow> Some (GatewayError ''midtrans cancel failed'' (Some err))
       | Inr r \<Rightarrow>
           if response_failed r
           then Some (GatewayError (''midtrans cancel failed: '' @ mr_Code r @ '' '' @ response_message r) (unknownIfServerError r))
           else None)
   }"

definition decode_status :: "wire_lib \<Rightarrow> mt_response \<Rightarrow> transaction_state option" where
  "decode_status L r =
     Option.bind (struct_members L (mr_Raw r)) (\<lambda>m.
     Option.bind (decode_into put_string (members m ''transaction_id'') []) (\<lambda>tx.
     Option.bind (decode_into put_string (members m ''transaction_status'') []) (\<lambda>st.
     Option.bind (decode_into put_string (members m ''fraud_status'') []) (\<lambda>fraud.
     Option.bind (decode_into put_refunds (members m ''refunds'') []) (\<lambda>refunds.
     Some \<lparr>ts_Found = True, ts_GatewayTransactionID = tx, ts_Status = mapTransactionStatus st fraud,
           ts_GatewayStatus = st, ts_Refunds = toRefundNotifications refunds, ts_RawResponse = mr_Body r\<rparr>)))))"

definition status_answer :: "wire_lib \<Rightarrow> mt_response \<Rightarrow> goerr + transaction_state" where
  "status_answer L r =
     (if mr_Code r = ''404'' \<or> mr_Status r = 404 then
        Inr \<lparr>ts_Found = False, ts_GatewayTransactionID = [], ts_Status = TransactionNone, ts_GatewayStatus = [],
             ts_Refunds = [], ts_RawResponse = mr_Body r\<rparr>
      else if response_failed r then
        Inl (GatewayError (''midtrans status check failed: '' @ mr_Code r @ '' '' @ response_message r) (unknownIfServerError r))
      else (case decode_status L r of
          None \<Rightarrow> Inl (GatewayError ''decode midtrans status'' (Some (unknown_error (wl_json_error L (mr_Raw r)))))
        | Some st \<Rightarrow> Inr st))"

definition GetTransaction :: "midtrans \<Rightarrow> transaction_ref \<Rightarrow> (wire_request list, goerr + transaction_state) state" where
  "GetTransaction A ref = do {
     let uid = (if tr_GatewayTransactionID ref = [] then tr_PaymentID ref else tr_GatewayTransactionID ref);
     res \<leftarrow> mt_do A ''GET'' (''/v2/'' @ uid @ ''/status'') None;
     State_Monad.return (case res of
         Inl err \<Rightarrow> Inl (GatewayError ''midtrans status check failed'' (Some err))
       | Inr r \<Rightarrow> status_answer (mt_lib A) r)
   }"

text \<open>\<open>fmt.Sprint\<close> and \<open>%v\<close> of a value decoded into \<open>any\<close>.\<close>

fun any_text :: "(string \<Rightarrow> string) \<Rightarrow> json \<Rightarrow> string"
  and any_texts :: "(string \<Rightarrow> string) \<Rightarrow> json list \<Rightarrow> string"
  and any_pairs :: "(string \<Rightarrow> string) \<Rightarrow> jobj \<Rightarrow> string" where
  "any_text ft JNull = ''<nil>''"
| "any_text ft (JBool b) = (if b then ''true'' else ''false'')"
| "any_text ft (JNum s) = ft s"
| "any_text ft (JStr s) = s"
| "any_text ft (JTime t) = format_RFC3339Nano t"
| "any_text ft (JArr vs) = ''['' @ any_texts ft vs @ '']''"
| "any_text ft (JObj m) = ''map['' @ any_pairs ft m @ '']''"
| "any_texts ft [] = []"
| "any_texts ft [v] = any_text ft v"
| "any_texts ft (v # w # vs) = any_text ft v @ '' '' @ any_texts ft (w # vs)"
| "any_pairs ft [] = []"
| "any_pairs ft [(k, v)] = k @ '':'' @ any_text ft v"
| "any_pairs ft ((k, v) # kv # m) = k @ '':'' @ any_text ft v @ '' '' @ any_pairs ft (kv # m)"

definition sprint :: "wire_lib \<Rightarrow> json option \<Rightarrow> string" where
  "sprint L v = (case v of None \<Rightarrow> ''<nil>'' | Some j \<Rightarrow> any_text (wl_float_text L) j)"

definition refund_body :: "refund_request \<Rightarrow> jobj" where
  "refund_body req =
     go_map ([(''refund_key'', JStr (rq_RefundKey req)), (''amount'', json_int64 (rq_Amount req))] @
       (if rq_Reason req = [] then [] else [(''reason'', JStr (rq_Reason req))]))"

definition refund_reply :: "wire_lib \<Rightarrow> refund_request \<Rightarrow> mt_response \<Rightarrow> goerr + refund_result" where
  "refund_reply L req r =
     (if mr_Code r = ''200'' then
        Inr \<lparr>rr_Accepted = True, rr_GatewayRefundID = sprint L (body_at (mr_Body r) ''refund_chargeback_id''),
             rr_DeclineReason = [], rr_RawResponse = mr_Body r\<rparr>
      else if mr_Code r = ''406'' then
        Inl (GatewayError (''midtrans reports duplicate refund_key '' @ rq_RefundKey req) (Some ErrUnknownOutcome))
      else if server_error r \<or> str_HasPrefix (mr_Code r) ''2'' then
        Inl (GatewayError (''midtrans refund outcome unknown: '' @ mr_Code r @ '' '' @ response_message r) (Some ErrUnknownOutcome))
      else
        Inr \<lparr>rr_Accepted = False, rr_GatewayRefundID = [],
             rr_DeclineReason = ''midtrans '' @ mr_Code r @ '': '' @ response_message r, rr_RawResponse = mr_Body r\<rparr>)"

definition CreateRefund_mt :: "midtrans \<Rightarrow> refund_request \<Rightarrow> (wire_request list, goerr + refund_result) state" where
  "CreateRefund_mt A req = do {
     res \<leftarrow> mt_do A ''POST'' (''/v2/'' @ rq_GatewayTransactionID req @ ''/refund'') (Some (refund_body req));
     State_Monad.return (case res of
         Inl err \<Rightarrow> Inl (GatewayError ''midtrans refund: no usable reply'' (Some err))
       | Inr r \<Rightarrow> refund_reply (mt_lib A) req r)
   }"

end
