(* ===== verification/Midtrans_Charge.thy ===== *)
theory Midtrans_Charge
  imports Midtrans World
begin

text \<open>
  \<open>gateway/midtrans/charge.go\<close>: what the adapter can do, how a charge is built and what its reply
  means for the customer; and the environment in which the gateway is this adapter.
\<close>

section \<open>Capabilities\<close>

definition mt_Capability :: "method_name \<Rightarrow> method_capability" where
  "mt_Capability m =
     (if m = MethodVirtualAccount then \<lparr>mc_Charge = True, mc_Refund = False, mc_PartialRefund = False\<rparr>
      else if m = MethodQRIS \<or> m = MethodGoPay \<or> m = MethodCard
      then \<lparr>mc_Charge = True, mc_Refund = True, mc_PartialRefund = True\<rparr>
      else if m = MethodShopeePay then \<lparr>mc_Charge = True, mc_Refund = True, mc_PartialRefund = False\<rparr>
      else \<lparr>mc_Charge = False, mc_Refund = False, mc_PartialRefund = False\<rparr>)"

definition vaBanks :: "string list" where
  "vaBanks = [''bca'', ''bni'', ''bri'', ''permata'', ''cimb'']"

section \<open>Jakarta time\<close>

definition wib_offset :: int where "wib_offset = 7 * 60 * 60"

text \<open>\<open>now.In(wib).Format("2006-01-02 15:04:05 -0700")\<close>.\<close>

definition wib_text :: "time \<Rightarrow> string" where
  "wib_text now =
     (let s = now div 1000000000 + wib_offset; (y, m, d) = date_of_day (s div 86400 + 719162); sod = s mod 86400
      in pad_digits 4 y @ ''-'' @ pad_digits 2 m @ ''-'' @ pad_digits 2 d @ '' '' @
         pad_digits 2 (sod div 3600) @ '':'' @ pad_digits 2 (sod mod 3600 div 60) @ '':'' @
         pad_digits 2 (sod mod 60) @ '' +0700'')"

text \<open>\<open>ParseInLocation\<close> with the same layout up to the seconds; a fraction of a second may follow.\<close>

definition take_spaces :: "string \<Rightarrow> string option" where
  "take_spaces s =
     (if s \<noteq> [] \<and> hd s \<noteq> CHR '' '' then None else Some (dropWhile (\<lambda>c. c = CHR '' '') s))"

definition parse_local :: "string \<Rightarrow> time option" where
  "parse_local s =
     Option.bind (take_digits 4 s) (\<lambda>(y, s).
     Option.bind (take_char CHR ''-'' s) (\<lambda>s.
     Option.bind (take_digits 2 s) (\<lambda>(m, s).
     Option.bind (take_char CHR ''-'' s) (\<lambda>s.
     Option.bind (take_digits 2 s) (\<lambda>(d, s).
     Option.bind (take_spaces s) (\<lambda>s.
     Option.bind (take_hour s) (\<lambda>(hh, s).
     Option.bind (take_char CHR '':'' s) (\<lambda>s.
     Option.bind (take_digits 2 s) (\<lambda>(mi, s).
     Option.bind (take_char CHR '':'' s) (\<lambda>s.
     Option.bind (take_digits 2 s) (\<lambda>(sec, s).
       (let (ns, s) = take_fraction s
        in if m < 1 \<or> m > 12 \<or> d < 1 \<or> d > days_in_month y m \<or> hh \<ge> 24 \<or> mi \<ge> 60 \<or> sec \<ge> 60 \<or> s \<noteq> []
           then None
           else Some (((day_of_date y m d - 719162) * 86400 + hh * 3600 + mi * 60 + sec - wib_offset)
                  * 1000000000 + ns)))))))))))))"

definition parseWIB :: "json option \<Rightarrow> time option" where
  "parseWIB v = (if any_string v = [] then None else parse_local (any_string v))"

section \<open>The request\<close>

definition charge_base :: "create_transaction_request \<Rightarrow> jobj" where
  "charge_base req =
     [(''transaction_details'', JObj (go_map [(''order_id'', JStr (tq_PaymentID req)),
          (''gross_amount'', json_int64 (tq_Amount req))])),
      (''custom_field1'', JStr (tq_ReferenceID req)),
      (''customer_details'', JObj (go_map [(''first_name'', JStr (tq_CustomerName req)),
          (''email'', JStr (tq_CustomerEmail req)), (''phone'', JStr (tq_CustomerPhone req))]))]"

definition charge_method :: "create_transaction_request \<Rightarrow> string \<Rightarrow> goerr + jobj" where
  "charge_method req qrisAcquirer =
     (let m = tq_PaymentMethod req
      in if m = MethodVirtualAccount then
           (let bank = str_ToLower (tq_BankCode req)
            in if bank \<notin> set vaBanks
               then Inl (InvalidInput ''bank_code must be one of BCA, BNI, BRI, PERMATA, CIMB for VIRTUAL_ACCOUNT'')
               else Inr [(''payment_type'', JStr ''bank_transfer''), (''bank_transfer'', JObj [(''bank'', JStr bank)])])
         else if m = MethodQRIS then
           Inr [(''payment_type'', JStr ''qris''), (''qris'', JObj [(''acquirer'', JStr qrisAcquirer)])]
         else if m = MethodGoPay then
           Inr ((''payment_type'', JStr ''gopay'') #
             (if tq_ReturnURL req = [] then []
              else [(''gopay'', JObj (go_map [(''enable_callback'', JBool True), (''callback_url'', JStr (tq_ReturnURL req))]))]))
         else if m = MethodShopeePay then
           (if tq_ReturnURL req = [] then Inl (InvalidInput ''return_url is required for SHOPEEPAY'')
            else Inr [(''payment_type'', JStr ''shopeepay''), (''shopeepay'', JObj [(''callback_url'', JStr (tq_ReturnURL req))])])
         else if m = MethodCard then
           (if tq_CardToken req = []
            then Inl (InvalidInput ''card_token is required for CARD; tokenize the card with Midtrans.js first'')
            else Inr [(''payment_type'', JStr ''credit_card''),
                (''credit_card'', JObj (go_map [(''token_id'', JStr (tq_CardToken req)), (''authentication'', JBool True)]))])
         else Inl (InvalidInput (''MIDTRANS does not support payment_method_type '' @ m)))"

definition charge_expiry :: "create_transaction_request \<Rightarrow> time \<Rightarrow> goerr + jobj" where
  "charge_expiry req now =
     (case tq_ExpiredAt req of
        None \<Rightarrow> Inr []
      | Some t \<Rightarrow>
          if tq_PaymentMethod req = MethodCard then Inr []
          else (let minutes = ceil_minutes (time_Sub t now)
                in if minutes < 1 then Inl (InvalidInput ''expired_at must be at least one minute in the future'')
                   else Inr [(''custom_expiry'', JObj (go_map [(''order_time'', JStr (wib_text now)),
                          (''expiry_duration'', JNum (int_str minutes)), (''unit'', JStr ''minute'')]))]))"

definition buildChargeRequest :: "create_transaction_request \<Rightarrow> string \<Rightarrow> time \<Rightarrow> goerr + jobj" where
  "buildChargeRequest req qrisAcquirer now =
     (case charge_method req qrisAcquirer of
        Inl e \<Rightarrow> Inl e
      | Inr meth \<Rightarrow>
          (case charge_expiry req now of
             Inl e \<Rightarrow> Inl e
           | Inr ex \<Rightarrow> Inr (go_map (charge_base req @ meth @ ex))))"

section \<open>The reply\<close>

fun action_urls :: "json list \<Rightarrow> (string \<rightharpoonup> string) \<Rightarrow> (string \<rightharpoonup> string)" where
  "action_urls [] out = out"
| "action_urls (JObj a # as) out =
     (let name = any_string (map_of a ''name''); url = any_string (map_of a ''url'')
      in action_urls as (if name \<noteq> [] \<and> url \<noteq> [] then out(name \<mapsto> url) else out))"
| "action_urls (_ # as) out = action_urls as out"

definition actionURLs :: "jobj option \<Rightarrow> (string \<rightharpoonup> string)" where
  "actionURLs body = action_urls (case body_at body ''actions'' of Some (JArr as) \<Rightarrow> as | _ \<Rightarrow> []) Map.empty"

definition url_of :: "(string \<rightharpoonup> string) \<Rightarrow> string \<Rightarrow> string" where
  "url_of m k = (case m k of None \<Rightarrow> [] | Some u \<Rightarrow> u)"

definition unset_action :: next_action where
  "unset_action = \<lparr>na_Type = NextActionUnset, na_VANumber = [], na_Bank = [], na_QRString = [],
     na_QRImageURL = [], na_RedirectURL = [], na_ExpiresAt = None\<rparr>"

definition va_action :: "jobj option \<Rightarrow> next_action \<Rightarrow> next_action" where
  "va_action body na =
     (if body_string body ''permata_va_number'' \<noteq> []
      then na\<lparr>na_VANumber := body_string body ''permata_va_number'', na_Bank := ''permata''\<rparr>
      else (case body_at body ''va_numbers'' of
          Some (JArr (JObj va # vas)) \<Rightarrow>
            na\<lparr>na_VANumber := any_string (map_of va ''va_number''), na_Bank := any_string (map_of va ''bank'')\<rparr>
        | _ \<Rightarrow> na))"

definition nextAction :: "method_name \<Rightarrow> transaction_status \<Rightarrow> jobj option \<Rightarrow> next_action" where
  "nextAction m status body =
     (if status \<noteq> TransactionPending then unset_action\<lparr>na_Type := NextActionNone\<rparr>
      else (let na = unset_action\<lparr>na_ExpiresAt := parseWIB (body_at body ''expiry_time'')\<rparr>; actions = actionURLs body
            in if m = MethodVirtualAccount then va_action body (na\<lparr>na_Type := NextActionDisplayVA\<rparr>)
               else if m = MethodQRIS then
                 na\<lparr>na_Type := NextActionDisplayQR, na_QRString := body_string body ''qr_string'',
                    na_QRImageURL := url_of actions ''generate-qr-code''\<rparr>
               else if m = MethodGoPay then
                 na\<lparr>na_Type := NextActionRedirect, na_RedirectURL := url_of actions ''deeplink-redirect'',
                    na_QRImageURL := url_of actions ''generate-qr-code''\<rparr>
               else if m = MethodShopeePay then
                 na\<lparr>na_Type := NextActionRedirect, na_RedirectURL := url_of actions ''deeplink-redirect''\<rparr>
               else if m = MethodCard then
                 na\<lparr>na_Type := NextActionRedirect, na_RedirectURL := body_string body ''redirect_url''\<rparr>
               else na))"

definition charge_reply :: "wire_lib \<Rightarrow> create_transaction_request \<Rightarrow> mt_response \<Rightarrow> goerr + gateway_response" where
  "charge_reply L req r =
     (if mr_Code r = ''400'' then
        Inl (InvalidInput (''midtrans rejected the charge: '' @ response_message r @ '' '' @
          sprint L (body_at (mr_Body r) ''validation_messages'')))
      else if response_failed r then
        Inl (GatewayError (''midtrans charge failed: '' @ mr_Code r @ '' '' @ response_message r) (unknownIfServerError r))
      else (let txID = body_string (mr_Body r) ''transaction_id'';
                status = mapTransactionStatus (body_string (mr_Body r) ''transaction_status'')
                  (body_string (mr_Body r) ''fraud_status'')
            in if txID = [] then Inl (GatewayError ''missing transaction_id in midtrans response'' None)
               else Inr \<lparr>gr_GatewayTransactionID = txID, gr_Status = status,
                         gr_NextAction = nextAction (tq_PaymentMethod req) status (mr_Body r),
                         gr_RawResponse = mr_Body r\<rparr>))"

text \<open>\<open>now\<close> is what \<open>time.Now()\<close> returns.\<close>

definition CreateTransaction ::
  "midtrans \<Rightarrow> time \<Rightarrow> create_transaction_request \<Rightarrow> (wire_request list, goerr + gateway_response) state" where
  "CreateTransaction A now req =
     (case buildChargeRequest req (mt_QRISAcquirer A) now of
        Inl e \<Rightarrow> State_Monad.return (Inl e)
      | Inr body \<Rightarrow> do {
          let header = (if mt_NotificationURL A = [] then [] else [(''X-Override-Notification'', [mt_NotificationURL A])]);
          res \<leftarrow> send A ''POST'' ''/v2/charge'' (Some body) header;
          State_Monad.return (case res of
              Inl err \<Rightarrow> Inl (GatewayError ''midtrans charge failed'' (Some err))
            | Inr r \<Rightarrow> charge_reply (mt_lib A) req r)
        })"

section \<open>Midtrans as the gateway\<close>

text \<open>
  The server registers one adapter, under \<open>MIDTRANS\<close>. \<open>net n\<close> is what the network does during the
  \<open>n\<close>-th call of the process.
\<close>

definition midtrans_env :: "midtrans \<Rightarrow> (nat \<Rightarrow> wire_request \<Rightarrow> wire_reply) \<Rightarrow> env \<Rightarrow> env" where
  "midtrans_env A net E = E
     \<lparr>en_gateways := [''MIDTRANS''], en_capability := mt_Capability,
      en_charge := (\<lambda>n q. fst (run_state (CreateTransaction (A\<lparr>mt_net := net n\<rparr>) (en_time E n) q) [])),
      en_status := (\<lambda>n q. fst (run_state (GetTransaction (A\<lparr>mt_net := net n\<rparr>) q) [])),
      en_cancel := (\<lambda>n q. fst (run_state (CancelTransaction (A\<lparr>mt_net := net n\<rparr>) q) [])),
      en_refund := (\<lambda>n q. fst (run_state (CreateRefund_mt (A\<lparr>mt_net := net n\<rparr>) q) [])),
      en_webhook := ParseWebhook A\<rparr>"

end
