(* ===== verification/Float_Laws.thy ===== *)
theory Float_Laws
  imports Midtrans_Charge
begin

text \<open>
  Doubles hold whole numbers below \<open>2 ^ 53\<close> exactly; so amounts printed as Midtrans prints them are read
  back exactly, and an expiry of whole minutes is passed on as it is.
\<close>

lemma bit_length_bounds:
  "0 < n \<Longrightarrow> 1 \<le> bit_length n \<and> 2 ^ nat (bit_length n - 1) \<le> n \<and> n < 2 ^ nat (bit_length n)"
proof (induction n rule: bit_length.induct)
  case (1 n)
  show ?case
  proof (cases "n = 1")
    case True
    then show ?thesis by (simp add: bit_length.simps [of 1] bit_length.simps [of 0])
  next
    case False
    with 1 have h: "0 < n div 2" by simp
    note ih = 1(1) [OF _ h] and len = bit_length.simps [of n]
    have ih: "1 \<le> bit_length (n div 2)" "2 ^ nat (bit_length (n div 2) - 1) \<le> n div 2" "n div 2 < 2 ^ nat (bit_length (n div 2))"
      using ih 1(2) by auto
    have len: "bit_length n = 1 + bit_length (n div 2)" using 1(2) by (subst bit_length.simps) simp
    have "(2 :: int) ^ nat (bit_length n - 1) = 2 * 2 ^ nat (bit_length (n div 2) - 1)"
      "(2 :: int) ^ nat (bit_length n) = 2 * 2 ^ nat (bit_length (n div 2))"
      using ih(1) len by (simp_all flip: power_Suc add: Suc_nat_eq_nat_zadd1)
    moreover have "n = 2 * (n div 2) + n mod 2" "0 \<le> n mod 2" "n mod 2 \<le> 1" by simp_all
    ultimately show ?thesis using ih len by linarith
  qed
qed

lemma log2_floor_le:
  assumes "0 < k" "k < 2 ^ 53" "0 < d"
  shows "log2_floor (k * d) d \<le> 52"
proof (rule ccontr)
  assume "\<not> log2_floor (k * d) d \<le> 52"
  then have l: "53 \<le> log2_floor (k * d) d" by simp
  define e where "e = bit_length (k * d) - bit_length d"
  have n: "0 < k * d" using assms by simp
  note bn = bit_length_bounds [OF n] and bd = bit_length_bounds [OF assms(3)]
  show False
  proof (cases "d * pow2 e \<le> k * d * pow2 (- e)")
    case True
    then have "log2_floor (k * d) d = e" by (simp add: log2_floor_def Let_def e_def)
    with l have e: "53 \<le> e" by simp
    then have "d * 2 ^ nat e \<le> d * k" using True by (simp add: pow2_def mult.commute)
    then have "2 ^ nat e \<le> k" using assms(3) by simp
    moreover have "(2 :: int) ^ 53 \<le> 2 ^ nat e" using e by (intro power_increasing) linarith+
    ultimately show False using assms(2) by linarith
  next
    case False
    then have "log2_floor (k * d) d = e - 1" by (simp add: log2_floor_def Let_def e_def)
    with l have e: "54 \<le> e" by simp
    have "nat (bit_length (k * d) - 1) = nat (e - 1) + nat (bit_length d)" using e bd unfolding e_def by arith
    then have "2 ^ nat (e - 1) * 2 ^ nat (bit_length d) \<le> k * d" using bn by (simp add: power_add)
    moreover have "2 ^ nat (e - 1) * d < 2 ^ nat (e - 1) * 2 ^ nat (bit_length d)" using bd by simp
    ultimately have "2 ^ nat (e - 1) * d < k * d" by linarith
    then have "2 ^ nat (e - 1) < k" using assms(3) by simp
    moreover have "(2 :: int) ^ 53 \<le> 2 ^ nat (e - 1)" using e by (intro power_increasing) linarith+
    ultimately show False using assms(2) by linarith
  qed
qed

lemma to_double_exact:
  assumes "0 \<le> k" "k < 2 ^ 53" "0 < d"
  obtains b where "to_double (k * d) d = (k * b, b)" "0 < b"
proof (cases "k = 0")
  case True
  then show thesis by (intro that [of 1]) (simp_all add: to_double_def)
next
  case False
  define e where "e = max (- 1074) (log2_floor (k * d) d - 52)"
  have nz: "k * d \<noteq> 0" and k: "0 < k" using False assms by auto
  have e: "e \<le> 0" using log2_floor_le [OF k assms(2,3)] by (simp add: e_def)
  have half: "half_even (k * c * d) d = k * c" for c using assms(3) by (simp add: half_even_def)
  have dbl: "to_double (k * d) d = (if 0 \<le> e then (half_even (k * d) (d * pow2 e) * pow2 e, 1)
      else (half_even (k * d * pow2 (- e)) d, pow2 (- e)))"
    using nz by (simp only: to_double_def Let_def e_def if_False)
  show thesis
  proof (cases "e = 0")
    case True
    then show thesis using half [of 1] by (intro that [of 1]) (simp_all add: dbl pow2_def)
  next
    case False
    then show thesis using e half [of "pow2 (- e)"]
      by (intro that [of "pow2 (- e)"]) (simp_all add: dbl mult.assoc mult.commute [of d] pow2_def)
  qed
qed

section \<open>Reading an amount\<close>

lemma digit_hex: "is_digit c \<Longrightarrow> hex_val c = Some (nat (digit_val c)) \<and> 0 \<le> digit_val c"
  by (auto simp: is_digit_def hex_val_def digit_val_def Let_def)

lemma read_digits:
  "list_all is_digit ds \<Longrightarrow> ds \<noteq> [] \<Longrightarrow>
   read_mantissa False (ds @ s) m g dot f =
     read_mantissa False s (foldl (\<lambda>n c. 10 * n + digit_val c) m ds) True dot (if dot then f + int (length ds) else f)"
proof (induction ds arbitrary: m g f)
  case (Cons c ds)
  then have c: "is_digit c" "c \<noteq> CHR ''_''" "c \<noteq> CHR ''.''" by (auto simp: is_digit_def)
  then show ?case using Cons digit_hex [OF c(1)] by (cases "ds = []") (simp_all add: float_digit_def add.assoc)
qed simp

lemma nat_str_digits: "list_all is_digit (nat_str n)" "nat_str n \<noteq> []" "digits_val (nat_str n) = int n"
  using nat_str_props by auto

lemma special_None:
  assumes "is_digit (hd s)" "s \<noteq> []"
  shows "special_float s = None"
proof -
  have "lower_char (hd s) = hd s" using assms(1) by (simp add: is_digit_def lower_char_def Let_def)
  with assms have "hd (map lower_char s) = hd s" by (simp add: list.map_sel)
  with assms show ?thesis
    by (cases s) (auto simp: special_float_def Let_def drop_sign_def is_sign_def is_digit_def)
qed

text \<open>The two forms in which Midtrans sends a whole amount: plain, and with two decimals.\<close>

lemma parse_amount:
  assumes "tail \<in> {[], ''.00''}" "n < 2 ^ 53"
  obtains b where "ParseFloat (nat_str n @ tail) = Some (Finite False (int n * b) b)" "0 < b"
proof -
  let ?s = "nat_str n @ tail"
  define e where "e = (if tail = [] then 0 else 2 :: nat)"
  have hd: "is_digit (hd ?s)" "?s \<noteq> []" using nat_str_digits [of n] by (auto simp: list_all_iff)
  have sign: "\<not> is_sign (hd ?s)" "hd ?s \<noteq> CHR ''-''" using hd(1) by (auto simp: is_digit_def is_sign_def)
  have hex: "\<not> (length ?s > 2 \<and> hd ?s = CHR ''0'' \<and> lower_is (?s ! 1) (CHR ''x''))"
  proof
    assume h: "length ?s > 2 \<and> hd ?s = CHR ''0'' \<and> lower_is (?s ! 1) (CHR ''x'')"
    have "is_digit (?s ! 1) \<or> ?s ! 1 = CHR ''.'' \<or> ?s ! 1 = CHR ''0''"
    proof (cases "length (nat_str n) > 1")
      case True
      then show ?thesis using nat_str_digits(1) [of n] by (simp add: nth_append list_all_length)
    next
      case False
      then have "length (nat_str n) = 1" using nat_str_digits(2) [of n] by (cases "nat_str n") auto
      then show ?thesis using assms(1) h by (auto simp: nth_append)
    qed
    with h show False by (auto simp: lower_is_def is_digit_def lower_char_def Let_def)
  qed
  have mant: "read_mantissa False ?s 0 False False 0 = (int n * 10 ^ e, True, int e, [])"
  proof -
    have "read_mantissa False ?s 0 False False 0 = read_mantissa False tail (int n) True False 0"
      using read_digits [OF nat_str_digits(1,2), of n tail 0 False False 0] nat_str_digits(3) [of n]
      by (simp add: digits_val_def)
    then show ?thesis using assms(1) by (auto simp: e_def float_digit_def is_digit_def hex_val_def)
  qed
  have us: "CHR ''_'' \<notin> set ?s"
    using assms(1) nat_str_digits(1) [of n] by (auto simp: list_all_iff is_digit_def)
  have sc: "scaled 10 (int n * 10 ^ e) (- int e) = (int n * 10 ^ e, 10 ^ e)"
    by (auto simp: scaled_def e_def)
  obtain b where b: "to_double (int n * 10 ^ e) (10 ^ e) = (int n * b, b)" "0 < b"
    using to_double_exact [of "int n" "10 ^ e"] assms(2) by auto
  have "\<not> int n * b \<ge> b * pow2 1024"
  proof
    assume "int n * b \<ge> b * pow2 1024"
    then have "b * pow2 1024 \<le> b * int n" by (simp only: mult.commute)
    then have "pow2 1024 \<le> int n" using b(2) by simp
    moreover have "(2 :: int) ^ 53 \<le> pow2 1024" unfolding pow2_def by (intro power_increasing) simp_all
    moreover have "int n < 2 ^ 53" using assms(2) by simp
    ultimately show False by linarith
  qed
  note big = this
  define s where "s = ?s"
  have "ParseFloat s = Some (Finite False (int n * b) b)"
  proof -
    note f = sign us mant hd special_None [OF hd] big
    have h: "(length s > 2 \<and> hd s = CHR ''0'' \<and> lower_is (s ! 1) (CHR ''x'')) = False"
      using hex unfolding s_def by blast
    have d: "drop_sign s = s" using f unfolding s_def drop_sign_def by simp
    show ?thesis
      unfolding ParseFloat_def d Let_def h if_False using f unfolding s_def [symmetric] by (simp add: sc b)
  qed
  then show thesis using b(2) unfolding s_def by (rule that)
qed

lemma round_exact:
  assumes "0 \<le> k" "k < 2 ^ 63" "0 < b"
  shows "round_int64 (Finite False (k * b) b) = i64 k"
proof -
  have "(2 * (k * b) + b) div (2 * b) = k" using assms(3) by (intro int_div_pos_eq [of _ _ _ b]) simp_all
  then show ?thesis using assms(1,2) by (simp add: round_int64_def Let_def)
qed

lemma ceil_minutes_whole:
  assumes "0 \<le> m" "m < 2 ^ 53"
  shows "ceil_minutes (m * time_Minute) = m"
proof -
  have "to_double ((m * time_Minute) mod time_Minute) time_Minute = (0, 1)" by (simp add: to_double_def)
  moreover obtain b where "to_double m 1 = (m * b, b)" "0 < b"
    using to_double_exact [OF assms, of 1] by auto
  moreover have "(m * b + b - 1) div b = m" if "0 < b"
    using that by (intro int_div_pos_eq [of _ _ _ "b - 1"]) (simp_all add: algebra_simps)
  ultimately show ?thesis using assms(1) by (simp add: ceil_minutes_def Let_def abs_mult time_Minute_def duration_defs)
qed

end
