(* ===== verification/Midtrans_Properties.thy ===== *)
theory Midtrans_Properties
  imports Float_Laws Http_Properties
begin

text \<open>
  Properties of the Midtrans adapter: which notifications it believes, which replies it takes for a
  definite outcome, what a charge tells Midtrans, and how amounts are read.
\<close>

section \<open>An adapter for the witnesses\<close>

definition ex_settled :: jobj where
  "ex_settled = [(''transaction_id'', JStr ''tx''), (''order_id'', JStr ''2''), (''status_code'', JStr ''200''),
     (''gross_amount'', JStr ''100.00''), (''signature_key'', JStr (sha512_hex (''2'' @ ''200'' @ ''100.00'' @ ''key''))),
     (''transaction_status'', JStr ''settlement'')]"

definition ex_midtrans :: midtrans where
  "ex_midtrans = \<lparr>mt_ServerKey = ''key'', mt_BaseURL = ''https://m'', mt_Timeout = time_Second, mt_NotificationURL = [],
     mt_QRISAcquirer = ''gopay'',
     mt_lib = \<lparr>wl_url_error = (\<lambda>u. None), wl_json = (\<lambda>s. if s = ''settled'' then Some (JObj ex_settled) else None),
       wl_json_error = (\<lambda>s. ''invalid character''), wl_float = Some, wl_float_text = id\<rparr>,
     mt_net = (\<lambda>q. Reply 200 ''settled'')\<rparr>"

definition ex_net :: "nat \<Rightarrow> wire_request \<Rightarrow> wire_reply" where
  "ex_net n = mt_net ex_midtrans"

lemma notification_keys:
  "plain_key ''transaction_id''" "plain_key ''order_id''" "plain_key ''status_code''" "plain_key ''gross_amount''"
  "plain_key ''signature_key''" "plain_key ''transaction_status''" "plain_key ''fraud_status''" "plain_key ''refunds''"
  by code_simp+

lemma ex_notification:
  "decode_notification (mt_lib ex_midtrans) ''settled'' = Some
     \<lparr>nt_TransactionID = ''tx'', nt_OrderID = ''2'', nt_StatusCode = ''200'', nt_GrossAmount = ''100.00'',
      nt_SignatureKey = sha512_hex (''2'' @ ''200'' @ ''100.00'' @ ''key''), nt_TransactionStatus = ''settlement'',
      nt_FraudStatus = [], nt_Refunds = []\<rparr>"
  by (simp add: decode_notification_def struct_members_def ex_midtrans_def ex_settled_def members_simps notification_keys
      del: append.simps)

lemma ex_reply:
  "read_reply (mt_lib ex_midtrans) (Reply 200 ''settled'') = Inr
     \<lparr>mr_Status = 200, mr_Code = ''200'', mr_Body = Some (go_map ex_settled), mr_Raw = ''settled''\<rparr>"
proof -
  have "any_map Some m acc = Some (fold (\<lambda>(k, v) m. map_put k v m) m acc)" if "\<And>k v. (k, v) \<in> set m \<Longrightarrow> \<exists>s. v = JStr s" for m acc
    using that
  proof (induction m arbitrary: acc)
    case (Cons kv m)
    obtain k v where kv: "kv = (k, v)" by fastforce
    then obtain s where "v = JStr s" using Cons.prems [of k v] by auto
    moreover have "any_map Some m (map_put k v acc) = Some (fold (\<lambda>(k, v) m. map_put k v m) m (map_put k v acc))"
      by (rule Cons.IH) (use Cons.prems in auto)
    ultimately show ?case using kv by simp
  qed simp
  then have "any_map Some ex_settled [] = Some (go_map ex_settled)" by (auto simp: ex_settled_def go_map_def)
  moreover have "map_of (go_map ex_settled) ''status_code'' = Some (JStr ''200'')" by (simp add: ex_settled_def go_map_def)
  ultimately show ?thesis
    by (simp add: read_reply_def decode_map_def ex_midtrans_def body_string_def body_at_def any_string_def)
qed

section \<open>Notifications\<close>

definition authentic :: "midtrans \<Rightarrow> string \<Rightarrow> bool" where
  "authentic A payload \<longleftrightarrow> mt_ServerKey A \<noteq> [] \<and>
     (case decode_notification (mt_lib A) payload of
        None \<Rightarrow> False
      | Some n \<Rightarrow> nt_SignatureKey n = signature A n \<and> nt_TransactionID n \<noteq> [])"

lemma ParseWebhook_Inr:
  "ParseWebhook A payload hs = Inr x \<longleftrightarrow> authentic A payload \<and>
     (\<exists>n. decode_notification (mt_lib A) payload = Some n \<and>
       x = \<lparr>wn_PaymentID = nt_OrderID n, wn_GatewayTransactionID = nt_TransactionID n,
            wn_Status = mapTransactionStatus (nt_TransactionStatus n) (nt_FraudStatus n),
            wn_GatewayStatus = nt_TransactionStatus n, wn_Refunds = toRefundNotifications (nt_Refunds n)\<rparr>)"
  by (auto simp: ParseWebhook_def authentic_def split: option.splits if_splits)

lemma ParseWebhook_Inl:
  "\<not> authentic A payload \<Longrightarrow> \<exists>msg. ParseWebhook A payload hs = Inl (InvalidInput msg)"
  by (auto simp: ParseWebhook_def authentic_def split: option.splits)

lemma pg_factory: "sv_factory (pg_service E) = remote_factory E"
  by (simp add: pg_ports)

lemma midtrans_gateway:
  "remote_factory (midtrans_env A net E) ''MIDTRANS'' = Inr (remote_gateway (midtrans_env A net E))"
  "gw_ParseWebhook (remote_gateway (midtrans_env A net E)) = ParseWebhook A"
  by (simp_all add: remote_factory_def remote_gateway_def midtrans_env_def)

text \<open>
  C25: only signed notifications are acted on. With Midtrans as the gateway, a webhook request whose
  first 64 KiB are not a notification signed with the server key (a configured one: nobody can sign
  with the empty key) and with a transaction ID is answered with 400, and nothing else happens: no
  statement, no Redis command, no gateway call, not even a reading of the clock. A notification that
  is accepted speaks of the payment, the transaction, the status and the refunds it was signed or
  sent with, and claims a settled payment only for a settlement or an accepted capture.
\<close>

theorem forged_webhooks_change_nothing:
  assumes "rq_Path r = [''webhooks'', ''midtrans'']" "rq_Method r = ''POST''" "\<not> rq_ReadFails r"
  shows "(\<not> authentic A (take (64 * 1024) (rq_Raw r)) \<longrightarrow>
      (\<exists>resp. run_state (http_serve (pg_service (midtrans_env A net E)) cfg r) w = (resp, w) \<and> hr_Status resp = 400)) \<and>
    (\<forall>payload hs x. gw_ParseWebhook (remote_gateway (midtrans_env A net E)) payload hs = Inr x \<longrightarrow>
      authentic A payload \<and> wn_GatewayTransactionID x \<noteq> [] \<and>
      (\<exists>n. decode_notification (mt_lib A) payload = Some n \<and> wn_PaymentID x = nt_OrderID n \<and>
         wn_GatewayTransactionID x = nt_TransactionID n \<and>
         (wn_Status x = TransactionSettled \<longleftrightarrow> nt_TransactionStatus n = ''settlement'' \<or>
            nt_TransactionStatus n = ''capture'' \<and> nt_FraudStatus n \<in> {[], ''accept''})))"
proof (intro conjI impI allI)
  let ?E = "midtrans_env A net E" and ?p = "take (64 * 1024) (rq_Raw r)"
  assume "\<not> authentic A ?p"
  then obtain msg where msg: "ParseWebhook A ?p (rq_Headers r) = Inl (InvalidInput msg)"
    using ParseWebhook_Inl by metis
  have "run_state (ProcessCallback_Handle (pg_service ?E) ''MIDTRANS'' ?p (rq_Headers r)) w = (Inl (InvalidInput msg), w)"
    using msg by (simp add: ProcessCallback_Handle_def pg_factory midtrans_gateway)
  then have "run_state (http_serve (pg_service ?E) cfg r) w = (error_answer (InvalidInput msg), w)"
    using assms by (simp add: http_serve_def HandleMidtrans_def answer_def)
  moreover have "hr_Status (error_answer (InvalidInput msg)) = 400"
    by (simp add: error_answer_def writeJSON_def WriteError_def Let_def InvalidInput_def)
  ultimately show "\<exists>resp. run_state (http_serve (pg_service ?E) cfg r) w = (resp, w) \<and> hr_Status resp = 400" by blast
next
  fix payload hs x
  assume "gw_ParseWebhook (remote_gateway (midtrans_env A net E)) payload hs = Inr x"
  then have x: "ParseWebhook A payload hs = Inr x" by (simp only: midtrans_gateway)
  then show "authentic A payload" by (simp add: ParseWebhook_Inr)
  show "wn_GatewayTransactionID x \<noteq> []" using x by (auto simp: ParseWebhook_def split: option.splits if_splits)
  show "\<exists>n. decode_notification (mt_lib A) payload = Some n \<and> wn_PaymentID x = nt_OrderID n \<and>
         wn_GatewayTransactionID x = nt_TransactionID n \<and>
         (wn_Status x = TransactionSettled \<longleftrightarrow> nt_TransactionStatus n = ''settlement'' \<or>
            nt_TransactionStatus n = ''capture'' \<and> nt_FraudStatus n \<in> {[], ''accept''})"
    using x by (auto simp: ParseWebhook_Inr mapTransactionStatus_def)
qed

lemma forged_webhooks_change_nothing_witness:
  "(\<exists>resp. run_state (http_serve (pg_service (midtrans_env ex_midtrans ex_net ex_env)) ex_config
      ((ex_http ''POST'' [''webhooks'', ''midtrans''] None)\<lparr>rq_Raw := ''{}''\<rparr>)) ex_paid_world = (resp, ex_paid_world) \<and>
      hr_Status resp = 400) \<and>
   (\<exists>x. gw_ParseWebhook (remote_gateway (midtrans_env ex_midtrans ex_net ex_env)) ''settled'' [] = Inr x \<and>
      wn_Status x = TransactionSettled \<and> authentic ex_midtrans ''settled'')"
proof -
  let ?r = "(ex_http ''POST'' [''webhooks'', ''midtrans''] None)\<lparr>rq_Raw := ''{}''\<rparr>"
  have r: "rq_Path ?r = [''webhooks'', ''midtrans'']" "rq_Method ?r = ''POST''" "\<not> rq_ReadFails ?r"
    by (simp_all add: ex_http_def)
  note c = forged_webhooks_change_nothing [OF r, of ex_midtrans ex_net ex_env ex_config ex_paid_world]
  have "decode_notification (mt_lib ex_midtrans) ''{}'' = None"
    by (simp add: decode_notification_def struct_members_def ex_midtrans_def)
  then have "\<not> authentic ex_midtrans (take (64 * 1024) (rq_Raw ?r))" by (simp add: authentic_def)
  with c have forged: "\<exists>resp. run_state (http_serve (pg_service (midtrans_env ex_midtrans ex_net ex_env)) ex_config ?r) ex_paid_world =
      (resp, ex_paid_world) \<and> hr_Status resp = 400" by blast
  have key: "mt_ServerKey ex_midtrans = ''key''" by (simp add: ex_midtrans_def)
  have "gw_ParseWebhook (remote_gateway (midtrans_env ex_midtrans ex_net ex_env)) ''settled'' [] = Inr
      \<lparr>wn_PaymentID = ''2'', wn_GatewayTransactionID = ''tx'', wn_Status = mapTransactionStatus ''settlement'' [],
       wn_GatewayStatus = ''settlement'', wn_Refunds = toRefundNotifications []\<rparr>"
    unfolding midtrans_gateway ParseWebhook_def ex_notification signature_def key by simp
  with c forged show ?thesis by (auto simp: mapTransactionStatus_def)
qed

section \<open>Refunds\<close>

lemma map_of_refund_body:
  "map_of (refund_body req) ''refund_key'' = Some (JStr (rq_RefundKey req))"
  "map_of (refund_body req) ''amount'' = Some (json_int64 (rq_Amount req))"
  "map_of (refund_body req) ''reason'' = (if rq_Reason req = [] then None else Some (JStr (rq_Reason req)))"
  by (simp_all add: refund_body_def go_map_def)

text \<open>A reply that says for certain that the request was refused: a 4xx and not a duplicate.\<close>

definition refused :: "mt_response \<Rightarrow> bool" where
  "refused r \<longleftrightarrow> \<not> server_error r \<and> \<not> str_HasPrefix (mr_Code r) ''2'' \<and> mr_Code r \<noteq> ''406''"

lemma read_reply_Inl: "read_reply L x = Inl e \<Longrightarrow> is_unknown_outcome e"
  by (auto simp: read_reply_def unknown_error_def split: wire_reply.splits option.splits)

lemma refund_reply_cases:
  "(\<exists>rr. refund_reply L req r = Inr rr \<and> rr_Accepted rr \<and> mr_Code r = ''200'') \<or>
   (\<exists>rr. refund_reply L req r = Inr rr \<and> \<not> rr_Accepted rr \<and> mr_Code r \<noteq> ''200'' \<and> refused r) \<or>
   (\<exists>e. refund_reply L req r = Inl e \<and> is_unknown_outcome e \<and> mr_Code r \<noteq> ''200'' \<and> \<not> refused r)"
  by (auto simp: refund_reply_def refused_def GatewayError_def)

text \<open>
  C26: no refund is guessed. A refund sends one POST with its key and its exact amount to the
  transaction's refund endpoint. It counts as accepted only when Midtrans answered with code 200, and
  as declined only when Midtrans certainly refused it; a lost or unreadable reply, a server error, a
  duplicate key and any other 2xx code all leave the outcome unknown, so the refund stays pending.
\<close>

theorem refund_outcomes_are_certain:
  assumes "wl_url_error (mt_lib A) (mt_BaseURL A @ ''/v2/'' @ rq_GatewayTransactionID req @ ''/refund'') = None"
    and "run_state (CreateRefund_mt A req) sent = (res, sent')"
  shows "\<exists>q body. sent' = sent @ [q] \<and> wq_Method q = ''POST'' \<and> wq_User q = mt_ServerKey A \<and>
    wq_URL q = mt_BaseURL A @ ''/v2/'' @ rq_GatewayTransactionID req @ ''/refund'' \<and> wq_Body q = Some (JObj body) \<and>
    map_of body ''refund_key'' = Some (JStr (rq_RefundKey req)) \<and>
    map_of body ''amount'' = Some (JNum (int_str (sint (rq_Amount req)))) \<and>
    (case read_reply (mt_lib A) (mt_net A q) of
       Inl e \<Rightarrow> (\<exists>e'. res = Inl e' \<and> is_unknown_outcome e')
     | Inr r \<Rightarrow>
         if mr_Code r = ''200'' then (\<exists>rr. res = Inr rr \<and> rr_Accepted rr)
         else if refused r then (\<exists>rr. res = Inr rr \<and> \<not> rr_Accepted rr)
         else (\<exists>e. res = Inl e \<and> is_unknown_outcome e))"
proof (intro exI conjI)
  let ?q = "wire_of A ''POST'' (''/v2/'' @ rq_GatewayTransactionID req @ ''/refund'') (Some (refund_body req)) []"
  have run: "run_state (CreateRefund_mt A req) sent =
      (case read_reply (mt_lib A) (mt_net A ?q) of
         Inl err \<Rightarrow> Inl (GatewayError ''midtrans refund: no usable reply'' (Some err))
       | Inr r \<Rightarrow> refund_reply (mt_lib A) req r, sent @ [?q])"
    using assms(1) by (simp add: CreateRefund_mt_def mt_do_def run_send)
  show "sent' = sent @ [?q]" using run assms(2) by simp
  show "wq_Method ?q = ''POST''" "wq_User ?q = mt_ServerKey A"
    "wq_URL ?q = mt_BaseURL A @ ''/v2/'' @ rq_GatewayTransactionID req @ ''/refund''"
    "wq_Body ?q = Some (JObj (refund_body req))" by (simp_all add: wire_of_def)
  show "map_of (refund_body req) ''refund_key'' = Some (JStr (rq_RefundKey req))"
    "map_of (refund_body req) ''amount'' = Some (JNum (int_str (sint (rq_Amount req))))"
    by (simp_all add: map_of_refund_body json_int64_def)
  show "case read_reply (mt_lib A) (mt_net A ?q) of
       Inl e \<Rightarrow> (\<exists>e'. res = Inl e' \<and> is_unknown_outcome e')
     | Inr r \<Rightarrow>
         if mr_Code r = ''200'' then (\<exists>rr. res = Inr rr \<and> rr_Accepted rr)
         else if refused r then (\<exists>rr. res = Inr rr \<and> \<not> rr_Accepted rr)
         else (\<exists>e. res = Inl e \<and> is_unknown_outcome e)"
  proof (cases "read_reply (mt_lib A) (mt_net A ?q)")
    case (Inl e)
    with run assms(2) read_reply_Inl [OF Inl] show ?thesis by (auto simp: GatewayError_def)
  next
    case (Inr r)
    with run assms(2) refund_reply_cases [of "mt_lib A" req r] show ?thesis by auto
  qed
qed


lemma refund_outcomes_are_certain_witness:
  "\<exists>q rr. run_state (CreateRefund_mt ex_midtrans
      \<lparr>rq_GatewayTransactionID = ''tx'', rq_RefundKey = ''4'', rq_Amount = 70, rq_Reason = []\<rparr>) [] = (Inr rr, [q]) \<and> rr_Accepted rr"
proof -
  let ?req = "\<lparr>rq_GatewayTransactionID = ''tx'', rq_RefundKey = ''4'', rq_Amount = 70, rq_Reason = []\<rparr>"
  obtain res sent where run: "run_state (CreateRefund_mt ex_midtrans ?req) [] = (res, sent)" by fastforce
  have url: "wl_url_error (mt_lib ex_midtrans) u = None" for u by (simp add: ex_midtrans_def)
  have net: "mt_net ex_midtrans q = Reply 200 ''settled''" for q by (simp add: ex_midtrans_def)
  from refund_outcomes_are_certain [OF url run] show ?thesis
    unfolding net ex_reply by (auto simp: run)
qed

section \<open>Charges\<close>

text \<open>What Midtrans can be asked for.\<close>

definition chargeable :: "create_transaction_request \<Rightarrow> time \<Rightarrow> bool" where
  "chargeable req now \<longleftrightarrow>
     mc_Charge (mt_Capability (tq_PaymentMethod req)) \<and>
     (tq_PaymentMethod req = MethodVirtualAccount \<longrightarrow> str_ToLower (tq_BankCode req) \<in> set vaBanks) \<and>
     (tq_PaymentMethod req = MethodShopeePay \<longrightarrow> tq_ReturnURL req \<noteq> []) \<and>
     (tq_PaymentMethod req = MethodCard \<longrightarrow> tq_CardToken req \<noteq> []) \<and>
     (tq_PaymentMethod req \<noteq> MethodCard \<longrightarrow>
        (case tq_ExpiredAt req of None \<Rightarrow> True | Some t \<Rightarrow> 1 \<le> ceil_minutes (time_Sub t now)))"

lemma method_distinct [simp]:
  "MethodVirtualAccount \<noteq> MethodQRIS" "MethodVirtualAccount \<noteq> MethodGoPay" "MethodVirtualAccount \<noteq> MethodShopeePay"
  "MethodVirtualAccount \<noteq> MethodCard" "MethodQRIS \<noteq> MethodGoPay" "MethodQRIS \<noteq> MethodShopeePay" "MethodQRIS \<noteq> MethodCard"
  "MethodGoPay \<noteq> MethodShopeePay" "MethodGoPay \<noteq> MethodCard" "MethodShopeePay \<noteq> MethodCard"
  "MethodQRIS \<noteq> MethodVirtualAccount" "MethodGoPay \<noteq> MethodVirtualAccount" "MethodShopeePay \<noteq> MethodVirtualAccount"
  "MethodCard \<noteq> MethodVirtualAccount" "MethodGoPay \<noteq> MethodQRIS" "MethodShopeePay \<noteq> MethodQRIS" "MethodCard \<noteq> MethodQRIS"
  "MethodShopeePay \<noteq> MethodGoPay" "MethodCard \<noteq> MethodGoPay" "MethodCard \<noteq> MethodShopeePay"
  by (simp_all add: method_defs)

definition charge_keys :: "string list" where
  "charge_keys = [''payment_type'', ''bank_transfer'', ''qris'', ''gopay'', ''shopeepay'', ''credit_card'', ''custom_expiry'']"

lemma charge_method_cases:
  "(\<exists>msg. charge_method req acq = Inl (InvalidInput msg) \<and> \<not> chargeable req now) \<or>
   (\<exists>meth. charge_method req acq = Inr meth \<and> fst ` set meth \<subseteq> set charge_keys \<and>
      (chargeable req now \<longleftrightarrow> (\<exists>ex. charge_expiry req now = Inr ex)))"
  by (cases "tq_ExpiredAt req")
     (auto simp: charge_method_def charge_expiry_def chargeable_def mt_Capability_def charge_keys_def Let_def)

lemma charge_expiry_cases:
  "(\<exists>msg. charge_expiry req now = Inl (InvalidInput msg)) \<or>
   (\<exists>ex. charge_expiry req now = Inr ex \<and> fst ` set ex \<subseteq> set charge_keys)"
  by (cases "tq_ExpiredAt req") (auto simp: charge_expiry_def charge_keys_def Let_def)

lemma go_map_other: "k \<notin> fst ` set kvs \<Longrightarrow> map_of (fold (\<lambda>(k, v) m. map_put k v m) kvs m) k = map_of m k"
  by (induction kvs arbitrary: m) (auto simp: image_iff)

lemma buildChargeRequest_cases:
  "(chargeable req now \<longleftrightarrow> (\<exists>body. buildChargeRequest req acq now = Inr body)) \<and>
   (\<forall>e. buildChargeRequest req acq now = Inl e \<longrightarrow> (\<exists>msg. e = InvalidInput msg)) \<and>
   (\<forall>body. buildChargeRequest req acq now = Inr body \<longrightarrow>
      map_of body ''transaction_details'' = map_of (charge_base req) ''transaction_details'' \<and>
      map_of body ''custom_field1'' = Some (JStr (tq_ReferenceID req)))"
proof -
  have keys: "map_of (go_map (charge_base req @ kvs)) k = map_of (charge_base req) k"
    if "fst ` set kvs \<subseteq> set charge_keys" "k \<in> {''transaction_details'', ''custom_field1''}" for kvs k
  proof -
    have "k \<notin> fst ` set kvs" using that by (auto simp: charge_keys_def)
    then have "map_of (go_map (charge_base req @ kvs)) k = map_of (go_map (charge_base req)) k"
      by (simp add: go_map_def go_map_other)
    also have "\<dots> = map_of (charge_base req) k" using that(2) by (auto simp: charge_base_def go_map_def)
    finally show ?thesis .
  qed
  show ?thesis
  proof (cases "charge_method req acq")
    case (Inl e)
    then show ?thesis using charge_method_cases [of req acq now] by (auto simp: buildChargeRequest_def)
  next
    case (Inr meth)
    show ?thesis
    proof (cases "charge_expiry req now")
      case ex: (Inl e)
      then show ?thesis
        using Inr charge_method_cases [of req acq now] charge_expiry_cases [of req now]
        by (auto simp: buildChargeRequest_def)
    next
      case ex: (Inr x)
      have "fst ` set (meth @ x) \<subseteq> set charge_keys"
        using Inr ex charge_method_cases [of req acq now] charge_expiry_cases [of req now] by auto
      note k = keys [OF this]
      have "chargeable req now" using Inr ex charge_method_cases [of req acq now] by auto
      moreover have "buildChargeRequest req acq now = Inr (go_map (charge_base req @ meth @ x))"
        using Inr ex by (simp add: buildChargeRequest_def)
      moreover have "map_of (charge_base req) ''custom_field1'' = Some (JStr (tq_ReferenceID req))"
        by (simp add: charge_base_def)
      ultimately show ?thesis using k by simp
    qed
  qed
qed

lemma va_action_type [simp]: "na_Type (va_action body na) = na_Type na"
  by (simp add: va_action_def split: option.split json.split list.split)

lemma nextAction_type:
  "na_Type (nextAction m st body) = NextActionNone \<longleftrightarrow> st \<noteq> TransactionPending"
  "mc_Charge (mt_Capability m) \<Longrightarrow> na_Type (nextAction m st body) \<noteq> NextActionUnset"
  by (simp add: nextAction_def unset_action_def Let_def)
     (auto simp: nextAction_def unset_action_def mt_Capability_def Let_def split: if_splits)

lemma charge_reply_cases:
  "(\<exists>g. charge_reply L req r = Inr g \<and> \<not> response_failed r \<and> mr_Code r \<noteq> ''400'' \<and> gr_GatewayTransactionID g \<noteq> [] \<and>
      gr_GatewayTransactionID g = body_string (mr_Body r) ''transaction_id'' \<and>
      gr_NextAction g = nextAction (tq_PaymentMethod req) (gr_Status g) (mr_Body r)) \<or>
   (\<exists>e. charge_reply L req r = Inl e \<and>
      (response_failed r \<or> mr_Code r = ''400'' \<or> body_string (mr_Body r) ''transaction_id'' = []) \<and>
      (is_unknown_outcome e \<longleftrightarrow> mr_Code r \<noteq> ''400'' \<and> server_error r))"
  by (auto simp: charge_reply_def Let_def response_failed_def server_error_def unknownIfServerError_def
      InvalidInput_def GatewayError_def)

lemma charge_answer:
  assumes "mc_Charge (mt_Capability (tq_PaymentMethod req))"
    and "res = (case read_reply (mt_lib A) (mt_net A q) of
       Inl err \<Rightarrow> Inl (GatewayError ''midtrans charge failed'' (Some err)) | Inr r \<Rightarrow> charge_reply (mt_lib A) req r)"
  shows "case read_reply (mt_lib A) (mt_net A q) of
       Inl e \<Rightarrow> (\<exists>e'. res = Inl e' \<and> is_unknown_outcome e')
     | Inr r \<Rightarrow> (case res of
           Inl e \<Rightarrow> (is_unknown_outcome e \<longleftrightarrow> mr_Code r \<noteq> ''400'' \<and> server_error r) \<and>
             (response_failed r \<or> mr_Code r = ''400'' \<or> body_string (mr_Body r) ''transaction_id'' = [])
         | Inr g \<Rightarrow> \<not> response_failed r \<and> gr_GatewayTransactionID g \<noteq> [] \<and>
             gr_GatewayTransactionID g = body_string (mr_Body r) ''transaction_id'' \<and>
             na_Type (gr_NextAction g) \<noteq> NextActionUnset \<and>
             (na_Type (gr_NextAction g) = NextActionNone \<longleftrightarrow> gr_Status g \<noteq> TransactionPending))"
proof (cases "read_reply (mt_lib A) (mt_net A q)")
  case (Inl e)
  with assms(2) read_reply_Inl [OF Inl] show ?thesis by (simp add: GatewayError_def)
next
  case (Inr r)
  note t = nextAction_type(2) [OF assms(1)]
  show ?thesis
    using charge_reply_cases [of "mt_lib A" req r] assms(2) t
    by (elim disjE exE conjE) (simp_all add: Inr nextAction_type(1))
qed

text \<open>
  C27: what a charge does. A request Midtrans cannot carry out (an unsupported method, a missing bank,
  token or return URL, an expiry less than a minute away) is refused as invalid input before anything is
  sent. Any other request sends exactly one POST, and its order ID and gross amount are the payment's ID
  and exact amount, so that two charges of one payment collide at Midtrans and notifications lead back
  to it. The error says unknown outcome when no usable reply came or the reply is a server error, never
  when Midtrans refused the charge; on success there is a transaction ID and the customer is told what
  to do next exactly while the transaction is pending.
\<close>

theorem charges_carry_the_payment:
  assumes "wl_url_error (mt_lib A) (mt_BaseURL A @ ''/v2/charge'') = None"
    and "run_state (CreateTransaction A now req) sent = (res, sent')"
  shows "if \<not> chargeable req now then sent' = sent \<and> (\<exists>msg. res = Inl (InvalidInput msg))
    else \<exists>q body details. sent' = sent @ [q] \<and> wq_Method q = ''POST'' \<and> wq_URL q = mt_BaseURL A @ ''/v2/charge'' \<and>
      wq_Body q = Some (JObj body) \<and> map_of body ''transaction_details'' = Some (JObj details) \<and>
      map_of details ''order_id'' = Some (JStr (tq_PaymentID req)) \<and>
      map_of details ''gross_amount'' = Some (JNum (int_str (sint (tq_Amount req)))) \<and>
      (case read_reply (mt_lib A) (mt_net A q) of
         Inl e \<Rightarrow> (\<exists>e'. res = Inl e' \<and> is_unknown_outcome e')
       | Inr r \<Rightarrow> (case res of
             Inl e \<Rightarrow> (is_unknown_outcome e \<longleftrightarrow> mr_Code r \<noteq> ''400'' \<and> server_error r) \<and>
               (response_failed r \<or> mr_Code r = ''400'' \<or> body_string (mr_Body r) ''transaction_id'' = [])
           | Inr g \<Rightarrow> \<not> response_failed r \<and> gr_GatewayTransactionID g \<noteq> [] \<and>
               gr_GatewayTransactionID g = body_string (mr_Body r) ''transaction_id'' \<and>
               na_Type (gr_NextAction g) \<noteq> NextActionUnset \<and>
               (na_Type (gr_NextAction g) = NextActionNone \<longleftrightarrow> gr_Status g \<noteq> TransactionPending)))"
proof (cases "chargeable req now")
  case False
  then obtain msg where "buildChargeRequest req (mt_QRISAcquirer A) now = Inl (InvalidInput msg)"
    using buildChargeRequest_cases [of req now "mt_QRISAcquirer A"]
    by (cases "buildChargeRequest req (mt_QRISAcquirer A) now") auto
  with False assms(2) show ?thesis by (auto simp: CreateTransaction_def)
next
  case True
  then obtain body where body: "buildChargeRequest req (mt_QRISAcquirer A) now = Inr body"
    using buildChargeRequest_cases [of req now "mt_QRISAcquirer A"] by auto
  define hdr where "hdr = (if mt_NotificationURL A = [] then [] else [(''X-Override-Notification'', [mt_NotificationURL A])])"
  define q where "q = wire_of A ''POST'' ''/v2/charge'' (Some body) hdr"
  let ?r = "read_reply (mt_lib A) (mt_net A q)"
  have run: "sent' = sent @ [q]" "res = (case ?r of Inl err \<Rightarrow> Inl (GatewayError ''midtrans charge failed'' (Some err))
      | Inr r \<Rightarrow> charge_reply (mt_lib A) req r)"
    using assms body by (simp_all add: CreateTransaction_def run_send Let_def q_def hdr_def)
  define details where "details = go_map [(''order_id'', JStr (tq_PaymentID req)), (''gross_amount'', json_int64 (tq_Amount req))]"
  have "map_of body ''transaction_details'' = Some (JObj details)"
    using buildChargeRequest_cases [of req now "mt_QRISAcquirer A"] body by (simp add: charge_base_def details_def)
  moreover have "map_of details ''order_id'' = Some (JStr (tq_PaymentID req))"
    "map_of details ''gross_amount'' = Some (JNum (int_str (sint (tq_Amount req))))"
    by (simp_all add: details_def go_map_def json_int64_def)
  moreover have "wq_Method q = ''POST''" "wq_URL q = mt_BaseURL A @ ''/v2/charge''" "wq_Body q = Some (JObj body)"
    by (simp_all add: q_def wire_of_def)
  moreover have "mc_Charge (mt_Capability (tq_PaymentMethod req))" using True by (simp add: chargeable_def)
  moreover note charge_answer [OF this run(2)]
  ultimately show ?thesis using True run(1) by (simp only: if_True not_True_eq_False if_False) blast
qed

lemma charges_carry_the_payment_witness:
  "\<exists>q g. run_state (CreateTransaction ex_midtrans 0 (charge_request ex_lib ex_create ''QRIS'' ex_stored)) [] = (Inr g, [q]) \<and>
     gr_GatewayTransactionID g = ''tx'' \<and> na_Type (gr_NextAction g) = NextActionNone"
proof -
  let ?req = "charge_request ex_lib ex_create ''QRIS'' ex_stored"
  obtain res sent where run: "run_state (CreateTransaction ex_midtrans 0 ?req) [] = (res, sent)" by fastforce
  have url: "wl_url_error (mt_lib ex_midtrans) u = None" for u by (simp add: ex_midtrans_def)
  have net: "mt_net ex_midtrans q = Reply 200 ''settled''" for q by (simp add: ex_midtrans_def)
  have "tq_PaymentMethod ?req = MethodQRIS" "tq_ExpiredAt ?req = None"
    by (simp_all add: charge_request_def ex_create_def method_defs)
  then have ok: "chargeable ?req 0" by (simp add: chargeable_def mt_Capability_def)
  have body: "body_string (Some (go_map ex_settled)) ''transaction_id'' = ''tx''"
    "body_string (Some (go_map ex_settled)) ''transaction_status'' = ''settlement''"
    "body_string (Some (go_map ex_settled)) ''fraud_status'' = []"
    by (simp_all add: body_string_def body_at_def ex_settled_def go_map_def any_string_def)
  obtain q where q: "sent = [q]" "case res of Inl e \<Rightarrow> False | Inr g \<Rightarrow> gr_GatewayTransactionID g = ''tx'' \<and>
      (na_Type (gr_NextAction g) = NextActionNone \<longleftrightarrow> gr_Status g \<noteq> TransactionPending)"
    using charges_carry_the_payment [OF url run] ok
    unfolding net ex_reply
    by (auto simp: body response_failed_def str_HasPrefix_def split: sum.splits)
  moreover have "gr_Status g = TransactionSettled" if "res = Inr g" for g
    using run that ok url net
    by (auto simp: CreateTransaction_def run_send Let_def ex_reply charge_reply_def body mapTransactionStatus_def
        split: sum.splits if_splits)
  ultimately show ?thesis using run by (cases res) auto
qed

section \<open>Amounts\<close>

text \<open>
  C28: amounts survive the decimal strings Midtrans sends. Every whole amount below \<open>2 ^ 53\<close> is read
  back exactly from its decimal form, with or without the two decimals Midtrans appends, although it is
  parsed as a \<open>float64\<close> and rounded.
\<close>

theorem amounts_survive_floats:
  assumes "0 \<le> k" "k < 2 ^ 53" "tail \<in> {[], ''.00''}"
  shows "sint (flex_amount (int_str k @ tail)) = k \<and>
    rn_Amount (hd (toRefundNotifications [no_entry\<lparr>re_Amount := int_str k @ tail\<rparr>])) = i64 k"
proof -
  obtain b where b: "ParseFloat (nat_str (nat k) @ tail) = Some (Finite False (int (nat k) * b) b)" "0 < b"
    using parse_amount [OF assms(3), of "nat k"] assms(1,2) by (auto simp: nat_less_iff)
  then have "flex_amount (int_str k @ tail) = i64 k"
    using assms(1,2) round_exact [of k b] by (simp add: flex_amount_def int_str_def)
  with assms(1,2) show ?thesis by (simp add: sint_i64 toRefundNotifications_def)
qed


lemma amounts_survive_floats_witness: "sint (flex_amount (int_str 5000 @ ''.00'')) = 5000"
  using amounts_survive_floats [of 5000 "''.00''"] by simp

end
