(* ===== verification/Idem_Race.thy ===== *)
theory Idem_Race
  imports Http_Properties
begin

text \<open>
  Concurrent creations with one reference. Any number of requests race for one idempotency key: each
  begins, runs the handler when it is the first, and leaves its response or gives the key back. The
  steps run the middleware's own operations against Redis; time passes, and everything else in the
  system may change whatever it likes but this key. The handler is assumed to end before its claim
  expires (\<open>processingTTL\<close> is a minute, a gateway call takes at most its timeout).
\<close>

datatype phase = Waiting | Running time | Over

record race =
  rc_shared :: shared
  rc_now :: time
  rc_phase :: "nat \<Rightarrow> phase"

text \<open>The environment of one operation at an instant: Redis answers, nothing else happens meanwhile.\<close>

definition calm_at :: "env \<Rightarrow> time \<Rightarrow> env" where
  "calm_at E t = E\<lparr>en_time := \<lambda>n. t, en_others := \<lambda>n s. s, en_fault := \<lambda>n k. None, en_redis := \<lambda>n. None\<rparr>"

abbreviation at_world :: "race \<Rightarrow> world" where
  "at_world s \<equiv> \<lparr>w_shared = rc_shared s, w_tick = 0\<rparr>"

abbreviation claim_ttl :: "duration \<Rightarrow> duration" where
  "claim_ttl ttl \<equiv> min processingTTL ttl"

inductive race_step :: "env \<Rightarrow> duration \<Rightarrow> string \<Rightarrow> (nat \<Rightarrow> string) \<Rightarrow> race \<Rightarrow> race \<Rightarrow> bool"
  for E ttl key h where
  arrive:
    "rc_phase s i = Waiting \<Longrightarrow>
     run_state (Begin (pg_service (calm_at E (rc_now s))) ttl key (h i)) (at_world s) = (Inr res, w) \<Longrightarrow>
     race_step E ttl key h s (s\<lparr>rc_shared := w_shared w, rc_phase := (rc_phase s)(i :=
       if ir_Outcome res = IdempotencyNew then Running (rc_now s) else Over)\<rparr>)"
| finish:
    "rc_phase s i = Running t \<Longrightarrow>
     run_state (Complete (pg_service (calm_at E (rc_now s))) ttl key (h i) st body) (at_world s) = (None, w) \<Longrightarrow>
     race_step E ttl key h s (s\<lparr>rc_shared := w_shared w, rc_phase := (rc_phase s)(i := Over)\<rparr>)"
| give_up:
    "rc_phase s i = Running t \<Longrightarrow>
     run_state (Release (pg_service (calm_at E (rc_now s))) key) (at_world s) = (None, w) \<Longrightarrow>
     race_step E ttl key h s (s\<lparr>rc_shared := w_shared w, rc_phase := (rc_phase s)(i := Over)\<rparr>)"
| time_passes:
    "rc_now s \<le> now \<Longrightarrow> (\<And>i t. rc_phase s i = Running t \<Longrightarrow> now < t + claim_ttl ttl) \<Longrightarrow>
     race_step E ttl key h s (s\<lparr>rc_now := now\<rparr>)"
| others_run:
    "sh_cache sh key = sh_cache (rc_shared s) key \<Longrightarrow> race_step E ttl key h s (s\<lparr>rc_shared := sh\<rparr>)"

inductive_cases race_stepE: "race_step E ttl key h s s'"

definition race_start :: "shared \<Rightarrow> time \<Rightarrow> race" where
  "race_start sh now = \<lparr>rc_shared = sh, rc_now = now, rc_phase = (\<lambda>i. Waiting)\<rparr>"

section \<open>The operations at an instant\<close>

lemma calm_reliable [simp]: "reliable (calm_at E t)"
  by (simp add: reliable_def alone_def calm_at_def)

lemma calm_time [simp]: "en_time (calm_at E t) n = t"
  by (simp add: calm_at_def)

lemma run_begin:
  "run_state (Begin (pg_service (calm_at E t)) ttl key h) \<lparr>w_shared = sh, w_tick = 0\<rparr> = (Inr res, w) \<Longrightarrow>
   (if redis_live t sh key = None
    then ir_Outcome res = IdempotencyNew \<and> w_shared w = redis_put t key (claim_text h) (claim_ttl ttl) sh
    else ir_Outcome res \<noteq> IdempotencyNew \<and> w_shared w = sh)"
  by (auto simp: reliable_Begin judge_outcome outcome_def split: option.splits)

lemma run_complete:
  "run_state (Complete (pg_service (calm_at E t)) ttl key h st body) \<lparr>w_shared = sh, w_tick = 0\<rparr> = (r, w) \<Longrightarrow>
   w_shared w = redis_put t key (done_text h st body) ttl sh"
  by (auto simp: reliable_Complete)

section \<open>The invariant\<close>

text \<open>Whoever runs the handler holds the key, and nobody else runs it.\<close>

definition holds_key :: "duration \<Rightarrow> string \<Rightarrow> (nat \<Rightarrow> string) \<Rightarrow> race \<Rightarrow> nat \<Rightarrow> time \<Rightarrow> bool" where
  "holds_key ttl key h s i t \<longleftrightarrow>
     sh_cache (rc_shared s) key = Some (claim_text (h i), Some (t + claim_ttl ttl)) \<and> rc_now s < t + claim_ttl ttl \<and>
     (\<forall>j u. rc_phase s j = Running u \<longrightarrow> j = i)"

definition race_ok :: "duration \<Rightarrow> string \<Rightarrow> (nat \<Rightarrow> string) \<Rightarrow> race \<Rightarrow> bool" where
  "race_ok ttl key h s \<longleftrightarrow> (\<forall>i t. rc_phase s i = Running t \<longrightarrow> holds_key ttl key h s i t)"

lemma race_okD: "race_ok ttl key h s \<Longrightarrow> rc_phase s i = Running t \<Longrightarrow> holds_key ttl key h s i t"
  by (simp add: race_ok_def)

lemma nobody_runs: "race_ok ttl key h s \<Longrightarrow> redis_live (rc_now s) (rc_shared s) key = None \<Longrightarrow> rc_phase s i \<noteq> Running t"
  by (auto simp: holds_key_def redis_live_def dest!: race_okD [of _ _ _ _ i t])

lemma race_step_ok:
  assumes "race_step E ttl key h s s'" "race_ok ttl key h s" "0 < ttl"
  shows "race_ok ttl key h s'"
  using assms(1)
proof cases
  case (arrive i res w)
  note b = run_begin [OF arrive(3)]
  show ?thesis
  proof (cases "redis_live (rc_now s) (rc_shared s) key = None")
    case True
    then have "\<And>j u. rc_phase s j \<noteq> Running u" using nobody_runs assms(2) by blast
    with True b arrive(1) assms(3) show ?thesis
      by (auto simp: race_ok_def holds_key_def redis_put_def processingTTL_def duration_defs)
  next
    case False
    with b arrive assms(2) show ?thesis by (auto simp: race_ok_def holds_key_def)
  qed
next
  case (finish i t st body w)
  have "\<And>j u. rc_phase s j = Running u \<Longrightarrow> j = i" using race_okD [OF assms(2) finish(2)] by (simp add: holds_key_def)
  with finish(1) show ?thesis by (auto simp: race_ok_def)
next
  case (give_up i t w)
  have "\<And>j u. rc_phase s j = Running u \<Longrightarrow> j = i" using race_okD [OF assms(2) give_up(2)] by (simp add: holds_key_def)
  with give_up(1) show ?thesis by (auto simp: race_ok_def)
next
  case (time_passes now)
  with assms(2) show ?thesis by (auto simp: race_ok_def holds_key_def)
next
  case (others_run sh)
  with assms(2) show ?thesis by (auto simp: race_ok_def holds_key_def)
qed

lemma race_steps_ok:
  "(race_step E ttl key h)\<^sup>*\<^sup>* s s' \<Longrightarrow> 0 < ttl \<Longrightarrow> race_ok ttl key h s \<Longrightarrow> race_ok ttl key h s'"
  by (induction rule: rtranclp_induct) (auto intro: race_step_ok)



end
