(* ===== verification/Save_Properties.thy ===== *)
theory Save_Properties
  imports Query_Properties
begin

text \<open>
  Saving is all or nothing, and a stale copy never overwrites a newer one: the properties of
  \<open>PaymentRepo.Save\<close> that the handlers' retries rest on, for any faults and any other processes.
\<close>

section \<open>What a statement that fails leaves\<close>

lemma persist_rows_error:
  assumes "run_state (persist_payment E n p) (d, k) = (Inl e, dk)"
  shows "run_state (persist_rows E n p) (d, k) = (Inl e, dk)"
  using assms by (simp add: persist_rows_def)

definition stale :: "payment \<Rightarrow> db \<Rightarrow> bool" where
  "stale p d \<longleftrightarrow> \<not> isNewPayment p \<and>
     \<not> (\<exists>row \<in> set (db_payments d). pr_ID row = p_ID p \<and> pr_Version row = int32 (p_Version p))"

definition taken :: "payment \<Rightarrow> db \<Rightarrow> bool" where
  "taken p d \<longleftrightarrow> isNewPayment p \<and>
     (\<exists>row \<in> set (db_payments d). pr_ReferenceID row = p_ReferenceID p \<and> pr_CallerService row = p_CallerService p)"

lemma persist_stale:
  assumes "stale p d"
  shows "\<exists>e dk. run_state (persist_payment E n p) (d, k) = (Inl e, dk) \<and>
    (en_fault E n k = None \<longrightarrow> IsCode (Some e) CodeConflict)"
  using assms
  by (auto simp: persist_payment_def stale_def stmt_def UpdatePaymentFull_def map_sum_def IsCode_def Conflict_def
      split: option.split)

lemma persist_taken:
  assumes "taken p d"
  shows "\<exists>e dk. run_state (persist_payment E n p) (d, k) = (Inl e, dk)"
  using assms
proof -
  obtain row where "row \<in> set (db_payments d)" "pr_ReferenceID row = p_ReferenceID p" "pr_CallerService row = p_CallerService p"
    using assms by (auto simp: taken_def)
  then have "(pr_ReferenceID (payment_row_of p), pr_CallerService (payment_row_of p)) \<in>
      (\<lambda>r. (pr_ReferenceID r, pr_CallerService r)) ` set (db_payments d)"
    by (force simp: payment_row_of_def)
  then have "InsertPayment (payment_row_of p) d = Inr (0, d) \<or> (\<exists>e. InsertPayment (payment_row_of p) d = Inl e)"
    by (simp add: InsertPayment_def)
  with assms show ?thesis
    by (auto simp: persist_payment_def taken_def stmt_def map_sum_def split: option.split)
qed

text \<open>A save whose first statement fails leaves everything as it is, also when a commit's reply could be lost.\<close>

lemma run_save_fails:
  assumes "run_state (persist_payment E (w_tick w) p) (sh_db (en_others E (w_tick w) (w_shared w)), 1) = (Inl e, dk)"
  shows "\<exists>e'. run_state (repo_Save E p) w =
      ((Some e', p), \<lparr>w_shared = en_others E (w_tick w) (w_shared w), w_tick = w_tick w + 1\<rparr>) \<and>
    (en_fault E (w_tick w) 0 = None \<longrightarrow> e' = e)"
  using persist_rows_error [OF assms] by (auto simp: repo_Save_def run_act split: option.split)

lemma run_save_error:
  assumes "run_state (repo_Save E p) w = ((Some e, p'), w')" "\<not> en_lost E (w_tick w)"
  shows "w_shared w' = en_others E (w_tick w) (w_shared w)"
  using assms by (auto simp: repo_Save_def run_act Let_def split: option.splits prod.splits sum.splits if_splits)

lemma old_version_stale:
  assumes "db_ok L d" "row \<in> set (db_payments d)" "pr_ID row = p_ID q" "p_Version q < pr_Version row" "1 \<le> p_Version q"
    and "\<not> isNewPayment q"
  shows "stale q d"
proof -
  have "int32 (p_Version q) \<le> p_Version q"
    using assms(5) by (simp add: int32_def signed_take_bit_int_less_eq_self_iff)
  then have "pr_Version row' \<noteq> int32 (p_Version q)" if "row' \<in> set (db_payments d)" "pr_ID row' = p_ID q" for row'
    using db_ok_same_row [OF assms(1) that(1) assms(2)] assms(3,4) that(2) by auto
  with assms(6) show ?thesis by (auto simp: stale_def)
qed

text \<open>The payment of the example world, read at call 12.\<close>

lemma ex_ready:
  "sys_ok odd_ids ex_env (ex_paid_world\<lparr>w_tick := 13\<rparr>)" "sys_ready ex_env (ex_paid_world\<lparr>w_tick := 13\<rparr>) ex_stored"
  "\<not> isNewPayment ex_stored"
proof -
  let ?w = "ex_paid_world\<lparr>w_tick := 13\<rparr>"
  have found: "GetPaymentByID 2 (sh_db (w_shared ex_paid_world)) = Some ex_row"
    by (simp add: GetPaymentByID_def ex_rows live_def)
  have "q\<lparr>p_Refunds := []\<rparr> = q" if "toDomain row = Inr q" for row q
    using that by (auto simp: toDomain_def split: option.splits)
  note same = this [OF ex_rows(2)]
  have alone: "alone ex_env" using ex_reliable by (simp add: reliable_def)
  have w: "\<lparr>w_shared = w_shared ex_paid_world, w_tick = 13\<rparr> = ?w" by (simp add: ex_paid_world_def)
  have "run_state (repo_FindByID ex_env 2) ex_paid_world = (Inr ex_stored, ?w)"
    unfolding alone_FindByID [OF alone found ex_rows(2)] by (simp add: ListRefundsByPayment_def ex_rows same w)
  from run_FindByID [OF ex_paid_world_ok this]
  show "sys_ok odd_ids ex_env ?w" "sys_ready ex_env ?w ex_stored"
    unfolding sys_held_def sys_ready_def by (blast intro: loaded_ext db_ext_refl)+
  show "\<not> isNewPayment ex_stored" using toDomain_new [OF ex_rows(2), of "p_Refunds ex_stored"] by simp
qed

lemma ex_saved:
  "case run_state (repo_Save ex_env ex_stored) (ex_paid_world\<lparr>w_tick := 13\<rparr>) of ((err, p'), v) \<Rightarrow> err = None"
  by code_simp

text \<open>
  C30: no update is lost. Of two copies of a payment that were read at the same version at most one is
  ever saved. Once a save of the first has succeeded, the process may serve any further requests, with
  any faults and while other processes do whatever they are allowed to: a save of the second is refused,
  as a conflict unless a statement failed first, and changes nothing, even if the reply of a commit
  could get lost.
\<close>

theorem lost_updates_are_impossible:
  assumes "sys_ok U E w" "sys_ready E w p" "\<not> isNewPayment p" "run_state (repo_Save E p) w = ((None, p'), v)"
    and "\<not> isNewPayment q" "p_ID q = p_ID p" "p_Version q = p_Version p"
    and "n = w_tick (process E reqs v)" "run_state (repo_Save E q) (process E reqs v) = ((err, q'), u)"
  shows "err \<noteq> None \<and> q' = q \<and> w_shared u = en_others E n (w_shared (process E reqs v)) \<and>
    (en_fault E n 0 = None \<and> en_fault E n 1 = None \<longrightarrow> IsCode err CodeConflict)"
proof -
  let ?x = "process E reqs v"
  define s where "s = en_others E (w_tick ?x) (w_shared ?x)"
  note saved = run_Save [OF assms(1,2,4)]
  have v: "sys_ok U E v" "sys_held E v p'" using saved by auto
  have p': "p_ID p' = p_ID p" "p_Version p' = p_Version p + 1"
    using assms(3,4) by (auto simp: repo_Save_def run_act PopEvents_def Let_def split: option.splits prod.splits sum.splits if_splits)
  have x: "sys_ok U E ?x" "sys_ext U v ?x" using process_ok [OF v(1)] by auto
  have s: "shared_ok (en_lib E) s" "shared_ext (w_shared ?x) s"
    using others_fair [OF x(1)] by (simp_all add: fair_step_def s_def)
  have ok: "db_ok (en_lib E) (sh_db s)" using s(1) by (simp add: shared_ok_def)
  have "db_ext (sh_db (w_shared v)) (sh_db s)"
    using x(2) s(2) db_ext_trans by (auto simp: sys_ext_def shared_ext_def)
  moreover obtain row where row: "row \<in> set (db_payments (sh_db (w_shared v)))" "pr_ID row = p_ID p'" "p_Version p' \<le> pr_Version row"
    using v(2) by (auto simp: sys_held_def loaded_def)
  ultimately obtain row' where row': "row' \<in> set (db_payments (sh_db s))" "pr_ID row' = pr_ID row" "pr_Version row \<le> pr_Version row'"
    by (meson db_extE)
  have "1 \<le> p_Version p"
    using assms(2,3) by (auto simp: sys_ready_def loaded_def created_def)
  then have "stale q (sh_db s)"
    using row row' p' assms(5-7) by (intro old_version_stale [OF ok row'(1)]) simp_all
  from persist_stale [OF this, of E "w_tick ?x" 1] obtain e dk where
    e: "run_state (persist_payment E (w_tick ?x) q) (sh_db s, 1) = (Inl e, dk)"
    "en_fault E (w_tick ?x) 1 = None \<Longrightarrow> IsCode (Some e) CodeConflict" by auto
  from run_save_fails [OF e(1) [unfolded s_def]] assms(8,9) e(2) show ?thesis by auto
qed

text \<open>A stored payment, read and saved twice.\<close>

lemma lost_updates_are_impossible_witness:
  "\<exists>p' v e q' u. run_state (repo_Save ex_env ex_stored) (ex_paid_world\<lparr>w_tick := 13\<rparr>) = ((None, p'), v) \<and>
     run_state (repo_Save ex_env ex_stored) v = ((Some e, q'), u) \<and> IsCode (Some e) CodeConflict \<and> w_shared u = w_shared v"
proof -
  obtain p' v where first: "run_state (repo_Save ex_env ex_stored) (ex_paid_world\<lparr>w_tick := 13\<rparr>) = ((None, p'), v)"
    using ex_saved by (auto split: prod.splits)
  obtain err q' u where second: "run_state (repo_Save ex_env ex_stored) v = ((err, q'), u)" by (metis surj_pair)
  then have "run_state (repo_Save ex_env ex_stored) (process ex_env [] v) = ((err, q'), u)" by (simp add: process_def)
  from lost_updates_are_impossible [OF ex_ready(1,2,3) first ex_ready(3) refl refl refl this]
  have "err \<noteq> None" "w_shared u = w_shared v" "IsCode err CodeConflict"
    by (simp_all add: process_def ex_env_def)
  with first second show ?thesis by auto
qed

end
