(* ===== verification/List_Properties.thy ===== *)
theory List_Properties
  imports Http_Properties
begin

text \<open>The parameters of the list endpoint: what is refused, and what the rest costs.\<close>

definition list_params_ok :: "uuid_lib \<Rightarrow> headers \<Rightarrow> bool" where
  "list_params_ok L q \<longleftrightarrow>
     (\<forall>k \<in> {''from'', ''to''}. Header_Get q k = [] \<or> parse_RFC3339 (Header_Get q k) \<noteq> None) \<and>
     (Header_Get q ''limit'' = [] \<or> (\<exists>n \<ge> 1. Atoi (Header_Get q ''limit'') = Some n)) \<and>
     (\<exists>c. decodeCursor L (Header_Get q ''cursor'') = Inr c)"

lemma decodeCursor_Inl: "decodeCursor L s = Inl e \<Longrightarrow> e = invalidCursor"
  by (auto simp: decodeCursor_def split: if_splits option.splits prod.splits)

lemma param_errors:
  "time_param q k = Inl e \<Longrightarrow> \<exists>msg. e = InvalidInput msg"
  "limit_param q = Inl e \<Longrightarrow> \<exists>msg. e = InvalidInput msg"
  by (auto simp: time_param_def limit_param_def split: if_splits option.splits)

lemma param_ok:
  "(\<exists>t. time_param q k = Inr t) \<longleftrightarrow> Header_Get q k = [] \<or> parse_RFC3339 (Header_Get q k) \<noteq> None"
  "(\<exists>n. limit_param q = Inr n) \<longleftrightarrow> Header_Get q ''limit'' = [] \<or> (\<exists>n \<ge> 1. Atoi (Header_Get q ''limit'') = Some n)"
  by (auto simp: time_param_def limit_param_def split: option.split)

lemma parse_list:
  "(\<exists>msg. parseListParams ff q = Inl (InvalidInput msg) \<and>
      \<not> ((\<exists>t. time_param q ''from'' = Inr t) \<and> (\<exists>t. time_param q ''to'' = Inr t) \<and> (\<exists>n. limit_param q = Inr n))) \<or>
   (\<exists>p. parseListParams ff q = Inr p \<and> lp_Cursor p = Header_Get q ''cursor'' \<and>
      (\<exists>t. time_param q ''from'' = Inr t) \<and> (\<exists>t. time_param q ''to'' = Inr t) \<and> (\<exists>n. limit_param q = Inr n))"
  using param_errors(1) [of q "''from''"] param_errors(1) [of q "''to''"] param_errors(2) [of q]
  by (cases "time_param q ''from''"; cases "time_param q ''to''"; cases "limit_param q")
     (auto simp: parseListParams_def split: if_splits)

lemma page_length:
  assumes "1 \<le> n"
  shows "int (length (lr_Payments (page_result L n ps))) \<le> n"
  using assms by (auto simp: page_result_def Let_def)

lemma payment_page_data:
  "payment_page res = Some (JObj ((''data'', JArr data) # rest)) \<Longrightarrow> length data = length (lr_Payments res)"
proof -
  have "all_some xs = Some ys \<Longrightarrow> length ys = length xs" for xs :: "json option list" and ys
    by (induction xs arbitrary: ys) (auto split: option.splits)
  then show "payment_page res = Some (JObj ((''data'', JArr data) # rest)) \<Longrightarrow> length data = length (lr_Payments res)"
    by (fastforce simp: payment_page_def)
qed

lemma run_ListPage:
  assumes "1 \<le> n" "n \<le> 100" "decodeCursor (en_lib E) cursor = Inr after"
    and "run_state (answer writePaymentList (listPage (pg_service E) f cursor n)) w = (resp, v)"
  shows "w_tick v = w_tick w + 1 \<and> w_shared v = en_others E (w_tick w) (w_shared w) \<and>
    (\<forall>data rest. hr_Body resp = JsonBody (JObj ((''data'', JArr data) # rest)) \<longrightarrow> length data \<le> 100)"
proof -
  have err: "hr_Body (error_answer e) \<noteq> JsonBody (JObj ((''data'', JArr data) # rest))" for e data rest
    by (simp add: error_answer_def writeJSON_def body_of_def Let_def)
  have page: "length data \<le> 100"
    if "hr_Body (writePaymentList (page_result L n ps)) = JsonBody (JObj ((''data'', JArr data) # rest))" for L ps data rest
  proof -
    have "payment_page (page_result L n ps) = Some (JObj ((''data'', JArr data) # rest))"
      using that by (simp add: writePaymentList_def writeJSON_def body_of_def split: option.splits)
    from payment_page_data [OF this] page_length [OF assms(1), of L ps] assms(2) show ?thesis by linarith
  qed
  show ?thesis
    using assms(3,4) err page
    by (auto simp: answer_def listPage_def pg_ports repo_ListPaginated_def query_def run_act split: option.splits sum.splits)
qed

text \<open>
  C31: the parameters of a list are checked before anything runs. A listing by an authenticated caller
  with a malformed \<open>from\<close>, \<open>to\<close>, \<open>limit\<close> or \<open>cursor\<close> is answered with 400 and reaches neither the database
  nor the cache; with well-formed ones, whatever the page size asked for, it costs exactly one statement,
  changes nothing, and a page holds at most a hundred payments.
\<close>

theorem list_parameters_are_checked:
  assumes "rq_Path r = [''payments'']" "rq_Method r = ''GET''"
    and "CallerAuth (hc_KeyHashes cfg) (rq_Headers r) = Inr caller"
    and "run_state (http_serve (pg_service E) cfg r) w = (resp, v)"
  shows "if list_params_ok (en_lib E) (rq_Query r)
    then w_tick v = w_tick w + 1 \<and> w_shared v = en_others E (w_tick w) (w_shared w) \<and>
      (\<forall>data rest. hr_Body resp = JsonBody (JObj ((''data'', JArr data) # rest)) \<longrightarrow> length data \<le> 100)
    else v = w \<and> hr_Status resp = 400"
proof -
  let ?q = "rq_Query r" and ?S = "pg_service E"
  have bad: "hr_Status (error_answer (InvalidInput msg)) = 400" for msg
    by (simp add: error_answer_def writeJSON_def WriteError_def Let_def InvalidInput_def)
  have caller: "caller \<noteq> []" using assms(3) by (simp add: CallerAuth_Inr)
  have run: "run_state (ListPayments ?S caller r) w = (resp, v)"
    using assms by (simp add: serve_payments serve_caller_def caller_route_def is_get_def)
  consider msg where "parseListParams (rq_FromFirst r) ?q = Inl (InvalidInput msg)" "\<not> list_params_ok (en_lib E) ?q"
    | p where "parseListParams (rq_FromFirst r) ?q = Inr p" "lp_Cursor p = Header_Get ?q ''cursor''"
        "list_params_ok (en_lib E) ?q \<longleftrightarrow> (\<exists>c. decodeCursor (en_lib E) (Header_Get ?q ''cursor'') = Inr c)"
    using parse_list [of "rq_FromFirst r" ?q] unfolding param_ok list_params_ok_def by auto
  then show ?thesis
  proof cases
    case 1
    then show ?thesis using run bad by (auto simp: ListPayments_def)
  next
    case 2
    let ?n = "clampLimit (lp_Limit p) 50"
    have n: "1 \<le> ?n" "?n \<le> 100" by (auto simp: clampLimit_def maxPageSize_def)
    have lib: "lib ?S = en_lib E" by (simp add: pg_ports)
    from run 2 caller obtain f where page: "run_state (answer writePaymentList
        (listPage ?S f (Header_Get ?q ''cursor'') ?n)) w = (resp, v)"
      by (auto simp: ListPayments_def ListPayments_Handle_def)
    show ?thesis
    proof (cases "decodeCursor (en_lib E) (Header_Get ?q ''cursor'')")
      case (Inl e)
      with page lib bad decodeCursor_Inl [OF Inl] 2(3) show ?thesis
        by (auto simp: listPage_def answer_def invalidCursor_def)
    next
      case (Inr c)
      from run_ListPage [OF n Inr page] 2(3) Inr show ?thesis by simp
    qed
  qed
qed

text \<open>A cursor that is not base64.\<close>

lemma list_parameters_are_checked_witness:
  "\<exists>resp. run_state (http_serve (pg_service ex_env) ex_config
      ((ex_http ''GET'' [''payments''] None)\<lparr>rq_Query := [(''cursor'', [''!''])]\<rparr>)) ex_paid_world = (resp, ex_paid_world) \<and>
     hr_Status resp = 400"
proof -
  let ?r = "(ex_http ''GET'' [''payments''] None)\<lparr>rq_Query := [(''cursor'', [''!''])]\<rparr>"
  obtain resp v where run: "run_state (http_serve (pg_service ex_env) ex_config ?r) ex_paid_world = (resp, v)" by fastforce
  have "decodeCursor L ''!'' = Inl invalidCursor" for L by (simp add: decodeCursor_def base64_decode_def b64_val_def)
  then have "\<not> list_params_ok (en_lib ex_env) (rq_Query ?r)" by (simp add: list_params_ok_def Header_Get_def)
  with list_parameters_are_checked [OF _ _ _ run, of "''s''"] ex_auth(2) [of "''GET''" "[''payments'']" None]
  have "v = ex_paid_world \<and> hr_Status resp = 400" by (simp add: ex_http_def)
  with run show ?thesis by blast
qed

end
