(* ===== verification/Openapi.thy ===== *)
theory Openapi
  imports Http_Handlers
begin

text \<open>
  The types \<open>openapi_gen.go\<close> declares for the answers of the API, as descriptions of the JSON values
  that are values of them. A \<open>struct\<close> is the list of its fields with their JSON names, whether the tag
  says \<open>omitempty\<close>, and their types; a string type with constants is an enumeration, given by its
  \<open>Valid\<close>. Embedded in them is what the handlers promise to their callers.
\<close>

section \<open>Types and their values\<close>

datatype go_type =
    TString
  | TInt32
  | TInt64
  | TBool
  | TTime
  | TUUID
  | TMap
  | TEnum "string \<Rightarrow> bool"
  | TSlice go_type
  | TStruct "(string \<times> bool \<times> go_type) list"

definition int_lit :: "int \<Rightarrow> string \<Rightarrow> bool" where
  "int_lit b s \<longleftrightarrow> (case parse_int s of None \<Rightarrow> False | Some n \<Rightarrow> - b \<le> n \<and> n < b)"

text \<open>
  The values of a type: a struct has no member twice, no member the type does not name, and every
  member that is not \<open>omitempty\<close>. \<open>TTime\<close> accepts the texts that \<open>time.Time\<close> decodes.
\<close>

fun conforms :: "uuid_lib \<Rightarrow> go_type \<Rightarrow> json \<Rightarrow> bool"
  and conforms_fields :: "uuid_lib \<Rightarrow> (string \<times> bool \<times> go_type) list \<Rightarrow> jobj \<Rightarrow> bool" where
  "conforms L TString j \<longleftrightarrow> (case j of JStr s \<Rightarrow> True | _ \<Rightarrow> False)"
| "conforms L TInt32 j \<longleftrightarrow> (case j of JNum s \<Rightarrow> int_lit (2 ^ 31) s | _ \<Rightarrow> False)"
| "conforms L TInt64 j \<longleftrightarrow> (case j of JNum s \<Rightarrow> int_lit (2 ^ 63) s | _ \<Rightarrow> False)"
| "conforms L TBool j \<longleftrightarrow> (case j of JBool b \<Rightarrow> True | _ \<Rightarrow> False)"
| "conforms L TTime j \<longleftrightarrow> (case j of JTime t \<Rightarrow> year_ok t | JStr s \<Rightarrow> parse_strict s \<noteq> None | _ \<Rightarrow> False)"
| "conforms L TUUID j \<longleftrightarrow> (case j of JStr s \<Rightarrow> uuid_Parse L s \<noteq> None | _ \<Rightarrow> False)"
| "conforms L TMap j \<longleftrightarrow> (case j of JObj m \<Rightarrow> True | _ \<Rightarrow> False)"
| "conforms L (TEnum valid) j \<longleftrightarrow> (case j of JStr s \<Rightarrow> valid s | _ \<Rightarrow> False)"
| "conforms L (TSlice t) j \<longleftrightarrow> (case j of JArr vs \<Rightarrow> list_all (conforms L t) vs | _ \<Rightarrow> False)"
| "conforms L (TStruct fs) j \<longleftrightarrow>
     (case j of
        JObj m \<Rightarrow> distinct (map fst m) \<and> set (map fst m) \<subseteq> set (map fst fs) \<and> conforms_fields L fs m
      | _ \<Rightarrow> False)"
| "conforms_fields L [] m \<longleftrightarrow> True"
| "conforms_fields L ((k, omitempty, t) # fs) m \<longleftrightarrow>
     (case map_of m k of None \<Rightarrow> omitempty | Some v \<Rightarrow> conforms L t v) \<and> conforms_fields L fs m"

section \<open>Enumerations\<close>

definition AdminAttemptOperation_Valid :: "string \<Rightarrow> bool" where
  "AdminAttemptOperation_Valid e \<longleftrightarrow> e \<in> set [''CANCEL'', ''CHARGE'', ''REFUND'', ''STATUS'']"

definition AdminAttemptStatus_Valid :: "string \<Rightarrow> bool" where
  "AdminAttemptStatus_Valid e \<longleftrightarrow> e \<in> set [''FAILED'', ''SUCCEEDED'', ''UNKNOWN'']"

definition AdminForceExpireResponseStatus_Valid :: "string \<Rightarrow> bool" where
  "AdminForceExpireResponseStatus_Valid e \<longleftrightarrow> e \<in> set [''EXPIRED'']"

definition CancelPaymentResponseStatus_Valid :: "string \<Rightarrow> bool" where
  "CancelPaymentResponseStatus_Valid e \<longleftrightarrow> e \<in> set [''CANCELLED'']"

definition CreatePaymentResponseStatus_Valid :: "string \<Rightarrow> bool" where
  "CreatePaymentResponseStatus_Valid e \<longleftrightarrow>
     e \<in> set [''CANCELLED'', ''COMPLETED'', ''EXPIRED'', ''FAILED'', ''INITIATED'', ''PARTIALLY_REFUNDED'', ''PENDING'',
       ''PROCESSING'', ''REFUNDED'']"

definition ErrorResponseCode_Valid :: "string \<Rightarrow> bool" where
  "ErrorResponseCode_Valid e \<longleftrightarrow>
     e \<in> set [''ALREADY_EXISTS'', ''GATEWAY_ERROR'', ''IDEMPOTENCY_CONFLICT'', ''INTERNAL_ERROR'', ''INVALID_INPUT'',
       ''INVALID_STATE'', ''NOT_FOUND'']"

definition NextActionType_Valid :: "string \<Rightarrow> bool" where
  "NextActionType_Valid e \<longleftrightarrow> e \<in> set [''DISPLAY_QR'', ''DISPLAY_VA'', ''NONE'', ''REDIRECT'']"

definition PaymentStatus_Valid :: "string \<Rightarrow> bool" where
  "PaymentStatus_Valid e \<longleftrightarrow>
     e \<in> set [''CANCELLED'', ''COMPLETED'', ''EXPIRED'', ''FAILED'', ''INITIATED'', ''PARTIALLY_REFUNDED'', ''PENDING'',
       ''PROCESSING'', ''REFUNDED'']"

definition RefundStatus_Valid :: "string \<Rightarrow> bool" where
  "RefundStatus_Valid e \<longleftrightarrow> e \<in> set [''FAILED'', ''PENDING'', ''SUCCEEDED'']"

definition CreatePaymentRequestGatewayType_Valid :: "string \<Rightarrow> bool" where
  "CreatePaymentRequestGatewayType_Valid e \<longleftrightarrow> e \<in> set [''MIDTRANS'']"

definition CreatePaymentRequestPaymentMethodType_Valid :: "string \<Rightarrow> bool" where
  "CreatePaymentRequestPaymentMethodType_Valid e \<longleftrightarrow>
     e \<in> set [''CARD'', ''GOPAY'', ''QRIS'', ''SHOPEEPAY'', ''VIRTUAL_ACCOUNT'']"

text \<open>The methods of the document are those of the domain: what \<open>ParseMethod\<close> returns is one of them.\<close>

lemma documented_methods: "CreatePaymentRequestPaymentMethodType_Valid m \<longleftrightarrow> m \<in> set knownMethods"
  by (auto simp: CreatePaymentRequestPaymentMethodType_Valid_def knownMethods_def method_defs)

lemma ParseMethod_documented: "ParseMethod s = Inr m \<Longrightarrow> CreatePaymentRequestPaymentMethodType_Valid m"
  unfolding documented_methods by (auto simp: ParseMethod_def Let_def split: if_splits)

lemmas Valid_defs =
  AdminAttemptOperation_Valid_def AdminAttemptStatus_Valid_def AdminForceExpireResponseStatus_Valid_def
  CancelPaymentResponseStatus_Valid_def CreatePaymentResponseStatus_Valid_def ErrorResponseCode_Valid_def
  NextActionType_Valid_def PaymentStatus_Valid_def RefundStatus_Valid_def

section \<open>Structs\<close>

abbreviation field :: "string \<Rightarrow> go_type \<Rightarrow> string \<times> bool \<times> go_type" where
  "field k t \<equiv> (k, False, t)"

abbreviation optional :: "string \<Rightarrow> go_type \<Rightarrow> string \<times> bool \<times> go_type" where
  "optional k t \<equiv> (k, True, t)"

definition AdminAttempt :: go_type where
  "AdminAttempt = TStruct
     [field ''attempt_number'' TInt32, field ''created_at'' TTime, optional ''duration_ms'' TInt64,
      optional ''error_code'' TString, optional ''error_message'' TString,
      optional ''gateway_transaction_id'' TString, field ''id'' TUUID,
      field ''operation'' (TEnum AdminAttemptOperation_Valid), optional ''refund_id'' TUUID,
      field ''status'' (TEnum AdminAttemptStatus_Valid)]"

definition AdminAttemptsResponse :: go_type where
  "AdminAttemptsResponse = TStruct [field ''data'' (TSlice AdminAttempt)]"

definition AdminEvent :: go_type where
  "AdminEvent = TStruct
     [field ''created_at'' TTime, field ''event_type'' TString, field ''id'' TUUID, field ''payload'' TMap,
      field ''sequence_number'' TInt32]"

definition AdminEventsResponse :: go_type where
  "AdminEventsResponse = TStruct [field ''data'' (TSlice AdminEvent)]"

definition AdminForceExpireResponse :: go_type where
  "AdminForceExpireResponse = TStruct
     [field ''payment_id'' TUUID, field ''status'' (TEnum AdminForceExpireResponseStatus_Valid)]"

text \<open>An \<open>int\<close> of Go is 64 bits wide.\<close>

definition AdminOutboxStatsResponse :: go_type where
  "AdminOutboxStatsResponse = TStruct
     [field ''failed'' TInt64, field ''oldest_pending_age_seconds'' TInt64, field ''pending'' TInt64,
      field ''published'' TInt64]"

definition Payment_api :: go_type where
  "Payment_api = TStruct
     [field ''amount'' TInt64, field ''caller_service'' TString, field ''created_at'' TTime,
      field ''currency'' TString, field ''customer'' TMap, optional ''description'' TString,
      optional ''expired_at'' TTime, field ''gateway'' TString, optional ''gateway_transaction_id'' TString,
      field ''id'' TUUID, optional ''metadata'' TMap, optional ''paid_at'' TTime,
      field ''payment_method_type'' TString, field ''reference_id'' TString,
      field ''status'' (TEnum PaymentStatus_Valid), field ''updated_at'' TTime]"

definition AdminRefund :: go_type where
  "AdminRefund = TStruct
     [field ''amount'' TInt64, field ''created_at'' TTime, optional ''gateway_refund_id'' TString, field ''id'' TUUID,
      optional ''reason'' TString, field ''reference_id'' TString, field ''status'' TString]"

definition AdminPaymentDetailResponse :: go_type where
  "AdminPaymentDetailResponse = TStruct
     [field ''attempts'' (TSlice AdminAttempt), field ''events'' (TSlice AdminEvent), field ''payment'' Payment_api,
      field ''payment_id'' TUUID, field ''refunds'' (TSlice AdminRefund)]"

definition AdminRefundsResponse :: go_type where
  "AdminRefundsResponse = TStruct [field ''data'' (TSlice AdminRefund)]"

definition CancelPaymentResponse :: go_type where
  "CancelPaymentResponse = TStruct
     [field ''payment_id'' TString, field ''status'' (TEnum CancelPaymentResponseStatus_Valid)]"

definition NextAction_api :: go_type where
  "NextAction_api = TStruct
     [optional ''bank'' TString, optional ''expires_at'' TTime, optional ''qr_image_url'' TString,
      optional ''qr_string'' TString, optional ''redirect_url'' TString,
      field ''type'' (TEnum NextActionType_Valid), optional ''va_number'' TString]"

definition CreatePaymentResponse :: go_type where
  "CreatePaymentResponse = TStruct
     [field ''amount'' TInt64, field ''created_at'' TTime, field ''currency'' TString,
      optional ''next_action'' NextAction_api, field ''payment_id'' TString,
      optional ''payment_instructions'' TMap, field ''reference_id'' TString,
      field ''status'' (TEnum CreatePaymentResponseStatus_Valid)]"

definition ErrorResponse :: go_type where
  "ErrorResponse = TStruct [field ''code'' (TEnum ErrorResponseCode_Valid), field ''message'' TString]"

definition PaymentListResponse :: go_type where
  "PaymentListResponse = TStruct
     [field ''data'' (TSlice Payment_api), field ''meta'' (TStruct
        [field ''count'' TInt64, field ''has_more'' TBool, optional ''next_cursor'' TString])]"

definition Refund_api :: go_type where
  "Refund_api = TStruct
     [field ''amount'' TInt64, optional ''completed_at'' TTime, field ''created_at'' TTime,
      optional ''failure_reason'' TString, optional ''gateway_refund_id'' TString, optional ''reason'' TString,
      field ''reference_id'' TString, field ''refund_id'' TString, field ''status'' (TEnum RefundStatus_Valid)]"

definition RefundPaymentSummary :: go_type where
  "RefundPaymentSummary = TStruct
     [field ''amount'' TInt64, field ''payment_id'' TString, field ''refundable_amount'' TInt64,
      field ''refunded_amount'' TInt64, field ''status'' TString]"

definition RefundListResponse :: go_type where
  "RefundListResponse = TStruct [field ''data'' (TSlice Refund_api), field ''payment'' RefundPaymentSummary]"

definition RefundResponse :: go_type where
  "RefundResponse = TStruct [field ''payment'' RefundPaymentSummary, field ''refund'' Refund_api]"

lemmas api_defs =
  AdminAttempt_def AdminAttemptsResponse_def AdminEvent_def AdminEventsResponse_def AdminForceExpireResponse_def
  AdminOutboxStatsResponse_def Payment_api_def AdminRefund_def AdminPaymentDetailResponse_def
  AdminRefundsResponse_def CancelPaymentResponse_def NextAction_api_def CreatePaymentResponse_def
  ErrorResponse_def PaymentListResponse_def Refund_api_def RefundPaymentSummary_def RefundListResponse_def
  RefundResponse_def

section \<open>Values the handlers build\<close>

lemma int_lit_sint [simp]: "int_lit 9223372036854775808 (int_str (sint (n :: int64)))"
  using sint_greater_eq [of n] sint_less [of n] by (simp add: int_lit_def parse_int_str)

text \<open>
  An object is a value of a struct when its members are, one by one, those of different fields, and the
  fields without \<open>omitempty\<close> are among them.
\<close>

definition member_ok :: "uuid_lib \<Rightarrow> (string \<times> bool \<times> go_type) list \<Rightarrow> string \<times> json \<Rightarrow> bool" where
  "member_ok L fs kv \<longleftrightarrow> (case map_of fs (fst kv) of None \<Rightarrow> False | Some (b, t) \<Rightarrow> conforms L t (snd kv))"

lemma conforms_fieldsI:
  "\<forall>(k, b, t) \<in> set fs. (case map_of m k of None \<Rightarrow> b | Some v \<Rightarrow> conforms L t v) \<Longrightarrow> conforms_fields L fs m"
  by (induction fs) auto

lemma conforms_StructI:
  assumes "distinct (map fst m)" "list_all (member_ok L fs) m" "list_all (\<lambda>(k, b, t). b \<or> k \<in> fst ` set m) fs"
    and "distinct (map fst fs)"
  shows "conforms L (TStruct fs) (JObj m)"
proof -
  have "case map_of m k of None \<Rightarrow> b | Some v \<Rightarrow> conforms L t v" if "(k, b, t) \<in> set fs" for k b t
  proof (cases "map_of m k")
    case None
    then have "k \<notin> fst ` set m" by (simp add: map_of_eq_None_iff)
    with None that assms(3) show ?thesis by (auto simp: list_all_iff)
  next
    case (Some v)
    then have "member_ok L fs (k, v)" using assms(2) map_of_SomeD by (fastforce simp: list_all_iff)
    moreover have "map_of fs k = Some (b, t)" using that assms(4) by simp
    ultimately show ?thesis using Some by (simp add: member_ok_def)
  qed
  then have "conforms_fields L fs m" by (intro conforms_fieldsI) auto
  moreover have "fst ` set m \<subseteq> fst ` set fs"
  proof
    fix k assume "k \<in> fst ` set m"
    then obtain v where "(k, v) \<in> set m" by auto
    with assms(2) have "map_of fs k \<noteq> None" by (fastforce simp: list_all_iff member_ok_def split: option.splits)
    then show "k \<in> fst ` set fs" by (simp add: map_of_eq_None_iff)
  qed
  ultimately show ?thesis using assms(1) by simp
qed

text \<open>The members that \<open>omitempty\<close> may leave out.\<close>

lemma omit_map_if: "omit_map k obj = (if obj = None \<or> obj = Some [] then [] else [(k, JObj (the obj))])"
  by (auto simp: omit_map_def split: option.split list.split)

lemmas omit_if = omit_str_def omit_time_def omit_nil_def omit_map_if

lemma mem_omit [simp]:
  "k' \<in> fst ` set (omit_str k s) \<longleftrightarrow> k' = k \<and> s \<noteq> []"
  "k' \<in> fst ` set (omit_time k t) \<longleftrightarrow> k' = k \<and> t \<noteq> None"
  "k' \<in> fst ` set (omit_nil k f x) \<longleftrightarrow> k' = k \<and> x \<noteq> None"
  "k' \<in> fst ` set (omit_map k obj) \<longleftrightarrow> k' = k \<and> obj \<noteq> None \<and> obj \<noteq> Some []"
  by (auto simp: omit_if split: option.split)

lemma list_all_omit [simp]:
  "list_all P (omit_str k s) \<longleftrightarrow> (s \<noteq> [] \<longrightarrow> P (k, JStr s))"
  "list_all P (omit_time k t) \<longleftrightarrow> (\<forall>u. t = Some u \<longrightarrow> P (k, JTime u))"
  "list_all P (omit_nil k f x) \<longleftrightarrow> (\<forall>a. x = Some a \<longrightarrow> P (k, f a))"
  "list_all P (omit_map k obj) \<longleftrightarrow> (\<forall>m. obj = Some m \<longrightarrow> m \<noteq> [] \<longrightarrow> P (k, JObj m))"
  by (auto simp: omit_if split: option.split)

lemma distinct_omit [simp]:
  "distinct (map fst (omit_str k s))" "distinct (map fst (omit_time k t))" "distinct (map fst (omit_nil k f x))"
  "distinct (map fst (omit_map k obj))"
  by (simp_all add: omit_if split: option.split)

lemma disjoint_omit [simp]:
  "fst ` set (omit_str k s) \<inter> B = {} \<longleftrightarrow> s = [] \<or> k \<notin> B"
  "fst ` set (omit_time k t) \<inter> B = {} \<longleftrightarrow> t = None \<or> k \<notin> B"
  "fst ` set (omit_nil k f x) \<inter> B = {} \<longleftrightarrow> x = None \<or> k \<notin> B"
  "fst ` set (omit_map k obj) \<inter> B = {} \<longleftrightarrow> obj = None \<or> obj = Some [] \<or> k \<notin> B"
  by (auto simp: omit_if split: option.split)

lemma conforms_view:
  assumes "marshal_dto d = Some j" "view_ok d" "uuid_Parse L (pd_ID d) \<noteq> None"
  shows "conforms L Payment_api j"
proof -
  have j: "j = JObj (view_obj d)" and times: "year_ok (pd_CreatedAt d)" "year_ok (pd_UpdatedAt d)"
    "\<forall>t. pd_ExpiredAt d = Some t \<longrightarrow> year_ok t" "\<forall>t. pd_PaidAt d = Some t \<longrightarrow> year_ok t"
    using assms(1) by (auto simp: marshal_dto_def split: if_splits)
  obtain c where c: "pd_CustomerInfo d = Some c" using assms(2) by (auto simp: view_ok_def)
  obtain st where st: "pd_Status d = status_str st" using assms(2) by (auto simp: view_ok_def)
  have "PaymentStatus_Valid (status_str st)" by (cases st) (simp_all add: PaymentStatus_Valid_def)
  then show ?thesis
    using times assms(3) unfolding j view_obj_def Payment_api_def
    by (intro conforms_StructI) (simp_all add: c st json_int64_def image_Un member_ok_def del: not_None_eq)
qed

lemma conforms_NextAction:
  assumes "na_ExpiresAt a = None \<or> year_ok (the (na_ExpiresAt a))"
  shows "conforms L NextAction_api (JObj (toNextAction a))"
proof -
  have "NextActionType_Valid (next_action_str t)" if "t \<noteq> NextActionUnset" for t
    using that by (cases t) (simp_all add: NextActionType_Valid_def)
  then have "NextActionType_Valid (next_action_str (if na_Type a = NextActionUnset then NextActionNone else na_Type a))"
    by simp
  then show ?thesis
    using assms unfolding NextAction_api_def toNextAction_def
    by (intro conforms_StructI) (auto simp: member_ok_def simp flip: not_None_eq)
qed

lemma conforms_created:
  assumes "create_body L p a = Some j"
  shows "conforms L CreatePaymentResponse j"
proof -
  have j: "j = JObj (toCreatePaymentResponse L p a)" and times: "year_ok (p_CreatedAt p)"
    "na_ExpiresAt a = None \<or> year_ok (the (na_ExpiresAt a))"
    using assms by (auto simp: create_body_def split: if_splits option.splits)
  have "CreatePaymentResponseStatus_Valid (status_str (p_Status p))"
    by (cases "p_Status p") (simp_all add: CreatePaymentResponseStatus_Valid_def)
  then show ?thesis
    using times conforms_NextAction [OF times(2)]
    unfolding j toCreatePaymentResponse_def CreatePaymentResponse_def
    by (intro conforms_StructI) (simp_all add: json_int64_def image_Un member_ok_def)
qed

lemma conforms_refund:
  assumes "toRefund L r = Some j"
  shows "conforms L Refund_api j"
proof -
  have "RefundStatus_Valid (refund_status_str (r_Status r))" by (cases "r_Status r") (simp_all add: RefundStatus_Valid_def)
  moreover have times: "year_ok (r_CreatedAt r)" "\<forall>t. r_CompletedAt r = Some t \<longrightarrow> year_ok t"
    using assms by (auto simp: toRefund_def split: if_splits option.splits)
  moreover obtain m where "j = JObj m" "m = [(''amount'', json_int64 (r_Amount r))] @ omit_time ''completed_at'' (r_CompletedAt r) @
      [(''created_at'', JTime (r_CreatedAt r))] @ omit_nil ''failure_reason'' JStr (optStr (r_FailureReason r)) @
      omit_nil ''gateway_refund_id'' JStr (optStr (r_GatewayRefundID r)) @ omit_nil ''reason'' JStr (optStr (r_Reason r)) @
      [(''reference_id'', JStr (r_ReferenceID r)), (''refund_id'', JStr (uuid_String L (r_ID r))),
       (''status'', JStr (refund_status_str (r_Status r)))]"
    using assms unfolding toRefund_def by (auto split: if_splits option.splits)
  ultimately show ?thesis
    unfolding Refund_api_def
    by (simp only:) (rule conforms_StructI, simp_all add: json_int64_def image_Un member_ok_def)
qed

lemma conforms_summary: "conforms L RefundPaymentSummary (toRefundPaymentSummary L p)"
  unfolding toRefundPaymentSummary_def RefundPaymentSummary_def
  by (rule conforms_StructI) (simp_all add: json_int64_def member_ok_def)

lemma all_some_conforms:
  assumes "all_some (map f xs) = Some js" "\<And>x j. x \<in> set xs \<Longrightarrow> f x = Some j \<Longrightarrow> conforms L t j"
  shows "list_all (conforms L t) js"
  using assms
proof (induction xs arbitrary: js)
  case (Cons x xs)
  then obtain j js' where "f x = Some j" "all_some (map f xs) = Some js'" "js = j # js'"
    by (auto split: option.splits)
  with Cons show ?case by (metis list.pred_inject(2) list.set_intros)
qed simp

lemma conforms_page:
  assumes "payment_page res = Some j" "int (length (lr_Payments res)) < 2 ^ 63"
    and "\<And>d. d \<in> set (lr_Payments res) \<Longrightarrow> view_ok d \<and> uuid_Parse L (pd_ID d) \<noteq> None"
  shows "conforms L PaymentListResponse j"
proof -
  obtain data where data: "all_some (map marshal_dto (lr_Payments res)) = Some data" and j: "j = JObj [(''data'', JArr data),
      (''meta'', JObj ([(''count'', json_int (int (length (lr_Payments res))))] @ omit_str ''next_cursor'' (lr_NextCursor res) @
        [(''has_more'', JBool (lr_NextCursor res \<noteq> []))]))]"
    using assms(1) by (auto simp: payment_page_def)
  have data_ok: "list_all (conforms L Payment_api) data"
    using data by (rule all_some_conforms) (use assms(3) conforms_view in blast)
  have "int_lit 9223372036854775808 (int_str (int (length (lr_Payments res))))"
    using assms(2) by (simp add: int_lit_def parse_int_str)
  then have "conforms L (TStruct [field ''count'' TInt64, field ''has_more'' TBool, optional ''next_cursor'' TString])
      (JObj ([(''count'', json_int (int (length (lr_Payments res))))] @ omit_str ''next_cursor'' (lr_NextCursor res) @
        [(''has_more'', JBool (lr_NextCursor res \<noteq> []))]))" (is "conforms L ?t ?v")
    by (intro conforms_StructI) (simp_all add: json_int_def image_Un member_ok_def)
  then obtain t v where meta: "?t = t" "?v = v" "conforms L t v" by blast
  show ?thesis
    unfolding j PaymentListResponse_def meta(1,2)
    by (rule conforms_StructI) (simp_all add: member_ok_def meta(3) data_ok)
qed

text \<open>
  An error conforms exactly when its code is one of the seven the document lists: \<open>CONFLICT\<close>,
  \<open>UNAUTHORIZED\<close> and \<open>FORBIDDEN\<close> are sent as well.
\<close>

definition undocumented_codes :: "string list" where
  "undocumented_codes = map code_str [CodeConflict, CodeUnauthorized, CodeForbidden]"

lemma WriteError_code: "\<exists>c. er_code (WriteError e) = code_str c"
  by (cases "errors_As e") (auto simp: WriteError_def intro: exI [of _ CodeInternalError])

lemma conforms_error:
  assumes "hr_Body (error_answer e) = JsonBody j"
  shows "conforms L ErrorResponse j \<longleftrightarrow> er_code (WriteError e) \<notin> set undocumented_codes"
proof -
  obtain c where c: "er_code (WriteError e) = code_str c" using WriteError_code by blast
  have "ErrorResponseCode_Valid (code_str c) \<longleftrightarrow> code_str c \<notin> set undocumented_codes"
    by (cases c) (simp_all add: ErrorResponseCode_Valid_def undocumented_codes_def)
  moreover have "j = JObj [(''code'', JStr (code_str c)), (''message'', JStr (er_message (WriteError e)))]"
    using assms c by (simp add: error_answer_def writeJSON_def body_of_def Let_def)
  ultimately show ?thesis using c by (simp add: ErrorResponse_def)
qed

end
