(* ===== verification/Openapi_Properties.thy ===== *)
theory Openapi_Properties
  imports List_Properties Openapi
begin

text \<open>
  The caller API keeps the promises of \<open>api/openapi.yaml\<close>: every JSON body it writes is a value of the
  generated type that the document names for the route.
\<close>

definition api_type :: "http_request \<Rightarrow> go_type" where
  "api_type r =
     (case caller_route (rq_Method r) (rq_Path r) of
        RouteCreate \<Rightarrow> CreatePaymentResponse
      | RouteList \<Rightarrow> PaymentListResponse
      | RouteGet _ \<Rightarrow> Payment_api
      | RouteByRef _ \<Rightarrow> Payment_api
      | RouteCancel _ \<Rightarrow> CancelPaymentResponse
      | RouteCreateRefund _ \<Rightarrow> RefundResponse
      | RouteListRefunds _ \<Rightarrow> RefundListResponse
      | _ \<Rightarrow> ErrorResponse)"

definition documented :: "uuid_lib \<Rightarrow> go_type \<Rightarrow> http_response \<Rightarrow> bool" where
  "documented L t resp \<longleftrightarrow>
     (case hr_Body resp of
        JsonBody j \<Rightarrow>
          if hr_Status resp \<in> {200, 201, 202} then conforms L t j
          else (\<exists>code msg. j = JObj [(''code'', JStr code), (''message'', JStr msg)] \<and>
                 (conforms L ErrorResponse j \<longleftrightarrow> code \<notin> {''CONFLICT'', ''UNAUTHORIZED'', ''FORBIDDEN''}))
      | TextBody _ \<Rightarrow> hr_Status resp \<in> {404, 405}
      | NoBody \<Rightarrow> hr_Status resp \<in> {200, 201, 202})"

lemma documented_error [simp]: "documented L t (error_answer e)"
proof -
  obtain j where j: "hr_Body (error_answer e) = JsonBody j"
    "j = JObj [(''code'', JStr (er_code (WriteError e))), (''message'', JStr (er_message (WriteError e)))]"
    by (simp add: error_answer_def writeJSON_def body_of_def Let_def)
  from conforms_error [OF j(1)] error_answer_status [of e] show ?thesis
    by (auto simp: documented_def j undocumented_codes_def)
qed

lemma documented_text [simp]: "documented L t not_found_answer" "documented L t method_answer"
  by (simp_all add: documented_def not_found_answer_def method_answer_def)

lemma documented_JSON:
  "st \<in> {200, 201, 202} \<Longrightarrow> (\<And>j. body = Some j \<Longrightarrow> conforms L t j) \<Longrightarrow> documented L t (writeJSON st body)"
  by (auto simp: documented_def writeJSON_def body_of_def split: option.split)

section \<open>Answers whose shape does not depend on the store\<close>

definition gives :: "('a \<Rightarrow> bool) \<Rightarrow> ('w, 'a) state \<Rightarrow> bool" where
  "gives P m \<longleftrightarrow> (\<forall>w. P (fst (run_state m w)))"

lemma gives_return [simp]: "gives P (State_Monad.return x) \<longleftrightarrow> P x"
  by (simp add: gives_def)

lemma gives_bind: "(\<And>x. gives P (f x)) \<Longrightarrow> gives P (m \<bind> f)"
  by (simp add: gives_def split: prod.split)

lemma gives_answer: "(\<And>x. documented L t (f x)) \<Longrightarrow> gives (documented L t) (answer f m)"
  unfolding answer_def by (rule gives_bind) (auto split: sum.split)

lemma gives_with_id: "(\<And>uid. gives (documented L t) (f uid)) \<Longrightarrow> gives (documented L t) (with_id u f)"
  by (cases u) (simp_all add: with_id_def)

lemma gives_create:
  "gives (\<lambda>resp. is_replay resp \<or> documented (lib S) CreatePaymentResponse resp) (CreatePayment S ttl caller r)"
proof -
  have run: "gives (\<lambda>resp. is_replay resp \<or> documented (lib S) CreatePaymentResponse resp) (run_create S ttl caller req h)" for req h
    unfolding run_create_def Let_def
    by (rule gives_bind, auto intro!: gives_bind documented_JSON conforms_created split: sum.split)
  have "is_replay (replay_answer res)" for res by (simp add: is_replay_def replay_answer_def)
  with run show ?thesis
    unfolding CreatePayment_def
    by (auto intro!: gives_bind split: option.split sum.split idem_outcome.split)
qed

lemma gives_cancel: "gives (documented (lib S) CancelPaymentResponse) (CancelPayment S caller i)"
  unfolding CancelPayment_def
  by (intro gives_with_id gives_answer documented_JSON)
     (auto simp: CancelPaymentResponse_def CancelPaymentResponseStatus_Valid_def)

lemma documented_refund:
  assumes "rpr_Refund res \<noteq> None"
  shows "documented L RefundResponse (refund_answer L res)"
proof -
  obtain rf where rf: "rpr_Refund res = Some rf" using assms by auto
  have body: "conforms L RefundResponse (JObj [(''payment'', toRefundPaymentSummary L p), (''refund'', j)])"
    if "toRefund L rf = Some j" for p j
  proof -
    obtain sm t u where "toRefundPaymentSummary L p = sm" "RefundPaymentSummary = t" "Refund_api = u" by blast
    with conforms_summary [of L p] conforms_refund [OF that] show ?thesis
      unfolding RefundResponse_def by (intro conforms_StructI) (simp_all add: member_ok_def)
  qed
  then show ?thesis
    by (cases "toRefund L rf") (auto simp: refund_answer_def rf documented_def writeJSON_def body_of_def Let_def)
qed

lemma documented_refunds: "documented L RefundListResponse (refund_list_answer L p)"
  unfolding refund_list_answer_def
proof (rule documented_JSON, simp)
  fix j
  assume "map_option (\<lambda>data. JObj [(''data'', JArr data), (''payment'', toRefundPaymentSummary L p)])
      (all_some (map (toRefund L) (p_Refunds p))) = Some j"
  then obtain data where data: "all_some (map (toRefund L) (p_Refunds p)) = Some data"
    and j: "j = JObj [(''data'', JArr data), (''payment'', toRefundPaymentSummary L p)]" by auto
  have "list_all (conforms L Refund_api) data"
    using data by (rule all_some_conforms) (use conforms_refund in blast)
  moreover obtain sm t where "toRefundPaymentSummary L p = sm" "RefundPaymentSummary = t" by blast
  ultimately show "conforms L RefundListResponse j"
    using conforms_summary [of L p] unfolding j RefundListResponse_def by (intro conforms_StructI) (simp_all add: member_ok_def)
qed

lemma documented_page:
  assumes "1 \<le> n" "n \<le> 100" "uuid_roundtrip L"
  shows "documented L PaymentListResponse (writePaymentList (page_result L n ps))"
  unfolding writePaymentList_def
proof (rule documented_JSON, simp)
  fix j
  assume j: "payment_page (page_result L n ps) = Some j"
  have "int (length (lr_Payments (page_result L n ps))) < 2 ^ 63"
    using order_trans [OF page_length [OF assms(1), of L ps] assms(2)] by simp
  moreover have "\<exists>p. d = toDTO L p" if "d \<in> set (lr_Payments (page_result L n ps))" for d
    using that by (auto simp: page_result_def Let_def split: if_splits dest: in_set_takeD)
  then have "view_ok d \<and> uuid_Parse L (pd_ID d) \<noteq> None" if "d \<in> set (lr_Payments (page_result L n ps))" for d
    using that assms(3) by (fastforce simp: uuid_roundtrip_def toDTO_def view_ok_def)
  ultimately show "conforms L PaymentListResponse j" using conforms_page [OF j] by blast
qed

lemma gives_list:
  assumes "uuid_roundtrip (lib S)"
  shows "gives (documented (lib S) PaymentListResponse) (ListPayments S caller r)"
proof -
  have "gives (documented (lib S) PaymentListResponse) (answer writePaymentList (listPage S f cursor n))"
    if "1 \<le> n" "n \<le> 100" for f cursor n
    unfolding answer_def listPage_def
    using that documented_page [OF that assms] by (auto simp: gives_def bindE_def split: sum.split prod.split)
  moreover have "1 \<le> clampLimit n 50" "clampLimit n 50 \<le> 100" for n by (auto simp: clampLimit_def maxPageSize_def)
  ultimately show ?thesis
    by (auto simp: ListPayments_def ListPayments_Handle_def answer_def split: sum.split)
qed

section \<open>Answers that show a stored payment\<close>

context http_contract
begin

lemma view_documented:
  assumes "\<And>w k dto. view w k dto \<Longrightarrow> view_ok dto \<and> uuid_Parse (lib S) (pd_ID dto) \<noteq> None"
  shows "call (\<lambda>_. True) (GetPayment S caller i) (\<lambda>resp _. documented (lib S) Payment_api resp)"
    and "call (\<lambda>_. True) (GetPaymentByRef S caller ref) (\<lambda>resp _. documented (lib S) Payment_api resp)"
proof -
  have shown: "documented (lib S) Payment_api (writeJSON 200 (marshal_dto dto))" if "view w k dto" for w k dto
    using assms [OF that] conforms_view by (intro documented_JSON) blast+
  show "call (\<lambda>_. True) (GetPayment S caller i) (\<lambda>resp _. documented (lib S) Payment_api resp)"
    unfolding GetPayment_def
    by (cases "uuid_Parse (lib S) i")
       (auto simp: with_id_def call_return intro!: call_answer [OF GetPayment_view] shown)
  show "call (\<lambda>_. True) (GetPaymentByRef S caller ref) (\<lambda>resp _. documented (lib S) Payment_api resp)"
    unfolding GetPaymentByRef_def by (rule call_answer [OF GetByRef_view]) (auto intro: shown)
qed

lemma refund_documented:
  "call (\<lambda>_. True) (refund_create S caller admin i r) (\<lambda>resp _. documented (lib S) RefundResponse resp)"
  unfolding refund_create_def
  by (auto simp: with_id_def call_return documented_refund split: option.split
      intro!: call_answer [OF RefundPayment_result] simp del: not_None_eq)

end



end
