(* ===== verification/Server.thy ===== *)
theory Server
  imports Http_Properties Config Midtrans_Charge
begin

text \<open>
  \<open>cmd/server/main.go\<close> around the handlers: the connections the process opens before it serves, the
  server's settings, the multiplexer in front of the caller, webhook and admin routes, the health checks,
  and the middleware that logs and measures every request (\<open>middleware/logger.go\<close>).
\<close>

section \<open>Starting up\<close>

text \<open>
  What the libraries answer when a connection is opened: the OTLP exporter for an endpoint, the pool for
  a DSN and its first ping, Redis for an address and a password, RabbitMQ for a URL.
\<close>

record dials =
  dl_Exporter :: "string \<Rightarrow> goerr option"
  dl_PoolNew :: "string \<Rightarrow> goerr option"
  dl_PoolPing :: "string \<Rightarrow> goerr option"
  dl_Redis :: "string \<Rightarrow> string \<Rightarrow> goerr option"
  dl_RabbitMQ :: "string \<Rightarrow> goerr option"

definition InitTracer :: "dials \<Rightarrow> string \<Rightarrow> goerr option" where
  "InitTracer D endpoint =
     (if endpoint = [] then None
      else (case dl_Exporter D endpoint of
          None \<Rightarrow> None
        | Some e \<Rightarrow> Some (FmtErrorf (''otlp exporter: '' @ error_text e) e)))"

definition pool_dsn :: "config \<Rightarrow> string" where
  "pool_dsn cfg =
     ''host='' @ cf_DBHost cfg @ '' port='' @ int_str (cf_DBPort cfg) @ '' dbname='' @ cf_DBName cfg @
     '' user='' @ cf_DBUser cfg @ '' password='' @ cf_DBPassword cfg @ '' sslmode=disable pool_max_conns='' @
     int_str (cf_DBMaxConns cfg)"

definition NewPool :: "dials \<Rightarrow> config \<Rightarrow> goerr option" where
  "NewPool D cfg =
     (case dl_PoolNew D (pool_dsn cfg) of
        Some e \<Rightarrow> Some (FmtErrorf (''pgxpool.New: '' @ error_text e) e)
      | None \<Rightarrow>
          (case dl_PoolPing D (pool_dsn cfg) of
             Some e \<Rightarrow> Some (FmtErrorf (''postgres ping: '' @ error_text e) e)
           | None \<Rightarrow> None))"

text \<open>Each step that fails ends the process with status 1; \<open>Inr\<close> is the configuration it serves with.\<close>

definition main_start :: "(string \<Rightarrow> string) \<Rightarrow> dials \<Rightarrow> int + config" where
  "main_start getenv D =
     (case Load getenv of
        Inl _ \<Rightarrow> Inl 1
      | Inr cfg \<Rightarrow>
          if InitTracer D (cf_OTelEndpoint cfg) \<noteq> None then Inl 1
          else if NewPool D cfg \<noteq> None then Inl 1
          else if dl_Redis D (cf_RedisAddr cfg) (cf_RedisPassword cfg) \<noteq> None then Inl 1
          else if dl_RabbitMQ D (cf_RabbitMQURL cfg) \<noteq> None then Inl 1
          else Inr cfg)"

record http_server =
  hs_Addr :: string
  hs_ReadTimeout :: duration
  hs_WriteTimeout :: duration
  hs_IdleTimeout :: duration

definition main_server :: "config \<Rightarrow> http_server" where
  "main_server cfg =
     \<lparr>hs_Addr = '':'' @ int_str (cf_ServerPort cfg), hs_ReadTimeout = 10 * time_Second,
      hs_WriteTimeout = 30 * time_Second, hs_IdleTimeout = 60 * time_Second\<rparr>"

text \<open>A server whose timeouts are not set has none: they are zero.\<close>

definition metrics_server :: "config \<Rightarrow> http_server" where
  "metrics_server cfg =
     \<lparr>hs_Addr = '':'' @ int_str (cf_MetricsPort cfg), hs_ReadTimeout = 0, hs_WriteTimeout = 0, hs_IdleTimeout = 0\<rparr>"

text \<open>The adapter \<open>main\<close> builds; \<open>lib\<close> and \<open>net\<close> are the libraries and the network it will use.\<close>

definition main_midtrans :: "config \<Rightarrow> wire_lib \<Rightarrow> (wire_request \<Rightarrow> wire_reply) \<Rightarrow> midtrans" where
  "main_midtrans cfg L net =
     NewAdapter \<lparr>mt_ServerKey = cf_MidtransServerKey cfg, mt_BaseURL = cf_MidtransBaseURL cfg,
      mt_Timeout = millis (cf_MidtransTimeoutMs cfg), mt_NotificationURL = cf_MidtransNotificationURL cfg, mt_QRISAcquirer = cf_MidtransQRISAcquirer cfg,
      mt_lib = L, mt_net = net\<rparr>"

text \<open>The ticker loops, with their periods.\<close>

datatype worker = OutboxLoop int | ExpiryLoop | ReconcilerLoop reconcile_config

definition main_workers :: "config \<Rightarrow> (worker \<times> duration) list" where
  "main_workers cfg =
     [(OutboxLoop 50, 5 * time_Second), (ExpiryLoop, 60 * time_Second),
      (ReconcilerLoop (server_reconcile cfg), cf_ReconcileInterval cfg)]"

section \<open>Migrations\<close>

text \<open>
  \<open>cmd/migrate\<close>: the migration library is a parameter, its \<open>Up\<close> and \<open>Down\<close> on an open migrator included.
  \<open>log.Fatal\<close> prints and exits with status 1.
\<close>

record migrate_lib =
  mg_New :: "string \<Rightarrow> string \<Rightarrow> goerr option"
  mg_Up :: "goerr option"
  mg_Down :: "goerr option"
  mg_ErrNoChange :: goerr

definition migrate_dsn :: "config \<Rightarrow> string" where
  "migrate_dsn cfg = ''postgres://'' @ cf_DBUser cfg @ '':'' @ cf_DBPassword cfg @ ''@'' @ cf_DBHost cfg @ '':'' @
     int_str (cf_DBPort cfg) @ ''/'' @ cf_DBName cfg @ ''?sslmode=disable''"

definition migrate_main :: "migrate_lib \<Rightarrow> (string \<Rightarrow> string) \<Rightarrow> string list \<Rightarrow> int \<times> string" where
  "migrate_main M getenv args =
     (let ran = (\<lambda>res what log. if res \<noteq> None \<and> res \<noteq> Some (mg_ErrNoChange M)
           then (1, ''migrate '' @ what @ '': '' @ error_text (the res)) else (0, log))
      in if length args < 2 then (1, ''usage: migrate <up|down>'')
         else (case Load getenv of
             Inl e \<Rightarrow> (1, ''load config: '' @ error_text e)
           | Inr cfg \<Rightarrow>
               (case mg_New M ''file://migrations'' (migrate_dsn cfg) of
                  Some e \<Rightarrow> (1, ''migrate.New: '' @ error_text e)
                | None \<Rightarrow>
                    if args ! 1 = ''up'' then ran (mg_Up M) ''up'' ''migrations applied''
                    else if args ! 1 = ''down'' then ran (mg_Down M) ''down'' ''migrations rolled back''
                    else (1, ''unknown direction '' @ str_Quote (args ! 1) @ '' '' @ [CHR 0xE2, CHR 0x80, CHR 0x94] @
                           '' use '' @ [CHR 0x27] @ ''up'' @ [CHR 0x27] @ '' or '' @ [CHR 0x27] @ ''down'' @ [CHR 0x27]))))"

section \<open>Health checks and routes\<close>

definition healthz_answer :: http_response where
  "healthz_answer = writeJSON 200 (Some (JObj [(''status'', JStr ''ok'')]))"

text \<open>The checks of Redis and RabbitMQ are constants: their connections are not used.\<close>

definition readyz_answer :: "goerr option \<Rightarrow> http_response" where
  "readyz_answer ping =
     (let postgres = (case ping of None \<Rightarrow> ''ok'' | Some e \<Rightarrow> ''unhealthy: '' @ error_text e)
      in writeJSON (if ping = None then 200 else 503)
           (Some (JObj [(''postgres'', JStr postgres), (''rabbitmq'', JStr ''ok''), (''redis'', JStr ''ok'')])))"

definition readyzHandler :: "('w, goerr option) state \<Rightarrow> ('w, http_response) state" where
  "readyzHandler ping = do { err \<leftarrow> ping; State_Monad.return (readyz_answer err) }"

text \<open>\<open>page\<close> is what \<open>http.ServeFile\<close> makes of \<open>api/openapi.yaml\<close>; \<open>ping\<close> is that of the pool.\<close>

definition server_mux ::
  "'w service \<Rightarrow> http_config \<Rightarrow> ('w, goerr option) state \<Rightarrow> http_response \<Rightarrow> http_request \<Rightarrow> ('w, http_response) state" where
  "server_mux S cfg ping page r =
     (case rq_Path r of
        [a] \<Rightarrow>
          if a \<in> {''openapi.yaml'', ''healthz'', ''readyz''} \<and> \<not> is_get (rq_Method r)
          then State_Monad.return method_answer
          else if a = ''openapi.yaml'' then State_Monad.return page
          else if a = ''healthz'' then State_Monad.return healthz_answer
          else if a = ''readyz'' then readyzHandler ping
          else http_serve S cfg r
      | _ \<Rightarrow> http_serve S cfg r)"

section \<open>The request log\<close>

record response_writer =
  rw_status :: int
  rw_bytes :: nat

definition rw_WriteHeader :: "int \<Rightarrow> response_writer \<Rightarrow> response_writer" where
  "rw_WriteHeader st rw = rw\<lparr>rw_status := st\<rparr>"

definition rw_Write :: "nat \<Rightarrow> response_writer \<Rightarrow> response_writer" where
  "rw_Write n rw = rw\<lparr>rw_bytes := rw_bytes rw + n\<rparr>"

text \<open>
  The bytes a handler writes: \<open>Encode\<close> and \<open>http.Error\<close> end with a newline; a created payment, and its
  replay, is the output of \<open>json.Marshal\<close> as it is.
\<close>

definition marshalled :: "http_request \<Rightarrow> http_response \<Rightarrow> bool" where
  "marshalled r resp \<longleftrightarrow> caller_route (rq_Method r) (rq_Path r) = RouteCreate \<and> (hr_Status resp = 201 \<or> is_replay resp)"

definition body_bytes :: "http_request \<Rightarrow> http_response \<Rightarrow> nat" where
  "body_bytes r resp =
     (case hr_Body resp of
        NoBody \<Rightarrow> 0
      | TextBody t \<Rightarrow> length t + 1
      | JsonBody j \<Rightarrow> length (json_text j) + (if marshalled r resp then 0 else 1))"

record log_line =
  ll_TraceID :: string
  ll_SpanID :: string
  ll_Method :: string
  ll_Path :: string
  ll_CallerService :: string
  ll_Status :: int
  ll_DurationMs :: int
  ll_Bytes :: nat

text \<open>\<open>paygate_http_request_duration_seconds\<close>: its labels, and the duration before its conversion to seconds.\<close>

record request_metric =
  rm_Method :: string
  rm_Path :: string
  rm_Status :: string
  rm_Duration :: duration

definition url_path :: "string list \<Rightarrow> string" where
  "url_path path = (if path = [] then ''/'' else concat (map (\<lambda>s. CHR ''/'' # s) path))"

text \<open>Nothing in the process starts a span, so the identifier is that of none: eight zero bytes.\<close>

definition no_span :: string where "no_span = replicate 16 (CHR ''0'')"

text \<open>\<open>recordCaller\<close> is called by \<open>CallerAuth\<close>, once the key and the service name have been accepted.\<close>

definition recorded_caller :: "http_config \<Rightarrow> http_request \<Rightarrow> string" where
  "recorded_caller cfg r =
     (case rq_Path r of
        a # _ \<Rightarrow> if a = ''payments'' then (case CallerAuth (hc_KeyHashes cfg) (rq_Headers r) of Inl _ \<Rightarrow> [] | Inr s \<Rightarrow> s) else []
      | [] \<Rightarrow> [])"

definition RequestLogger ::
  "'w service \<Rightarrow> http_config \<Rightarrow> http_request \<Rightarrow> ('w, http_response) state \<Rightarrow>
   ('w, http_response \<times> log_line \<times> request_metric) state" where
  "RequestLogger S cfg r handler = do {
     start \<leftarrow> Now S;
     resp \<leftarrow> handler;
     d \<leftarrow> Since S start;
     (let ww = rw_Write (body_bytes r resp) (rw_WriteHeader (hr_Status resp) \<lparr>rw_status = 200, rw_bytes = 0\<rparr>)
      in State_Monad.return (resp,
        \<lparr>ll_TraceID = Header_Get (rq_Headers r) ''X-Trace-Id'', ll_SpanID = no_span, ll_Method = rq_Method r,
         ll_Path = url_path (rq_Path r), ll_CallerService = recorded_caller cfg r, ll_Status = rw_status ww,
         ll_DurationMs = milliseconds d, ll_Bytes = rw_bytes ww\<rparr>,
        \<lparr>rm_Method = rq_Method r, rm_Path = url_path (rq_Path r), rm_Status = int_str (rw_status ww), rm_Duration = d\<rparr>))
   }"

definition server_handle ::
  "'w service \<Rightarrow> http_config \<Rightarrow> ('w, goerr option) state \<Rightarrow> http_response \<Rightarrow> http_request \<Rightarrow>
   ('w, http_response \<times> log_line \<times> request_metric) state" where
  "server_handle S cfg ping page r = RequestLogger S cfg r (server_mux S cfg ping page r)"

text \<open>The pool of a process: its ping fails as any statement can.\<close>

definition pool_Ping :: "env \<Rightarrow> (world, goerr option) state" where
  "pool_Ping E = act E (\<lambda>n s. (en_fault E n 0, s))"

section \<open>What a request without credentials can do\<close>

text \<open>The world after \<open>k\<close> calls that read or ping only: the others may have run before each.\<close>

fun others_run :: "env \<Rightarrow> nat \<Rightarrow> world \<Rightarrow> world" where
  "others_run E 0 w = w"
| "others_run E (Suc k) w = others_run E k \<lparr>w_shared = en_others E (w_tick w) (w_shared w), w_tick = w_tick w + 1\<rparr>"

lemma run_reads [simp]:
  "run_state (Now (pg_service E)) w = (en_time E (w_tick w), others_run E 1 w)"
  "run_state (pool_Ping E) w = (en_fault E (w_tick w) 0, others_run E 1 w)"
  by (simp_all add: pg_ports sys_Now_def pool_Ping_def run_act)

lemma others_run_add: "others_run E j (others_run E k w) = others_run E (k + j) w"
  by (induction k arbitrary: w) simp_all

text \<open>Neither key opens anything.\<close>

definition no_credentials :: "http_config \<Rightarrow> http_request \<Rightarrow> bool" where
  "no_credentials cfg r \<longleftrightarrow> (case CallerAuth (hc_KeyHashes cfg) (rq_Headers r) of Inl _ \<Rightarrow> True | Inr _ \<Rightarrow> False) \<and>
     (case AdminAuth (hc_AdminKey cfg) (rq_Headers r) of Inl _ \<Rightarrow> True | Inr _ \<Rightarrow> False)"

lemma AdminAuth_error: "AdminAuth k hs = Inl e \<Longrightarrow> hr_Status (error_answer e) = 401"
  by (auto simp: AdminAuth_def Let_def error_answer_def writeJSON_def WriteError_def err_defs split: if_splits)

lemma refused:
  assumes "no_credentials cfg r" "rq_Path r \<noteq> [''webhooks'', ''midtrans'']"
  shows "\<exists>resp. http_serve S cfg r = State_Monad.return resp \<and> hr_Status resp \<in> {401, 403, 404}"
proof -
  obtain e where e: "CallerAuth (hc_KeyHashes cfg) (rq_Headers r) = Inl e"
    using assms(1) by (auto simp: no_credentials_def split: sum.splits)
  obtain e' where e': "AdminAuth (hc_AdminKey cfg) (rq_Headers r) = Inl e'"
    using assms(1) by (auto simp: no_credentials_def split: sum.splits)
  have "http_serve S cfg r = State_Monad.return (error_answer e) \<or> http_serve S cfg r = State_Monad.return (error_answer e') \<or>
      http_serve S cfg r = State_Monad.return not_found_answer"
    using assms(2) unfolding http_serve_def e e' by (simp split: list.split)
  moreover have "hr_Status (error_answer e) \<in> {401, 403, 404}" using CallerAuth_error [OF e] by blast
  moreover have "hr_Status (error_answer e') \<in> {401, 403, 404}" using AdminAuth_error [OF e'] by blast
  moreover have "hr_Status not_found_answer \<in> {401, 403, 404}" by (simp add: not_found_answer_def)
  ultimately show ?thesis by blast
qed

lemma run_server_mux:
  assumes "http_serve S cfg r = State_Monad.return st" "hr_Status st \<in> {401, 403, 404}"
  shows "if rq_Path r = [''readyz''] \<and> is_get (rq_Method r) then server_mux S cfg ping page r = readyzHandler ping
    else \<exists>resp. server_mux S cfg ping page r = State_Monad.return resp \<and>
      (resp \<in> {page, healthz_answer} \<or> hr_Status resp \<in> {401, 403, 404, 405})"
proof -
  have m: "hr_Status method_answer \<in> {401, 403, 404, 405}" by (simp add: method_answer_def)
  have ex: "\<exists>resp. State_Monad.return x = State_Monad.return resp \<and>
      (resp \<in> {page, healthz_answer} \<or> hr_Status resp \<in> {401, 403, 404, 405})"
    if "x \<in> {page, healthz_answer} \<or> hr_Status x \<in> {401, 403, 404, 405}" for x
    using that by blast
  have st: "hr_Status st \<in> {401, 403, 404, 405}" using assms(2) by blast
  show ?thesis
  proof (cases "\<exists>a. rq_Path r = [a]")
    case True
    then obtain a where a: "rq_Path r = [a]" by blast
    consider "a \<notin> {''openapi.yaml'', ''healthz'', ''readyz''}" | "a = ''openapi.yaml''" | "a = ''healthz''" | "a = ''readyz''" by blast
    then show ?thesis
    proof cases
      case 1
      then have "server_mux S cfg ping page r = State_Monad.return st" by (simp add: server_mux_def a assms(1))
      with 1 a st show ?thesis by (auto intro: ex)
    qed (use m in \<open>auto simp: server_mux_def a intro: ex\<close>)
  next
    case False
    then have "server_mux S cfg ping page r = State_Monad.return st"
      unfolding server_mux_def assms(1) by (auto split: list.split)
    with False st show ?thesis by (auto intro: ex)
  qed
qed

text \<open>
  C33: without credentials nothing can be reached. A request that carries neither a caller's key nor the
  administrator's key, and is not a webhook, reads the clock twice for the request log and does nothing
  else; the readiness check pings the database in addition and reports whether it answered. The answer is
  one of the fixed texts, a refusal, or the health of the process, and the log names no caller.
\<close>

theorem strangers_reach_nothing:
  assumes "no_credentials cfg r" "rq_Path r \<noteq> [''webhooks'', ''midtrans'']"
    and "run_state (server_handle (pg_service E) cfg (pool_Ping E) page r) w = ((resp, line, metric), v)"
  shows "(if rq_Path r = [''readyz''] \<and> is_get (rq_Method r)
      then v = others_run E 3 w \<and> hr_Status resp = (if en_fault E (w_tick w + 1) 0 = None then 200 else 503)
      else v = others_run E 2 w \<and> (resp \<in> {page, healthz_answer} \<or> hr_Status resp \<in> {401, 403, 404, 405})) \<and>
    ll_CallerService line = [] \<and> ll_Status line = hr_Status resp"
proof -
  obtain st where st: "http_serve (pg_service E) cfg r = State_Monad.return st" "hr_Status st \<in> {401, 403, 404}"
    using refused [OF assms(1,2)] by blast
  let ?mux = "server_mux (pg_service E) cfg (pool_Ping E) page r"
  obtain u where u: "run_state ?mux (others_run E 1 w) = (resp, u)" and v: "v = others_run E 1 u"
    and line: "ll_CallerService line = recorded_caller cfg r" "ll_Status line = hr_Status resp"
    using assms(3) unfolding server_handle_def RequestLogger_def Since_def Let_def
    by (auto simp: rw_Write_def rw_WriteHeader_def simp del: others_run.simps One_nat_def split: prod.splits)
  have caller: "recorded_caller cfg r = []"
    using assms(1) by (auto simp: recorded_caller_def no_credentials_def split: list.split sum.splits)
  have ready: "hr_Status (readyz_answer ping) = (if ping = None then 200 else 503)" for ping
    by (simp add: readyz_answer_def writeJSON_def Let_def)
  show ?thesis
  proof (cases "rq_Path r = [''readyz''] \<and> is_get (rq_Method r)")
    case True
    with run_server_mux [OF st, where ping = "pool_Ping E" and page = page] have "?mux = readyzHandler (pool_Ping E)" by simp
    with u have "resp = readyz_answer (en_fault E (w_tick (others_run E 1 w)) 0)" "u = others_run E 2 w"
      by (auto simp: readyzHandler_def numeral_2_eq_2)
    with True v line caller ready show ?thesis by (simp add: others_run_add)
  next
    case False
    obtain resp' where "?mux = State_Monad.return resp'"
      "resp' \<in> {page, healthz_answer} \<or> hr_Status resp' \<in> {401, 403, 404, 405}"
      using run_server_mux [OF st, where ping = "pool_Ping E" and page = page] unfolding if_not_P [OF False] by blast
    with u v have "v = others_run E 2 w" "resp = resp'" by (auto simp: numeral_2_eq_2)
    with False line caller \<open>resp' \<in> _ \<or> _\<close> show ?thesis by (simp only: if_not_P simp_thms if_False)
  qed
qed

text \<open>A readiness check without any header, on a database that answers.\<close>

lemma strangers_reach_nothing_witness:
  "\<exists>resp line metric v.
     run_state (server_handle (pg_service ex_env) (ex_config\<lparr>hc_AdminKey := []\<rparr>) (pool_Ping ex_env) not_found_answer
       ((ex_http ''GET'' [''readyz''] None)\<lparr>rq_Headers := []\<rparr>)) ex_world = ((resp, line, metric), v) \<and>
     v = others_run ex_env 3 ex_world \<and> hr_Status resp = 200 \<and> ll_CallerService line = [] \<and> ll_Status line = 200"
proof -
  let ?r = "(ex_http ''GET'' [''readyz''] None)\<lparr>rq_Headers := []\<rparr>" and ?cfg = "ex_config\<lparr>hc_AdminKey := []\<rparr>"
  have "no_credentials ?cfg ?r"
    by (simp add: no_credentials_def CallerAuth_def AdminAuth_def Let_def bearerToken_def Header_Get_def)
  moreover obtain resp line metric v where run:
    "run_state (server_handle (pg_service ex_env) ?cfg (pool_Ping ex_env) not_found_answer ?r) ex_world = ((resp, line, metric), v)"
    by (metis prod.exhaust)
  ultimately have "v = others_run ex_env 3 ex_world \<and> hr_Status resp = 200 \<and> ll_CallerService line = [] \<and> ll_Status line = 200"
    using strangers_reach_nothing [of ?cfg ?r ex_env not_found_answer ex_world resp line metric v]
    by (simp add: is_get_def ex_env_def)
  with run show ?thesis by blast
qed

end
