(* ===== verification/Fake.thy ===== *)
theory Fake
  imports Save_Properties Http_Wire "HOL-Library.AList"
begin

text \<open>
  \<open>internal/testsupport/fake\<close>: the in-memory ports the unit tests run the handlers on. They promise to
  behave like the real ones; \<open>Fake_Properties\<close> says how far that is so. Every operation runs under a
  mutex, so it is one step. A Go map is an association list here, in the order in which Go happens to
  iterate over it: an operation whose loop that order matters to is given it as \<open>rng\<close>, which
  rearranges the values. \<open>clone\<close> is the identity on values, so it does not show.
\<close>

section \<open>The repository\<close>

record fake_repo =
  fk_byID :: "(uuid \<times> payment) list"
  fk_Events :: "domain_event list"
  fk_SaveCalls :: nat
  fk_lastList :: list_filter

definition zero_filter :: list_filter where
  "zero_filter = \<lparr>lf_Status = [], lf_CallerService = [], lf_GatewayType = [], lf_ReferenceID = [], lf_From = None,
     lf_To = None, lf_After = None, lf_Limit = 0\<rparr>"

definition fake_seed :: "payment \<Rightarrow> payment" where
  "fake_seed p = (let (_, p1) = PopEvents p in if p_Version p1 = 0 then p1\<lparr>p_Version := 1\<rparr> else p1)"

definition NewPaymentRepo :: "payment list \<Rightarrow> fake_repo" where
  "NewPaymentRepo seed =
     \<lparr>fk_byID = fold (\<lambda>p m. AList.update (p_ID p) (fake_seed p) m) seed [], fk_Events = [], fk_SaveCalls = 0,
      fk_lastList = zero_filter\<rparr>"

definition fake_store :: "payment \<Rightarrow> fake_repo \<Rightarrow> payment \<times> fake_repo" where
  "fake_store p R =
     (let (events, p1) = PopEvents p
      in (p1, R\<lparr>fk_Events := fk_Events R @ events, fk_byID := AList.update (p_ID p) p1 (fk_byID R)\<rparr>))"

definition same_reference :: "payment \<Rightarrow> payment \<Rightarrow> bool" where
  "same_reference p q \<longleftrightarrow> p_ReferenceID q = p_ReferenceID p \<and> p_CallerService q = p_CallerService p"

definition fake_Save :: "uuid_lib \<Rightarrow> payment \<Rightarrow> (fake_repo, goerr option \<times> payment) state" where
  "fake_Save L p = State (\<lambda>R0.
     (let R = R0\<lparr>fk_SaveCalls := fk_SaveCalls R0 + 1\<rparr>
      in case map_of (fk_byID R) (p_ID p) of
           None \<Rightarrow>
             if list_ex (same_reference p) (map snd (fk_byID R))
             then ((Some (AlreadyExists (''payment already exists for reference_id: '' @ p_ReferenceID p)), p), R)
             else (case fake_store (p\<lparr>p_Version := 1\<rparr>) R of (p', R') \<Rightarrow> ((None, p'), R'))
         | Some known \<Rightarrow>
             if p_Version known \<noteq> p_Version p
             then ((Some (Conflict (''payment '' @ uuid_String L (p_ID p) @
                      '' was changed by another request; reload and retry'')), p), R)
             else (case fake_store (p\<lparr>p_Version := p_Version p + 1\<rparr>) R of (p', R') \<Rightarrow> ((None, p'), R'))))"

definition fake_FindByID :: "uuid_lib \<Rightarrow> uuid \<Rightarrow> (fake_repo, goerr + payment) state" where
  "fake_FindByID L uid = State (\<lambda>R.
     (case map_of (fk_byID R) uid of
        Some p \<Rightarrow> Inr p
      | None \<Rightarrow> Inl (NotFound (''payment not found: '' @ uuid_String L uid)), R))"

definition fake_find :: "(payment list \<Rightarrow> payment list) \<Rightarrow> (payment \<Rightarrow> bool) \<Rightarrow> goerr \<Rightarrow> (fake_repo, goerr + payment) state" where
  "fake_find rng P err = State (\<lambda>R.
     (case List.find P (rng (map snd (fk_byID R))) of Some p \<Rightarrow> Inr p | None \<Rightarrow> Inl err, R))"

definition fake_FindByReference ::
  "(payment list \<Rightarrow> payment list) \<Rightarrow> string \<Rightarrow> string \<Rightarrow> (fake_repo, goerr + payment) state" where
  "fake_FindByReference rng ref caller =
     fake_find rng (\<lambda>p. p_ReferenceID p = ref \<and> p_CallerService p = caller)
       (NotFound (''payment not found for reference: '' @ ref))"

definition fake_FindByGatewayTransactionID ::
  "(payment list \<Rightarrow> payment list) \<Rightarrow> string \<Rightarrow> (fake_repo, goerr + payment) state" where
  "fake_FindByGatewayTransactionID rng tx =
     fake_find rng (\<lambda>p. p_GatewayTransactionID p = tx) (NotFound (''payment not found for gateway tx: '' @ tx))"

text \<open>The loops that collect at most \<open>limit\<close> payments.\<close>

definition fake_collect ::
  "(payment list \<Rightarrow> payment list) \<Rightarrow> (payment \<Rightarrow> bool) \<Rightarrow> int \<Rightarrow> (fake_repo, goerr + payment list) state" where
  "fake_collect rng P limit = State (\<lambda>R. (Inr (take (nat limit) (filter P (rng (map snd (fk_byID R))))), R))"

definition fake_FindAwaitingChargeOutcome ::
  "(payment list \<Rightarrow> payment list) \<Rightarrow> time \<Rightarrow> int \<Rightarrow> (fake_repo, goerr + payment list) state" where
  "fake_FindAwaitingChargeOutcome rng cutoff limit =
     fake_collect rng (\<lambda>p. p_Status p = StatusInitiated \<and> p_CreatedAt p < cutoff) limit"

definition fake_FindWithPendingRefunds ::
  "(payment list \<Rightarrow> payment list) \<Rightarrow> time \<Rightarrow> int \<Rightarrow> (fake_repo, goerr + payment list) state" where
  "fake_FindWithPendingRefunds rng cutoff limit =
     fake_collect rng (\<lambda>p. list_ex (\<lambda>r. r_Status r = RefundStatusPending \<and> r_CreatedAt r < cutoff) (p_Refunds p)) limit"

definition fake_FindExpired ::
  "(payment list \<Rightarrow> payment list) \<Rightarrow> time \<Rightarrow> int \<Rightarrow> (fake_repo, goerr + payment list) state" where
  "fake_FindExpired rng now limit =
     fake_collect rng (\<lambda>p. p_Status p = StatusPending \<and>
       (case p_ExpiredAt p of None \<Rightarrow> False | Some t \<Rightarrow> t < now)) limit"

definition keyOf :: "payment \<Rightarrow> page_key" where
  "keyOf p = \<lparr>pk_CreatedAt = p_CreatedAt p, pk_ID = p_ID p\<rparr>"

definition newerFirst :: "uuid_lib \<Rightarrow> page_key \<Rightarrow> page_key \<Rightarrow> bool" where
  "newerFirst L a b \<longleftrightarrow>
     (if pk_CreatedAt a \<noteq> pk_CreatedAt b then pk_CreatedAt b < pk_CreatedAt a
      else str_less (uuid_String L (pk_ID b)) (uuid_String L (pk_ID a)))"

definition fake_filter :: "uuid_lib \<Rightarrow> list_filter \<Rightarrow> payment \<Rightarrow> bool" where
  "fake_filter L f p \<longleftrightarrow>
     \<not> ((lf_Status f \<noteq> [] \<and> status_str (p_Status p) \<noteq> lf_Status f) \<or>
        (lf_CallerService f \<noteq> [] \<and> p_CallerService p \<noteq> lf_CallerService f) \<or>
        (lf_GatewayType f \<noteq> [] \<and> p_GatewayType p \<noteq> lf_GatewayType f) \<or>
        (lf_ReferenceID f \<noteq> [] \<and> \<not> str_HasPrefix (p_ReferenceID p) (lf_ReferenceID f)) \<or>
        (case lf_From f of None \<Rightarrow> False | Some t \<Rightarrow> p_CreatedAt p < t) \<or>
        (case lf_To f of None \<Rightarrow> False | Some t \<Rightarrow> t < p_CreatedAt p) \<or>
        (case lf_After f of None \<Rightarrow> False | Some k \<Rightarrow> \<not> newerFirst L k (keyOf p)))"

text \<open>
  \<open>sort.Slice\<close> by \<open>newerFirst\<close>, as an insertion sort: on payments with different keys, as different
  payments have, every sorting algorithm gives the same list.
\<close>

fun insert_newer :: "uuid_lib \<Rightarrow> payment \<Rightarrow> payment list \<Rightarrow> payment list" where
  "insert_newer L p [] = [p]"
| "insert_newer L p (q # qs) =
     (if newerFirst L (keyOf q) (keyOf p) then q # insert_newer L p qs else p # q # qs)"

definition sort_newer :: "uuid_lib \<Rightarrow> payment list \<Rightarrow> payment list" where
  "sort_newer L ps = foldr (insert_newer L) ps []"

definition fake_ListPaginated :: "uuid_lib \<Rightarrow> list_filter \<Rightarrow> (fake_repo, goerr + payment list) state" where
  "fake_ListPaginated L f = State (\<lambda>R.
     (let out = sort_newer L (filter (fake_filter L f) (map snd (fk_byID R)));
          limit = (if lf_Limit f \<le> 0 then 50 else lf_Limit f)
      in (Inr (take (nat limit) out), R\<lparr>fk_lastList := f\<rparr>)))"

definition LastListFilter :: "(fake_repo, list_filter) state" where
  "LastListFilter = State (\<lambda>R. (fk_lastList R, R))"

definition fake_UpdateStatus :: "uuid_lib \<Rightarrow> uuid \<Rightarrow> status \<Rightarrow> (fake_repo, goerr option) state" where
  "fake_UpdateStatus L uid st = State (\<lambda>R.
     (case map_of (fk_byID R) uid of
        None \<Rightarrow> (Some (NotFound (''payment not found: '' @ uuid_String L uid)), R)
      | Some p \<Rightarrow> (None, R\<lparr>fk_byID := AList.update uid (p\<lparr>p_Status := st, p_Version := p_Version p + 1\<rparr>) (fk_byID R)\<rparr>)))"

definition fake_repository :: "uuid_lib \<Rightarrow> (payment list \<Rightarrow> payment list) \<Rightarrow> time \<Rightarrow> fake_repo repository" where
  "fake_repository L rng now =
     \<lparr>rp_Save = fake_Save L, rp_FindByID = fake_FindByID L, rp_FindByReference = fake_FindByReference rng,
      rp_FindByGatewayTransactionID = fake_FindByGatewayTransactionID rng,
      rp_FindExpired = fake_FindExpired rng now, rp_ListPaginated = fake_ListPaginated L,
      rp_FindAwaitingChargeOutcome = fake_FindAwaitingChargeOutcome rng,
      rp_FindWithPendingRefunds = fake_FindWithPendingRefunds rng\<rparr>"

section \<open>Attempts\<close>

definition fake_Record :: "attempt \<Rightarrow> (attempt list, goerr option) state" where
  "fake_Record a = State (\<lambda>as. (None, as @ [a]))"

definition fake_Of :: "gateway_operation \<Rightarrow> attempt list \<Rightarrow> attempt list" where
  "fake_Of op as = filter (\<lambda>a. at_Operation a = op) as"

section \<open>The gateway\<close>

record fake_gateway =
  fg_CreateCalls :: nat
  fg_CreateResp :: "gateway_response option"
  fg_CreateErr :: "goerr option"
  fg_Notification :: "webhook_notification option"
  fg_ParseErr :: "goerr option"
  fg_Capabilities :: "(method_name \<rightharpoonup> method_capability) option"
  fg_RefundCalls :: "refund_request list"
  fg_RefundResult :: "refund_result option"
  fg_RefundErr :: "goerr option"
  fg_StatusCalls :: "transaction_ref list"
  fg_State :: "transaction_state option"
  fg_StateErr :: "goerr option"
  fg_CancelCalls :: "string list"
  fg_CancelErr :: "goerr option"

definition fake_charged :: "string \<Rightarrow> gateway_response" where
  "fake_charged newID =
     \<lparr>gr_GatewayTransactionID = ''gw-'' @ newID, gr_Status = TransactionPending,
      gr_NextAction = \<lparr>na_Type = NextActionDisplayVA, na_VANumber = ''1234567890'', na_Bank = ''bca'', na_QRString = [],
        na_QRImageURL = [], na_RedirectURL = [], na_ExpiresAt = None\<rparr>,
      gr_RawResponse = Some [(''status_code'', JStr ''201'')]\<rparr>"

text \<open>\<open>newID\<close> is the text of a new UUID.\<close>

definition fake_CreateTransaction ::
  "string \<Rightarrow> create_transaction_request \<Rightarrow> (fake_gateway, goerr + gateway_response) state" where
  "fake_CreateTransaction newID req = State (\<lambda>g.
     (case fg_CreateErr g of
        Some e \<Rightarrow> Inl e
      | None \<Rightarrow> (case fg_CreateResp g of Some r \<Rightarrow> Inr r | None \<Rightarrow> Inr (fake_charged newID)),
      g\<lparr>fg_CreateCalls := fg_CreateCalls g + 1\<rparr>))"

definition fake_Capability :: "fake_gateway \<Rightarrow> method_name \<Rightarrow> method_capability" where
  "fake_Capability g m =
     (case fg_Capabilities g of
        None \<Rightarrow> \<lparr>mc_Charge = True, mc_Refund = True, mc_PartialRefund = True\<rparr>
      | Some caps \<Rightarrow> (case caps m of Some c \<Rightarrow> c | None \<Rightarrow> \<lparr>mc_Charge = False, mc_Refund = False, mc_PartialRefund = False\<rparr>))"

definition fake_unknown :: transaction_state where
  "fake_unknown = \<lparr>ts_Found = False, ts_GatewayTransactionID = [], ts_Status = TransactionNone, ts_GatewayStatus = [],
     ts_Refunds = [], ts_RawResponse = None\<rparr>"

definition fake_GetTransaction :: "transaction_ref \<Rightarrow> (fake_gateway, goerr + transaction_state) state" where
  "fake_GetTransaction ref = State (\<lambda>g.
     (case fg_StateErr g of
        Some e \<Rightarrow> Inl e
      | None \<Rightarrow> (case fg_State g of Some st \<Rightarrow> Inr st | None \<Rightarrow> Inr fake_unknown),
      g\<lparr>fg_StatusCalls := fg_StatusCalls g @ [ref]\<rparr>))"

definition fake_CancelTransaction :: "string \<Rightarrow> (fake_gateway, goerr option) state" where
  "fake_CancelTransaction tx = State (\<lambda>g. (fg_CancelErr g, g\<lparr>fg_CancelCalls := fg_CancelCalls g @ [tx]\<rparr>))"

text \<open>\<open>OnRefund\<close> runs after the call is recorded, outside the lock: it may change anything of the test's world.\<close>

definition fake_CreateRefund ::
  "('w \<Rightarrow> fake_gateway) \<Rightarrow> ((fake_gateway \<Rightarrow> fake_gateway) \<Rightarrow> 'w \<Rightarrow> 'w) \<Rightarrow> (refund_request \<Rightarrow> 'w \<Rightarrow> 'w) option \<Rightarrow>
   refund_request \<Rightarrow> ('w, goerr + refund_result) state" where
  "fake_CreateRefund gw upd onRefund req = State (\<lambda>w.
     (let w1 = upd (\<lambda>g. g\<lparr>fg_RefundCalls := fg_RefundCalls g @ [req]\<rparr>) w;
          w2 = (case onRefund of None \<Rightarrow> w1 | Some f \<Rightarrow> f req w1)
      in (case fg_RefundErr (gw w2) of
            Some e \<Rightarrow> Inl e
          | None \<Rightarrow> (case fg_RefundResult (gw w2) of
              Some r \<Rightarrow> Inr r
            | None \<Rightarrow> Inr \<lparr>rr_Accepted = True, rr_GatewayRefundID = ''gw-refund-1'', rr_DeclineReason = [], rr_RawResponse = None\<rparr>),
          w2)))"

definition fake_ParseWebhook :: "fake_gateway \<Rightarrow> goerr + webhook_notification option" where
  "fake_ParseWebhook g = (case fg_ParseErr g of Some e \<Rightarrow> Inl e | None \<Rightarrow> Inr (fg_Notification g))"

definition fake_factory_Get :: "(string \<rightharpoonup> 'g) \<Rightarrow> string \<Rightarrow> goerr + 'g" where
  "fake_factory_Get f ty =
     (case f ty of Some gw \<Rightarrow> Inr gw | None \<Rightarrow> Inl (InvalidInput (''unsupported gateway: '' @ ty)))"

section \<open>The cache\<close>

record fake_cache =
  fc_data :: "string \<rightharpoonup> cache_text"
  fc_Err :: "goerr option"

definition NewCache :: fake_cache where
  "NewCache = \<lparr>fc_data = Map.empty, fc_Err = None\<rparr>"

definition fake_Get :: "string \<Rightarrow> (fake_cache, goerr + cache_text) state" where
  "fake_Get k = State (\<lambda>c.
     (case fc_Err c of
        Some e \<Rightarrow> Inl e
      | None \<Rightarrow> (case fc_data c k of Some v \<Rightarrow> Inr v | None \<Rightarrow> Inl (NotFound (''cache miss: '' @ k))), c))"

definition fake_Set :: "string \<Rightarrow> cache_text \<Rightarrow> duration \<Rightarrow> (fake_cache, goerr option) state" where
  "fake_Set k v ttl = State (\<lambda>c.
     (case fc_Err c of Some e \<Rightarrow> (Some e, c) | None \<Rightarrow> (None, c\<lparr>fc_data := (fc_data c)(k \<mapsto> v)\<rparr>)))"

definition fake_SetNX :: "string \<Rightarrow> cache_text \<Rightarrow> duration \<Rightarrow> (fake_cache, goerr + bool) state" where
  "fake_SetNX k v ttl = State (\<lambda>c.
     (case fc_Err c of
        Some e \<Rightarrow> (Inl e, c)
      | None \<Rightarrow> (case fc_data c k of
          Some _ \<Rightarrow> (Inr False, c)
        | None \<Rightarrow> (Inr True, c\<lparr>fc_data := (fc_data c)(k \<mapsto> v)\<rparr>))))"

definition fake_Delete :: "string \<Rightarrow> (fake_cache, goerr option) state" where
  "fake_Delete k = State (\<lambda>c.
     (case fc_Err c of Some e \<Rightarrow> (Some e, c) | None \<Rightarrow> (None, c\<lparr>fc_data := (fc_data c)(k := None)\<rparr>)))"

definition fake_Has :: "string \<Rightarrow> fake_cache \<Rightarrow> bool" where
  "fake_Has k c \<longleftrightarrow> fc_data c k \<noteq> None"

definition fake_cache_port :: "fake_cache cache_port" where
  "fake_cache_port = \<lparr>cp_Get = fake_Get, cp_Set = fake_Set, cp_SetNX = fake_SetNX, cp_Delete = fake_Delete\<rparr>"

section \<open>The cache that keeps nothing\<close>

text \<open>\<open>infrastructure/cache/noop.go\<close>. The server is wired to Redis; this client is not used by it.\<close>

definition NoopClient_Get :: "string \<Rightarrow> ('w, goerr + cache_text) state" where
  "NoopClient_Get k = State_Monad.return (Inl ErrCacheNotFound)"

definition NoopClient_Set :: "string \<Rightarrow> cache_text \<Rightarrow> duration \<Rightarrow> ('w, goerr option) state" where
  "NoopClient_Set k v ttl = State_Monad.return None"

definition NoopClient_SetNX :: "string \<Rightarrow> cache_text \<Rightarrow> duration \<Rightarrow> ('w, goerr + bool) state" where
  "NoopClient_SetNX k v ttl = State_Monad.return (Inr True)"

definition NoopClient_Delete :: "string \<Rightarrow> ('w, goerr option) state" where
  "NoopClient_Delete k = State_Monad.return None"

definition noop_cache :: "'w cache_port" where
  "noop_cache = \<lparr>cp_Get = NoopClient_Get, cp_Set = NoopClient_Set, cp_SetNX = NoopClient_SetNX, cp_Delete = NoopClient_Delete\<rparr>"

end
