(* ===== verification/Fake_Properties.thy ===== *)
theory Fake_Properties
  imports Fake
begin

text \<open>
  What the two repositories have in common. \<open>payment_store\<close> is the contract the handlers' optimistic
  concurrency rests on: a store shows, for every payment it knows, whose it is and at which version; a
  save succeeds only on a payment that is new and whose reference is free, or that is unchanged since it
  was read. It is interpreted on PostgreSQL's tables and on the in-memory repository of the unit tests.
\<close>

section \<open>The contract\<close>

type_synonym entries = "uuid \<rightharpoonup> string \<times> string \<times> int"

definition acceptable :: "entries \<Rightarrow> payment \<Rightarrow> bool" where
  "acceptable m p \<longleftrightarrow>
     (case m (p_ID p) of
        None \<Rightarrow> (\<forall>u v. m u \<noteq> Some (p_ReferenceID p, p_CallerService p, v))
      | Some (ref, caller, v) \<Rightarrow> v = p_Version p)"

definition next_version :: "entries \<Rightarrow> payment \<Rightarrow> int" where
  "next_version m p = (if m (p_ID p) = None then 1 else p_Version p + 1)"

definition after_save :: "entries \<Rightarrow> payment \<Rightarrow> entries" where
  "after_save m p = m(p_ID p \<mapsto> (p_ReferenceID p, p_CallerService p, next_version m p))"

text \<open>Later entries: no payment is lost or given away, and versions only grow.\<close>

definition entries_ext :: "entries \<Rightarrow> entries \<Rightarrow> bool" where
  "entries_ext m m' \<longleftrightarrow> (\<forall>u ref caller v. m u = Some (ref, caller, v) \<longrightarrow> (\<exists>v' \<ge> v. m' u = Some (ref, caller, v')))"

definition references_unique :: "entries \<Rightarrow> bool" where
  "references_unique m \<longleftrightarrow> (\<forall>u u' ref caller v v'. m u = Some (ref, caller, v) \<longrightarrow> m u' = Some (ref, caller, v') \<longrightarrow> u = u')"

lemma entries_ext_refl: "entries_ext m m"
  by (auto simp: entries_ext_def)

lemma entries_ext_trans: "entries_ext m m' \<Longrightarrow> entries_ext m' m'' \<Longrightarrow> entries_ext m m''"
  unfolding entries_ext_def by (meson order_trans)

text \<open>A payment that is not new belongs to whom the store says.\<close>

definition owner_known :: "entries \<Rightarrow> payment \<Rightarrow> bool" where
  "owner_known m p \<longleftrightarrow> (\<forall>ref caller v. m (p_ID p) = Some (ref, caller, v) \<longrightarrow> ref = p_ReferenceID p \<and> caller = p_CallerService p)"

locale payment_store =
  fixes save :: "payment \<Rightarrow> ('s, goerr option \<times> payment) state"
    and load :: "uuid \<Rightarrow> ('s, goerr + payment) state"
    and entries :: "'s \<Rightarrow> entries"
    and I :: "'s \<Rightarrow> bool"
    and ready :: "'s \<Rightarrow> payment \<Rightarrow> bool"
  assumes saved: "I s \<Longrightarrow> ready s p \<Longrightarrow> run_state (save p) s = ((None, p'), s') \<Longrightarrow>
      I s' \<and> acceptable (entries s) p \<and> owner_known (entries s) p \<and> entries s' = after_save (entries s) p \<and>
      p_ID p' = p_ID p \<and> p_Version p' = next_version (entries s) p"
    and refused: "I s \<Longrightarrow> ready s p \<Longrightarrow> run_state (save p) s = ((Some e, p'), s') \<Longrightarrow> I s' \<and> entries s' = entries s"
    and load_entry: "I s \<Longrightarrow> run_state (load u) s = (Inr p, s') \<Longrightarrow>
      I s' \<and> entries s' = entries s \<and> p_ID p = u \<and> entries s u = Some (p_ReferenceID p, p_CallerService p, p_Version p)"
begin

lemma saved_ext:
  assumes "I s" "ready s p" "run_state (save p) s = ((err, p'), s')"
  shows "entries_ext (entries s) (entries s')"
proof (cases err)
  case None
  with saved [OF assms(1,2)] assms(3) have ok: "acceptable (entries s) p" "owner_known (entries s) p"
    "entries s' = after_save (entries s) p" by auto
  show ?thesis
    unfolding entries_ext_def
  proof (intro allI impI)
    fix u ref caller v
    assume u: "entries s u = Some (ref, caller, v)"
    show "\<exists>v' \<ge> v. entries s' u = Some (ref, caller, v')"
    proof (cases "u = p_ID p")
      case True
      with u ok have "v = p_Version p" "ref = p_ReferenceID p" "caller = p_CallerService p"
        by (auto simp: acceptable_def owner_known_def)
      with True u show ?thesis by (simp add: ok(3) after_save_def next_version_def)
    next
      case False
      with u show ?thesis by (simp add: ok(3) after_save_def)
    qed
  qed
next
  case (Some e)
  with refused [OF assms(1,2)] assms(3) show ?thesis by (auto intro: entries_ext_refl)
qed

lemma saved_unique:
  assumes "I s" "ready s p" "run_state (save p) s = ((err, p'), s')" "references_unique (entries s)"
  shows "references_unique (entries s')"
proof (cases err)
  case None
  with saved [OF assms(1,2)] assms(3) have ok: "acceptable (entries s) p" "owner_known (entries s) p"
    "entries s' = after_save (entries s) p" by auto
  have "u = p_ID p" if "entries s u = Some (p_ReferenceID p, p_CallerService p, v)" for u v
  proof (cases "entries s (p_ID p)")
    case None
    with ok(1) that show ?thesis by (auto simp: acceptable_def)
  next
    case (Some x)
    then obtain w where "entries s (p_ID p) = Some (p_ReferenceID p, p_CallerService p, w)"
      using ok(2) by (cases x) (auto simp: owner_known_def)
    with that assms(4) show ?thesis unfolding references_unique_def by blast
  qed
  with assms(4) show ?thesis
    unfolding references_unique_def ok(3) after_save_def by (auto split: if_splits)
next
  case (Some e)
  with refused [OF assms(1,2)] assms(3,4) show ?thesis by auto
qed

text \<open>Of two copies read at the same version the second is refused, however many saves lie in between.\<close>

lemma second_writer_refused:
  assumes "I s" "ready s p" "run_state (save p) s = ((None, p'), s')" "entries s (p_ID p) \<noteq> None"
    and "entries_ext (entries s') (entries t)" "I t" "ready t q" "p_ID q = p_ID p" "p_Version q = p_Version p"
    and "run_state (save q) t = ((err, q'), t')"
  shows "err \<noteq> None"
proof
  assume "err = None"
  with saved [OF assms(6,7)] assms(10) have "acceptable (entries t) q" by simp
  moreover have "entries s' (p_ID p) = Some (p_ReferenceID p, p_CallerService p, p_Version p + 1)"
    using saved [OF assms(1-3)] assms(4) by (auto simp: after_save_def next_version_def)
  ultimately show False using assms(5,8,9) by (fastforce simp: entries_ext_def acceptable_def)
qed

text \<open>A payment that was just loaded can be saved as far as the contract is concerned.\<close>

lemma loaded_acceptable:
  "I s \<Longrightarrow> run_state (load u) s = (Inr p, s') \<Longrightarrow> acceptable (entries s') p"
  using load_entry by (fastforce simp: acceptable_def)

end

section \<open>The in-memory repository\<close>

definition entry :: "payment \<Rightarrow> string \<times> string \<times> int" where
  "entry p = (p_ReferenceID p, p_CallerService p, p_Version p)"

definition fake_entries :: "fake_repo \<Rightarrow> entries" where
  "fake_entries R u = map_option entry (map_of (fk_byID R) u)"

definition fake_ok :: "fake_repo \<Rightarrow> bool" where
  "fake_ok R \<longleftrightarrow> (\<forall>(u, p) \<in> set (fk_byID R). p_ID p = u) \<and> distinct (map fst (fk_byID R))"

lemma fake_accepts:
  assumes "fake_ok R"
  shows "fst (fst (run_state (fake_Save L p) R)) = None \<longleftrightarrow> acceptable (fake_entries R) p"
proof (cases "map_of (fk_byID R) (p_ID p)")
  case None
  have "list_ex (same_reference p) (map snd (fk_byID R)) \<longleftrightarrow>
      (\<exists>u v. fake_entries R u = Some (p_ReferenceID p, p_CallerService p, v))"
  proof
    assume "list_ex (same_reference p) (map snd (fk_byID R))"
    then obtain u q where "(u, q) \<in> set (fk_byID R)" "same_reference p q" by (auto simp: list_ex_iff)
    moreover from this assms have "map_of (fk_byID R) u = Some q" by (simp add: fake_ok_def)
    ultimately show "\<exists>u v. fake_entries R u = Some (p_ReferenceID p, p_CallerService p, v)"
      by (auto simp: fake_entries_def entry_def same_reference_def intro!: exI [of _ u])
  next
    assume "\<exists>u v. fake_entries R u = Some (p_ReferenceID p, p_CallerService p, v)"
    then obtain u q where q: "map_of (fk_byID R) u = Some q" "same_reference p q"
      by (auto simp: fake_entries_def entry_def same_reference_def)
    from map_of_SomeD [OF q(1)] q(2) show "list_ex (same_reference p) (map snd (fk_byID R))"
      by (force simp: list_ex_iff)
  qed
  with None show ?thesis
    by (auto simp: fake_Save_def fake_store_def PopEvents_def Let_def acceptable_def fake_entries_def)
next
  case (Some q)
  then show ?thesis
    by (auto simp: fake_Save_def fake_store_def PopEvents_def Let_def acceptable_def fake_entries_def entry_def)
qed

lemma fake_saved:
  assumes "fake_ok R" "run_state (fake_Save L p) R = ((None, p'), R')"
  shows "fake_ok R' \<and> fake_entries R' = after_save (fake_entries R) p \<and> p_ID p' = p_ID p \<and>
    p_Version p' = next_version (fake_entries R) p"
proof -
  let ?v = "next_version (fake_entries R) p"
  have R': "fk_byID R' = AList.update (p_ID p) (p\<lparr>p_Version := ?v, p_events := []\<rparr>) (fk_byID R)"
    "p' = p\<lparr>p_Version := ?v, p_events := []\<rparr>"
    using assms(2)
    by (auto simp: fake_Save_def fake_store_def PopEvents_def Let_def next_version_def fake_entries_def
        split: option.splits if_splits)
  have "(\<forall>(u, q) \<in> set (fk_byID R'). p_ID q = u)"
  proof clarify
    fix u q
    assume "(u, q) \<in> set (fk_byID R')"
    moreover have d: "distinct (map fst (fk_byID R'))"
      using assms(1) unfolding R'(1) by (simp add: distinct_update fake_ok_def)
    ultimately have "map_of (fk_byID R') u = Some q" by simp
    then show "p_ID q = u"
      using assms(1) map_of_SomeD [of "fk_byID R" u q] by (auto simp: R'(1) update_conv' fake_ok_def split: if_splits)
  qed
  moreover have "distinct (map fst (fk_byID R'))"
    using assms(1) unfolding R'(1) by (simp add: distinct_update fake_ok_def)
  moreover have "fake_entries R' = after_save (fake_entries R) p"
    by (rule ext) (simp add: fake_entries_def R'(1) update_conv' after_save_def entry_def)
  ultimately show ?thesis by (simp add: R'(2) fake_ok_def)
qed

lemma fake_refused:
  "run_state (fake_Save L p) R = ((Some e, p'), R') \<Longrightarrow> fk_byID R' = fk_byID R \<and> p' = p"
  by (auto simp: fake_Save_def fake_store_def PopEvents_def Let_def split: option.splits if_splits)

lemma fake_loaded:
  assumes "fake_ok R" "run_state (fake_FindByID L u) R = (Inr p, R')"
  shows "R' = R \<and> p_ID p = u \<and> fake_entries R u = Some (entry p)"
  using assms map_of_SomeD [of "fk_byID R" u p]
  by (auto simp: fake_FindByID_def fake_entries_def fake_ok_def split: option.splits)

interpretation fake: payment_store "fake_Save L" "fake_FindByID L" fake_entries fake_ok "\<lambda>R. owner_known (fake_entries R)"
  for L
proof (unfold_locales, goal_cases)
  case (1 R p p' R')
  have "acceptable (fake_entries R) p" using fake_accepts [OF 1(1), of L p] 1(3) by simp
  with fake_saved [OF 1(1,3)] 1(2) show ?case by simp
next
  case (2 R p e p' R')
  from fake_refused [OF 2(3)] 2(1) show ?case by (simp add: fake_ok_def fake_entries_def fun_eq_iff)
next
  case (3 R u p R')
  from fake_loaded [OF 3] 3(1) show ?case by (simp add: entry_def)
qed

section \<open>The tables\<close>

text \<open>Nobody else writes, and a commit whose reply is lost was not applied; statements may still fail.\<close>

definition undisturbed :: "env \<Rightarrow> bool" where
  "undisturbed E \<longleftrightarrow> (\<forall>n s. en_others E n s = s) \<and> (\<forall>n. \<not> en_lost E n)"

definition row_entry :: "payment_row \<Rightarrow> string \<times> string \<times> int" where
  "row_entry r = (pr_ReferenceID r, pr_CallerService r, pr_Version r)"

definition db_entries :: "db \<Rightarrow> entries" where
  "db_entries d = map_of (map (\<lambda>r. (pr_ID r, row_entry r)) (db_payments d))"

abbreviation pg_entries :: "world \<Rightarrow> entries" where
  "pg_entries w \<equiv> db_entries (sh_db (w_shared w))"

lemma db_entries_row:
  assumes "db_ok L d" "r \<in> set (db_payments d)"
  shows "db_entries d (pr_ID r) = Some (row_entry r)"
  using assms unfolding db_entries_def by (intro map_of_is_SomeI) (auto simp: db_ok_def comp_def)

lemma db_entries_SomeD: "db_entries d u = Some x \<Longrightarrow> \<exists>r \<in> set (db_payments d). pr_ID r = u \<and> row_entry r = x"
  unfolding db_entries_def by (auto dest!: map_of_SomeD)

lemma map_of_if_update:
  "distinct (map f xs) \<Longrightarrow> r \<in> set xs \<Longrightarrow>
     map_of (map (\<lambda>x. (f x, if f x = f r then y else g x)) xs) = (map_of (map (\<lambda>x. (f x, g x)) xs))(f r \<mapsto> y)"
proof (induction xs)
  case (Cons x xs)
  have none: "map_of (map (\<lambda>x. (f x, if f x = f r then y else g x)) xs) = map_of (map (\<lambda>x. (f x, g x)) xs)"
    if "f r \<notin> f ` set xs"
  proof -
    have "map (\<lambda>x. (f x, if f x = f r then y else g x)) xs = map (\<lambda>x. (f x, g x)) xs"
      using that by (intro map_cong) (auto simp: image_iff)
    then show ?thesis by (rule arg_cong)
  qed
  show ?case
  proof (cases "f x = f r")
    case True
    with Cons.prems none show ?thesis by (auto simp: fun_upd_twist)
  next
    case False
    with Cons show ?thesis by (auto simp: fun_upd_twist)
  qed
qed simp

lemma entries_inserted:
  assumes "db_ok L d" "created fr p" "unused fr d" "InsertPayment (payment_row_of p) d = Inr (1, d1)"
  shows "acceptable (db_entries d) p \<and> owner_known (db_entries d) p \<and>
    db_entries d1 = (db_entries d)(p_ID p \<mapsto> (p_ReferenceID p, p_CallerService p, 1)) \<and> db_entries d (p_ID p) = None"
proof -
  have fresh: "p_ID p \<notin> pr_ID ` set (db_payments d)"
    using assms(2,3) by (auto simp: created_def unused_def db_ids_def)
  have key: "(p_ReferenceID p, p_CallerService p) \<notin> (\<lambda>r. (pr_ReferenceID r, pr_CallerService r)) ` set (db_payments d)"
    and d1: "d1 = d\<lparr>db_payments := db_payments d @ [payment_row_of p]\<rparr>"
    using assms(4) by (auto simp: InsertPayment_def payment_row_of_def split: if_splits)
  have none: "db_entries d (p_ID p) = None"
    using fresh by (auto simp: db_entries_def map_of_eq_None_iff)
  have "db_entries d u \<noteq> Some (p_ReferenceID p, p_CallerService p, v)" for u v
  proof
    assume "db_entries d u = Some (p_ReferenceID p, p_CallerService p, v)"
    from db_entries_SomeD [OF this] obtain r where "r \<in> set (db_payments d)" "pr_ReferenceID r = p_ReferenceID p"
      "pr_CallerService r = p_CallerService p" by (auto simp: row_entry_def)
    with key show False by (metis (mono_tags, lifting) imageI)
  qed
  then have acc: "acceptable (db_entries d) p" by (simp add: acceptable_def none)
  have "db_entries d1 = (db_entries d)(p_ID p \<mapsto> (p_ReferenceID p, p_CallerService p, 1))"
  proof
    fix u
    have row: "pr_ID (payment_row_of p) = p_ID p" "row_entry (payment_row_of p) = (p_ReferenceID p, p_CallerService p, 1)"
      by (simp_all add: payment_row_of_def row_entry_def)
    show "db_entries d1 u = ((db_entries d)(p_ID p \<mapsto> (p_ReferenceID p, p_CallerService p, 1))) u"
      using none by (auto simp: db_entries_def d1 row map_add_def split: option.splits)
  qed
  with acc none show ?thesis by (simp add: owner_known_def)
qed

lemma entries_updated:
  assumes "db_ok L d" "loaded L d fr p"
    and "UpdatePaymentFull (p_ID p) (toNullableString (p_GatewayTransactionID p)) (p_Status p)
        (marshalJSONOrNil (p_GatewayResponsePayload p)) (map_option pg_time (p_PaidAt p))
        (pg_time (p_UpdatedAt p)) (int32 (p_Version p)) d = Inr (1, d1)"
  shows "acceptable (db_entries d) p \<and> owner_known (db_entries d) p \<and>
    db_entries d1 = (db_entries d)(p_ID p \<mapsto> (p_ReferenceID p, p_CallerService p, p_Version p + 1)) \<and>
    db_entries d (p_ID p) \<noteq> None"
proof -
  obtain row where row: "row \<in> set (db_payments d)" "pr_ID row = p_ID p" "p_Version p = pr_Version row"
    and d1: "d1 = d\<lparr>db_payments := map (\<lambda>r. if pr_ID r = p_ID p then new_row p r else r) (db_payments d)\<rparr>"
    by (rule update_hits [OF assms])
  have entry: "db_entries d (p_ID p) = Some (row_entry row)" using db_entries_row [OF assms(1) row(1)] row(2) by simp
  obtain row' where "row' \<in> set (db_payments d)" "pr_ID row' = p_ID p" "evolved_from L d fr row' p"
    using assms(2) row db_ok_same_row [OF assms(1)] unfolding loaded_def by metis
  then have ev: "evolved_from L d fr row p" using db_ok_same_row [OF assms(1) _ row(1)] row(2) by metis
  then obtain q where q: "core q = core (stored d row)" "evolves L q p" by (auto simp: evolved_from_def)
  have "decodes row" using db_okD [OF assms(1) row(1)] by blast
  then have dom: "toDomain row = Inr (projr (toDomain row))" by (simp add: decodes_def)
  have owner: "p_ReferenceID p = pr_ReferenceID row" "p_CallerService p = pr_CallerService row"
    using frameD(2,3) [OF evolves_frame [OF q(2)]] coreD(2,3) [OF q(1)] toDomain_fields(2,3) [OF dom]
    by (simp_all add: stored_def)
  have new: "pr_ID (new_row p row) = pr_ID row" "pr_ID (new_row p r) = pr_ID r"
    "row_entry (new_row p row) = (p_ReferenceID p, p_CallerService p, p_Version p + 1)" for r
    by (simp_all add: row_entry_def owner row(3))
  have ids: "r = row" if "r \<in> set (db_payments d)" "pr_ID r = p_ID p" for r
    using db_ok_same_row [OF assms(1) that(1) row(1)] that(2) row(2) by simp
  have "map (\<lambda>r. (pr_ID r, row_entry r)) (db_payments d1) =
      map (\<lambda>r. (pr_ID r, if pr_ID r = pr_ID row then row_entry (new_row p row) else row_entry r)) (db_payments d)"
    using ids row(2) by (auto simp: d1 new(2))
  moreover have "distinct (map pr_ID (db_payments d))" using assms(1) by (simp add: db_ok_def)
  ultimately have "db_entries d1 = (db_entries d)(pr_ID row \<mapsto> row_entry (new_row p row))"
    unfolding db_entries_def using map_of_if_update [of pr_ID "db_payments d" row _ row_entry] row(1) by simp
  with entry new(3) owner row(2,3) show ?thesis
    by (auto simp: acceptable_def owner_known_def row_entry_def)
qed

lemma pg_saved:
  assumes "undisturbed E" "sys_ok U E w" "sys_ready E w p" "run_state (repo_Save E p) w = ((None, p'), w')"
  shows "acceptable (pg_entries w) p \<and> owner_known (pg_entries w) p \<and> pg_entries w' = after_save (pg_entries w) p \<and>
    p_ID p' = p_ID p \<and> p_Version p' = next_version (pg_entries w) p"
proof -
  let ?d = "sh_db (w_shared w)" and ?n = "w_tick w"
  have alone: "en_others E ?n (w_shared w) = w_shared w" using assms(1) by (simp add: undisturbed_def)
  have ok: "db_ok (en_lib E) ?d" using assms(2) by (simp add: sys_ok_def shared_ok_def)
  obtain lastSeq dr k1 d2 k2 where rows: "run_state (persist_rows E ?n p) (?d, 1) = (Inr lastSeq, (dr, k1))"
    and evts: "run_state (persist_events E ?n (p_ID p) lastSeq (p_events p)) (dr, k1) = (Inr (), (d2, k2))"
    and p': "p_ID p' = p_ID p" "p_Version p' = (if isNewPayment p then 1 else p_Version p + 1)" and w': "sh_db (w_shared w') = d2"
    using assms(4) by (auto simp: repo_Save_def run_act alone PopEvents_def Let_def split: option.splits prod.splits sum.splits)
  obtain d1 k0 where pay: "run_state (persist_payment E ?n p) (?d, 1) = (Inr (), (d1, k0))"
    and ups: "upserts (map toRefundParams (p_Refunds p)) d1 = Inr dr"
    using run_persist_rows [OF rows] by blast
  obtain evs obs where "d2 = dr\<lparr>db_events := db_events dr @ evs, db_outbox := db_outbox dr @ obs\<rparr>"
    using run_persist_events [OF evts] by blast
  then have same: "db_entries d2 = db_entries d1" using upserts_tables(1) [OF ups] by (simp add: db_entries_def)
  show ?thesis
  proof (cases "isNewPayment p")
    case True
    then have "created (sys_fresh E w) p" using assms(3) by (auto simp: sys_ready_def loaded_def)
    moreover have "unused (sys_fresh E w) ?d" by (rule sys_unused)
    ultimately show ?thesis
      using entries_inserted [OF ok _ _ run_persist_payment(1) [OF pay True]] True p'
      by (simp add: w' same after_save_def next_version_def)
  next
    case False
    then have "loaded (en_lib E) ?d (sys_fresh E w) p" using assms(3) by (auto simp: sys_ready_def created_def)
    from entries_updated [OF ok this run_persist_payment(2) [OF pay False]] False p' show ?thesis
      by (auto simp: w' same after_save_def next_version_def)
  qed
qed

lemma pg_refused:
  assumes "undisturbed E" "run_state (repo_Save E p) w = ((Some e, p'), w')"
  shows "w_shared w' = w_shared w"
  using run_save_error [OF assms(2)] assms(1) by (simp add: undisturbed_def)

lemma pg_loaded:
  assumes "undisturbed E" "sys_ok U E w" "run_state (repo_FindByID E u) w = (Inr p, w')"
  shows "w_shared w' = w_shared w \<and> p_ID p = u \<and> pg_entries w u = Some (entry p)"
proof -
  let ?d = "sh_db (w_shared w)"
  have alone: "en_others E n s = s" for n s using assms(1) by (simp add: undisturbed_def)
  have ok: "db_ok (en_lib E) ?d" using assms(2) by (simp add: sys_ok_def shared_ok_def)
  obtain row q where row: "GetPaymentByID u ?d = Some row" "toDomain row = Inr q" and same: "w_shared w' = w_shared w"
    and p: "p = q\<lparr>p_Refunds := p_Refunds p\<rparr>"
    using assms(3)
    by (auto simp: repo_FindByID_def query_row_def query_def withRefunds_def run_act alone split: option.splits sum.splits)
  have r: "row \<in> set (db_payments ?d)" "pr_ID row = u" using row(1) by (auto simp: GetPaymentByID_def find_Some_iff)
  have fields: "p_ID p = p_ID q" "entry p = entry q" by (subst p, simp add: entry_def)+
  with toDomain_fields(1,2,3,7) [OF row(2)] r db_entries_row [OF ok r(1)] same show ?thesis
    by (simp add: row_entry_def entry_def)
qed

interpretation pg_store: payment_store "repo_Save E" "repo_FindByID E" pg_entries "\<lambda>w. undisturbed E \<and> sys_ok U E w" "sys_ready E"
  for U E
proof (unfold_locales, goal_cases)
  case (1 w p p' w')
  with pg_saved [of E U w p p' w'] run_Save [of U E w p None p' w'] show ?case by simp
next
  case (2 w p e p' w')
  with pg_refused [of E p w e p' w'] run_Save [of U E w p "Some e" p' w'] show ?case by simp
next
  case (3 w u p w')
  have "sys_ok U E w'" using run_FindByID [of U E w u "Inr p" w'] 3 by simp
  with 3 pg_loaded [of E U w u p w'] show ?case by (simp add: entry_def)
qed

section \<open>The fake stands for the tables\<close>

text \<open>
  C35: what a unit test on the in-memory repository shows about saves holds for PostgreSQL. Start both from
  the same entries, and save the same payment in both. When PostgreSQL stores it, so does the fake, with the
  same version, and their entries are the same again; when the fake refuses, PostgreSQL refuses too and
  neither changes its entries; a refusal because of a changed version is the same error in both, unless
  a statement failed before. PostgreSQL may refuse more: statements fail and columns have widths.
\<close>

theorem fake_saves_like_postgres:
  assumes "undisturbed E" "sys_ok U E w" "sys_ready E w p" "fake_ok R" "fake_entries R = pg_entries w"
    and "run_state (repo_Save E p) w = ((err, p'), w')" "run_state (fake_Save (en_lib E) p) R = ((ferr, fp), R')"
  shows "(err = None \<longrightarrow> ferr = None \<and> p_Version p' = p_Version fp \<and> fake_entries R' = pg_entries w') \<and>
    (ferr \<noteq> None \<longrightarrow> err \<noteq> None \<and> fake_entries R' = fake_entries R \<and> pg_entries w' = pg_entries w) \<and>
    (IsCode ferr CodeConflict \<longrightarrow> \<not> isNewPayment p \<longrightarrow> en_fault E (w_tick w) 0 = None \<longrightarrow> en_fault E (w_tick w) 1 = None \<longrightarrow>
       err = ferr)"
proof -
  have accepts: "ferr = None \<longleftrightarrow> acceptable (pg_entries w) p"
    using fake_accepts [OF assms(4), of "en_lib E" p] assms(5,7) by simp
  have both: "ferr = None \<and> p_Version p' = p_Version fp \<and> fake_entries R' = pg_entries w'" if "err = None"
  proof -
    from that assms(6) have ok: "acceptable (pg_entries w) p" "pg_entries w' = after_save (pg_entries w) p"
      "p_Version p' = next_version (pg_entries w) p"
      using pg_store.saved [of E U w p p' w'] assms(1-3) by auto
    with accepts have "ferr = None" by simp
    with fake_saved [OF assms(4), of "en_lib E" p fp R'] assms(5,7) ok show ?thesis by simp
  qed
  have neither: "err \<noteq> None \<and> fake_entries R' = fake_entries R \<and> pg_entries w' = pg_entries w" if "ferr \<noteq> None"
  proof -
    from that both obtain e f where "err = Some e" "ferr = Some f" by (cases err; cases ferr) auto
    with pg_refused [OF assms(1)] fake_refused [of "en_lib E" p R] assms(6,7) show ?thesis
      by (auto simp: fake_entries_def fun_eq_iff)
  qed
  have same: "err = ferr"
    if code: "IsCode ferr CodeConflict" and that: "\<not> isNewPayment p" "en_fault E (w_tick w) 0 = None" "en_fault E (w_tick w) 1 = None"
  proof -
    let ?d = "sh_db (w_shared w)" and ?e = "Conflict (''payment '' @ uuid_String (en_lib E) (p_ID p) @
                      '' was changed by another request; reload and retry'')"
    have alone: "en_others E (w_tick w) (w_shared w) = w_shared w" using assms(1) by (simp add: undisturbed_def)
    obtain q where q: "map_of (fk_byID R) (p_ID p) = Some q" "p_Version q \<noteq> p_Version p"
      and f: "ferr = Some ?e"
      using assms(7) code
      by (auto simp: fake_Save_def fake_store_def PopEvents_def Let_def err_defs split: option.splits if_splits)
    have ok: "db_ok (en_lib E) ?d" using assms(2) by (simp add: sys_ok_def shared_ok_def)
    have held: "loaded (en_lib E) ?d (sys_fresh E w) p" using assms(3) that(1) by (auto simp: sys_ready_def created_def)
    then obtain row where row: "row \<in> set (db_payments ?d)" "pr_ID row = p_ID p" "p_Version p \<le> pr_Version row" "1 \<le> p_Version p"
      by (auto simp: loaded_def)
    have "row_entry row = entry q"
      using db_entries_row [OF ok row(1)] row(2) q(1) fun_cong [OF assms(5), of "p_ID p"] by (simp add: fake_entries_def)
    with q(2) row(3) have "p_Version p < pr_Version row" by (simp add: row_entry_def entry_def)
    from old_version_stale [OF ok row(1,2) this row(4) that(1)] have "stale p ?d" .
    then have "run_state (persist_payment E (w_tick w) p) (?d, 1) = (Inl ?e, (?d, 2))"
      using that(1,3) by (auto simp: persist_payment_def stale_def stmt_def UpdatePaymentFull_def Let_def)
    then have "run_state (persist_payment E (w_tick w) p) (sh_db (en_others E (w_tick w) (w_shared w)), 1) = (Inl ?e, (?d, 2))"
      unfolding alone .
    from run_save_fails [OF this] that(2) have "\<exists>w''. run_state (repo_Save E p) w = ((Some ?e, p), w'')" by auto
    then have "err = Some ?e" unfolding assms(6) by (elim exE) (simp only: prod.inject)
    with f show ?thesis by (simp only:)
  qed
  from both neither same show ?thesis by blast
qed

text \<open>The stored payment, saved in both.\<close>

definition ex_fake :: fake_repo where
  "ex_fake = NewPaymentRepo [ex_stored]"

lemma fake_saves_like_postgres_witness:
  "\<exists>p' w' fp R'. run_state (repo_Save ex_env ex_stored) (ex_paid_world\<lparr>w_tick := 13\<rparr>) = ((None, p'), w') \<and>
     run_state (fake_Save ex_lib ex_stored) ex_fake = ((None, fp), R') \<and> p_Version p' = p_Version fp \<and>
     fake_entries R' = pg_entries w'"
proof -
  let ?w = "ex_paid_world\<lparr>w_tick := 13\<rparr>"
  have fields: "p_ID ex_stored = 2" "p_Version ex_stored \<noteq> 0" "p_events ex_stored = []"
    using toDomain_fields [OF ex_rows(2)] by (simp_all add: ex_rows) (simp add: ex_row_def ex_paid_db_def)
  have R: "fk_byID ex_fake = [(2, ex_stored)]"
    using fields by (simp add: ex_fake_def NewPaymentRepo_def fake_seed_def PopEvents_def)
  have ok: "fake_ok ex_fake" by (simp add: fake_ok_def R fields)
  have same: "fake_entries ex_fake = pg_entries ?w"
    using toDomain_fields [OF ex_rows(2)] by (auto simp: fake_entries_def R db_entries_def ex_rows row_entry_def entry_def)
  have env: "undisturbed ex_env" by (simp add: undisturbed_def ex_env_def)
  have "(case run_state (repo_Save ex_env ex_stored) ?w of ((err, p'), v) \<Rightarrow> err = None)" by (rule ex_saved)
  then obtain p' w' where first: "run_state (repo_Save ex_env ex_stored) ?w = ((None, p'), w')"
    by (auto split: prod.splits)
  obtain ferr fp R' where second: "run_state (fake_Save (en_lib ex_env) ex_stored) ex_fake = ((ferr, fp), R')" by (metis surj_pair)
  from fake_saves_like_postgres [OF env ex_ready(1,2) ok same first second] first second show ?thesis
    by (auto simp: ex_env_def)
qed

end
