(* ===== verification/Cache_Contract.thy ===== *)
theory Cache_Contract
  imports Fake_Properties
begin

text \<open>
  What the handlers expect of a cache (\<open>ports/cache.go\<close>), as an interface: a map from keys to texts that
  forgets nothing by itself. The in-memory cache of the tests provides it always, Redis as long as it is
  reached and nothing expires.
\<close>

section \<open>Calls and what they mean\<close>

datatype cache_call =
    CallGet string
  | CallSet string cache_text duration
  | CallSetNX string cache_text duration
  | CallDelete string

datatype cache_answer =
    AnsweredText "goerr + cache_text"
  | AnsweredErr "goerr option"
  | AnsweredBool "goerr + bool"

fun run_call :: "'w cache_port \<Rightarrow> cache_call \<Rightarrow> ('w, cache_answer) state" where
  "run_call C (CallGet k) = do { r \<leftarrow> cp_Get C k; State_Monad.return (AnsweredText r) }"
| "run_call C (CallSet k v ttl) = do { r \<leftarrow> cp_Set C k v ttl; State_Monad.return (AnsweredErr r) }"
| "run_call C (CallSetNX k v ttl) = do { r \<leftarrow> cp_SetNX C k v ttl; State_Monad.return (AnsweredBool r) }"
| "run_call C (CallDelete k) = do { r \<leftarrow> cp_Delete C k; State_Monad.return (AnsweredErr r) }"

fun run_calls :: "'w cache_port \<Rightarrow> cache_call list \<Rightarrow> ('w, cache_answer list) state" where
  "run_calls C [] = State_Monad.return []"
| "run_calls C (c # cs) = do { a \<leftarrow> run_call C c; as \<leftarrow> run_calls C cs; State_Monad.return (a # as) }"

text \<open>The map that forgets nothing.\<close>

fun spec_call :: "cache_call \<Rightarrow> (string \<rightharpoonup> cache_text) \<Rightarrow> cache_answer \<times> (string \<rightharpoonup> cache_text)" where
  "spec_call (CallGet k) m =
     (AnsweredText (case m k of Some v \<Rightarrow> Inr v | None \<Rightarrow> Inl (NotFound (''cache miss: '' @ k))), m)"
| "spec_call (CallSet k v ttl) m = (AnsweredErr None, m(k \<mapsto> v))"
| "spec_call (CallSetNX k v ttl) m =
     (if m k = None then (AnsweredBool (Inr True), m(k \<mapsto> v)) else (AnsweredBool (Inr False), m))"
| "spec_call (CallDelete k) m = (AnsweredErr None, m(k := None))"

fun spec_calls :: "cache_call list \<Rightarrow> (string \<rightharpoonup> cache_text) \<Rightarrow> cache_answer list \<times> (string \<rightharpoonup> cache_text)" where
  "spec_calls [] m = ([], m)"
| "spec_calls (c # cs) m =
     (case spec_call c m of (a, m1) \<Rightarrow> (case spec_calls cs m1 of (as, m2) \<Rightarrow> (a # as, m2)))"

text \<open>The time a call asks its entry to live; none for ever.\<close>

fun call_ttl :: "cache_call \<Rightarrow> duration option" where
  "call_ttl (CallSet k v ttl) = (if ttl > 0 then Some ttl else None)"
| "call_ttl (CallSetNX k v ttl) = (if ttl > 0 then Some ttl else None)"
| "call_ttl _ = None"

section \<open>The interface\<close>

text \<open>
  \<open>good n w\<close>: the cache will answer the next \<open>n\<close> calls, provided that they ask for times to live that
  \<open>lasts\<close> accepts.
\<close>

locale cache_store =
  fixes C :: "'w cache_port"
    and contents :: "'w \<Rightarrow> (string \<rightharpoonup> cache_text)"
    and good :: "nat \<Rightarrow> 'w \<Rightarrow> bool"
    and lasts :: "duration \<Rightarrow> bool"
  assumes call: "good (Suc n) w \<Longrightarrow> pred_option lasts (call_ttl c) \<Longrightarrow> run_state (run_call C c) w = (a, w') \<Longrightarrow>
      (a, contents w') = spec_call c (contents w) \<and> good n w'"
begin

lemma calls:
  assumes "good (length cs) w" "list_all (\<lambda>c. pred_option lasts (call_ttl c)) cs" "run_state (run_calls C cs) w = (as, w')"
  shows "(as, contents w') = spec_calls cs (contents w)"
  using assms
proof (induction cs arbitrary: w as)
  case (Cons c cs)
  obtain a u where c: "run_state (run_call C c) w = (a, u)" by (metis surj_pair)
  with Cons.prems(3) obtain as' where cs: "run_state (run_calls C cs) u = (as', w')" "as = a # as'"
    by (auto split: prod.splits)
  have "(a, contents u) = spec_call c (contents w)" "good (length cs) u"
    using call [OF _ _ c, of "length cs"] Cons.prems(1,2) by simp_all
  with Cons.IH [OF this(2) _ cs(1)] Cons.prems(2) cs(2) show ?case by (auto split: prod.splits)
qed simp

text \<open>A claim is exclusive until it is deleted or overwritten: the second of two is told so.\<close>

lemma claim_is_exclusive:
  assumes "good 2 w" "lasts ttl" "lasts ttl'"
    and "run_state (run_calls C [CallSetNX k v ttl, CallSetNX k v' ttl']) w = ([a, b], w')"
  shows "b = AnsweredBool (Inr False) \<and> contents w' k \<noteq> None"
proof -
  have "list_all (\<lambda>c. pred_option lasts (call_ttl c)) [CallSetNX k v ttl, CallSetNX k v' ttl']"
    using assms(2,3) by simp
  from calls [OF _ this assms(4)] assms(1) show ?thesis by (auto simp: numeral_2_eq_2 split: if_splits)
qed

end

interpretation fake_store: cache_store fake_cache_port fc_data "\<lambda>n c. fc_Err c = None" "\<lambda>ttl. True"
proof (unfold_locales, goal_cases)
  case (1 n w c a w')
  then show ?case
    by (cases c) (auto simp: fake_cache_port_def fake_Get_def fake_Set_def fake_SetNX_def fake_Delete_def
        split: option.splits)
qed

text \<open>
  Redis for the calls made between \<open>t0\<close> and \<open>T\<close>: it answers, nobody else writes, and no entry that is there
  expires before \<open>T\<close>.
\<close>

definition redis_contents :: "world \<Rightarrow> string \<rightharpoonup> cache_text" where
  "redis_contents w k = map_option fst (sh_cache (w_shared w) k)"

definition redis_good :: "env \<Rightarrow> time \<Rightarrow> time \<Rightarrow> nat \<Rightarrow> world \<Rightarrow> bool" where
  "redis_good E t0 T n w \<longleftrightarrow> undisturbed E \<and> (\<forall>i. en_redis E i = None) \<and>
     (\<forall>i \<in> {w_tick w..<w_tick w + n}. en_time E i \<in> {t0..T}) \<and>
     (\<forall>k v t. sh_cache (w_shared w) k = Some (v, Some t) \<longrightarrow> T < t)"

interpretation redis_store: cache_store "redis_adapter E" redis_contents "redis_good E t0 T" "\<lambda>ttl. T < t0 + ttl"
  for E t0 T
proof (unfold_locales, goal_cases)
  case (1 n w c a w')
  let ?s = "w_shared w" and ?n = "w_tick w"
  have alone: "en_others E i s = s" and up: "en_redis E i = None" for i s
    using 1(1) by (simp_all add: redis_good_def undisturbed_def)
  have now: "t0 \<le> en_time E ?n" "en_time E ?n \<le> T" using 1(1) by (simp_all add: redis_good_def)
  have old: "sh_cache ?s k = Some (v, Some t) \<Longrightarrow> T < t" for k v t using 1(1) by (simp add: redis_good_def)
  have live: "redis_live (en_time E ?n) ?s k = redis_contents w k" for k
    using old now(2) by (force simp: redis_live_def redis_contents_def split: option.split)
  have later: "redis_good E t0 T n u" if "w_tick u = Suc ?n" "\<And>k v t. sh_cache (w_shared u) k = Some (v, Some t) \<Longrightarrow> T < t" for u
    using 1(1) that by (auto simp: redis_good_def)
  show ?case
  proof (cases c)
    case (CallGet k)
    with 1(3) show ?thesis
      by (auto simp: redis_adapter_def redis_Get_def run_act alone up live redis_contents_def intro!: later intro: old)
  next
    case (CallSet k v ttl)
    with 1(2,3) now(1) old show ?thesis
      by (auto simp: redis_adapter_def redis_Set_def run_act alone up redis_contents_def redis_put_def fun_eq_iff
          intro!: later split: if_splits)
  next
    case (CallSetNX k v ttl)
    with 1(2,3) now(1) old show ?thesis
      by (auto simp: redis_adapter_def redis_SetNX_def run_act alone up live redis_contents_def redis_put_def fun_eq_iff
          intro!: later split: if_splits)
  next
    case (CallDelete k)
    with 1(3) old show ?thesis
      by (auto simp: redis_adapter_def redis_Delete_def run_act alone up redis_contents_def fun_eq_iff
          intro!: later split: if_splits)
  qed
qed

text \<open>
  The client that keeps nothing is no such store: it grants every claim, so that with it every request for a
  reference would run the command.
\<close>

lemma noop_grants_every_claim:
  "run_state (run_calls noop_cache [CallSetNX k v ttl, CallSetNX k v' ttl']) w = ([AnsweredBool (Inr True), AnsweredBool (Inr True)], w)"
  "run_state (Begin (S\<lparr>sv_cache := noop_cache\<rparr>) ttl key h) w = (Inr (outcome IdempotencyNew), w)"
  by (simp_all add: noop_cache_def NoopClient_SetNX_def Begin_def)

text \<open>
  C37: the in-memory cache answers like Redis. Start both with the same contents and make the same calls to both:
  every answer is the same, errors for missing keys included, and so are the contents at the end, as long as
  Redis is reached, nobody else writes, and the calls are made within a time that no entry and no time to live
  asked for runs out in. What the unit tests show about claims and cached views holds for Redis up to expiry.
\<close>

theorem fake_cache_like_redis:
  assumes "redis_good E t0 T (length cs) w" "list_all (\<lambda>c. pred_option (\<lambda>ttl. T - t0 < ttl) (call_ttl c)) cs"
    and "fc_Err c = None" "fc_data c = redis_contents w"
    and "run_state (run_calls (redis_adapter E) cs) w = (as, w')" "run_state (run_calls fake_cache_port cs) c = (bs, c')"
  shows "as = bs \<and> fc_data c' = redis_contents w'"
proof -
  have "list_all (\<lambda>c. pred_option (\<lambda>ttl. T < t0 + ttl) (call_ttl c)) cs"
    using assms(2) by (simp add: algebra_simps less_diff_eq)
  with redis_store.calls [OF assms(1) _ assms(5)] have "(as, redis_contents w') = spec_calls cs (redis_contents w)" by simp
  moreover have "(bs, fc_data c') = spec_calls cs (fc_data c)"
    using fake_store.calls [OF assms(3) _ assms(6)] by (simp add: list_all_iff pred_option_def)
  ultimately show ?thesis using assms(4) by (simp add: prod_eq_iff)
qed

text \<open>A claim, a second claim of the same key, its deletion and a lookup, within three seconds.\<close>

lemma fake_cache_like_redis_witness:
  "\<exists>as w' bs c'.
     run_state (run_calls (redis_adapter ex_env) [CallSetNX ''k'' (OtherText ''a'') (60 * time_Second),
       CallSetNX ''k'' (OtherText ''b'') (60 * time_Second), CallDelete ''k'', CallGet ''k'']) ex_world = (as, w') \<and>
     run_state (run_calls fake_cache_port [CallSetNX ''k'' (OtherText ''a'') (60 * time_Second),
       CallSetNX ''k'' (OtherText ''b'') (60 * time_Second), CallDelete ''k'', CallGet ''k'']) NewCache = (bs, c') \<and>
     as = bs \<and> fc_data c' = redis_contents w' \<and> as ! 1 = AnsweredBool (Inr False)"
proof -
  let ?cs = "[CallSetNX ''k'' (OtherText ''a'') (60 * time_Second), CallSetNX ''k'' (OtherText ''b'') (60 * time_Second),
    CallDelete ''k'', CallGet ''k'']"
  obtain as w' where r: "run_state (run_calls (redis_adapter ex_env) ?cs) ex_world = (as, w')" by (metis surj_pair)
  obtain bs c' where f: "run_state (run_calls fake_cache_port ?cs) NewCache = (bs, c')" by (metis surj_pair)
  have good: "redis_good ex_env 0 3000000 (length ?cs) ex_world"
    by (auto simp: redis_good_def undisturbed_def ex_env_def ex_world_def)
  have "list_all (\<lambda>c. pred_option (\<lambda>ttl. 3000000 - 0 < ttl) (call_ttl c)) ?cs" by (simp add: time_Second_def time_Millisecond_def)
  moreover have "fc_data NewCache = redis_contents ex_world"
    by (simp add: NewCache_def redis_contents_def ex_world_def fun_eq_iff)
  moreover have "fc_Err NewCache = None" by (simp add: NewCache_def)
  ultimately have same: "as = bs \<and> fc_data c' = redis_contents w'"
    using fake_cache_like_redis [OF good _ _ _ r f] by simp
  have "bs ! 1 = AnsweredBool (Inr False)"
    using fake_store.calls [OF _ _ f] by (simp add: NewCache_def)
  with r f same show ?thesis by blast
qed

end
