(* ===== verification/Idem_Table.thy ===== *)
theory Idem_Table
  imports Store
begin

text \<open>
  The table \<open>idempotency_keys\<close> of migration 005 and the two statements of \<open>postgres/db/idempotency.sql.go\<close>.
  The server keeps its claims in Redis (\<open>Idempotency\<close>) and never runs them; they are here with what they
  promise and what they do not.
\<close>

record idem_row =
  ik_Key :: string
  ik_PaymentID :: uuid
  ik_HttpStatus :: int
  ik_ResponseBody :: json
  ik_ExpiresAt :: time

definition GetIdempotencyKey :: "time \<Rightarrow> string \<Rightarrow> idem_row list \<Rightarrow> idem_row option" where
  "GetIdempotencyKey now key rows = List.find (\<lambda>r. ik_Key r = key \<and> pg_time now < ik_ExpiresAt r) rows"

text \<open>\<open>ON CONFLICT (key) DO NOTHING\<close>: a row with the key, expired or not, stays as it is.\<close>

definition InsertIdempotencyKey :: "idem_row \<Rightarrow> idem_row list \<Rightarrow> goerr + idem_row list" where
  "InsertIdempotencyKey arg rows =
     (if \<not> varchar 64 (ik_Key arg) then Inl too_long
      else if ik_Key arg \<in> ik_Key ` set rows then Inr rows
      else Inr (rows @ [arg\<lparr>ik_ExpiresAt := pg_time (ik_ExpiresAt arg)\<rparr>]))"

definition idem_table_ok :: "idem_row list \<Rightarrow> bool" where
  "idem_table_ok rows \<longleftrightarrow> distinct (map ik_Key rows)"

lemma InsertIdempotencyKey_ok:
  "InsertIdempotencyKey arg rows = Inr rows' \<Longrightarrow> idem_table_ok rows \<Longrightarrow> idem_table_ok rows'"
  by (auto simp: InsertIdempotencyKey_def idem_table_ok_def split: if_splits)

text \<open>The first response stored for a key is the one every lookup sees until it expires, whatever is inserted later.\<close>

fun insert_all :: "idem_row list \<Rightarrow> idem_row list \<Rightarrow> idem_row list" where
  "insert_all [] rows = rows"
| "insert_all (a # as) rows = insert_all as (case InsertIdempotencyKey a rows of Inl _ \<Rightarrow> rows | Inr rows' \<Rightarrow> rows')"

lemma insert_all_extends: "\<exists>more. insert_all as rows = rows @ more \<and> (\<forall>r \<in> set more. ik_Key r \<notin> ik_Key ` set rows)"
proof (induction as arbitrary: rows)
  case (Cons a as)
  obtain more where "insert_all as (case InsertIdempotencyKey a rows of Inl _ \<Rightarrow> rows | Inr rows' \<Rightarrow> rows') =
      (case InsertIdempotencyKey a rows of Inl _ \<Rightarrow> rows | Inr rows' \<Rightarrow> rows') @ more \<and>
    (\<forall>r \<in> set more. ik_Key r \<notin> ik_Key ` set (case InsertIdempotencyKey a rows of Inl _ \<Rightarrow> rows | Inr rows' \<Rightarrow> rows'))"
    using Cons.IH by blast
  then show ?case by (auto simp: InsertIdempotencyKey_def split: if_splits)
qed simp

lemma first_response_wins:
  assumes "GetIdempotencyKey now key rows = Some r"
  shows "GetIdempotencyKey now key (insert_all as rows) = Some r"
proof -
  obtain more where "insert_all as rows = rows @ more" using insert_all_extends by blast
  with assms show ?thesis by (simp add: GetIdempotencyKey_def find_append)
qed

text \<open>
  A key whose row has expired is lost: no insert replaces the row, so no later response is ever found.
\<close>

lemma expired_key_is_dead:
  assumes "GetIdempotencyKey now key rows = None" "key \<in> ik_Key ` set rows"
  shows "GetIdempotencyKey now key (insert_all as rows) = None"
proof -
  obtain more where "insert_all as rows = rows @ more" "\<forall>r \<in> set more. ik_Key r \<notin> ik_Key ` set rows"
    using insert_all_extends by blast
  moreover from this(2) assms(2) have "List.find (\<lambda>r. ik_Key r = key \<and> pg_time now < ik_ExpiresAt r) more = None"
    by (force simp: find_None_iff)
  ultimately show ?thesis using assms(1) by (simp add: GetIdempotencyKey_def find_append)
qed

end
