(* ===== verification/Spec2Isabelle.thy ===== *)
theory Spec2Isabelle
  imports Domain_Properties Settling Process_Properties Query_Properties Outbox_Properties Http_Properties Config_Properties Midtrans_Properties Idem_Race Save_Properties List_Properties Openapi_Properties Server Cache_Contract Idem_Table
begin

text \<open>
  PayGate, a payment gateway service in Go (the sources are under \<open>src/\<close>).

  Parts and theories.

  \<^item> \<open>Prelude\<close>: machine integers, instants, strings, JSON values, first-match list operations,
    early returns and a program logic over the state monad.
  \<^item> \<open>App_Error\<close>: \<open>internal/pkg/apperror\<close> and \<open>http/middleware/error.go\<close>.
  \<^item> \<open>Payment_Domain\<close>: \<open>internal/domain/payment\<close>, the Payment aggregate.
  \<^item> \<open>Payment_Laws\<close>, \<open>Payment_Spec\<close>: its invariant, the abstract account, the state machine and
    the replay of events; \<open>Domain_Properties\<close>: its properties.
\<close>

end
